(* ===== verification/Prelude.thy ===== *)
theory Prelude
  imports Main
begin

text \<open>
  Shared vocabulary of the development: the collections the component proofs draw on, the
  names of the machine-level types of the Go program, and the generic lemmas about lists, maps
  and results that several components use.
\<close>

section \<open>Collections\<close>

named_theorems gostr \<open>unfolding rules of the string operations of the Go standard library\<close>
named_theorems model_defs \<open>definitions of the operations of the program under verification\<close>
named_theorems inv_intros \<open>preservation rules of the component invariants\<close>

section \<open>Types\<close>

text \<open>
  Identifiers (Go \<^verbatim>\<open>uint\<close>) and counters are natural numbers; \<^verbatim>\<open>time.Time\<close> and
  \<^verbatim>\<open>time.Duration\<close> are integers counting nanoseconds; a Go \<^verbatim>\<open>string\<close> and a
  \<^verbatim>\<open>[]byte\<close> are lists of characters, one per byte.
\<close>

type_synonym uint = nat
type_synonym time = int
type_synonym duration = int
type_synonym bytes = string

abbreviation second :: duration where "second \<equiv> 1000000000"
abbreviation minute :: duration where "minute \<equiv> 60 * second"
abbreviation hour :: duration where "hour \<equiv> 60 * minute"
abbreviation day :: duration where "day \<equiv> 24 * hour"

section \<open>Results\<close>

text \<open>
  A Go function that returns a value and an error returns \<^verbatim>\<open>Inl\<close> the error or
  \<^verbatim>\<open>Inr\<close> the value.
\<close>

definition is_ok :: "'e + 'a \<Rightarrow> bool" where
  "is_ok r = (case r of Inl _ \<Rightarrow> False | Inr _ \<Rightarrow> True)"

lemma is_ok_simps [simp]: "is_ok (Inr x)" "\<not> is_ok (Inl e)"
  by (simp_all add: is_ok_def)

lemma is_ok_iff: "is_ok r \<longleftrightarrow> (\<exists>x. r = Inr x)"
  by (cases r) auto

section \<open>Lists\<close>

lemma dropWhile_idem [simp]: "dropWhile P (dropWhile P xs) = dropWhile P xs"
  by (induction xs) auto

lemma last_rev_dropWhile:
  "rev (dropWhile P (rev xs)) \<noteq> [] \<Longrightarrow> \<not> P (last (rev (dropWhile P (rev xs))))"
  by (metis hd_dropWhile last_rev rev_is_Nil_conv)

lemma set_dropWhile_subset: "set (dropWhile P xs) \<subseteq> set xs"
  by (auto dest: set_dropWhileD)

lemma length_filter_le_Suc: "length (filter P xs) \<le> length xs"
  by simp

lemma distinct_map_inj:
  "distinct (map f xs) \<Longrightarrow> x \<in> set xs \<Longrightarrow> y \<in> set xs \<Longrightarrow> f x = f y \<Longrightarrow> x = y"
  by (metis distinct_map inj_onD)

end
