(* ===== verification/GoStrings.thy ===== *)
theory GoStrings
  imports Prelude
begin

text \<open>
  The operations of Go's \<^verbatim>\<open>strings\<close>, \<^verbatim>\<open>strconv\<close> and \<^verbatim>\<open>fmt\<close> packages that
  the program uses, on strings as lists of bytes. \<^verbatim>\<open>ToLower\<close>, \<^verbatim>\<open>TrimSpace\<close> and
  \<^verbatim>\<open>Fields\<close> are exact on ASCII text, the only text SMTP addresses, host names, header
  names and query parameters are made of; bytes from 128 up pass through them unchanged, so
  Unicode case and space tables are not part of the model.
\<close>

section \<open>Characters\<close>

abbreviation ord :: "char \<Rightarrow> nat" where "ord c \<equiv> of_char c"

definition is_space :: "char \<Rightarrow> bool" where
  "is_space c = (ord c = 32 \<or> (9 \<le> ord c \<and> ord c \<le> 13))"

definition is_digit :: "char \<Rightarrow> bool" where
  "is_digit c = (48 \<le> ord c \<and> ord c \<le> 57)"

definition is_upper :: "char \<Rightarrow> bool" where
  "is_upper c = (65 \<le> ord c \<and> ord c \<le> 90)"

definition is_lower :: "char \<Rightarrow> bool" where
  "is_lower c = (97 \<le> ord c \<and> ord c \<le> 122)"

definition lower_char :: "char \<Rightarrow> char" where
  "lower_char c = (if is_upper c then char_of (ord c + 32) else c)"

section \<open>Package strings\<close>

definition ToLower :: "string \<Rightarrow> string" where
  "ToLower s = map lower_char s"

definition TrimLeftSpace :: "string \<Rightarrow> string" where
  "TrimLeftSpace s = dropWhile is_space s"

definition TrimRightSpace :: "string \<Rightarrow> string" where
  "TrimRightSpace s = rev (dropWhile is_space (rev s))"

definition TrimSpace :: "string \<Rightarrow> string" where
  "TrimSpace s = TrimRightSpace (TrimLeftSpace s)"

text \<open>\<^verbatim>\<open>strings.Trim(s, cutset)\<close> for a one-character cutset.\<close>

definition TrimChar :: "char \<Rightarrow> string \<Rightarrow> string" where
  "TrimChar c s = rev (dropWhile (\<lambda>x. x = c) (rev (dropWhile (\<lambda>x. x = c) s)))"

definition HasPrefix :: "string \<Rightarrow> string \<Rightarrow> bool" where
  "HasPrefix s p = (take (length p) s = p)"

definition HasSuffix :: "string \<Rightarrow> string \<Rightarrow> bool" where
  "HasSuffix s p = (length p \<le> length s \<and> drop (length s - length p) s = p)"

definition TrimPrefix :: "string \<Rightarrow> string \<Rightarrow> string" where
  "TrimPrefix s p = (if HasPrefix s p then drop (length p) s else s)"

definition TrimSuffix :: "string \<Rightarrow> string \<Rightarrow> string" where
  "TrimSuffix s p = (if HasSuffix s p then take (length s - length p) s else s)"

fun Contains :: "string \<Rightarrow> string \<Rightarrow> bool" where
  "Contains [] sub = (sub = [])"
| "Contains (c # cs) sub = (HasPrefix (c # cs) sub \<or> Contains cs sub)"

text \<open>\<^verbatim>\<open>strings.Split(s, sep)\<close> for a one-character separator.\<close>

fun Split :: "char \<Rightarrow> string \<Rightarrow> string list" where
  "Split c [] = [[]]"
| "Split c (x # xs) =
     (if x = c then [] # Split c xs
      else case Split c xs of [] \<Rightarrow> [[x]] | w # ws \<Rightarrow> (x # w) # ws)"

fun Join :: "string list \<Rightarrow> string \<Rightarrow> string" where
  "Join [] sep = []"
| "Join [w] sep = w"
| "Join (w # v # ws) sep = w @ sep @ Join (v # ws) sep"

text \<open>
  \<^verbatim>\<open>strings.ReplaceAll\<close> for a non-empty pattern (the program uses no other): non-overlapping
  occurrences, leftmost first.
\<close>

function ReplaceAll :: "string \<Rightarrow> string \<Rightarrow> string \<Rightarrow> string" where
  "ReplaceAll [] old new = []"
| "ReplaceAll (c # cs) old new =
     (if old \<noteq> [] \<and> HasPrefix (c # cs) old
      then new @ ReplaceAll (drop (length old) (c # cs)) old new
      else c # ReplaceAll cs old new)"
  by pat_completeness auto
termination
  by (relation "measure (\<lambda>(s, old, new). length s)") auto

text \<open>\<^verbatim>\<open>strings.Fields\<close>: the maximal runs of non-space bytes.\<close>

function Fields :: "string \<Rightarrow> string list" where
  "Fields s =
     (let t = dropWhile is_space s in
      if t = [] then []
      else takeWhile (\<lambda>c. \<not> is_space c) t # Fields (dropWhile (\<lambda>c. \<not> is_space c) t))"
  by pat_completeness auto
termination
proof (relation "measure length", simp)
  fix s t :: string
  assume t: "t = dropWhile is_space s" "t \<noteq> []"
  then have "\<not> is_space (hd t)" using hd_dropWhile by blast
  with t(2) have "length (dropWhile (\<lambda>c. \<not> is_space c) t) < length t"
    by (cases t) (auto simp: le_imp_less_Suc length_dropWhile_le)
  also have "length t \<le> length s" using t(1) by (simp add: length_dropWhile_le)
  finally show "(dropWhile (\<lambda>c. \<not> is_space c) t, s) \<in> measure length" by simp
qed

declare Fields.simps [simp del]

section \<open>Package strconv and the verbs of fmt\<close>

fun digits_value :: "nat \<Rightarrow> string \<Rightarrow> nat option" where
  "digits_value n [] = Some n"
| "digits_value n (c # cs) =
     (if is_digit c then digits_value (10 * n + (ord c - 48)) cs else None)"

text \<open>\<^verbatim>\<open>strconv.ParseUint(s, 10, bits)\<close>; \<open>None\<close> for every error.\<close>

definition ParseUint :: "string \<Rightarrow> nat \<Rightarrow> nat option" where
  "ParseUint s bits =
     (if s = [] then None
      else case digits_value 0 s of
        None \<Rightarrow> None
      | Some n \<Rightarrow> if n < 2 ^ bits then Some n else None)"

text \<open>\<^verbatim>\<open>strconv.Atoi\<close> on a 64-bit platform; \<open>None\<close> for every error.\<close>

definition Atoi :: "string \<Rightarrow> int option" where
  "Atoi s =
     (let (neg, t) = (case s of
          [] \<Rightarrow> (False, [])
        | c # cs \<Rightarrow> if c = CHR ''-'' then (True, cs)
                    else if c = CHR ''+'' then (False, cs) else (False, s)) in
      if t = [] then None
      else case digits_value 0 t of
        None \<Rightarrow> None
      | Some n \<Rightarrow>
          let i = (if neg then - int n else int n) in
          if - (2 ^ 63) \<le> i \<and> i < 2 ^ 63 then Some i else None)"

text \<open>\<^verbatim>\<open>strconv.ParseBool\<close>.\<close>

definition ParseBool :: "string \<Rightarrow> bool option" where
  "ParseBool s =
     (if s \<in> {''1'', ''t'', ''T'', ''TRUE'', ''true'', ''True''} then Some True
      else if s \<in> {''0'', ''f'', ''F'', ''FALSE'', ''false'', ''False''} then Some False
      else None)"

fun show_nat :: "nat \<Rightarrow> string" where
  "show_nat n = (if n < 10 then [char_of (48 + n)]
                 else show_nat (n div 10) @ [char_of (48 + n mod 10)])"

declare show_nat.simps [simp del]

definition show_int :: "int \<Rightarrow> string" where
  "show_int i = (if i < 0 then CHR ''-'' # show_nat (nat (- i)) else show_nat (nat i))"

section \<open>Facts about characters\<close>

lemma ord_char_of [simp]: "n < 256 \<Longrightarrow> ord (char_of n) = n"
  by simp

lemma is_upper_lower_char [simp]: "\<not> is_upper (lower_char c)"
  by (auto simp: lower_char_def is_upper_def)

lemma lower_char_idem [simp]: "lower_char (lower_char c) = lower_char c"
  by (simp add: lower_char_def [of "lower_char c"])

lemma lower_char_eq_iff:
  assumes "\<not> is_lower x" "\<not> is_upper x"
  shows "lower_char c = x \<longleftrightarrow> c = x"
  using assms by (auto simp: lower_char_def is_upper_def is_lower_def)

lemma is_space_lower_char [simp]: "is_space (lower_char c) = is_space c"
  by (auto simp: lower_char_def is_space_def is_upper_def)

section \<open>Facts about the string operations\<close>

lemma ToLower_simps [simp]:
  "ToLower [] = []" "ToLower (c # s) = lower_char c # ToLower s"
  "ToLower (s @ t) = ToLower s @ ToLower t" "length (ToLower s) = length s"
  "(ToLower s = []) = (s = [])" "ToLower (ToLower s) = ToLower s"
  by (auto simp: ToLower_def)

lemma ToLower_no_upper: "c \<in> set (ToLower s) \<Longrightarrow> \<not> is_upper c"
  by (auto simp: ToLower_def)

lemma ToLower_ident: "(\<And>c. c \<in> set s \<Longrightarrow> \<not> is_upper c) \<Longrightarrow> ToLower s = s"
  by (induction s) (auto simp: lower_char_def)

lemma mem_ToLower_iff:
  assumes "\<not> is_lower x" "\<not> is_upper x"
  shows "x \<in> set (ToLower s) \<longleftrightarrow> x \<in> set s"
  using lower_char_eq_iff [OF assms] by (force simp: ToLower_def)

lemma HasPrefix_iff: "HasPrefix s p \<longleftrightarrow> (\<exists>t. s = p @ t)"
  by (auto simp: HasPrefix_def) (metis append_take_drop_id)

lemma HasPrefix_append [simp]: "HasPrefix (p @ t) p"
  by (simp add: HasPrefix_def)

lemma HasPrefix_Nil [simp]: "HasPrefix s []"
  by (simp add: HasPrefix_def)

lemma HasPrefix_Cons [simp]:
  "HasPrefix (c # s) (d # p) \<longleftrightarrow> c = d \<and> HasPrefix s p"
  "\<not> HasPrefix [] (d # p)"
  by (auto simp: HasPrefix_def)

lemma HasSuffix_iff: "HasSuffix s p \<longleftrightarrow> (\<exists>t. s = t @ p)"
  unfolding HasSuffix_def
  by (auto, metis append_take_drop_id)

lemma HasSuffix_append [simp]: "HasSuffix (t @ p) p"
  by (auto simp: HasSuffix_iff)

lemma TrimPrefix_append [simp]: "TrimPrefix (p @ t) p = t"
  by (simp add: TrimPrefix_def)

lemma TrimSuffix_append [simp]: "TrimSuffix (t @ p) p = t"
  by (simp add: TrimSuffix_def)

lemma set_TrimPrefix: "set (TrimPrefix s p) \<subseteq> set s"
  by (auto simp: TrimPrefix_def dest: in_set_dropD)

lemma set_TrimSuffix: "set (TrimSuffix s p) \<subseteq> set s"
  by (auto simp: TrimSuffix_def dest: in_set_takeD)

lemma Contains_iff: "Contains s sub \<longleftrightarrow> (\<exists>u v. s = u @ sub @ v)"
proof (induction s)
  case Nil
  then show ?case by auto
next
  case (Cons c s)
  have "(\<exists>u v. c # s = u @ sub @ v) \<longleftrightarrow>
        HasPrefix (c # s) sub \<or> (\<exists>u v. s = u @ sub @ v)"
    by (auto simp: HasPrefix_iff Cons_eq_append_conv)
  with Cons show ?case by simp
qed

lemma Contains_single [simp]: "Contains s [c] \<longleftrightarrow> c \<in> set s"
  by (auto simp: Contains_iff in_set_conv_decomp)

lemma Contains_Nil [simp]: "Contains s []"
  by (cases s) simp_all

lemma Contains_append: "Contains s sub \<Longrightarrow> Contains (u @ s @ v) sub"
  by (auto simp: Contains_iff) (metis append_assoc)

subsection \<open>Trimming\<close>

lemma set_TrimSpace: "set (TrimSpace s) \<subseteq> set s"
  by (auto simp: TrimSpace_def TrimRightSpace_def TrimLeftSpace_def
      dest!: set_dropWhileD)

lemma TrimSpace_Nil [simp]: "TrimSpace [] = []"
  by (simp add: TrimSpace_def TrimRightSpace_def TrimLeftSpace_def)

lemma TrimLeftSpace_hd: "TrimLeftSpace s \<noteq> [] \<Longrightarrow> \<not> is_space (hd (TrimLeftSpace s))"
  by (simp add: TrimLeftSpace_def hd_dropWhile)

lemma TrimRightSpace_last: "TrimRightSpace s \<noteq> [] \<Longrightarrow> \<not> is_space (last (TrimRightSpace s))"
  unfolding TrimRightSpace_def by (rule last_rev_dropWhile)

lemma TrimRightSpace_prefix: "\<exists>t. s = TrimRightSpace s @ t"
proof -
  have "rev s = takeWhile is_space (rev s) @ dropWhile is_space (rev s)" by simp
  then have "s = rev (dropWhile is_space (rev s)) @ rev (takeWhile is_space (rev s))"
    by (metis rev_append rev_rev_ident)
  then show ?thesis unfolding TrimRightSpace_def by blast
qed

lemma TrimSpace_ends:
  assumes "TrimSpace s \<noteq> []"
  shows "\<not> is_space (hd (TrimSpace s))" and "\<not> is_space (last (TrimSpace s))"
proof -
  obtain t where t: "TrimLeftSpace s = TrimSpace s @ t"
    using TrimRightSpace_prefix unfolding TrimSpace_def by blast
  with assms have "hd (TrimLeftSpace s) = hd (TrimSpace s)" by simp
  with TrimLeftSpace_hd [of s] assms t show "\<not> is_space (hd (TrimSpace s))" by simp
  from assms show "\<not> is_space (last (TrimSpace s))"
    unfolding TrimSpace_def by (rule TrimRightSpace_last)
qed

lemma TrimSpace_ident:
  assumes "s = [] \<or> (\<not> is_space (hd s) \<and> \<not> is_space (last s))"
  shows "TrimSpace s = s"
proof (cases "s = []")
  case True
  then show ?thesis by simp
next
  case False
  with assms have h: "\<not> is_space (hd s)" "\<not> is_space (last s)" by auto
  from h(1) False have "dropWhile is_space s = s" by (cases s) auto
  moreover from h(2) False have "dropWhile is_space (rev s) = rev s"
    by (cases "rev s") (auto simp: hd_rev [symmetric])
  ultimately show ?thesis
    by (simp add: TrimSpace_def TrimRightSpace_def TrimLeftSpace_def)
qed

lemma TrimSpace_idem [simp]: "TrimSpace (TrimSpace s) = TrimSpace s"
  using TrimSpace_ends [of s] by (intro TrimSpace_ident) auto

lemma TrimSpace_no_space: "(\<And>c. c \<in> set s \<Longrightarrow> \<not> is_space c) \<Longrightarrow> TrimSpace s = s"
  by (cases "s = []") (auto intro: TrimSpace_ident)

lemma TrimSpace_ToLower: "TrimSpace (ToLower s) = ToLower (TrimSpace s)"
proof -
  have "dropWhile is_space (map lower_char t) = map lower_char (dropWhile is_space t)" for t
    by (simp add: dropWhile_map comp_def)
  then show ?thesis
    by (simp add: TrimSpace_def TrimRightSpace_def TrimLeftSpace_def ToLower_def rev_map)
qed

subsection \<open>Split and Join\<close>

lemma Split_neq_Nil [simp]: "Split c s \<noteq> []"
  by (cases s) (auto split: list.splits)

lemma Split_Cons_other:
  "x \<noteq> c \<Longrightarrow> Split c (x # xs) = (x # hd (Split c xs)) # tl (Split c xs)"
  by (cases "Split c xs") auto

lemma Split_sep: "w \<in> set (Split c s) \<Longrightarrow> c \<notin> set w"
proof (induction s arbitrary: w)
  case Nil
  then show ?case by simp
next
  case (Cons x xs)
  show ?case
  proof (cases "x = c")
    case True
    with Cons show ?thesis by auto
  next
    case False
    with Cons show ?thesis
      by (cases "Split c xs") auto
  qed
qed

lemma Split_chars: "w \<in> set (Split c s) \<Longrightarrow> set w \<subseteq> set s"
proof (induction s arbitrary: w)
  case Nil
  then show ?case by simp
next
  case (Cons x xs)
  obtain v vs where v: "Split c xs = v # vs" by (cases "Split c xs") auto
  with Cons.IH have "set v \<subseteq> set xs" "\<And>u. u \<in> set vs \<Longrightarrow> set u \<subseteq> set xs" by auto
  with Cons.prems v show ?case by (auto split: if_splits)
qed

lemma Split_no_sep: "c \<notin> set s \<Longrightarrow> Split c s = [s]"
  by (induction s) auto

lemma Split_append_sep: "c \<notin> set u \<Longrightarrow> Split c (u @ c # v) = u # Split c v"
  by (induction u) auto

lemma Join_Cons: "ws \<noteq> [] \<Longrightarrow> Join (w # ws) sep = w @ sep @ Join ws sep"
  by (cases ws) auto

lemma Join_chars: "a \<in> set (Join cs sep) \<Longrightarrow> a \<in> set sep \<or> (\<exists>c\<in>set cs. a \<in> set c)"
  by (induction cs sep rule: Join.induct) auto

lemma Join_Split: "Join (Split c s) [c] = s"
proof (induction s)
  case Nil
  then show ?case by simp
next
  case (Cons x xs)
  show ?case
  proof (cases "x = c")
    case True
    with Cons show ?thesis by (simp add: Join_Cons)
  next
    case False
    obtain w ws where "Split c xs = w # ws" by (cases "Split c xs") auto
    with Cons False show ?thesis by (cases ws) auto
  qed
qed

lemma Split_two: "Split c s = [u, v] \<longleftrightarrow> s = u @ c # v \<and> c \<notin> set u \<and> c \<notin> set v"
proof
  assume sp: "Split c s = [u, v]"
  then have "s = u @ c # v" using Join_Split [of c s] by simp
  with sp Split_sep [of _ c s] show "s = u @ c # v \<and> c \<notin> set u \<and> c \<notin> set v" by auto
qed (auto simp: Split_append_sep Split_no_sep)

subsection \<open>ReplaceAll\<close>

lemma ReplaceAll_char:
  "ReplaceAll s [a] new = concat (map (\<lambda>c. if c = a then new else [c]) s)"
  by (induction s) auto

lemma ReplaceAll_char_char: "ReplaceAll s [a] [b] = map (\<lambda>c. if c = a then b else c) s"
  by (induction s) auto

lemma ReplaceAll_char_Nil: "ReplaceAll s [a] [] = filter (\<lambda>c. c \<noteq> a) s"
  by (induction s) auto

lemma set_ReplaceAll: "set (ReplaceAll s old new) \<subseteq> set s \<union> set new"
proof (induction s old new rule: ReplaceAll.induct)
  case (2 c cs old new)
  have "set (drop (length old) (c # cs)) \<subseteq> set (c # cs)" by (rule set_drop_subset)
  with 2 show ?case by (auto simp del: drop_Cons')
qed simp

lemma ReplaceAll_absent: "\<not> Contains s old \<Longrightarrow> ReplaceAll s old new = s"
  by (induction s old new rule: ReplaceAll.induct) auto

subsection \<open>Fields\<close>

lemma Fields_blank: "dropWhile is_space s = [] \<Longrightarrow> Fields s = []"
  by (subst Fields.simps) (simp only: Let_def if_True refl simp_thms)

lemma Fields_word:
  "dropWhile is_space s = c # t \<Longrightarrow>
   Fields s = takeWhile (\<lambda>c. \<not> is_space c) (c # t) # Fields (dropWhile (\<lambda>c. \<not> is_space c) (c # t))"
  by (subst Fields.simps) (simp only: Let_def list.distinct if_False)

lemma Fields_words: "w \<in> set (Fields s) \<Longrightarrow> w \<noteq> [] \<and> (\<forall>c \<in> set w. \<not> is_space c)"
proof (induction s rule: Fields.induct)
  case (1 s)
  show ?case
  proof (cases "dropWhile is_space s")
    case Nil
    with "1.prems" show ?thesis by (simp add: Fields_blank)
  next
    case (Cons c t)
    then have c: "\<not> is_space c" by (metis hd_dropWhile list.distinct(1) list.sel(1))
    from "1.prems" consider "w = takeWhile (\<lambda>c. \<not> is_space c) (c # t)"
      | "w \<in> set (Fields (dropWhile (\<lambda>c. \<not> is_space c) (c # t)))"
      unfolding Fields_word [OF Cons] by (auto simp only: list.set insert_iff)
    then show ?thesis
    proof cases
      case 1
      with c show ?thesis by (auto dest: set_takeWhileD)
    next
      case 2
      then show ?thesis by (rule "1.IH" [OF Cons [symmetric] list.distinct(2)])
    qed
  qed
qed

lemma Join_hd: "ws \<noteq> [] \<Longrightarrow> hd ws \<noteq> [] \<Longrightarrow> hd (Join ws sep) = hd (hd ws)"
  by (cases ws; cases "tl ws") auto

lemma Join_eq_Nil_words: "(\<And>w. w \<in> set ws \<Longrightarrow> w \<noteq> []) \<Longrightarrow> Join ws sep = [] \<longleftrightarrow> ws = []"
  by (cases ws; cases "tl ws") auto

lemma Join_last:
  "ws \<noteq> [] \<Longrightarrow> (\<And>w. w \<in> set ws \<Longrightarrow> w \<noteq> []) \<Longrightarrow> last (Join ws sep) = last (last ws)"
proof (induction ws)
  case Nil
  then show ?case by simp
next
  case (Cons w ws)
  show ?case
  proof (cases "ws = []")
    case True
    then show ?thesis by simp
  next
    case False
    moreover from this Cons.prems have "Join ws sep \<noteq> []"
      by (subst Join_eq_Nil_words) auto
    ultimately show ?thesis using Cons by (simp add: Join_Cons)
  qed
qed

text \<open>Joining the fields with single blanks leaves nothing for \<^verbatim>\<open>TrimSpace\<close> to remove.\<close>

lemma TrimSpace_Join_Fields: "TrimSpace (Join (Fields s) '' '') = Join (Fields s) '' ''"
proof (cases "Fields s = []")
  case True
  then show ?thesis by simp
next
  case False
  note w = Fields_words [of _ s]
  have "hd (Fields s) \<noteq> []" "last (Fields s) \<noteq> []"
    using False w by auto
  moreover have "\<not> is_space (hd (hd (Fields s)))" "\<not> is_space (last (last (Fields s)))"
    using False w calculation by (meson hd_in_set last_in_set)+
  ultimately have "\<not> is_space (hd (Join (Fields s) '' ''))"
    "\<not> is_space (last (Join (Fields s) '' ''))"
    using False w by (simp_all add: Join_hd Join_last)
  then show ?thesis by (intro TrimSpace_ident) simp
qed

subsection \<open>Numbers\<close>

lemma digits_value_append:
  "digits_value n (s @ t) = (case digits_value n s of None \<Rightarrow> None | Some m \<Rightarrow> digits_value m t)"
  by (induction n s rule: digits_value.induct) auto

lemma is_digit_char_of [simp]: "d < 10 \<Longrightarrow> is_digit (char_of (48 + d :: nat))"
  by (simp add: is_digit_def)

lemma show_nat_neq_Nil [simp]: "show_nat n \<noteq> []"
  by (subst show_nat.simps) simp

lemma digits_value_show_nat: "digits_value 0 (show_nat n) = Some n"
proof (induction n rule: show_nat.induct)
  case (1 n)
  show ?case
  proof (cases "n < 10")
    case True
    then show ?thesis by (subst show_nat.simps) simp
  next
    case False
    then show ?thesis
      using 1 by (subst show_nat.simps) (simp add: digits_value_append)
  qed
qed

lemma ParseUint_show_nat: "n < 2 ^ b \<Longrightarrow> ParseUint (show_nat n) b = Some n"
  by (simp add: ParseUint_def digits_value_show_nat)

lemma ParseUint_bound: "ParseUint s b = Some n \<Longrightarrow> n < 2 ^ b"
  by (auto simp: ParseUint_def split: if_splits option.splits)

lemma ParseUint_one: "ParseUint ''1'' 32 = Some 1"
proof -
  have "show_nat 1 = ''1''" by code_simp
  with ParseUint_show_nat [of 1 32] show ?thesis by simp
qed

end
