(* ===== verification/AppErrors.thy ===== *)
theory AppErrors
  imports GoStrings
begin

text \<open>
  Go error values: the sentinel errors of the packages, \<^verbatim>\<open>fmt.Errorf\<close> with and without
  \<^verbatim>\<open>%w\<close>, and the two error structs of \<^verbatim>\<open>internal/errors/errors.go\<close>; then that
  package's predicates and the mapping of errors to API codes, and the HTTP status mappings and
  response constructors of \<^verbatim>\<open>internal/api/response/response.go\<close>.
\<close>

section \<open>Error values\<close>

text \<open>
  One constructor per \<^verbatim>\<open>errors.New\<close> variable. The repository package and the errors
  package each declare their own not-found, duplicate and invalid-input values, which are
  different pointers.
\<close>

datatype sentinel =
    RepoErrNotFound | RepoErrDuplicateEntry | RepoErrInvalidInput
  | ErrNotFound | ErrDuplicateEntry | ErrInvalidInput | ErrDomainNotActive
  | ErrMailboxNotFound | ErrMessageNotFound | ErrAttachmentNotFound | ErrDomainNotFound
  | ErrUnauthorized | ErrForbidden | ErrInternal
  | ErrACMEChallengeFailed | ErrACMEChallengeExpired | ErrACMEDNSVerificationFailed
  | ErrACMEValidationFailed | ErrInvalidDomainStatus | ErrNoChallengeFound
  | ErrPathTraversal | ErrFileNotFound | ErrFileTooLarge | ErrBlockedExt

fun sentinel_text :: "sentinel \<Rightarrow> string" where
  "sentinel_text RepoErrNotFound = ''record not found''"
| "sentinel_text RepoErrDuplicateEntry = ''duplicate entry''"
| "sentinel_text RepoErrInvalidInput = ''invalid input''"
| "sentinel_text ErrNotFound = ''resource not found''"
| "sentinel_text ErrDuplicateEntry = ''duplicate entry''"
| "sentinel_text ErrInvalidInput = ''invalid input''"
| "sentinel_text ErrDomainNotActive = ''domain is not active''"
| "sentinel_text ErrMailboxNotFound = ''mailbox not found''"
| "sentinel_text ErrMessageNotFound = ''message not found''"
| "sentinel_text ErrAttachmentNotFound = ''attachment not found''"
| "sentinel_text ErrDomainNotFound = ''domain not found''"
| "sentinel_text ErrUnauthorized = ''unauthorized''"
| "sentinel_text ErrForbidden = ''forbidden''"
| "sentinel_text ErrInternal = ''internal server error''"
| "sentinel_text ErrACMEChallengeFailed = ''ACME challenge failed''"
| "sentinel_text ErrACMEChallengeExpired = ''ACME challenge expired''"
| "sentinel_text ErrACMEDNSVerificationFailed = ''DNS verification failed''"
| "sentinel_text ErrACMEValidationFailed = ''ACME validation failed''"
| "sentinel_text ErrInvalidDomainStatus = ''invalid domain status''"
| "sentinel_text ErrNoChallengeFound = ''no active ACME challenge found''"
| "sentinel_text ErrPathTraversal = ''path traversal detected''"
| "sentinel_text ErrFileNotFound = ''file not found''"
| "sentinel_text ErrFileTooLarge = ''file exceeds size limit''"
| "sentinel_text ErrBlockedExt = ''file extension is blocked''"

text \<open>
  \<open>Opaque\<close> is an error whose only content is its text (\<^verbatim>\<open>fmt.Errorf\<close> without
  \<^verbatim>\<open>%w\<close>, or an error of a library); \<open>Wrapf\<close> is \<^verbatim>\<open>fmt.Errorf("...: %w", err)\<close>
  with the text before the verb. The structs carry the fields of the source.
\<close>

datatype goerror =
    Sentinel sentinel
  | Opaque string
  | Wrapf string goerror
  | AppError (AppErr: goerror) (AppMessage: string) (AppCode: string)
  | ACMEError (ACMEErr: goerror) (ACMECode: string) (ACMEMessage: string)
      (ACMEExpectedValue: string) (ACMEFoundValues: "string list")
      (ACMESuggestedAction: string) (ACMEDomain: string) (ACMETXTRecordName: string)
      (ACMECurrentStatus: string) (ACMERequiredStatus: string)

text \<open>The \<^verbatim>\<open>Error()\<close> method of every kind of error.\<close>

fun Error_text :: "goerror \<Rightarrow> string" where
  "Error_text (Sentinel x) = sentinel_text x"
| "Error_text (Opaque t) = t"
| "Error_text (Wrapf p e) = p @ '': '' @ Error_text e"
| "Error_text (AppError e m c) = (if m \<noteq> [] then m else Error_text e)"
| "Error_text (ACMEError e c m x f a d t s r) = m"

text \<open>\<^verbatim>\<open>errors.Is\<close> against a sentinel, following \<^verbatim>\<open>Unwrap\<close>.\<close>

fun errors_Is :: "goerror \<Rightarrow> sentinel \<Rightarrow> bool" where
  "errors_Is (Sentinel x) t = (x = t)"
| "errors_Is (Opaque s) t = False"
| "errors_Is (Wrapf p e) t = errors_Is e t"
| "errors_Is (AppError e m c) t = errors_Is e t"
| "errors_Is (ACMEError e c m x f a d tx s r) t = errors_Is e t"

section \<open>internal/errors/errors.go\<close>

text \<open>A single quote, which a string literal cannot hold next to its delimiters.\<close>

abbreviation sq :: string where "sq \<equiv> [CHR 0x27]"

abbreviation (input) "CodeNotFound \<equiv> ''NOT_FOUND''"
abbreviation (input) "CodeDuplicateEntry \<equiv> ''DUPLICATE_ENTRY''"
abbreviation (input) "CodeInvalidInput \<equiv> ''INVALID_INPUT''"
abbreviation (input) "CodeDomainNotActive \<equiv> ''DOMAIN_NOT_ACTIVE''"
abbreviation (input) "CodeUnauthorized \<equiv> ''UNAUTHORIZED''"
abbreviation (input) "CodeForbidden \<equiv> ''FORBIDDEN''"
abbreviation (input) "CodeInternalError \<equiv> ''INTERNAL_ERROR''"
abbreviation (input) "CodeACMEChallengeFailed \<equiv> ''ACME_CHALLENGE_FAILED''"
abbreviation (input) "CodeACMEChallengeExpired \<equiv> ''ACME_CHALLENGE_EXPIRED''"
abbreviation (input) "CodeACMEDNSVerificationFailed \<equiv> ''DNS_VERIFICATION_FAILED''"
abbreviation (input) "CodeACMEValidationFailed \<equiv> ''ACME_VALIDATION_FAILED''"
abbreviation (input) "CodeInvalidDomainStatus \<equiv> ''INVALID_STATUS''"
abbreviation (input) "CodeNoChallengeFound \<equiv> ''NO_CHALLENGE_FOUND''"

definition NewAppError :: "goerror \<Rightarrow> string \<Rightarrow> string \<Rightarrow> goerror" where
  "NewAppError err message code = AppError err message code"

definition NewACMEError :: "goerror \<Rightarrow> string \<Rightarrow> string \<Rightarrow> string \<Rightarrow> goerror" where
  "NewACMEError err code message suggestedAction =
     ACMEError err code message [] [] suggestedAction [] [] [] []"

text \<open>Go's \<^verbatim>\<open>%v\<close> of a slice of strings.\<close>

definition show_slice :: "string list \<Rightarrow> string" where
  "show_slice xs = ''['' @ Join xs '' '' @ '']''"

definition NewACMEDNSVerificationError ::
    "string \<Rightarrow> string \<Rightarrow> string \<Rightarrow> string list \<Rightarrow> goerror" where
  "NewACMEDNSVerificationError domain txtRecordName expectedValue foundValues =
     (let (message, suggestedAction) =
        (if length foundValues = 0 then
          (''DNS TXT record not found for '' @ txtRecordName,
           ''Please add a TXT record with name '' @ sq @ txtRecordName @ sq @ '' and value '' @ sq
             @ expectedValue
             @ sq @ '' to your DNS provider. DNS propagation may take up to 24 hours.'')
         else
          (''DNS TXT record value mismatch for '' @ txtRecordName,
           ''The TXT record exists but has incorrect value. Expected: '' @ sq @ expectedValue
             @ sq @ '', Found: '' @ show_slice foundValues
             @ ''. Please update the record with the correct value.'')) in
      ACMEError (Sentinel ErrACMEDNSVerificationFailed) CodeACMEDNSVerificationFailed message
        expectedValue foundValues suggestedAction domain txtRecordName [] [])"

definition NewACMEChallengeExpiredError :: "string \<Rightarrow> goerror" where
  "NewACMEChallengeExpiredError domain =
     ACMEError (Sentinel ErrACMEChallengeExpired) CodeACMEChallengeExpired
       (''ACME challenge has expired for domain '' @ domain) [] []
       ''Please request a new ACME challenge using POST /api/domains/:id/request-acme-challenge''
       domain [] [] []"

definition NewACMEValidationError :: "string \<Rightarrow> goerror \<Rightarrow> goerror" where
  "NewACMEValidationError domain originalErr =
     ACMEError (Sentinel ErrACMEValidationFailed) CodeACMEValidationFailed
       (''Let's Encrypt validation failed for domain '' @ domain @ '': '' @ Error_text originalErr)
       [] []
       ''Please verify the TXT record is correctly configured and try again. If the problem persists, request a new challenge.''
       domain [] [] []"

definition NewInvalidDomainStatusError :: "string \<Rightarrow> string \<Rightarrow> string \<Rightarrow> string \<Rightarrow> goerror" where
  "NewInvalidDomainStatusError domain currentStatus requiredStatus action =
     ACMEError (Sentinel ErrInvalidDomainStatus) CodeInvalidDomainStatus
       (''Domain '' @ domain @ '' is in '' @ sq @ currentStatus @ sq @ '' status, but '' @ sq
         @ requiredStatus @ sq @ '' status is required to '' @ action)
       [] []
       (''Please complete the previous step first. Current status: '' @ currentStatus
         @ '', Required: '' @ requiredStatus)
       domain [] currentStatus requiredStatus"

definition NewNoChallengeFoundError :: "string \<Rightarrow> goerror" where
  "NewNoChallengeFoundError domain =
     ACMEError (Sentinel ErrNoChallengeFound) CodeNoChallengeFound
       (''No active ACME challenge found for domain '' @ domain) [] []
       ''Please request an ACME challenge first using POST /api/domains/:id/request-acme-challenge''
       domain [] [] []"

definition Wrap :: "goerror option \<Rightarrow> string \<Rightarrow> goerror option" where
  "Wrap err message = (case err of None \<Rightarrow> None | Some e \<Rightarrow> Some (Wrapf message e))"

definition IsNotFound :: "goerror \<Rightarrow> bool" where
  "IsNotFound err =
     (errors_Is err ErrNotFound \<or> errors_Is err ErrMailboxNotFound
      \<or> errors_Is err ErrMessageNotFound \<or> errors_Is err ErrAttachmentNotFound
      \<or> errors_Is err ErrDomainNotFound)"

definition IsDuplicateEntry :: "goerror \<Rightarrow> bool" where
  "IsDuplicateEntry err = errors_Is err ErrDuplicateEntry"

definition IsInvalidInput :: "goerror \<Rightarrow> bool" where
  "IsInvalidInput err = errors_Is err ErrInvalidInput"

definition IsDomainNotActive :: "goerror \<Rightarrow> bool" where
  "IsDomainNotActive err = errors_Is err ErrDomainNotActive"

definition GetErrorCode :: "goerror \<Rightarrow> string" where
  "GetErrorCode err =
     (if IsNotFound err then CodeNotFound
      else if IsDuplicateEntry err then CodeDuplicateEntry
      else if IsInvalidInput err then CodeInvalidInput
      else if IsDomainNotActive err then CodeDomainNotActive
      else if errors_Is err ErrUnauthorized then CodeUnauthorized
      else if errors_Is err ErrForbidden then CodeForbidden
      else if errors_Is err ErrACMEChallengeFailed then CodeACMEChallengeFailed
      else if errors_Is err ErrACMEChallengeExpired then CodeACMEChallengeExpired
      else if errors_Is err ErrACMEDNSVerificationFailed then CodeACMEDNSVerificationFailed
      else if errors_Is err ErrACMEValidationFailed then CodeACMEValidationFailed
      else if errors_Is err ErrInvalidDomainStatus then CodeInvalidDomainStatus
      else if errors_Is err ErrNoChallengeFound then CodeNoChallengeFound
      else CodeInternalError)"

text \<open>\<^verbatim>\<open>errors.As\<close> with a target of type \<^verbatim>\<open>*ACMEError\<close>: the first one of the chain.\<close>

fun GetACMEError :: "goerror \<Rightarrow> goerror option" where
  "GetACMEError (ACMEError e c m x f a d t s r) = Some (ACMEError e c m x f a d t s r)"
| "GetACMEError (Wrapf p e) = GetACMEError e"
| "GetACMEError (AppError e m c) = GetACMEError e"
| "GetACMEError (Sentinel x) = None"
| "GetACMEError (Opaque t) = None"

definition IsACMEError :: "goerror \<Rightarrow> bool" where
  "IsACMEError err = (GetACMEError err \<noteq> None)"

section \<open>internal/api/response/response.go\<close>

text \<open>
  What a handler writes: the HTTP status and the body, one constructor per body type of the
  source (the type parameter is the data a handler attaches).
\<close>

datatype 'a response =
    APIResponse (resp_status: nat) "'a option" string
  | ErrorResponse (resp_status: nat) string string
  | ErrorDataResponse (resp_status: nat) string string 'a
  | PaginatedResponse (resp_status: nat) 'a int int int
  | NoContentResponse (resp_status: nat)
  | ACMEErrorResponse (resp_status: nat) goerror

definition getHTTPStatusForACME :: "string \<Rightarrow> nat" where
  "getHTTPStatusForACME code =
     (if code = CodeACMEChallengeFailed then 500
      else if code = CodeACMEChallengeExpired then 400
      else if code = CodeACMEDNSVerificationFailed then 400
      else if code = CodeACMEValidationFailed then 400
      else if code = CodeInvalidDomainStatus then 400
      else if code = CodeNoChallengeFound then 400
      else 500)"

definition getHTTPStatus :: "string \<Rightarrow> nat" where
  "getHTTPStatus code =
     (if code = CodeNotFound then 404
      else if code = CodeDuplicateEntry then 409
      else if code = CodeInvalidInput then 400
      else if code = CodeDomainNotActive then 400
      else if code = CodeUnauthorized then 401
      else if code = CodeForbidden then 403
      else 500)"

definition Success :: "'a \<Rightarrow> 'a response" where
  "Success data = APIResponse 200 (Some data) []"

definition SuccessWithMessage :: "'a option \<Rightarrow> string \<Rightarrow> 'a response" where
  "SuccessWithMessage data message = APIResponse 200 data message"

definition Created :: "'a \<Rightarrow> 'a response" where
  "Created data = APIResponse 201 (Some data) []"

definition NoContent :: "'a response" where
  "NoContent = NoContentResponse 204"

definition Paginated :: "'a \<Rightarrow> int \<Rightarrow> int \<Rightarrow> int \<Rightarrow> 'a response" where
  "Paginated data tot limit offset = PaginatedResponse 200 data tot limit offset"

definition Error :: "goerror \<Rightarrow> 'a response" where
  "Error err = (let code = GetErrorCode err; status = getHTTPStatus code in
     ErrorResponse status (Error_text err) code)"

definition BadRequest :: "string \<Rightarrow> 'a response" where
  "BadRequest message = ErrorResponse 400 message CodeInvalidInput"

definition BadRequestWithData :: "string \<Rightarrow> 'a \<Rightarrow> 'a response" where
  "BadRequestWithData message data = ErrorDataResponse 400 message CodeInvalidInput data"

definition NotFound :: "string \<Rightarrow> 'a response" where
  "NotFound message = ErrorResponse 404 message CodeNotFound"

definition Conflict :: "string \<Rightarrow> 'a response" where
  "Conflict message = ErrorResponse 409 message CodeDuplicateEntry"

definition InternalError :: "string \<Rightarrow> 'a response" where
  "InternalError message = ErrorResponse 500 message CodeInternalError"

definition RespACMEError :: "goerror \<Rightarrow> 'a response" where
  "RespACMEError acmeErr = ACMEErrorResponse (getHTTPStatusForACME (ACMECode acmeErr)) acmeErr"

definition ACMEErrorFromError :: "goerror \<Rightarrow> 'a response" where
  "ACMEErrorFromError err =
     (case GetACMEError err of
        Some acmeErr \<Rightarrow> RespACMEError acmeErr
      | None \<Rightarrow> InternalError (Error_text err))"

lemmas response_defs [model_defs] =
  Success_def SuccessWithMessage_def Created_def NoContent_def Paginated_def BadRequest_def
  BadRequestWithData_def NotFound_def Conflict_def InternalError_def RespACMEError_def

lemmas error_class_defs =
  IsNotFound_def IsDuplicateEntry_def IsInvalidInput_def IsDomainNotActive_def

section \<open>Properties\<close>

text \<open>An error chain carries at most one sentinel, at its end.\<close>

fun root_cause :: "goerror \<Rightarrow> sentinel option" where
  "root_cause (Sentinel x) = Some x"
| "root_cause (Opaque s) = None"
| "root_cause (Wrapf p e) = root_cause e"
| "root_cause (AppError e m c) = root_cause e"
| "root_cause (ACMEError e c m x f a d t s r) = root_cause e"

lemma errors_Is_root_cause: "errors_Is e t \<longleftrightarrow> root_cause e = Some t"
  by (induction e) auto

text \<open>The API code of an error as a table over its root cause.\<close>

definition cause_code :: "sentinel option \<Rightarrow> string" where
  "cause_code c =
     (case c of
        None \<Rightarrow> CodeInternalError
      | Some x \<Rightarrow>
         (case x of
            ErrNotFound \<Rightarrow> CodeNotFound | ErrMailboxNotFound \<Rightarrow> CodeNotFound
          | ErrMessageNotFound \<Rightarrow> CodeNotFound | ErrAttachmentNotFound \<Rightarrow> CodeNotFound
          | ErrDomainNotFound \<Rightarrow> CodeNotFound | ErrDuplicateEntry \<Rightarrow> CodeDuplicateEntry
          | ErrInvalidInput \<Rightarrow> CodeInvalidInput | ErrDomainNotActive \<Rightarrow> CodeDomainNotActive
          | ErrUnauthorized \<Rightarrow> CodeUnauthorized | ErrForbidden \<Rightarrow> CodeForbidden
          | ErrACMEChallengeFailed \<Rightarrow> CodeACMEChallengeFailed
          | ErrACMEChallengeExpired \<Rightarrow> CodeACMEChallengeExpired
          | ErrACMEDNSVerificationFailed \<Rightarrow> CodeACMEDNSVerificationFailed
          | ErrACMEValidationFailed \<Rightarrow> CodeACMEValidationFailed
          | ErrInvalidDomainStatus \<Rightarrow> CodeInvalidDomainStatus
          | ErrNoChallengeFound \<Rightarrow> CodeNoChallengeFound
          | _ \<Rightarrow> CodeInternalError))"

lemma GetErrorCode_cause: "GetErrorCode e = cause_code (root_cause e)"
proof (cases "root_cause e")
  case None
  then show ?thesis
    by (simp add: GetErrorCode_def error_class_defs errors_Is_root_cause cause_code_def)
next
  case (Some x)
  then show ?thesis
    by (cases x) (simp_all add: GetErrorCode_def error_class_defs errors_Is_root_cause
        cause_code_def)
qed

lemma GetErrorCode_wrapped:
  "GetErrorCode (Wrapf p e) = GetErrorCode e" "GetErrorCode (AppError e m c) = GetErrorCode e"
  by (simp_all add: GetErrorCode_cause)

lemma GetACMEError_Is_ACMEError: "GetACMEError e = Some a \<Longrightarrow> \<exists>r c m x f s d t u v. a = ACMEError r c m x f s d t u v"
  by (induction e) auto

lemma GetACMEError_cause: "GetACMEError e = Some a \<Longrightarrow> root_cause a = root_cause e"
  by (induction e) auto

definition acme_consistent :: "goerror \<Rightarrow> bool" where
  "acme_consistent e \<longleftrightarrow>
     (\<exists>cause c m x f a d t s r. e = ACMEError (Sentinel cause) c m x f a d t s r
        \<and> cause_code (Some cause) = c \<and> getHTTPStatusForACME c = 400)"

lemma acme_consistentI:
  "cause_code (Some cause) = c \<Longrightarrow> getHTTPStatusForACME c = 400 \<Longrightarrow>
   acme_consistent (ACMEError (Sentinel cause) c m x f a d t s r)"
  unfolding acme_consistent_def by blast

lemmas acme_constructor_defs =
  NewACMEDNSVerificationError_def NewACMEChallengeExpiredError_def NewACMEValidationError_def
  NewInvalidDomainStatusError_def NewNoChallengeFoundError_def

lemma acme_constructors_consistent:
  "acme_consistent (NewACMEDNSVerificationError d t x f)"
  "acme_consistent (NewACMEChallengeExpiredError d)"
  "acme_consistent (NewACMEValidationError d o')"
  "acme_consistent (NewInvalidDomainStatusError d cur req act)"
  "acme_consistent (NewNoChallengeFoundError d)"
  unfolding acme_constructor_defs Let_def split_def
  by (rule acme_consistentI; simp add: cause_code_def getHTTPStatusForACME_def)+

lemma acme_consistent_response:
  assumes "acme_consistent e"
  shows "GetErrorCode (Wrapf p e) = ACMECode e \<and> GetACMEError (Wrapf p e) = Some e
    \<and> resp_status (ACMEErrorFromError (Wrapf p e)) = 400"
  using assms unfolding acme_consistent_def
  by (auto simp: GetErrorCode_cause ACMEErrorFromError_def RespACMEError_def)

text \<open>
  Every ACME error the program constructs (DNS verification failure, expired challenge,
  failed validation, wrong domain status, missing challenge) classifies, however often it is
  wrapped, under the very code stored in it, and both response paths answer it with a 4xx status:
  the code mapping of \<^verbatim>\<open>GetErrorCode\<close> and the struct constructors agree.
\<close>

theorem acme_errors_keep_their_code:
  assumes "e \<in> {NewACMEDNSVerificationError d t x f, NewACMEChallengeExpiredError d,
                  NewACMEValidationError d o', NewInvalidDomainStatusError d cur req act,
                  NewNoChallengeFoundError d}"
  shows "GetErrorCode (Wrapf p e) = ACMECode e \<and> GetACMEError (Wrapf p e) = Some e
    \<and> resp_status (ACMEErrorFromError (Wrapf p e)) = 400"
  using assms acme_constructors_consistent
  by (intro acme_consistent_response) (auto simp only: insert_iff empty_iff)

theorem acme_errors_keep_their_code_witness:
  "GetErrorCode (Wrapf ''failed'' (NewNoChallengeFoundError ''example.com''))
     = ''NO_CHALLENGE_FOUND''"
proof -
  have "NewNoChallengeFoundError ''example.com'' \<in> {NewACMEDNSVerificationError ''example.com'' [] [] [],
      NewACMEChallengeExpiredError ''example.com'',
      NewACMEValidationError ''example.com'' (Opaque []),
      NewInvalidDomainStatusError ''example.com'' [] [] [],
      NewNoChallengeFoundError ''example.com''}" by blast
  from acme_errors_keep_their_code [OF this, of "''failed''", THEN conjunct1]
  show ?thesis by (simp only: NewNoChallengeFoundError_def goerror.sel)
qed

end
