(* ===== verification/Models.thy ===== *)
theory Models
  imports AppErrors
begin

text \<open>
  The persistent data of \<^verbatim>\<open>internal/models\<close>: one record per table with the columns of the
  source, the life-cycle status of a domain, and the methods of the models. The relationship
  fields of the Go structs (\<^verbatim>\<open>Mailboxes\<close>, \<^verbatim>\<open>Certificate\<close>, \<^verbatim>\<open>Messages\<close>, ...)
  are the foreign keys here; a preloaded relation is returned beside its row.
\<close>

section \<open>Domains\<close>

text \<open>
  \<^verbatim>\<open>DomainStatus\<close> is a string type with eight named values; \<open>RawStatus\<close> is any other
  string the column may hold (the empty string of legacy rows above all).
\<close>

datatype DomainStatus =
    StatusPendingDNS | StatusDNSVerified | StatusPendingACMEChallenge | StatusACMEChallengeReady
  | StatusPendingCertificate | StatusCertificateIssued | StatusActive | StatusFailed
  | RawStatus string

fun DomainStatus_String :: "DomainStatus \<Rightarrow> string" where
  "DomainStatus_String StatusPendingDNS = ''pending_dns''"
| "DomainStatus_String StatusDNSVerified = ''dns_verified''"
| "DomainStatus_String StatusPendingACMEChallenge = ''pending_acme_challenge''"
| "DomainStatus_String StatusACMEChallengeReady = ''acme_challenge_ready''"
| "DomainStatus_String StatusPendingCertificate = ''pending_certificate''"
| "DomainStatus_String StatusCertificateIssued = ''certificate_issued''"
| "DomainStatus_String StatusActive = ''active''"
| "DomainStatus_String StatusFailed = ''failed''"
| "DomainStatus_String (RawStatus s) = s"

fun DomainStatus_IsValid :: "DomainStatus \<Rightarrow> bool" where
  "DomainStatus_IsValid (RawStatus s) = False"
| "DomainStatus_IsValid _ = True"

record Domain =
  D_ID :: uint
  D_Name :: string
  D_IsActive :: bool
  D_Status :: DomainStatus
  D_DNSChallenge :: string
  D_ErrorMessage :: string
  D_ACMEChallengeToken :: string
  D_ACMEChallengeValue :: string
  D_ACMEChallengeExpiresAt :: "time option"
  D_ACMEDNSVerified :: bool
  D_CreatedAt :: time
  D_UpdatedAt :: time

text \<open>The Go zero value of \<^verbatim>\<open>models.Domain\<close>.\<close>

definition zero_Domain :: Domain where
  "zero_Domain = \<lparr>D_ID = 0, D_Name = [], D_IsActive = False, D_Status = RawStatus [],
     D_DNSChallenge = [], D_ErrorMessage = [], D_ACMEChallengeToken = [],
     D_ACMEChallengeValue = [], D_ACMEChallengeExpiresAt = None, D_ACMEDNSVerified = False,
     D_CreatedAt = 0, D_UpdatedAt = 0\<rparr>"

section \<open>Certificates\<close>

record DomainCertificate =
  C_ID :: uint
  C_DomainID :: uint
  C_DomainName :: string
  C_CertPath :: string
  C_KeyPath :: string
  C_ExpiresAt :: time
  C_IssuedAt :: time
  C_AutoRenew :: bool
  C_CreatedAt :: time
  C_UpdatedAt :: time

definition IsExpired :: "time \<Rightarrow> DomainCertificate \<Rightarrow> bool" where
  "IsExpired now c = (now > C_ExpiresAt c)"

text \<open>\<^verbatim>\<open>AddDate(0, 0, days)\<close> in UTC, where every day has 24 hours.\<close>

definition AddDays :: "time \<Rightarrow> int \<Rightarrow> time" where
  "AddDays t days = t + days * day"

definition IsExpiringSoon :: "time \<Rightarrow> DomainCertificate \<Rightarrow> int \<Rightarrow> bool" where
  "IsExpiringSoon now c days = (C_ExpiresAt c < AddDays now days)"

text \<open>\<^verbatim>\<open>int(duration.Hours() / 24)\<close> truncates towards zero.\<close>

definition DaysUntilExpiry :: "time \<Rightarrow> DomainCertificate \<Rightarrow> int" where
  "DaysUntilExpiry now c =
     (let d = C_ExpiresAt c - now in if d < 0 then - ((- d) div day) else d div day)"

section \<open>Mailboxes, messages, attachments\<close>

record Mailbox =
  M_ID :: uint
  M_LocalPart :: string
  M_DomainID :: uint
  M_FullAddress :: string
  M_CreatedAt :: time
  M_LastAccessedAt :: "time option"

record MailboxWithUnreadCount = Mailbox +
  UnreadCount :: int

record Message =
  Msg_ID :: uint
  Msg_MailboxID :: uint
  Msg_SenderEmail :: string
  Msg_SenderName :: string
  Msg_Subject :: string
  Msg_Snippet :: string
  Msg_BodyText :: string
  Msg_BodyHTML :: string
  Msg_IsRead :: bool
  Msg_ReceivedAt :: time

record MessageListItem =
  MLI_ID :: uint
  MLI_MailboxID :: uint
  MLI_SenderEmail :: string
  MLI_SenderName :: string
  MLI_Subject :: string
  MLI_Snippet :: string
  MLI_IsRead :: bool
  MLI_ReceivedAt :: time
  MLI_AttachmentCount :: int

record Attachment =
  A_ID :: uint
  A_MessageID :: uint
  A_Filename :: string
  A_ContentType :: string
  A_FilePath :: string
  A_SizeBytes :: int

section \<open>Facts\<close>

lemma DomainStatus_IsValid_iff: "DomainStatus_IsValid s \<longleftrightarrow> (\<forall>t. s \<noteq> RawStatus t)"
  by (cases s) auto

lemma not_expired_days_nonneg:
  "\<not> IsExpired now c \<Longrightarrow> 0 \<le> DaysUntilExpiry now c"
  by (auto simp: IsExpired_def DaysUntilExpiry_def Let_def)

lemma DaysUntilExpiry_soon:
  assumes "0 \<le> days" "IsExpiringSoon now c (days + 1)" "\<not> IsExpired now c"
  shows "DaysUntilExpiry now c \<le> days"
proof -
  from assms have "0 \<le> C_ExpiresAt c - now" "C_ExpiresAt c - now < (days + 1) * day"
    by (auto simp: IsExpired_def IsExpiringSoon_def AddDays_def)
  then show ?thesis by (auto simp: DaysUntilExpiry_def Let_def)
qed

end
