(* ===== verification/Gorm.thy ===== *)
theory Gorm
  imports Models
begin

text \<open>
  The database. GORM and PostgreSQL are not part of the repository, so their operations are the
  parameter \<open>gorm\<close> of the model: a record of the GORM calls the repositories make, acting on
  the contents of the five tables. What the program relies on is the locale \<open>gorm_table\<close>
  (one table) and \<open>gorm_db\<close> (all of them): the documented behaviour of \<^verbatim>\<open>Create\<close>,
  \<^verbatim>\<open>First\<close>, \<^verbatim>\<open>Find\<close>, \<^verbatim>\<open>Save\<close>, \<^verbatim>\<open>Update\<close>, \<^verbatim>\<open>Delete\<close>,
  \<^verbatim>\<open>Count\<close> and \<^verbatim>\<open>Transaction\<close> over tables with the keys, defaults and cascading
  foreign keys that the struct tags of \<^verbatim>\<open>internal/models\<close> declare. Any call may also fail
  with a database error. At the end, an in-memory relational store discharges these laws.
\<close>

section \<open>Table contents\<close>

record db =
  t_domains :: "Domain list"
  t_certs :: "DomainCertificate list"
  t_mailboxes :: "Mailbox list"
  t_messages :: "Message list"
  t_attachments :: "Attachment list"

text \<open>Primary keys and unique indexes (the \<^verbatim>\<open>primaryKey\<close> and \<^verbatim>\<open>uniqueIndex\<close> tags).\<close>

definition db_ok :: "db \<Rightarrow> bool" where
  "db_ok d \<longleftrightarrow>
     distinct (map D_ID (t_domains d)) \<and> distinct (map D_Name (t_domains d))
   \<and> distinct (map C_ID (t_certs d)) \<and> distinct (map C_DomainID (t_certs d))
   \<and> distinct (map M_ID (t_mailboxes d)) \<and> distinct (map M_FullAddress (t_mailboxes d))
   \<and> distinct (map Msg_ID (t_messages d)) \<and> distinct (map A_ID (t_attachments d))"

definition domain_row :: "db \<Rightarrow> uint \<Rightarrow> Domain option" where
  "domain_row d i = find (\<lambda>x. D_ID x = i) (t_domains d)"

lemma domain_row_mem:
  assumes "db_ok d" "x \<in> set (t_domains d)" "D_ID x = i"
  shows "domain_row d i = Some x"
proof -
  have "distinct (map D_ID (t_domains d))" using assms(1) by (simp add: db_ok_def)
  with assms(2,3) show ?thesis
    unfolding domain_row_def by (induction "t_domains d" arbitrary: d rule: rev_induct)
      (auto simp: find_Some_iff in_set_conv_nth distinct_conv_nth)
qed

text \<open>Deleting rows, with the \<^verbatim>\<open>OnDelete:CASCADE\<close> constraints of the models.\<close>

definition purge_attachments :: "(Attachment \<Rightarrow> bool) \<Rightarrow> db \<Rightarrow> db" where
  "purge_attachments P d = d\<lparr>t_attachments := filter (\<lambda>a. \<not> P a) (t_attachments d)\<rparr>"

definition purge_messages :: "(Message \<Rightarrow> bool) \<Rightarrow> db \<Rightarrow> db" where
  "purge_messages P d =
     (let gone = map Msg_ID (filter P (t_messages d)) in
      purge_attachments (\<lambda>a. A_MessageID a \<in> set gone)
        (d\<lparr>t_messages := filter (\<lambda>m. \<not> P m) (t_messages d)\<rparr>))"

definition purge_mailboxes :: "(Mailbox \<Rightarrow> bool) \<Rightarrow> db \<Rightarrow> db" where
  "purge_mailboxes P d =
     (let gone = map M_ID (filter P (t_mailboxes d)) in
      purge_messages (\<lambda>m. Msg_MailboxID m \<in> set gone)
        (d\<lparr>t_mailboxes := filter (\<lambda>m. \<not> P m) (t_mailboxes d)\<rparr>))"

definition purge_certs :: "(DomainCertificate \<Rightarrow> bool) \<Rightarrow> db \<Rightarrow> db" where
  "purge_certs P d = d\<lparr>t_certs := filter (\<lambda>c. \<not> P c) (t_certs d)\<rparr>"

definition purge_domains :: "(Domain \<Rightarrow> bool) \<Rightarrow> db \<Rightarrow> db" where
  "purge_domains P d =
     (let gone = map D_ID (filter P (t_domains d)) in
      purge_certs (\<lambda>c. C_DomainID c \<in> set gone)
        (purge_mailboxes (\<lambda>m. M_DomainID m \<in> set gone)
          (d\<lparr>t_domains := filter (\<lambda>x. \<not> P x) (t_domains d)\<rparr>)))"

lemma filter_none: "filter P xs = [] \<Longrightarrow> filter (\<lambda>x. \<not> P x) xs = xs"
  by (simp add: filter_empty_conv filter_id_conv)

lemma purge_none:
  "filter P (t_messages d) = [] \<Longrightarrow> purge_messages P d = d"
  "filter Q (t_mailboxes d) = [] \<Longrightarrow> purge_mailboxes Q d = d"
  by (simp_all add: purge_messages_def purge_mailboxes_def purge_attachments_def filter_none)

lemma purge_domains_none: "filter P (t_domains d) = [] \<Longrightarrow> purge_domains P d = d"
  by (simp add: purge_domains_def purge_certs_def purge_none filter_none)

text \<open>
  What \<^verbatim>\<open>Create\<close> stores for a struct: the generated key and time stamps, and the column
  defaults for zero values; \<^verbatim>\<open>Save\<close> refreshes \<^verbatim>\<open>UpdatedAt\<close> only.
\<close>

definition created_Domain :: "Domain \<Rightarrow> Domain \<Rightarrow> bool" where
  "created_Domain r r' \<longleftrightarrow>
     r' = r\<lparr>D_ID := D_ID r', D_CreatedAt := D_CreatedAt r', D_UpdatedAt := D_UpdatedAt r',
           D_Status := (if D_Status r = RawStatus [] then StatusPendingDNS else D_Status r)\<rparr>"

definition saved_Domain :: "Domain \<Rightarrow> Domain \<Rightarrow> bool" where
  "saved_Domain r r' \<longleftrightarrow> r' = r\<lparr>D_UpdatedAt := D_UpdatedAt r'\<rparr>"

definition created_DomainCertificate :: "DomainCertificate \<Rightarrow> DomainCertificate \<Rightarrow> bool" where
  "created_DomainCertificate r r' \<longleftrightarrow>
     r' = r\<lparr>C_ID := C_ID r', C_CreatedAt := C_CreatedAt r', C_UpdatedAt := C_UpdatedAt r',
           C_AutoRenew := True\<rparr>"

definition saved_DomainCertificate :: "DomainCertificate \<Rightarrow> DomainCertificate \<Rightarrow> bool" where
  "saved_DomainCertificate r r' \<longleftrightarrow> r' = r\<lparr>C_UpdatedAt := C_UpdatedAt r'\<rparr>"

definition created_Mailbox :: "Mailbox \<Rightarrow> Mailbox \<Rightarrow> bool" where
  "created_Mailbox r r' \<longleftrightarrow> r' = r\<lparr>M_ID := M_ID r', M_CreatedAt := M_CreatedAt r'\<rparr>"

definition saved_Mailbox :: "Mailbox \<Rightarrow> Mailbox \<Rightarrow> bool" where
  "saved_Mailbox r r' \<longleftrightarrow> r' = r"

definition created_Message :: "Message \<Rightarrow> Message \<Rightarrow> bool" where
  "created_Message r r' \<longleftrightarrow> r' = r\<lparr>Msg_ID := Msg_ID r', Msg_ReceivedAt := Msg_ReceivedAt r'\<rparr>"

definition saved_Message :: "Message \<Rightarrow> Message \<Rightarrow> bool" where
  "saved_Message r r' \<longleftrightarrow> r' = r"

definition created_Attachment :: "Attachment \<Rightarrow> Attachment \<Rightarrow> bool" where
  "created_Attachment r r' \<longleftrightarrow> r' = r\<lparr>A_ID := A_ID r'\<rparr>"

definition saved_Attachment :: "Attachment \<Rightarrow> Attachment \<Rightarrow> bool" where
  "saved_Attachment r r' \<longleftrightarrow> r' = r"

lemma saved_Domain_fields: "saved_Domain r r' \<Longrightarrow> D_ID r' = D_ID r \<and> D_Name r' = D_Name r
    \<and> D_IsActive r' = D_IsActive r \<and> D_Status r' = D_Status r \<and> D_DNSChallenge r' = D_DNSChallenge r
    \<and> D_ErrorMessage r' = D_ErrorMessage r \<and> D_ACMEChallengeToken r' = D_ACMEChallengeToken r
    \<and> D_ACMEChallengeValue r' = D_ACMEChallengeValue r
    \<and> D_ACMEChallengeExpiresAt r' = D_ACMEChallengeExpiresAt r
    \<and> D_ACMEDNSVerified r' = D_ACMEDNSVerified r \<and> D_CreatedAt r' = D_CreatedAt r"
  unfolding saved_Domain_def by (cases r; cases r') simp

lemma created_Domain_fields: "created_Domain r r' \<Longrightarrow> D_Name r' = D_Name r
    \<and> D_IsActive r' = D_IsActive r \<and> D_DNSChallenge r' = D_DNSChallenge r
    \<and> D_Status r' = (if D_Status r = RawStatus [] then StatusPendingDNS else D_Status r)"
  unfolding created_Domain_def by (cases r; cases r') simp

lemma created_Mailbox_fields: "created_Mailbox r r' \<Longrightarrow> M_LocalPart r' = M_LocalPart r
    \<and> M_DomainID r' = M_DomainID r \<and> M_FullAddress r' = M_FullAddress r
    \<and> M_LastAccessedAt r' = M_LastAccessedAt r"
  unfolding created_Mailbox_def by (cases r; cases r') simp

lemma created_Attachment_fields: "created_Attachment r r' \<Longrightarrow> A_MessageID r' = A_MessageID r
    \<and> A_Filename r' = A_Filename r \<and> A_ContentType r' = A_ContentType r
    \<and> A_FilePath r' = A_FilePath r \<and> A_SizeBytes r' = A_SizeBytes r"
  unfolding created_Attachment_def by (cases r; cases r') simp

lemma created_Message_fields: "created_Message r r' \<Longrightarrow> Msg_MailboxID r' = Msg_MailboxID r
    \<and> Msg_SenderEmail r' = Msg_SenderEmail r \<and> Msg_SenderName r' = Msg_SenderName r
    \<and> Msg_Subject r' = Msg_Subject r \<and> Msg_Snippet r' = Msg_Snippet r
    \<and> Msg_BodyText r' = Msg_BodyText r \<and> Msg_BodyHTML r' = Msg_BodyHTML r \<and> Msg_IsRead r' = Msg_IsRead r"
  unfolding created_Message_def by (cases r; cases r') simp

section \<open>The GORM calls\<close>

datatype gorm_error = ErrRecordNotFound | DBError string

fun gorm_goerror :: "gorm_error \<Rightarrow> goerror" where
  "gorm_goerror ErrRecordNotFound = Opaque ''record not found''"
| "gorm_goerror (DBError t) = Opaque t"

text \<open>
  The calls on one table. A \<^verbatim>\<open>Where\<close> clause is the predicate it selects rows by, an
  \<^verbatim>\<open>Order\<close> clause its text; \<open>g_Save\<close>, \<open>g_Update\<close> and \<open>g_Delete\<close> return the
  number of affected rows.
\<close>

record 'r gorm_table_ops =
  g_Create :: "'r \<Rightarrow> db \<Rightarrow> (gorm_error + 'r) \<times> db"
  g_First :: "('r \<Rightarrow> bool) \<Rightarrow> db \<Rightarrow> gorm_error + 'r"
  g_Find :: "('r \<Rightarrow> bool) \<Rightarrow> string \<Rightarrow> db \<Rightarrow> gorm_error + 'r list"
  g_Count :: "('r \<Rightarrow> bool) \<Rightarrow> db \<Rightarrow> gorm_error + int"
  g_Save :: "'r \<Rightarrow> db \<Rightarrow> (gorm_error + 'r \<times> nat) \<times> db"
  g_Update :: "('r \<Rightarrow> bool) \<Rightarrow> ('r \<Rightarrow> 'r) \<Rightarrow> db \<Rightarrow> (gorm_error + nat) \<times> db"
  g_Delete :: "('r \<Rightarrow> bool) \<Rightarrow> db \<Rightarrow> (gorm_error + nat) \<times> db"

text \<open>
  All tables, the two raw listing queries, and \<^verbatim>\<open>db.Transaction\<close> (used once, to create a
  message together with its attachments).
\<close>

record gorm =
  g_domains :: "Domain gorm_table_ops"
  g_certs :: "DomainCertificate gorm_table_ops"
  g_mailboxes :: "Mailbox gorm_table_ops"
  g_messages :: "Message gorm_table_ops"
  g_attachments :: "Attachment gorm_table_ops"
  g_ListMailboxes :: "uint \<Rightarrow> int \<Rightarrow> int \<Rightarrow> db \<Rightarrow> gorm_error + MailboxWithUnreadCount list"
  g_ListMessages :: "uint \<Rightarrow> int \<Rightarrow> int \<Rightarrow> db \<Rightarrow> gorm_error + MessageListItem list"
  g_Transaction :: "(db \<Rightarrow> (goerror + Message \<times> Attachment list) \<times> db) \<Rightarrow>
     db \<Rightarrow> (goerror + Message \<times> Attachment list) \<times> db"

section \<open>The laws the program relies on\<close>

locale gorm_table =
  fixes T :: "'r gorm_table_ops"
    and rows :: "db \<Rightarrow> 'r list"
    and put :: "'r list \<Rightarrow> db \<Rightarrow> db"
    and rid :: "'r \<Rightarrow> nat"
    and created :: "'r \<Rightarrow> 'r \<Rightarrow> bool"
    and saved :: "'r \<Rightarrow> 'r \<Rightarrow> bool"
    and purge :: "('r \<Rightarrow> bool) \<Rightarrow> db \<Rightarrow> db"
  assumes First_found: "g_First T P d = Inr r \<Longrightarrow> r \<in> set (rows d) \<and> P r"
    and First_missing: "g_First T P d = Inl ErrRecordNotFound \<Longrightarrow> r \<in> set (rows d) \<Longrightarrow> \<not> P r"
    and Find_rows: "g_Find T P ordr d = Inr rs \<Longrightarrow> set rs = {r \<in> set (rows d). P r}"
    and Count_rows: "g_Count T P d = Inr k \<Longrightarrow> k = int (length (filter P (rows d)))"
    and Create_ok: "g_Create T r d = (Inr r', d') \<Longrightarrow>
      created r r' \<and> d' = put (rows d @ [r']) d \<and> rid r' \<noteq> 0 \<and> rid r' \<notin> rid ` set (rows d)"
    and Create_err: "g_Create T r d = (Inl e, d') \<Longrightarrow> d' = d"
    and Create_keys: "g_Create T r d = (Inr r', d') \<Longrightarrow> db_ok d \<Longrightarrow> db_ok d'"
    and Save_ok: "g_Save T r d = (Inr (r', n), d') \<Longrightarrow> x \<in> set (rows d) \<Longrightarrow> rid x = rid r \<Longrightarrow>
      saved r r' \<and> n \<noteq> 0 \<and> d' = put (map (\<lambda>x. if rid x = rid r then r' else x) (rows d)) d"
    and Save_none: "g_Save T r d = (Inr (r', 0), d') \<Longrightarrow> d' = d"
    and Save_err: "g_Save T r d = (Inl e, d') \<Longrightarrow> d' = d"
    and Save_keys: "g_Save T r d = (Inr p, d') \<Longrightarrow> db_ok d \<Longrightarrow> db_ok d'"
    and Update_ok: "g_Update T P f d = (Inr n, d') \<Longrightarrow>
      n = length (filter P (rows d)) \<and> d' = put (map (\<lambda>x. if P x then f x else x) (rows d)) d"
    and Update_err: "g_Update T P f d = (Inl e, d') \<Longrightarrow> d' = d"
    and Delete_ok: "g_Delete T P d = (Inr n, d') \<Longrightarrow>
      n = length (filter P (rows d)) \<and> d' = purge P d"
    and Delete_err: "g_Delete T P d = (Inl e, d') \<Longrightarrow> d' = d"

abbreviation put_domains :: "Domain list \<Rightarrow> db \<Rightarrow> db" where
  "put_domains rs d \<equiv> d\<lparr>t_domains := rs\<rparr>"
abbreviation put_certs :: "DomainCertificate list \<Rightarrow> db \<Rightarrow> db" where
  "put_certs rs d \<equiv> d\<lparr>t_certs := rs\<rparr>"
abbreviation put_mailboxes :: "Mailbox list \<Rightarrow> db \<Rightarrow> db" where
  "put_mailboxes rs d \<equiv> d\<lparr>t_mailboxes := rs\<rparr>"
abbreviation put_messages :: "Message list \<Rightarrow> db \<Rightarrow> db" where
  "put_messages rs d \<equiv> d\<lparr>t_messages := rs\<rparr>"
abbreviation put_attachments :: "Attachment list \<Rightarrow> db \<Rightarrow> db" where
  "put_attachments rs d \<equiv> d\<lparr>t_attachments := rs\<rparr>"

text \<open>The columns the listing queries compute.\<close>

definition unread_count :: "db \<Rightarrow> uint \<Rightarrow> int" where
  "unread_count d mb =
     int (length (filter (\<lambda>m. Msg_MailboxID m = mb \<and> \<not> Msg_IsRead m) (t_messages d)))"

definition list_item :: "db \<Rightarrow> Message \<Rightarrow> MessageListItem" where
  "list_item d m = \<lparr>MLI_ID = Msg_ID m, MLI_MailboxID = Msg_MailboxID m,
     MLI_SenderEmail = Msg_SenderEmail m, MLI_SenderName = Msg_SenderName m,
     MLI_Subject = Msg_Subject m, MLI_Snippet = Msg_Snippet m, MLI_IsRead = Msg_IsRead m,
     MLI_ReceivedAt = Msg_ReceivedAt m,
     MLI_AttachmentCount =
       int (length (filter (\<lambda>a. A_MessageID a = Msg_ID m) (t_attachments d)))\<rparr>"

locale gorm_db =
  dom: gorm_table "g_domains G" t_domains put_domains D_ID created_Domain saved_Domain purge_domains +
  cert: gorm_table "g_certs G" t_certs put_certs C_ID
    created_DomainCertificate saved_DomainCertificate purge_certs +
  mbox: gorm_table "g_mailboxes G" t_mailboxes put_mailboxes M_ID
    created_Mailbox saved_Mailbox purge_mailboxes +
  msg: gorm_table "g_messages G" t_messages put_messages Msg_ID
    created_Message saved_Message purge_messages +
  att: gorm_table "g_attachments G" t_attachments put_attachments A_ID
    created_Attachment saved_Attachment purge_attachments
  for G :: gorm +
  assumes ListMailboxes_rows: "g_ListMailboxes G did lim off d = Inr ms \<Longrightarrow>
      0 \<le> lim \<Longrightarrow> 0 \<le> off \<Longrightarrow> m \<in> set ms \<Longrightarrow>
      \<exists>b \<in> set (t_mailboxes d). Mailbox.truncate m = b \<and> M_DomainID b = did
        \<and> UnreadCount m = unread_count d (M_ID b)"
    and ListMailboxes_page: "g_ListMailboxes G did lim off d = Inr ms \<Longrightarrow>
      0 \<le> lim \<Longrightarrow> 0 \<le> off \<Longrightarrow> int (length ms) \<le> lim"
    and ListMessages_rows: "g_ListMessages G mb lim off d = Inr its \<Longrightarrow>
      0 \<le> lim \<Longrightarrow> 0 \<le> off \<Longrightarrow> it \<in> set its \<Longrightarrow>
      \<exists>m \<in> set (t_messages d). it = list_item d m \<and> Msg_MailboxID m = mb"
    and ListMessages_page: "g_ListMessages G mb lim off d = Inr its \<Longrightarrow>
      0 \<le> lim \<Longrightarrow> 0 \<le> off \<Longrightarrow> int (length its) \<le> lim"
    and ListMessages_sorted: "g_ListMessages G mb lim off d = Inr its \<Longrightarrow>
      0 \<le> lim \<Longrightarrow> 0 \<le> off \<Longrightarrow> sorted_wrt (\<lambda>a b. MLI_ReceivedAt a \<ge> MLI_ReceivedAt b) its"
    and Transaction_commit: "g_Transaction G f d = (Inr x, d') \<Longrightarrow> f d = (Inr x, d')"
    and Transaction_rollback: "g_Transaction G f d = (Inl e, d') \<Longrightarrow> d' = d"


section \<open>An in-memory store\<close>

text \<open>
  A relational store over the same tables. It shows that the laws can hold, and it is the
  database of the concrete runs in the other theories: keys count up, \<open>t\<close> is the clock, and a
  write that breaks a key or a unique index is refused.
\<close>

definition next_id :: "('r \<Rightarrow> nat) \<Rightarrow> 'r list \<Rightarrow> nat" where
  "next_id rid rs = Suc (foldr (\<lambda>r m. max (rid r) m) rs 0)"

definition mem_write :: "'a \<Rightarrow> db \<Rightarrow> db \<Rightarrow> (gorm_error + 'a) \<times> db" where
  "mem_write x d' d = (if db_ok d' \<or> \<not> db_ok d then (Inr x, d')
     else (Inl (DBError ''duplicate key value violates unique constraint''), d))"

definition mem_table :: "(db \<Rightarrow> 'r list) \<Rightarrow> ('r list \<Rightarrow> db \<Rightarrow> db) \<Rightarrow> ('r \<Rightarrow> nat) \<Rightarrow>
    (nat \<Rightarrow> 'r \<Rightarrow> 'r) \<Rightarrow> ('r \<Rightarrow> 'r) \<Rightarrow> (('r \<Rightarrow> bool) \<Rightarrow> db \<Rightarrow> db) \<Rightarrow> 'r gorm_table_ops" where
  "mem_table rows put rid mk sv purge = \<lparr>
     g_Create = \<lambda>r d. let r' = mk (next_id rid (rows d)) r
       in mem_write r' (put (rows d @ [r']) d) d,
     g_First = \<lambda>P d. case find P (rows d) of None \<Rightarrow> Inl ErrRecordNotFound | Some r \<Rightarrow> Inr r,
     g_Find = \<lambda>P ordr d. Inr (filter P (rows d)),
     g_Count = \<lambda>P d. Inr (int (length (filter P (rows d)))),
     g_Save = \<lambda>r d. let r' = sv r; hit = length (filter (\<lambda>x. rid x = rid r) (rows d)) in
       if hit = 0 then mem_write (r', 1) (put (rows d @ [r']) d) d
       else mem_write (r', hit) (put (map (\<lambda>x. if rid x = rid r then r' else x) (rows d)) d) d,
     g_Update = \<lambda>P f d.
       (Inr (length (filter P (rows d))), put (map (\<lambda>x. if P x then f x else x) (rows d)) d),
     g_Delete = \<lambda>P d. (Inr (length (filter P (rows d))), purge P d)\<rparr>"

lemma next_id_fresh: "next_id rid rs \<notin> rid ` set rs"
proof -
  have "rid r \<le> foldr (\<lambda>r m. max (rid r) m) rs 0" if "r \<in> set rs" for r
    using that by (induction rs) auto
  then show ?thesis by (fastforce simp: next_id_def)
qed

lemma mem_write_cases:
  "mem_write x d' d = (Inr y, e) \<Longrightarrow> y = x \<and> e = d' \<and> (db_ok d \<longrightarrow> db_ok e)"
  "mem_write x d' d = (Inl er, e) \<Longrightarrow> e = d"
  by (auto simp: mem_write_def split: if_splits)

lemma mem_table_gorm_table:
  assumes mk: "\<And>n r. created r (mk n r)" "\<And>n r. rid (mk n r) = n" and sv: "\<And>r. saved r (sv r)"
  shows "gorm_table (mem_table rows put rid mk sv purge) rows put rid created saved purge"
proof
  fix r d r' d'
  assume "g_Create (mem_table rows put rid mk sv purge) r d = (Inr r', d')"
  then show "created r r' \<and> d' = put (rows d @ [r']) d \<and> rid r' \<noteq> 0 \<and> rid r' \<notin> rid ` set (rows d)"
    using mk next_id_fresh [of rid "rows d"]
    by (auto simp: mem_table_def Let_def next_id_def dest: mem_write_cases)
next
  fix r d r' n d' x
  assume "g_Save (mem_table rows put rid mk sv purge) r d = (Inr (r', n), d')"
    "x \<in> set (rows d)" "rid x = rid r"
  moreover from this have "filter (\<lambda>x. rid x = rid r) (rows d) \<noteq> []"
    by (auto simp: filter_empty_conv)
  ultimately show "saved r r' \<and> n \<noteq> 0 \<and> d' = put (map (\<lambda>x. if rid x = rid r then r' else x) (rows d)) d"
    using sv by (auto simp: mem_table_def Let_def dest: mem_write_cases)
qed (auto simp: mem_table_def Let_def find_Some_iff find_None_iff
       split: option.splits if_splits dest: mem_write_cases)

definition mem_gorm :: "time \<Rightarrow> gorm" where
  "mem_gorm t = \<lparr>
     g_domains = mem_table t_domains put_domains D_ID
       (\<lambda>n r. r\<lparr>D_ID := n, D_CreatedAt := t, D_UpdatedAt := t,
          D_Status := (if D_Status r = RawStatus [] then StatusPendingDNS else D_Status r)\<rparr>)
       (\<lambda>r. r\<lparr>D_UpdatedAt := t\<rparr>) purge_domains,
     g_certs = mem_table t_certs put_certs C_ID
       (\<lambda>n r. r\<lparr>C_ID := n, C_CreatedAt := t, C_UpdatedAt := t, C_AutoRenew := True\<rparr>)
       (\<lambda>r. r\<lparr>C_UpdatedAt := t\<rparr>) purge_certs,
     g_mailboxes = mem_table t_mailboxes put_mailboxes M_ID
       (\<lambda>n r. r\<lparr>M_ID := n, M_CreatedAt := t\<rparr>) (\<lambda>r. r) purge_mailboxes,
     g_messages = mem_table t_messages put_messages Msg_ID
       (\<lambda>n r. r\<lparr>Msg_ID := n, Msg_ReceivedAt := t\<rparr>) (\<lambda>r. r) purge_messages,
     g_attachments = mem_table t_attachments put_attachments A_ID
       (\<lambda>n r. r\<lparr>A_ID := n\<rparr>) (\<lambda>r. r) purge_attachments,
     g_ListMailboxes = \<lambda>did lim off d. Inr (take (nat lim) (drop (nat off)
       (map (\<lambda>b. Mailbox.extend b \<lparr>UnreadCount = unread_count d (M_ID b)\<rparr>)
         (filter (\<lambda>b. M_DomainID b = did) (t_mailboxes d))))),
     g_ListMessages = \<lambda>mb lim off d. Inr (take (nat lim) (drop (nat off)
       (sort_key (\<lambda>i. - MLI_ReceivedAt i)
         (map (list_item d) (filter (\<lambda>m. Msg_MailboxID m = mb) (t_messages d)))))),
     g_Transaction = \<lambda>f d. (case f d of (Inr x, d') \<Rightarrow> (Inr x, d') | (Inl e, d') \<Rightarrow> (Inl e, d))\<rparr>"

lemma sorted_wrt_take_drop: "sorted_wrt R xs \<Longrightarrow> sorted_wrt R (take n (drop m xs))"
  by (simp add: sorted_wrt_take sorted_wrt_drop)

lemma Mailbox_extend [simp]:
  "Mailbox.truncate (Mailbox.extend b x) = (b :: Mailbox)"
  "UnreadCount (Mailbox.extend b \<lparr>UnreadCount = u\<rparr>) = u"
  by (simp_all add: Mailbox.defs)

interpretation mem: gorm_db "mem_gorm t"
proof (intro gorm_db.intro gorm_db_axioms.intro)
  fix mb lim off d its
  assume "g_ListMessages (mem_gorm t) mb lim off d = Inr its"
  then have its: "its = take (nat lim) (drop (nat off) (sort_key (\<lambda>i. - MLI_ReceivedAt i)
      (map (list_item d) (filter (\<lambda>m. Msg_MailboxID m = mb) (t_messages d)))))"
    by (simp add: mem_gorm_def)
  have "sorted_wrt (\<lambda>a b. - MLI_ReceivedAt a \<le> - MLI_ReceivedAt b)
     (sort_key (\<lambda>i. - MLI_ReceivedAt i)
        (map (list_item d) (filter (\<lambda>m. Msg_MailboxID m = mb) (t_messages d))))"
    by (rule sorted_sort_key [unfolded sorted_map])
  then show "sorted_wrt (\<lambda>a b. MLI_ReceivedAt a \<ge> MLI_ReceivedAt b) its"
    unfolding its by (intro sorted_wrt_take_drop) simp
qed (auto simp: mem_gorm_def created_Domain_def saved_Domain_def created_DomainCertificate_def
      saved_DomainCertificate_def created_Mailbox_def saved_Mailbox_def created_Message_def
      saved_Message_def created_Attachment_def saved_Attachment_def
      intro!: mem_table_gorm_table split: prod.splits sum.splits
      dest!: in_set_takeD in_set_dropD)

end
