(* ===== verification/OsFiles.thy ===== *)
theory OsFiles
  imports AppErrors
begin

text \<open>
  The parts of Go's \<^verbatim>\<open>path/filepath\<close> (Unix), \<^verbatim>\<open>os\<close>, \<^verbatim>\<open>io\<close> and of
  \<^verbatim>\<open>google/uuid\<close> that the program uses. A path names the file at its cleaned absolute
  component list (no symbolic links). Every call of the operating system may fail: the field
  \<open>os_fault\<close> says which ones do, and no lemma restricts it unless it says so. Readers
  (\<^verbatim>\<open>io.Reader\<close>) are references into \<open>os_readers\<close>, which holds the bytes still
  unread, since reading one consumes it.
\<close>

section \<open>Package path/filepath\<close>

definition IsAbs :: "string \<Rightarrow> bool" where
  "IsAbs p = HasPrefix p ''/''"

text \<open>One path element pushed on the (reversed) stack of elements kept so far.\<close>

definition clean_push :: "bool \<Rightarrow> string \<Rightarrow> string list \<Rightarrow> string list" where
  "clean_push rooted c st =
     (if c = [] \<or> c = ''.'' then st
      else if c = ''..'' then
        (case st of [] \<Rightarrow> if rooted then [] else [''..'']
         | t # ts \<Rightarrow> if t = ''..'' then ''..'' # st else ts)
      else c # st)"

definition clean_comps :: "bool \<Rightarrow> string \<Rightarrow> string list" where
  "clean_comps rooted p = rev (fold (clean_push rooted) (Split CHR ''/'' p) [])"

definition Clean :: "string \<Rightarrow> string" where
  "Clean p =
     (if p = [] then ''.''
      else if IsAbs p then ''/'' @ Join (clean_comps True p) ''/''
      else if clean_comps False p = [] then ''.''
      else Join (clean_comps False p) ''/'')"

fun FJoin :: "string list \<Rightarrow> string" where
  "FJoin [] = []"
| "FJoin (e # es) = (if e \<noteq> [] then Clean (Join (e # es) ''/'') else FJoin es)"

text \<open>\<^verbatim>\<open>filepath.Ext\<close>: the suffix from the last dot of the last path element.\<close>

definition Ext :: "string \<Rightarrow> string" where
  "Ext p = (let t = rev (takeWhile (\<lambda>c. c \<noteq> CHR ''/'') (rev p)) in
     if CHR ''.'' \<in> set t then CHR ''.'' # rev (takeWhile (\<lambda>c. c \<noteq> CHR ''.'') (rev t)) else [])"

section \<open>The operating system\<close>

type_synonym key = "string list"

datatype os_call =
    GetwdCall | MkdirAllCall key | CreateCall key | WriteCall key | OpenCall key | ReadCall key
  | RemoveCall key | StatCall key | ChmodCall key

record osenv =
  os_wd :: string
  os_table :: "(key \<times> bytes) list"
  os_dirs :: "key list"
  os_fault :: "os_call \<Rightarrow> string option"
  os_written :: "key \<Rightarrow> nat"
  os_uuid :: "nat \<Rightarrow> string"
  os_next :: nat
  os_readers :: "nat \<Rightarrow> bytes"
  os_rnext :: nat

abbreviation os_files :: "osenv \<Rightarrow> key \<rightharpoonup> bytes" where
  "os_files w \<equiv> map_of (os_table w)"

datatype os_error = NotExist string | OsError string

fun os_goerror :: "os_error \<Rightarrow> goerror" where
  "os_goerror (NotExist t) = Opaque t"
| "os_goerror (OsError t) = Opaque t"

fun IsNotExist :: "os_error \<Rightarrow> bool" where
  "IsNotExist (NotExist t) = True"
| "IsNotExist (OsError t) = False"

definition abs_path :: "osenv \<Rightarrow> string \<Rightarrow> string" where
  "abs_path w p = (if IsAbs p then p else os_wd w @ ''/'' @ p)"

definition fkey :: "osenv \<Rightarrow> string \<Rightarrow> key" where
  "fkey w p = clean_comps True (abs_path w p)"

definition Abs :: "osenv \<Rightarrow> string \<Rightarrow> goerror + string" where
  "Abs w p =
     (if IsAbs p then Inr (Clean p)
      else case os_fault w GetwdCall of
        Some t \<Rightarrow> Inl (Opaque t)
      | None \<Rightarrow> Inr (FJoin [os_wd w, p]))"

text \<open>Every path handed to the kernel must be free of NUL bytes.\<close>

definition os_check :: "osenv \<Rightarrow> string \<Rightarrow> os_call \<Rightarrow> os_error option" where
  "os_check w p c =
     (if CHR 0x00 \<in> set p then Some (OsError ''invalid argument'')
      else map_option OsError (os_fault w c))"

fun prefixes_of :: "key \<Rightarrow> key list" where
  "prefixes_of [] = [[]]"
| "prefixes_of (c # cs) = [] # map ((#) c) (prefixes_of cs)"

definition os_MkdirAll :: "string \<Rightarrow> osenv \<Rightarrow> (os_error + unit) \<times> osenv" where
  "os_MkdirAll p w =
     (case os_check w p (MkdirAllCall (fkey w p)) of
        Some e \<Rightarrow> (Inl e, w)
      | None \<Rightarrow>
          if list_ex (\<lambda>q. os_files w q \<noteq> None) (prefixes_of (fkey w p))
          then (Inl (OsError ''not a directory''), w)
          else (Inr (), w\<lparr>os_dirs := prefixes_of (fkey w p) @ os_dirs w\<rparr>))"

text \<open>\<^verbatim>\<open>os.Create\<close> truncates or creates; the result is the open file, named by its key.\<close>

definition os_Create :: "string \<Rightarrow> osenv \<Rightarrow> (os_error + key) \<times> osenv" where
  "os_Create p w =
     (let k = fkey w p in
      case os_check w p (CreateCall k) of
        Some e \<Rightarrow> (Inl e, w)
      | None \<Rightarrow>
          if k \<in> set (os_dirs w) then (Inl (OsError ''is a directory''), w)
          else if butlast k \<notin> set (os_dirs w) then (Inl (NotExist ''no such file or directory''), w)
          else (Inr k, w\<lparr>os_table := (k, []) # os_table w\<rparr>))"

definition os_WriteAll :: "key \<Rightarrow> bytes \<Rightarrow> osenv \<Rightarrow> (os_error + nat) \<times> osenv" where
  "os_WriteAll k b w =
     (case os_fault w (WriteCall k) of
        Some t \<Rightarrow> (Inl (OsError t), w\<lparr>os_table := (k, take (os_written w k) b) # os_table w\<rparr>)
      | None \<Rightarrow> (Inr (length b), w\<lparr>os_table := (k, b) # os_table w\<rparr>))"

text \<open>
  \<^verbatim>\<open>io.Copy\<close> from a \<^verbatim>\<open>bytes.Reader\<close>: one write of the unread bytes, after which
  the reader has advanced by the number of bytes written.
\<close>

definition io_Copy :: "key \<Rightarrow> nat \<Rightarrow> osenv \<Rightarrow> (os_error + nat) \<times> osenv" where
  "io_Copy k r w =
     (case os_WriteAll k (os_readers w r) w of
        (Inl e, w') \<Rightarrow>
          (Inl e, w'\<lparr>os_readers := (os_readers w')(r := drop (os_written w k) (os_readers w r))\<rparr>)
      | (Inr n, w') \<Rightarrow> (Inr n, w'\<lparr>os_readers := (os_readers w')(r := [])\<rparr>))"

datatype os_file = OpenFile bytes | OpenDir

definition os_Open :: "string \<Rightarrow> osenv \<Rightarrow> os_error + os_file" where
  "os_Open p w =
     (case os_check w p (OpenCall (fkey w p)) of
        Some e \<Rightarrow> Inl e
      | None \<Rightarrow>
         (case os_files w (fkey w p) of
            Some b \<Rightarrow> Inr (OpenFile b)
          | None \<Rightarrow> if fkey w p \<in> set (os_dirs w) then Inr OpenDir
                    else Inl (NotExist ''no such file or directory'')))"

text \<open>\<^verbatim>\<open>os.Remove\<close> removes a file or an empty directory.\<close>

definition os_Remove :: "string \<Rightarrow> osenv \<Rightarrow> (os_error + unit) \<times> osenv" where
  "os_Remove p w =
     (let k = fkey w p in
      case os_check w p (RemoveCall k) of
        Some e \<Rightarrow> (Inl e, w)
      | None \<Rightarrow>
          if os_files w k \<noteq> None then (Inr (), w\<lparr>os_table := filter (\<lambda>(q, b). q \<noteq> k) (os_table w)\<rparr>)
          else if k \<notin> set (os_dirs w) then (Inl (NotExist ''no such file or directory''), w)
          else if list_ex (\<lambda>q. q \<noteq> [] \<and> butlast q = k) (map fst (os_table w) @ os_dirs w)
          then (Inl (OsError ''directory not empty''), w)
          else (Inr (), w\<lparr>os_dirs := removeAll k (os_dirs w)\<rparr>))"

text \<open>\<^verbatim>\<open>os.WriteFile\<close> and \<^verbatim>\<open>os.ReadFile\<close>, whole files at once.\<close>

definition os_WriteFile :: "string \<Rightarrow> bytes \<Rightarrow> osenv \<Rightarrow> (os_error + unit) \<times> osenv" where
  "os_WriteFile p b w =
     (case os_Create p w of
        (Inl e, w1) \<Rightarrow> (Inl e, w1)
      | (Inr k, w1) \<Rightarrow>
         (case os_WriteAll k b w1 of (Inl e, w2) \<Rightarrow> (Inl e, w2) | (Inr n, w2) \<Rightarrow> (Inr (), w2)))"

definition os_ReadFile :: "string \<Rightarrow> osenv \<Rightarrow> os_error + bytes" where
  "os_ReadFile p w =
     (case os_Open p w of
        Inl e \<Rightarrow> Inl e
      | Inr OpenDir \<Rightarrow> Inl (OsError ''is a directory'')
      | Inr (OpenFile b) \<Rightarrow>
         (case os_fault w (ReadCall (fkey w p)) of Some t \<Rightarrow> Inl (OsError t) | None \<Rightarrow> Inr b))"

definition os_Stat :: "string \<Rightarrow> osenv \<Rightarrow> os_error + unit" where
  "os_Stat p w =
     (case os_check w p (StatCall (fkey w p)) of
        Some e \<Rightarrow> Inl e
      | None \<Rightarrow> if os_files w (fkey w p) \<noteq> None \<or> fkey w p \<in> set (os_dirs w) then Inr ()
                else Inl (NotExist ''no such file or directory''))"

text \<open>Permission bits are not part of the model: \<^verbatim>\<open>os.Chmod\<close> may only fail.\<close>

definition os_Chmod :: "string \<Rightarrow> osenv \<Rightarrow> os_error + unit" where
  "os_Chmod p w =
     (case os_check w p (ChmodCall (fkey w p)) of
        Some e \<Rightarrow> Inl e
      | None \<Rightarrow> if os_files w (fkey w p) \<noteq> None \<or> fkey w p \<in> set (os_dirs w) then Inr ()
                else Inl (NotExist ''no such file or directory''))"

definition below :: "key \<Rightarrow> key \<Rightarrow> bool" where
  "below k q = (take (length k) q = k)"

definition os_RemoveAll :: "string \<Rightarrow> osenv \<Rightarrow> (os_error + unit) \<times> osenv" where
  "os_RemoveAll p w =
     (let k = fkey w p in
      case os_check w p (RemoveCall k) of
        Some e \<Rightarrow> (Inl e, w)
      | None \<Rightarrow> (Inr (), w\<lparr>os_table := filter (\<lambda>(q, b). \<not> below k q) (os_table w),
                 os_dirs := filter (\<lambda>q. \<not> below k q) (os_dirs w)\<rparr>))"

text \<open>\<^verbatim>\<open>uuid.New().String()\<close> takes the next value of the generator.\<close>

definition uuid_New :: "osenv \<Rightarrow> string \<times> osenv" where
  "uuid_New w = (os_uuid w (os_next w), w\<lparr>os_next := Suc (os_next w)\<rparr>)"

text \<open>\<^verbatim>\<open>bytes.NewReader\<close> allocates a reader at the start of its bytes.\<close>

definition bytes_NewReader :: "bytes \<Rightarrow> osenv \<Rightarrow> nat \<times> osenv" where
  "bytes_NewReader b w = (os_rnext w,
     w\<lparr>os_readers := (os_readers w)(os_rnext w := b), os_rnext := Suc (os_rnext w)\<rparr>)"

section \<open>Facts about paths\<close>

lemma map_of_filter_key [simp]: "map_of (filter (\<lambda>(q, b). q \<noteq> k) t) = (map_of t)(k := None)"
  by (induction t) auto

lemma Split_append: "Split c (u @ c # v) = Split c u @ Split c v"
  by (induction u) (auto split: list.splits)

lemma Split_Join:
  "cs \<noteq> [] \<Longrightarrow> (\<And>w. w \<in> set cs \<Longrightarrow> c \<notin> set w) \<Longrightarrow> Split c (Join cs [c]) = cs"
proof (induction cs)
  case (Cons w cs)
  then show ?case
    by (cases "cs = []") (auto simp: Join_Cons Split_append_sep Split_no_sep)
qed simp

lemma Join_append:
  "us \<noteq> [] \<Longrightarrow> vs \<noteq> [] \<Longrightarrow> Join (us @ vs) sep = Join us sep @ sep @ Join vs sep"
proof (induction us)
  case (Cons u us)
  then show ?case by (cases "us = []") (auto simp: Join_Cons)
qed simp

text \<open>The elements a clean path may have.\<close>

definition path_name :: "string \<Rightarrow> bool" where
  "path_name c \<longleftrightarrow> c \<noteq> [] \<and> c \<noteq> ''.'' \<and> CHR ''/'' \<notin> set c"

lemma clean_push_names:
  assumes "CHR ''/'' \<notin> set c" "\<forall>d \<in> set st. path_name d"
  shows "\<forall>d \<in> set (clean_push rooted c st). path_name d"
proof -
  have "path_name ''..''" by (simp add: path_name_def)
  moreover have "c \<noteq> [] \<Longrightarrow> c \<noteq> ''.'' \<Longrightarrow> path_name c" using assms(1) by (simp add: path_name_def)
  ultimately show ?thesis using assms(2) by (cases st) (auto simp: clean_push_def)
qed

lemma fold_push_names:
  "\<forall>c \<in> set cs. CHR ''/'' \<notin> set c \<Longrightarrow> \<forall>d \<in> set st. path_name d \<Longrightarrow>
   \<forall>d \<in> set (fold (clean_push rooted) cs st). path_name d"
proof (induction cs arbitrary: st)
  case (Cons c cs)
  then have "\<forall>d \<in> set (clean_push rooted c st). path_name d"
    by (intro clean_push_names) simp_all
  with Cons show ?case by simp
qed simp

lemma Split_slash: "\<forall>c \<in> set (Split CHR ''/'' p). CHR ''/'' \<notin> set c"
  by (blast dest: Split_sep)

lemma clean_comps_names: "\<forall>d \<in> set (clean_comps rooted p). path_name d"
  unfolding clean_comps_def set_rev by (intro fold_push_names Split_slash) simp

lemma clean_push_no_dotdot: "''..'' \<notin> set st \<Longrightarrow> ''..'' \<notin> set (clean_push True c st)"
  by (cases st) (auto simp: clean_push_def)

lemma fold_push_no_dotdot:
  "''..'' \<notin> set st \<Longrightarrow> ''..'' \<notin> set (fold (clean_push True) cs st)"
proof (induction cs arbitrary: st)
  case (Cons c cs)
  show ?case unfolding fold_Cons comp_apply
    by (intro Cons.IH clean_push_no_dotdot Cons.prems)
qed simp

lemma rooted_no_dotdot: "''..'' \<notin> set (clean_comps True p)"
  unfolding clean_comps_def set_rev by (intro fold_push_no_dotdot) simp

lemma clean_push_plain: "path_name c \<Longrightarrow> c \<noteq> ''..'' \<Longrightarrow> clean_push b c st = c # st"
  by (simp add: clean_push_def path_name_def)

lemma fold_push_plain:
  "\<forall>c \<in> set cs. path_name c \<Longrightarrow> ''..'' \<notin> set cs \<Longrightarrow> fold (clean_push b) cs st = rev cs @ st"
proof (induction cs arbitrary: st)
  case (Cons c cs)
  then have "clean_push b c st = c # st" by (intro clean_push_plain) auto
  with Cons show ?case by simp
qed simp

text \<open>Cleaning a relative path first makes no difference to where it leads from a directory.\<close>

lemma push_dotdot_name: "t \<noteq> ''..'' \<Longrightarrow> path_name t \<Longrightarrow>
    clean_push True ''..'' (clean_push True t st) = st"
  by (simp add: clean_push_def path_name_def)

lemma push_after_clean:
  assumes "\<forall>d \<in> set r. path_name d"
  shows "fold (clean_push True) (rev (clean_push False c r)) st
       = clean_push True c (fold (clean_push True) (rev r) st)"
proof (cases "c = ''..''")
  case True
  show ?thesis
  proof (cases r)
    case Nil
    with True show ?thesis by (simp add: clean_push_def)
  next
    case (Cons t ts)
    have "clean_push False ''..'' (t # ts) = (if t = ''..'' then ''..'' # t # ts else ts)"
      by (simp add: clean_push_def)
    with True Cons assms show ?thesis by (simp add: push_dotdot_name)
  qed
qed (simp add: clean_push_def)

lemma fold_after_clean:
  "\<forall>c \<in> set cs. CHR ''/'' \<notin> set c \<Longrightarrow> \<forall>d \<in> set r. path_name d \<Longrightarrow>
   fold (clean_push True) (rev (fold (clean_push False) cs r)) st
     = fold (clean_push True) cs (fold (clean_push True) (rev r) st)"
proof (induction cs arbitrary: r)
  case (Cons c cs)
  then have "\<forall>d \<in> set (clean_push False c r). path_name d"
    by (intro clean_push_names) simp_all
  with Cons push_after_clean [of r c] show ?case by simp
qed simp

lemma fold_clean_comps_rel:
  "fold (clean_push True) (clean_comps False p) st = fold (clean_push True) (Split CHR ''/'' p) st"
  unfolding clean_comps_def
  using fold_after_clean [of "Split CHR ''/'' p" "[]" st] Split_slash by simp


lemma clean_comps_slash:
  "clean_comps b (u @ ''/'' @ v)
     = rev (fold (clean_push b) (Split CHR ''/'' v) (rev (clean_comps b u)))"
  by (simp add: clean_comps_def Split_append)

lemma clean_comps_Join:
  assumes "\<forall>c \<in> set cs. path_name c" "''..'' \<notin> set cs"
  shows "clean_comps b (Join cs ''/'') = cs"
proof (cases "cs = []")
  case True
  then show ?thesis by (simp add: clean_comps_def clean_push_def)
next
  case False
  with assms have "Split CHR ''/'' (Join cs ''/'') = cs"
    by (intro Split_Join) (auto simp: path_name_def)
  with assms show ?thesis by (simp add: clean_comps_def fold_push_plain)
qed

lemma clean_comps_lead [simp]: "clean_comps b (CHR ''/'' # p) = clean_comps b p"
  by (simp add: clean_comps_def clean_push_def)

lemma Split_Join_rel:
  "clean_comps b p \<noteq> [] \<Longrightarrow> Split CHR ''/'' (Join (clean_comps b p) ''/'') = clean_comps b p"
  using clean_comps_names [of b p] by (intro Split_Join) (auto simp: path_name_def)

lemma IsAbs_Cons [simp]: "IsAbs (CHR ''/'' # p)"
  by (simp add: IsAbs_def)

lemma IsAbs_append: "p \<noteq> [] \<Longrightarrow> IsAbs (p @ q) = IsAbs p"
  by (cases p) (simp_all add: IsAbs_def)

lemma Join_clean_rel:
  assumes "clean_comps False p \<noteq> []"
  shows "\<not> IsAbs (Join (clean_comps False p) ''/'')"
proof -
  obtain d ds where d: "clean_comps False p = d # ds" using assms by (cases "clean_comps False p") auto
  with clean_comps_names [of False p] have "path_name d" by simp
  then obtain c e where "d = c # e" "c \<noteq> CHR ''/''" by (cases d) (auto simp: path_name_def)
  with d show ?thesis by (cases ds) (auto simp: IsAbs_def)
qed

lemma fold_push_dot [simp]: "fold (clean_push b) (Split CHR ''/'' ''.'') st = st"
  by (simp add: clean_push_def)

lemma fkey_rel:
  "\<not> IsAbs p \<Longrightarrow> fkey w p = rev (fold (clean_push True) (Split CHR ''/'' p)
     (rev (clean_comps True (os_wd w))))"
  by (simp add: fkey_def abs_path_def clean_comps_slash [simplified])

lemma fkey_Clean [simp]: "fkey w (Clean p) = fkey w p"
proof (cases "p = [] \<or> IsAbs p")
  case True
  then show ?thesis
  proof
    assume "p = []"
    then show ?thesis
      by (simp add: Clean_def fkey_rel IsAbs_def) (simp add: clean_push_def)
  next
    assume "IsAbs p"
    moreover from this have "p \<noteq> []" by (auto simp: IsAbs_def)
    ultimately show ?thesis
      using clean_comps_Join [OF clean_comps_names rooted_no_dotdot]
      by (simp add: Clean_def fkey_def abs_path_def)
  qed
next
  case False
  then have p: "p \<noteq> []" "\<not> IsAbs p" by auto
  show ?thesis
  proof (cases "clean_comps False p = []")
    case True
    have "fold (clean_push True) (Split CHR ''/'' p) st = st" for st
      using fold_clean_comps_rel [of p st] True by simp
    moreover have "\<not> IsAbs ''.''" by (simp add: IsAbs_def)
    ultimately show ?thesis using p True by (simp add: Clean_def fkey_rel del: Split.simps)
  next
    case False
    then show ?thesis
      using p Join_clean_rel [OF False] Split_Join_rel [OF False]
      by (simp add: Clean_def fkey_rel fold_clean_comps_rel)
  qed
qed

lemma fkey_names: "\<forall>d \<in> set (fkey w p). path_name d \<and> d \<noteq> ''..''"
  unfolding fkey_def using clean_comps_names rooted_no_dotdot by metis

text \<open>\<^verbatim>\<open>filepath.Abs\<close> returns the textual form of the key.\<close>

definition key_path :: "key \<Rightarrow> string" where
  "key_path k = ''/'' @ Join k ''/''"

lemma Abs_key:
  assumes "IsAbs (os_wd w)" "Abs w p = Inr q"
  shows "q = key_path (fkey w p)"
proof (cases "IsAbs p")
  case True
  moreover from this have "p \<noteq> []" by (auto simp: IsAbs_def)
  ultimately show ?thesis
    using assms(2) by (auto simp: Abs_def Clean_def fkey_def abs_path_def key_path_def)
next
  case False
  have wd: "os_wd w \<noteq> []" using assms(1) by (auto simp: IsAbs_def)
  then have "IsAbs (os_wd w @ ''/'' @ p)" using assms(1) by (simp add: IsAbs_append)
  with False wd assms(2) show ?thesis
    by (auto simp: Abs_def Clean_def fkey_def abs_path_def key_path_def split: option.splits)
qed

lemma fkey_key_path: "fkey w (key_path (fkey w p)) = fkey w p"
  using clean_comps_Join [of "fkey w p" True] fkey_names [of w p]
  by (auto simp: fkey_def abs_path_def key_path_def)

lemma fkey_FJoin:
  assumes "\<not> IsAbs b"
  shows "fkey w (FJoin [a, b])
       = rev (fold (clean_push True) (Split CHR ''/'' b) (rev (fkey w a)))"
proof (cases "a = []")
  case True
  have "fkey w [] = clean_comps True (os_wd w)"
    by (simp add: fkey_rel IsAbs_def) (simp add: clean_push_def)
  with True assms show ?thesis by (cases "b = []") (auto simp: fkey_rel)
next
  case False
  then have j: "fkey w (FJoin [a, b]) = fkey w (a @ ''/'' @ b)" by simp
  show ?thesis
  proof (cases "IsAbs a")
    case True
    then have "IsAbs (a @ ''/'' @ b)" using False by (simp add: IsAbs_append)
    with True show ?thesis
      unfolding j using clean_comps_slash [of True a b] by (simp add: fkey_def abs_path_def)
  next
    case rel: False
    then have "\<not> IsAbs (a @ ''/'' @ b)" using False by (simp add: IsAbs_append)
    with rel False show ?thesis by (simp add: fkey_rel Split_append)
  qed
qed

lemma fkey_slash:
  assumes "p \<noteq> []"
  shows "fkey w (p @ ''/'' @ c) = rev (fold (clean_push True) (Split CHR ''/'' c) (rev (fkey w p)))"
proof (cases "IsAbs p")
  case True
  then have "IsAbs (p @ ''/'' @ c)" using assms by (simp add: IsAbs_append)
  with True show ?thesis
    using clean_comps_slash [of True p c] by (simp add: fkey_def abs_path_def)
next
  case False
  then have "\<not> IsAbs (p @ ''/'' @ c)" using assms by (simp add: IsAbs_append)
  with False show ?thesis by (simp add: fkey_rel Split_append)
qed

lemma fkey_FJoin_file:
  assumes "p \<noteq> []" "path_name c" "c \<noteq> ''..''"
  shows "fkey w (FJoin [p, c]) = fkey w p @ [c]"
proof -
  have "fkey w (FJoin [p, c]) = fkey w (p @ ''/'' @ c)" using assms(1) by simp
  moreover have "Split CHR ''/'' c = [c]" using assms(2) by (intro Split_no_sep) (simp add: path_name_def)
  ultimately show ?thesis unfolding fkey_slash [OF assms(1)] by (simp add: clean_push_plain assms(2,3))
qed

lemma fkey_FJoin3:
  assumes "a \<noteq> []" "path_name c" "c \<noteq> ''..''"
  shows "fkey w (FJoin [a, b, c]) = fkey w (FJoin [a, b]) @ [c]"
proof -
  have "fkey w (FJoin [a, b, c]) = fkey w ((a @ ''/'' @ b) @ ''/'' @ c)" using assms(1) by simp
  also have "\<dots> = fkey w (a @ ''/'' @ b) @ [c]"
    using fkey_slash [of "a @ ''/'' @ b" w c] assms Split_no_sep [of "CHR ''/''" c]
    by (simp add: clean_push_plain path_name_def)
  also have "fkey w (a @ ''/'' @ b) = fkey w (FJoin [a, b])" using assms(1) by simp
  finally show ?thesis .
qed

lemma Clean_neq_Nil: "Clean p \<noteq> []"
proof -
  have "Join cs ''/'' \<noteq> []" if "cs \<noteq> []" "\<forall>c \<in> set cs. path_name c" for cs
    using that by (subst Join_eq_Nil_words) (auto simp: path_name_def)
  with clean_comps_names [of False p] show ?thesis by (simp add: Clean_def)
qed

lemma key_path_append:
  "k \<noteq> [] \<Longrightarrow> l \<noteq> [] \<Longrightarrow> key_path (k @ l) = key_path k @ ''/'' @ Join l ''/''"
  by (simp add: key_path_def Join_append)

lemma key_path_no_dotdot:
  assumes "key_path (fkey w p) = u @ ''/'' @ v"
  shows "''..'' \<notin> set (Split CHR ''/'' v)"
proof -
  have "Split CHR ''/'' (key_path (fkey w p)) = Split CHR ''/'' u @ Split CHR ''/'' v"
    unfolding assms by (simp add: Split_append)
  moreover have "''..'' \<notin> set (Split CHR ''/'' (key_path (fkey w p)))"
  proof (cases "fkey w p = []")
    case False
    then have "Split CHR ''/'' (Join (fkey w p) ''/'') = fkey w p"
      using fkey_names [of w p] by (intro Split_Join) (auto simp: path_name_def)
    with fkey_names [of w p] show ?thesis by (auto simp: key_path_def)
  qed (simp add: key_path_def)
  ultimately show ?thesis by simp
qed

declare FJoin.simps [simp del]

end
