(* ===== verification/FileStore.thy ===== *)
theory FileStore
  imports OsFiles
begin

text \<open>
  \<^verbatim>\<open>internal/storage/file_storage.go\<close>: the attachment store on the local file system,
  its path-traversal guard, and the contract \<open>file_storage\<close> that the repositories and the
  SMTP session rely on.
\<close>

section \<open>The FileStorage interface\<close>

record FileStorage =
  fs_Save :: "string \<Rightarrow> nat \<Rightarrow> osenv \<Rightarrow> (goerror + string) \<times> osenv"
  fs_Get :: "string \<Rightarrow> osenv \<Rightarrow> goerror + os_file"
  fs_Delete :: "string \<Rightarrow> osenv \<Rightarrow> (goerror + unit) \<times> osenv"

section \<open>localStorage\<close>

definition MaxFileSize :: int where
  "MaxFileSize = 25 * 1024 * 1024"

definition BlockedExtensions :: "string list" where
  "BlockedExtensions = [''.exe'', ''.bat'', ''.cmd'', ''.com'', ''.pif'', ''.scr'', ''.vbs'', ''.js'',
     ''.jar'', ''.ps1'', ''.sh'', ''.bash'', ''.msi'', ''.dll'', ''.sys'']"

definition validatePath :: "string \<Rightarrow> osenv \<Rightarrow> string \<Rightarrow> goerror + string" where
  "validatePath basePath w filePath =
     (let cleanPath = Clean filePath in
      if IsAbs cleanPath then Inl (Sentinel ErrPathTraversal)
      else if Contains cleanPath ''..'' then Inl (Sentinel ErrPathTraversal)
      else
        let fullPath = FJoin [basePath, cleanPath] in
        case Abs w fullPath of
          Inl e \<Rightarrow> Inl (Wrapf ''invalid file path'' e)
        | Inr absPath \<Rightarrow>
           (case Abs w basePath of
              Inl e \<Rightarrow> Inl (Wrapf ''invalid base path'' e)
            | Inr absBase \<Rightarrow>
                if \<not> HasPrefix absPath (absBase @ ''/'') \<and> absPath \<noteq> absBase
                then Inl (Sentinel ErrPathTraversal)
                else Inr absPath))"

definition ValidateFile :: "string \<Rightarrow> int \<Rightarrow> goerror + unit" where
  "ValidateFile filename sz =
     (let ext = ToLower (Ext filename) in
      if ext \<in> set BlockedExtensions then Inl (Sentinel ErrBlockedExt)
      else if sz > MaxFileSize then Inl (Sentinel ErrFileTooLarge)
      else Inr ())"

definition localStorage_Save :: "string \<Rightarrow> string \<Rightarrow> nat \<Rightarrow> osenv \<Rightarrow> (goerror + string) \<times> osenv" where
  "localStorage_Save basePath filename content w =
     (let ext = Ext filename;
          (u, w1) = uuid_New w;
          uniqueName = u @ ext;
          subDir = take 2 uniqueName;
          dirPath = FJoin [basePath, subDir] in
      case os_MkdirAll dirPath w1 of
        (Inl e, w2) \<Rightarrow> (Inl (Wrapf ''failed to create subdirectory'' (os_goerror e)), w2)
      | (Inr _, w2) \<Rightarrow>
         (let filePath = FJoin [subDir, uniqueName];
              fullPath = FJoin [basePath, filePath] in
          case os_Create fullPath w2 of
            (Inl e, w3) \<Rightarrow> (Inl (Wrapf ''failed to create file'' (os_goerror e)), w3)
          | (Inr file, w3) \<Rightarrow>
             (case io_Copy file content w3 of
                (Inl e, w4) \<Rightarrow>
                  (Inl (Wrapf ''failed to write file'' (os_goerror e)), snd (os_Remove fullPath w4))
              | (Inr _, w4) \<Rightarrow> (Inr filePath, w4))))"

definition localStorage_Get :: "string \<Rightarrow> string \<Rightarrow> osenv \<Rightarrow> goerror + os_file" where
  "localStorage_Get basePath filePath w =
     (case validatePath basePath w filePath of
        Inl e \<Rightarrow> Inl e
      | Inr fullPath \<Rightarrow>
         (case os_Open fullPath w of
            Inl e \<Rightarrow> if IsNotExist e then Inl (Sentinel ErrFileNotFound)
                     else Inl (Wrapf ''failed to open file'' (os_goerror e))
          | Inr file \<Rightarrow> Inr file))"

definition localStorage_Delete :: "string \<Rightarrow> string \<Rightarrow> osenv \<Rightarrow> (goerror + unit) \<times> osenv" where
  "localStorage_Delete basePath filePath w =
     (case validatePath basePath w filePath of
        Inl e \<Rightarrow> (Inl e, w)
      | Inr fullPath \<Rightarrow>
         (case os_Remove fullPath w of
            (Inl e, w') \<Rightarrow> if IsNotExist e then (Inr (), w')
                           else (Inl (Wrapf ''failed to delete file'' (os_goerror e)), w')
          | (Inr _, w') \<Rightarrow> (Inr (), w')))"

definition localStorage :: "string \<Rightarrow> FileStorage" where
  "localStorage basePath = \<lparr>fs_Save = localStorage_Save basePath,
     fs_Get = localStorage_Get basePath, fs_Delete = localStorage_Delete basePath\<rparr>"

definition NewLocalStorage :: "string \<Rightarrow> osenv \<Rightarrow> (goerror + FileStorage) \<times> osenv" where
  "NewLocalStorage basePath w =
     (case os_MkdirAll basePath w of
        (Inl e, w') \<Rightarrow> (Inl (Wrapf ''failed to create storage directory'' (os_goerror e)), w')
      | (Inr _, w') \<Rightarrow> (Inr (localStorage basePath), w'))"

section \<open>The path guard\<close>

lemma validatePath_ok:
  assumes "IsAbs (os_wd w)" "validatePath b w p = Inr q"
  shows "\<not> IsAbs (Clean p)" "\<not> Contains (Clean p) ''..''" "q = key_path (fkey w (FJoin [b, Clean p]))"
    "q = key_path (fkey w b) \<or> HasPrefix q (key_path (fkey w b) @ ''/'')"
  using assms(2) Abs_key [OF assms(1)]
  by (auto simp: validatePath_def Let_def split: if_splits sum.splits)

text \<open>
  C14. Path traversal: a path that \<^verbatim>\<open>validatePath\<close> accepts is the storage directory itself
  or lies below it, by a remainder in which no element is \<^verbatim>\<open>..\<close>.
\<close>

theorem validatePath_contained:
  assumes "IsAbs (os_wd w)" "validatePath basePath w filePath = Inr full" "Abs w basePath = Inr base"
  shows "full = base \<or> (\<exists>rest. full = base @ ''/'' @ rest \<and> ''..'' \<notin> set (Split CHR ''/'' rest))"
proof -
  note v = validatePath_ok [OF assms(1,2)]
  have b: "base = key_path (fkey w basePath)" by (rule Abs_key [OF assms(1,3)])
  from v(4) consider "full = base" | "HasPrefix full (base @ ''/'')" unfolding b by blast
  then show ?thesis
  proof cases
    case 2
    then obtain rest where r: "full = base @ ''/'' @ rest" by (auto simp: HasPrefix_iff)
    with v(3) have "key_path (fkey w (FJoin [basePath, Clean filePath])) = base @ ''/'' @ rest" by simp
    then have "''..'' \<notin> set (Split CHR ''/'' rest)" by (rule key_path_no_dotdot)
    with r show ?thesis by blast
  qed simp
qed


section \<open>Storing and reading back\<close>

definition uuid_char :: "char \<Rightarrow> bool" where
  "uuid_char c \<longleftrightarrow> is_digit c \<or> is_lower c \<or> c = CHR ''-''"

definition uuid_ok :: "string \<Rightarrow> bool" where
  "uuid_ok u \<longleftrightarrow> length u = 36 \<and> list_all uuid_char u"

text \<open>
  What the storage relies on: an absolute working directory, a base directory other than the file
  system root, and \<open>k\<close> more identifiers from the generator that are well formed, new to the disk
  and pairwise distinct.
\<close>

definition storage_ok :: "string \<Rightarrow> nat \<Rightarrow> osenv \<Rightarrow> bool" where
  "storage_ok b k w \<longleftrightarrow> IsAbs (os_wd w) \<and> fkey w b \<noteq> [] \<and>
     (\<forall>n \<in> {os_next w..<os_next w + k}. uuid_ok (os_uuid w n)
        \<and> (\<forall>q \<in> dom (os_files w). q \<noteq> [] \<longrightarrow> take 36 (last q) \<noteq> os_uuid w n)
        \<and> (\<forall>m \<in> {os_next w..<os_next w + k}. m \<noteq> n \<longrightarrow> os_uuid w m \<noteq> os_uuid w n))"

definition stored :: "string \<Rightarrow> osenv \<Rightarrow> string \<Rightarrow> bytes option" where
  "stored b w p = (if IsAbs (Clean p) \<or> Contains (Clean p) ''..'' then None
     else os_files w (fkey w (FJoin [b, Clean p])))"

lemma uuid_char_simps [simp]:
  "\<not> uuid_char CHR ''/''" "\<not> uuid_char CHR ''.''" "\<not> uuid_char CHR 0x00"
  by (simp_all add: uuid_char_def is_digit_def is_lower_def)

lemma Ext_form: "Ext f = [] \<or> (\<exists>e. Ext f = CHR ''.'' # e \<and> CHR ''.'' \<notin> set e \<and> CHR ''/'' \<notin> set e)"
proof -
  define t where "t = takeWhile (\<lambda>c. c \<noteq> CHR ''/'') (rev f)"
  define e where "e = rev (takeWhile (\<lambda>c. c \<noteq> CHR ''.'') t)"
  have "CHR ''/'' \<notin> set t" unfolding t_def by (blast dest: set_takeWhileD)
  then have "CHR ''/'' \<notin> set e" "CHR ''.'' \<notin> set e"
    unfolding e_def set_rev by (blast dest: set_takeWhileD)+
  moreover have "Ext f = (if CHR ''.'' \<in> set t then CHR ''.'' # e else [])"
    by (simp add: Ext_def t_def e_def Let_def)
  ultimately show ?thesis by simp
qed

lemma dotdot_twice: "Contains s ''..'' \<Longrightarrow> 2 \<le> length (filter (\<lambda>c. c = CHR ''.'') s)"
  by (auto simp: Contains_iff)

lemma Clean_Join:
  assumes "cs \<noteq> []" "\<forall>c \<in> set cs. path_name c" "''..'' \<notin> set cs"
  shows "Clean (Join cs ''/'') = Join cs ''/''" "\<not> IsAbs (Join cs ''/'')"
proof -
  note c = clean_comps_Join [OF assms(2,3)]
  then show n: "\<not> IsAbs (Join cs ''/'')"
    using Join_clean_rel [of "Join cs ''/''"] assms(1) by simp
  have "Join cs ''/'' \<noteq> []"
    using assms(1,2) by (subst Join_eq_Nil_words) (auto simp: path_name_def)
  with c n assms(1) show "Clean (Join cs ''/'') = Join cs ''/''" by (simp add: Clean_def)
qed

text \<open>Where \<^verbatim>\<open>Save\<close> puts a file: two directory levels below the base.\<close>

lemma save_names:
  fixes u f :: string
  assumes "uuid_ok u"
  defines "nm \<equiv> u @ Ext f" and "sub \<equiv> take 2 (u @ Ext f)"
  shows "\<forall>c \<in> set [sub, nm]. path_name c" "''..'' \<notin> set [sub, nm]"
    "\<not> Contains (Join [sub, nm] ''/'') ''..''"
proof -
  from assms(1) have u: "length u = 36" "\<forall>c \<in> set u. uuid_char c"
    by (auto simp: uuid_ok_def list_all_iff)
  then obtain a r where ar: "u = a # r" "uuid_char a" by (cases u) auto
  have sub: "sub = take 2 u" using u by (simp add: sub_def)
  have no: "CHR ''.'' \<notin> set u" "CHR ''/'' \<notin> set u" using u(2) by auto
  have subs: "set sub \<subseteq> set u" unfolding sub by (rule set_take_subset)
  with no have "CHR ''.'' \<notin> set sub" "CHR ''/'' \<notin> set sub" by auto
  moreover have "sub \<noteq> []" using u(1) sub by auto
  ultimately have "path_name sub \<and> sub \<noteq> ''..''" by (auto simp: path_name_def)
  moreover from no Ext_form [of f] ar have "path_name nm \<and> nm \<noteq> ''..''"
    by (auto simp: path_name_def nm_def)
  ultimately show "\<forall>c \<in> set [sub, nm]. path_name c" "''..'' \<notin> set [sub, nm]" by auto
  have "filter (\<lambda>c. c = CHR ''.'') u = []" "filter (\<lambda>c. c = CHR ''.'') sub = []"
    using no subs by (auto simp: filter_empty_conv)
  moreover have "length (filter (\<lambda>c. c = CHR ''.'') (Ext f)) \<le> 1"
    using Ext_form [of f] by (auto simp: filter_empty_conv)
  ultimately have "length (filter (\<lambda>c. c = CHR ''.'') (Join [sub, nm] ''/'')) \<le> 1"
    by (simp add: nm_def)
  then show "\<not> Contains (Join [sub, nm] ''/'') ''..''" using dotdot_twice by fastforce
qed

lemma fkey_below:
  assumes "cs \<noteq> []" "\<forall>c \<in> set cs. path_name c" "''..'' \<notin> set cs"
  shows "fkey w (FJoin [b, Join cs ''/'']) = fkey w b @ cs"
proof -
  have "Split CHR ''/'' (Join cs ''/'') = cs"
    by (rule Split_Join [OF assms(1)]) (use assms(2) in \<open>simp add: path_name_def\<close>)
  then show ?thesis
    unfolding fkey_FJoin [OF Clean_Join(2) [OF assms]] by (simp add: fold_push_plain assms(2,3))
qed

lemma os_effects:
  "os_MkdirAll p w = (r, w') \<Longrightarrow> os_files w' = os_files w \<and> os_readers w' = os_readers w
     \<and> os_wd w' = os_wd w \<and> os_uuid w' = os_uuid w \<and> os_next w' = os_next w \<and> os_fault w' = os_fault w
     \<and> os_written w' = os_written w"
  by (auto simp: os_MkdirAll_def split: option.splits if_splits)

lemma fkey_wd: "os_wd w' = os_wd w \<Longrightarrow> fkey w' p = fkey w p"
  by (simp add: fkey_def abs_path_def)

lemma os_Create_ok: "os_Create p w = (Inr k, w') \<Longrightarrow>
    k = fkey w p \<and> w' = w\<lparr>os_table := (k, []) # os_table w\<rparr> \<and> CHR 0x00 \<notin> set p"
  by (auto simp: os_Create_def os_check_def Let_def split: option.splits if_splits)

lemma os_Create_err: "os_Create p w = (Inl e, w') \<Longrightarrow> w' = w"
  by (auto simp: os_Create_def Let_def split: option.splits if_splits)

lemma os_Remove_frame: "os_Remove p w = (x, w') \<Longrightarrow>
    os_readers w' = os_readers w \<and> os_wd w' = os_wd w \<and> os_uuid w' = os_uuid w
  \<and> os_next w' = os_next w \<and> os_fault w' = os_fault w
  \<and> (\<forall>q. q \<noteq> fkey w p \<longrightarrow> os_files w' q = os_files w q)"
  by (auto simp: os_Remove_def Let_def split: option.splits if_splits)

definition save_key :: "string \<Rightarrow> string \<Rightarrow> osenv \<Rightarrow> key" where
  "save_key b f w = (let nm = os_uuid w (os_next w) @ Ext f in fkey w b @ [take 2 nm, nm])"

definition save_path :: "string \<Rightarrow> osenv \<Rightarrow> string" where
  "save_path f w = (let nm = os_uuid w (os_next w) @ Ext f in Join [take 2 nm, nm] ''/'')"

lemma save_path_facts:
  assumes "uuid_ok (os_uuid w (os_next w))"
  shows "Clean (save_path f w) = save_path f w" "\<not> IsAbs (save_path f w)"
    "\<not> Contains (save_path f w) ''..''" "fkey w (FJoin [b, save_path f w]) = save_key b f w"
    "FJoin [take 2 (os_uuid w (os_next w) @ Ext f), os_uuid w (os_next w) @ Ext f] = save_path f w"
proof -
  define nm where "nm = os_uuid w (os_next w) @ Ext f"
  note n = save_names [OF assms, of f, folded nm_def]
  have p: "save_path f w = Join [take 2 nm, nm] ''/''" by (simp add: save_path_def nm_def Let_def)
  note c = Clean_Join [OF _ n(1,2)]
  show "Clean (save_path f w) = save_path f w" "\<not> IsAbs (save_path f w)"
    "\<not> Contains (save_path f w) ''..''" unfolding p using c n(3) by blast+
  show "fkey w (FJoin [b, save_path f w]) = save_key b f w"
    unfolding p fkey_below [OF list.distinct(2) n(1,2)] by (simp only: save_key_def nm_def Let_def)
  have "take 2 nm \<noteq> []" using n(1) by (simp add: path_name_def)
  then have "FJoin [take 2 nm, nm] = Clean (Join [take 2 nm, nm] ''/'')" by (simp add: FJoin.simps)
  with c(1) show "FJoin [take 2 (os_uuid w (os_next w) @ Ext f), os_uuid w (os_next w) @ Ext f] = save_path f w"
    unfolding p nm_def [symmetric] by simp
qed

text \<open>The effect of \<^verbatim>\<open>Save\<close>, on success and on failure.\<close>

lemma localStorage_Save_ok:
  assumes u: "uuid_ok (os_uuid w (os_next w))" and s: "localStorage_Save b f r w = (Inr p, w')"
  shows "p = save_path f w" "os_files w' = (os_files w)(save_key b f w \<mapsto> os_readers w r)"
    "os_readers w' = (os_readers w)(r := [])" "os_wd w' = os_wd w" "os_uuid w' = os_uuid w"
    "os_next w' = Suc (os_next w)" "os_fault w' = os_fault w" "CHR 0x00 \<notin> set (FJoin [b, p])"
proof -
  define w1 where "w1 = w\<lparr>os_next := Suc (os_next w)\<rparr>"
  note sp = save_path_facts(5) [OF u, of f]
  obtain w2 where m: "os_MkdirAll (FJoin [b, take 2 (os_uuid w (os_next w) @ Ext f)]) w1 = (Inr (), w2)"
    using s by (auto simp: localStorage_Save_def uuid_New_def w1_def Let_def
        simp del: take_append split: sum.splits prod.splits)
  obtain k w3 where c: "os_Create (FJoin [b, save_path f w]) w2 = (Inr k, w3)"
    using s m by (auto simp: localStorage_Save_def uuid_New_def w1_def Let_def sp
        simp del: take_append split: sum.splits prod.splits)
  obtain n w4 where i: "io_Copy k r w3 = (Inr n, w4)"
    using s m c by (auto simp: localStorage_Save_def uuid_New_def w1_def Let_def sp
        simp del: take_append split: sum.splits prod.splits)
  have pw: "p = save_path f w \<and> w' = w4"
    using s m c i by (auto simp: localStorage_Save_def uuid_New_def w1_def Let_def sp
        simp del: take_append split: sum.splits prod.splits)
  note e = os_effects [OF m] os_Create_ok [OF c]
  have "fkey w2 (FJoin [b, save_path f w]) = fkey w (FJoin [b, save_path f w])"
    using e by (intro fkey_wd) (simp add: w1_def)
  with e save_path_facts(4) [OF u] have k: "k = save_key b f w" by simp
  have w4: "w4 = w3\<lparr>os_table := (k, os_readers w3 r) # os_table w3, os_readers := (os_readers w3)(r := [])\<rparr>"
    using i by (auto simp: io_Copy_def os_WriteAll_def split: option.splits)
  show "p = save_path f w" "CHR 0x00 \<notin> set (FJoin [b, p])" using pw e by auto
  show "os_files w' = (os_files w)(save_key b f w \<mapsto> os_readers w r)"
    "os_readers w' = (os_readers w)(r := [])" "os_wd w' = os_wd w" "os_uuid w' = os_uuid w"
    "os_next w' = Suc (os_next w)" "os_fault w' = os_fault w"
    using e pw w4 k by (auto simp: w1_def)
qed

lemma localStorage_Save_err:
  assumes u: "uuid_ok (os_uuid w (os_next w))" and s: "localStorage_Save b f r w = (Inl e, w')"
  shows "os_wd w' = os_wd w \<and> os_uuid w' = os_uuid w \<and> os_next w' = Suc (os_next w)
    \<and> (\<forall>q. q \<noteq> save_key b f w \<longrightarrow> os_files w' q = os_files w q)
    \<and> (\<forall>x. x \<noteq> r \<longrightarrow> os_readers w' x = os_readers w x)"
proof -
  define w1 where "w1 = w\<lparr>os_next := Suc (os_next w)\<rparr>"
  note sp = save_path_facts(5) [OF u, of f]
  note defs = localStorage_Save_def uuid_New_def w1_def Let_def sp
  obtain x w2 where m: "os_MkdirAll (FJoin [b, take 2 (os_uuid w (os_next w) @ Ext f)]) w1 = (x, w2)"
    by fastforce
  obtain y w3 where c: "os_Create (FJoin [b, save_path f w]) w2 = (y, w3)" by fastforce
  note e = os_effects [OF m]
  have key: "fkey v (FJoin [b, save_path f w]) = save_key b f w" if "os_wd v = os_wd w" for v
    using that save_path_facts(4) [OF u] fkey_wd by metis
  consider e' where "x = Inl e'" | e' where "x = Inr ()" "y = Inl e'" | k where "x = Inr ()" "y = Inr k"
    by (cases x; cases y) auto
  then show ?thesis
  proof cases
    case 1
    with s m have "w' = w2" by (auto simp: defs simp del: take_append)
    with e show ?thesis by (simp add: w1_def)
  next
    case 2
    with s m c have "w' = w3" by (auto simp: defs simp del: take_append)
    moreover have "w3 = w2" using c 2 by (auto dest: os_Create_err)
    ultimately show ?thesis using e by (simp add: w1_def)
  next
    case (3 k)
    obtain z w4 where i: "io_Copy k r w3 = (z, w4)" by fastforce
    with s m c 3 have w': "w' = snd (os_Remove (FJoin [b, save_path f w]) w4)"
      by (cases z) (auto simp: defs simp del: take_append)
    obtain o' where rm: "os_Remove (FJoin [b, save_path f w]) w4 = (o', w')"
      using w' by (metis prod.collapse)
    have wd: "os_wd w2 = os_wd w" using e by (simp add: w1_def)
    have k: "k = save_key b f w \<and> w3 = w2\<lparr>os_table := (k, []) # os_table w2\<rparr>"
      using os_Create_ok [of _ w2 k w3] c 3 key [OF wd] by simp
    have f4: "os_wd w4 = os_wd w3 \<and> os_uuid w4 = os_uuid w3 \<and> os_next w4 = os_next w3
      \<and> (\<forall>q. q \<noteq> k \<longrightarrow> os_files w4 q = os_files w3 q) \<and> (\<forall>x. x \<noteq> r \<longrightarrow> os_readers w4 x = os_readers w3 x)"
      using i by (auto simp: io_Copy_def os_WriteAll_def split: option.splits)
    have "os_wd w4 = os_wd w" using f4 k wd by simp
    then show ?thesis using os_Remove_frame [OF rm] key [of w4] f4 k e by (auto simp: w1_def)
  qed
qed

section \<open>The contract\<close>

text \<open>
  What a \<^verbatim>\<open>FileStorage\<close> promises its clients, over the content it holds at a path and a
  condition \<open>ok k\<close> under which \<open>k\<close> more files can be stored.
\<close>

locale file_storage =
  fixes FS :: FileStorage
    and ok :: "nat \<Rightarrow> osenv \<Rightarrow> bool"
    and content :: "osenv \<Rightarrow> string \<Rightarrow> bytes option"
  assumes Save_new: "ok (Suc k) w \<Longrightarrow> fs_Save FS f r w = (Inr p, w') \<Longrightarrow>
      ok k w' \<and> content w p = None \<and> content w' p = Some (os_readers w r)
      \<and> os_readers w' = (os_readers w)(r := [])"
    and Save_err: "ok (Suc k) w \<Longrightarrow> fs_Save FS f r w = (Inl e, w') \<Longrightarrow>
      ok k w' \<and> (\<forall>i. i \<noteq> r \<longrightarrow> os_readers w' i = os_readers w i)"
    and Save_keeps: "ok (Suc k) w \<Longrightarrow> fs_Save FS f r w = (x, w') \<Longrightarrow> content w q = Some b \<Longrightarrow>
      content w' q = Some b"
    and Get_sound: "ok k w \<Longrightarrow> fs_Get FS p w = Inr (OpenFile b) \<Longrightarrow> content w p = Some b"
    and Delete_ok: "ok k w \<Longrightarrow> fs_Delete FS p w = (Inr (), w') \<Longrightarrow> content w' p = None"
    and Delete_keeps: "ok k w \<Longrightarrow> fs_Delete FS p w = (y, w') \<Longrightarrow>
      ok k w' \<and> os_readers w' = os_readers w
      \<and> (content w' q = content w q \<or> content w' q = None)"
    and ok_less: "ok (Suc k) w \<Longrightarrow> ok k w"
begin

lemma Save_Get:
  assumes "ok (Suc k) w" "fs_Save FS f r w = (Inr p, w')" "fs_Get FS p w' = Inr (OpenFile b)"
  shows "b = os_readers w r"
  using Save_new [OF assms(1,2)] Get_sound [OF _ assms(3)] by auto

text \<open>Two files stored one after the other never share a path, and both stay readable.\<close>

lemma Save_twice:
  assumes "ok (Suc (Suc k)) w" "fs_Save FS f r w = (Inr p, w1)" "fs_Save FS g s w1 = (Inr q, w2)"
  shows "p \<noteq> q \<and> content w2 p = Some (os_readers w r) \<and> content w2 q = Some (os_readers w1 s)"
proof -
  note a = Save_new [OF assms(1,2)]
  then have b: "ok k w2 \<and> content w1 q = None \<and> content w2 q = Some (os_readers w1 s)"
    using Save_new [OF _ assms(3)] by blast
  with a have "content w2 p = Some (os_readers w r)" using Save_keeps [OF _ assms(3)] by blast
  with a b show ?thesis by auto
qed

end

lemma storage_ok_step:
  assumes ok: "storage_ok b (Suc k) w" and same: "os_wd w' = os_wd w" "os_uuid w' = os_uuid w"
    "os_next w' = Suc (os_next w)" and files: "\<forall>q. q \<noteq> save_key b f w \<longrightarrow> os_files w' q = os_files w q"
  shows "storage_ok b k w'"
proof -
  let ?u = "os_uuid w (os_next w)"
  have u: "length ?u = 36" using ok by (auto simp: storage_ok_def uuid_ok_def)
  have "take 36 (last q) \<noteq> os_uuid w n"
    if n: "n \<in> {Suc (os_next w)..<Suc (os_next w) + k}" and q: "q \<in> dom (os_files w')" "q \<noteq> []" for n q
  proof (cases "q = save_key b f w")
    case True
    then have "take 36 (last q) = ?u" using u by (simp add: save_key_def Let_def)
    moreover have "?u \<noteq> os_uuid w n" using ok n by (auto simp: storage_ok_def)
    ultimately show ?thesis by simp
  next
    case False
    with files q have "q \<in> dom (os_files w)" by (auto simp: domIff)
    with ok n q show ?thesis by (auto simp: storage_ok_def)
  qed
  with ok same show ?thesis by (auto simp: storage_ok_def fkey_wd [OF same(1)])
qed

lemma save_key_fresh: "storage_ok b (Suc k) w \<Longrightarrow> os_files w (save_key b f w) = None"
proof (rule ccontr)
  assume ok: "storage_ok b (Suc k) w" and "os_files w (save_key b f w) \<noteq> None"
  then have q: "save_key b f w \<in> dom (os_files w)" by blast
  have "length (os_uuid w (os_next w)) = 36" using ok by (auto simp: storage_ok_def uuid_ok_def)
  then have "save_key b f w \<noteq> [] \<and> take 36 (last (save_key b f w)) = os_uuid w (os_next w)"
    by (simp add: save_key_def Let_def)
  moreover from ok have "\<forall>q \<in> dom (os_files w). q \<noteq> [] \<longrightarrow> take 36 (last q) \<noteq> os_uuid w (os_next w)"
    by (simp add: storage_ok_def)
  ultimately show False using q by blast
qed

lemma stored_save_path:
  assumes "uuid_ok (os_uuid w (os_next w))" "os_wd v = os_wd w"
  shows "stored b v (save_path f w) = os_files v (save_key b f w)"
  using save_path_facts [OF assms(1)] fkey_wd [OF assms(2)] by (simp add: stored_def)

lemma validatePath_stored:
  assumes "IsAbs (os_wd w)" "validatePath b w p = Inr q"
  shows "stored b w p = os_files w (fkey w q)"
  using validatePath_ok [OF assms] fkey_key_path by (simp add: stored_def)


lemma storage_okD:
  assumes "storage_ok b (Suc k) w"
  shows "uuid_ok (os_uuid w (os_next w))" "IsAbs (os_wd w)"
  using assms by (auto simp: storage_ok_def)

lemma storage_ok_files:
  assumes "storage_ok b k w" "os_wd w' = os_wd w" "os_uuid w' = os_uuid w" "os_next w' = os_next w"
    "dom (os_files w') \<subseteq> dom (os_files w)"
  shows "storage_ok b k w'"
  using assms(1,3-5) unfolding storage_ok_def fkey_wd [OF assms(2)] assms(2) by (auto simp: subset_iff)

lemma os_Remove_dom: "os_Remove p w = (x, w') \<Longrightarrow> dom (os_files w') \<subseteq> dom (os_files w)"
  by (auto simp: os_Remove_def Let_def split: option.splits if_splits)

lemma os_Remove_gone:
  "os_Remove p w = (Inr (), w') \<Longrightarrow> os_files w' (fkey w p) = None"
  "os_Remove p w = (Inl (NotExist t), w') \<Longrightarrow> os_files w' (fkey w p) = None"
  by (auto simp: os_Remove_def os_check_def Let_def split: option.splits if_splits)

lemma localStorage_Delete_cases:
  assumes "IsAbs (os_wd w)" "localStorage_Delete b p w = (x, w')"
  obtains "w' = w" "x \<noteq> Inr ()"
  | q y where "validatePath b w p = Inr q" "os_Remove q w = (y, w')"
      "x = Inr () \<longrightarrow> os_files w' (fkey w q) = None"
proof (cases "validatePath b w p")
  case (Inr q)
  obtain y v where y: "os_Remove q w = (y, v)" by fastforce
  have "v = w' \<and> (x = Inr () \<longrightarrow> os_files w' (fkey w q) = None)"
  proof (cases y)
    case (Inl e)
    with assms(2) Inr y show ?thesis
      by (cases e) (auto simp: localStorage_Delete_def os_Remove_gone)
  qed (use assms(2) Inr y in \<open>auto simp: localStorage_Delete_def os_Remove_gone\<close>)
  with Inr y that(2) show ?thesis by blast
qed (use assms(2) that(1) in \<open>auto simp: localStorage_Delete_def\<close>)

lemma localStorage_Delete_keeps:
  assumes "storage_ok b k w" "localStorage_Delete b p w = (x, w')"
  shows "storage_ok b k w'" "os_readers w' = os_readers w"
    "stored b w' q = stored b w q \<or> stored b w' q = None" "x = Inr () \<Longrightarrow> stored b w' p = None"
proof -
  have wd: "IsAbs (os_wd w)" using assms(1) by (simp add: storage_ok_def)
  from wd assms(2) have "storage_ok b k w' \<and> os_readers w' = os_readers w
    \<and> (stored b w' q = stored b w q \<or> stored b w' q = None) \<and> (x = Inr () \<longrightarrow> stored b w' p = None)"
  proof (cases rule: localStorage_Delete_cases)
    case (2 r y)
    note f = os_Remove_frame [OF 2(2)]
    have fk: "fkey w' x = fkey w x" for x using f by (intro fkey_wd) simp
    have "storage_ok b k w'"
      by (rule storage_ok_files [OF assms(1)]) (use f os_Remove_dom [OF 2(2)] in auto)
    moreover have "os_files w' (fkey w (FJoin [b, Clean q])) = os_files w (fkey w (FJoin [b, Clean q]))
        \<or> os_files w' (fkey w (FJoin [b, Clean q])) = None"
      using os_Remove_dom [OF 2(2)] f 2(2)
      by (auto simp: os_Remove_def Let_def split: option.splits if_splits)
    moreover have "x = Inr () \<longrightarrow> stored b w' p = None"
      using 2(3) validatePath_ok(3) [OF wd 2(1)] fkey_key_path by (simp add: stored_def fk)
    ultimately show ?thesis using f by (simp add: stored_def fk)
  qed (use assms(1) in simp)
  then show "storage_ok b k w'" "os_readers w' = os_readers w"
    "stored b w' q = stored b w q \<or> stored b w' q = None" "x = Inr () \<Longrightarrow> stored b w' p = None" by auto
qed

interpretation disk: file_storage "localStorage b" "storage_ok b" "stored b"
proof
  fix k w f r p w'
  assume ok: "storage_ok b (Suc k) w" and s: "fs_Save (localStorage b) f r w = (Inr p, w')"
  note u = storage_okD [OF ok]
  from s have s': "localStorage_Save b f r w = (Inr p, w')" by (simp add: localStorage_def)
  note e = localStorage_Save_ok [OF u(1) s']
  have "storage_ok b k w'" by (rule storage_ok_step [OF ok e(4,5,6), of f]) (simp add: e(2))
  then show "storage_ok b k w' \<and> stored b w p = None \<and> stored b w' p = Some (os_readers w r)
      \<and> os_readers w' = (os_readers w)(r := [])"
    using e stored_save_path [OF u(1)] save_key_fresh [OF ok] by simp
next
  fix k w f r e w'
  assume ok: "storage_ok b (Suc k) w" and s: "fs_Save (localStorage b) f r w = (Inl e, w')"
  from s have s': "localStorage_Save b f r w = (Inl e, w')" by (simp add: localStorage_def)
  note e = localStorage_Save_err [OF storage_okD(1) [OF ok] s']
  then show "storage_ok b k w' \<and> (\<forall>i. i \<noteq> r \<longrightarrow> os_readers w' i = os_readers w i)"
    using storage_ok_step [OF ok, of w' f] by simp
next
  fix k w f r x w' q c
  assume ok: "storage_ok b (Suc k) w" and s: "fs_Save (localStorage b) f r w = (x, w')"
    and q: "stored b w q = Some c"
  have e: "os_wd w' = os_wd w \<and> (\<forall>q. q \<noteq> save_key b f w \<longrightarrow> os_files w' q = os_files w q)"
    using s localStorage_Save_err [OF storage_okD(1) [OF ok]] localStorage_Save_ok [OF storage_okD(1) [OF ok]]
    by (cases x) (auto simp: localStorage_def)
  have fk: "fkey w' x = fkey w x" for x using e by (intro fkey_wd) simp
  show "stored b w' q = Some c"
    using q e save_key_fresh [OF ok, of f]
    by (cases "fkey w (FJoin [b, Clean q]) = save_key b f w") (auto simp: stored_def fk split: if_splits)
next
  fix k w p c
  assume ok: "storage_ok b k w" and g: "fs_Get (localStorage b) p w = Inr (OpenFile c)"
  then obtain q where q: "validatePath b w p = Inr q" "os_Open q w = Inr (OpenFile c)"
    by (auto simp: localStorage_def localStorage_Get_def split: sum.splits if_splits)
  from q(2) have "os_files w (fkey w q) = Some c"
    by (auto simp: os_Open_def split: option.splits if_splits)
  with validatePath_stored [OF _ q(1)] ok show "stored b w p = Some c" by (simp add: storage_ok_def)
next
  fix k w p w'
  assume "storage_ok b k w" "fs_Delete (localStorage b) p w = (Inr (), w')"
  then show "stored b w' p = None"
    using localStorage_Delete_keeps(4) by (simp add: localStorage_def)
next
  fix k w p y w' q
  assume "storage_ok b k w" "fs_Delete (localStorage b) p w = (y, w')"
  then show "storage_ok b k w' \<and> os_readers w' = os_readers w
      \<and> (stored b w' q = stored b w q \<or> stored b w' q = None)"
    using localStorage_Delete_keeps(1-3) by (simp add: localStorage_def)
next
  fix k w
  assume "storage_ok b (Suc k) w"
  then show "storage_ok b k w" by (simp add: storage_ok_def)
qed

text \<open>
  Round trip: a file that \<^verbatim>\<open>Save\<close> stored is read back, unchanged, by \<^verbatim>\<open>Get\<close> on
  the path it returned, as long as the working directory can be read and the file opened.
\<close>

theorem Save_then_Get:
  assumes ok: "storage_ok basePath 1 w"
    and s: "localStorage_Save basePath filename content w = (Inr filePath, w')"
    and no_fault: "os_fault w GetwdCall = None" "os_fault w (OpenCall (save_key basePath filename w)) = None"
    and no_NUL: "CHR 0x00 \<notin> set (key_path (save_key basePath filename w))"
  shows "localStorage_Get basePath filePath w' = Inr (OpenFile (os_readers w content))"
proof -
  let ?K = "save_key basePath filename w"
  have ok': "storage_ok basePath (Suc 0) w" using ok by simp
  note u = storage_okD [OF ok']
  note e = localStorage_Save_ok [OF u(1) s]
  note sp = save_path_facts [OF u(1), of filename]
  have fk: "fkey w' x = fkey w x" for x by (rule fkey_wd [OF e(4)])
  have Abs: "Abs w' x = Inr (key_path (fkey w x))" for x
  proof -
    have "\<exists>y. Abs w' x = Inr y" using no_fault(1) e(7) by (simp add: Abs_def)
    then obtain y where "Abs w' x = Inr y" ..
    with Abs_key [of w' x y] u(2) e(4) fk show ?thesis by simp
  qed
  have b: "fkey w basePath \<noteq> []" using ok by (simp add: storage_ok_def)
  have K: "fkey w (FJoin [basePath, filePath]) = ?K" "?K = fkey w basePath @ drop (length (fkey w basePath)) ?K"
    "drop (length (fkey w basePath)) ?K \<noteq> []"
    using save_path_facts(4) [OF u(1), of basePath filename] e(1) by (simp_all add: save_key_def Let_def)
  have "HasPrefix (key_path ?K) (key_path (fkey w basePath) @ ''/'')"
    using key_path_append [OF b K(3)] K(2) by (auto simp: HasPrefix_iff)
  then have v: "validatePath basePath w' filePath = Inr (key_path ?K)"
    using sp e(1) K(1) by (simp add: validatePath_def Let_def Abs)
  have "fkey w' (key_path ?K) = ?K"
    using fkey_key_path [of w "FJoin [basePath, filePath]"] K(1) by (simp add: fk)
  with v no_fault(2) no_NUL e show ?thesis
    by (simp add: localStorage_Get_def os_Open_def os_check_def)
qed

section \<open>A concrete run\<close>

text \<open>A machine with an empty disk, no faults, and a counting identifier generator.\<close>

definition demo_os :: osenv where
  "demo_os = \<lparr>os_wd = ''/srv'', os_table = [], os_dirs = [[], [''srv'']],
     os_fault = (\<lambda>c. None), os_written = (\<lambda>k. 0),
     os_uuid = (\<lambda>n. replicate 35 CHR ''0'' @ [char_of (97 + n)]), os_next = 0,
     os_readers = (\<lambda>r. if r = 0 then ''hello'' else []), os_rnext = 1\<rparr>"

theorem validatePath_contained_witness:
  "validatePath ''data'' demo_os ''ab/../x.txt'' = Inr ''/srv/data/x.txt''
   \<and> (''/srv/data/x.txt'' = ''/srv/data'' \<or>
      (\<exists>rest. ''/srv/data/x.txt'' = ''/srv/data'' @ ''/'' @ rest \<and> ''..'' \<notin> set (Split CHR ''/'' rest)))"
proof -
  have a: "validatePath ''data'' demo_os ''ab/../x.txt'' = Inr ''/srv/data/x.txt''" by code_simp
  have b: "IsAbs (os_wd demo_os)" by code_simp
  have c: "Abs demo_os ''data'' = Inr ''/srv/data''" by code_simp
  show ?thesis using a validatePath_contained [OF b a c] by blast
qed

lemma demo_os_ok: "storage_ok ''data'' 1 demo_os"
proof -
  have "IsAbs (os_wd demo_os)" "fkey demo_os ''data'' \<noteq> []" "uuid_ok (os_uuid demo_os 0)" by code_simp+
  then show ?thesis by (simp add: storage_ok_def demo_os_def)
qed

theorem Save_then_Get_witness:
  "\<exists>p w'. localStorage_Save ''data'' ''note.txt'' 0 demo_os = (Inr p, w')
     \<and> localStorage_Get ''data'' p w' = Inr (OpenFile ''hello'')"
proof -
  have "is_ok (fst (localStorage_Save ''data'' ''note.txt'' 0 demo_os))" by code_simp
  then obtain p w' where s: "localStorage_Save ''data'' ''note.txt'' 0 demo_os = (Inr p, w')"
    by (auto simp: is_ok_iff prod_eq_iff)
  have f: "os_fault demo_os c = None" for c by (simp add: demo_os_def)
  have n: "CHR 0x00 \<notin> set (key_path (save_key ''data'' ''note.txt'' demo_os))" by code_simp
  have r: "os_readers demo_os 0 = ''hello''" by (simp add: demo_os_def)
  show ?thesis using s Save_then_Get [OF demo_os_ok s f f n] unfolding r by blast
qed

end
