(* ===== verification/Repository.thy ===== *)
theory Repository
  imports Gorm FileStore
begin

text \<open>
  \<^verbatim>\<open>internal/repository\<close>: the five repositories over the database parameter, each as the
  record of methods of its Go interface. The locales are the contracts the services, handlers and
  the SMTP session use; \<open>gorm_db\<close> gives each of them, and the in-memory store interprets them.
\<close>

section \<open>errors.go\<close>

definition isDuplicateKeyError :: "goerror \<Rightarrow> bool" where
  "isDuplicateKeyError err =
     (let errStr = Error_text err in
      Contains errStr ''duplicate key'' \<or> Contains errStr ''UNIQUE constraint''
      \<or> Contains errStr ''23505'')"

text \<open>The shape shared by the single-row lookups.\<close>

fun first_result :: "string \<Rightarrow> gorm_error + 'r \<Rightarrow> goerror + 'r" where
  "first_result what (Inr r) = Inr r"
| "first_result what (Inl ErrRecordNotFound) = Inl (Sentinel RepoErrNotFound)"
| "first_result what (Inl (DBError t)) = Inl (Wrapf what (gorm_goerror (DBError t)))"

fun list_result :: "string \<Rightarrow> gorm_error + 'r \<Rightarrow> goerror + 'r" where
  "list_result what (Inr r) = Inr r"
| "list_result what (Inl e) = Inl (Wrapf what (gorm_goerror e))"

text \<open>The shape shared by the deletions and column updates.\<close>

fun rows_result :: "string \<Rightarrow> (gorm_error + nat) \<times> db \<Rightarrow> (goerror + unit) \<times> db" where
  "rows_result what (Inl e, d) = (Inl (Wrapf what (gorm_goerror e)), d)"
| "rows_result what (Inr n, d) = (if n = 0 then Inl (Sentinel RepoErrNotFound) else Inr (), d)"

section \<open>domain_repository.go\<close>

record DomainRepository =
  dr_Create :: "Domain \<Rightarrow> db \<Rightarrow> (goerror + Domain) \<times> db"
  dr_GetByID :: "uint \<Rightarrow> db \<Rightarrow> goerror + Domain"
  dr_GetByName :: "string \<Rightarrow> db \<Rightarrow> goerror + Domain"
  dr_List :: "bool \<Rightarrow> db \<Rightarrow> goerror + Domain list"
  dr_Update :: "Domain \<Rightarrow> db \<Rightarrow> (goerror + Domain) \<times> db"
  dr_Delete :: "uint \<Rightarrow> db \<Rightarrow> (goerror + unit) \<times> db"

definition domain_exists_error :: "Domain \<Rightarrow> goerror" where
  "domain_exists_error x =
     Wrapf (''domain with name '' @ sq @ D_Name x @ sq @ '' already exists'') (Sentinel RepoErrDuplicateEntry)"

definition domain_Create :: "gorm \<Rightarrow> Domain \<Rightarrow> db \<Rightarrow> (goerror + Domain) \<times> db" where
  "domain_Create G x d =
     (case g_Create (g_domains G) x d of
        (Inl e, d') \<Rightarrow>
          (if isDuplicateKeyError (gorm_goerror e) then Inl (domain_exists_error x)
           else Inl (Wrapf ''failed to create domain'' (gorm_goerror e)), d')
      | (Inr x', d') \<Rightarrow> (Inr x', d'))"

definition domain_GetByID :: "gorm \<Rightarrow> uint \<Rightarrow> db \<Rightarrow> goerror + Domain" where
  "domain_GetByID G i d =
     first_result ''failed to get domain by ID'' (g_First (g_domains G) (\<lambda>x. D_ID x = i) d)"

definition domain_GetByName :: "gorm \<Rightarrow> string \<Rightarrow> db \<Rightarrow> goerror + Domain" where
  "domain_GetByName G name d =
     first_result ''failed to get domain by name'' (g_First (g_domains G) (\<lambda>x. D_Name x = name) d)"

definition domain_List :: "gorm \<Rightarrow> bool \<Rightarrow> db \<Rightarrow> goerror + Domain list" where
  "domain_List G activeOnly d =
     list_result ''failed to list domains''
       (g_Find (g_domains G) (\<lambda>x. activeOnly \<longrightarrow> D_IsActive x) ''name ASC'' d)"

definition domain_Update :: "gorm \<Rightarrow> Domain \<Rightarrow> db \<Rightarrow> (goerror + Domain) \<times> db" where
  "domain_Update G x d =
     (case g_Save (g_domains G) x d of
        (Inl e, d') \<Rightarrow>
          (if isDuplicateKeyError (gorm_goerror e) then Inl (domain_exists_error x)
           else Inl (Wrapf ''failed to update domain'' (gorm_goerror e)), d')
      | (Inr (x', n), d') \<Rightarrow> (if n = 0 then Inl (Sentinel RepoErrNotFound) else Inr x', d'))"

definition domain_Delete :: "gorm \<Rightarrow> uint \<Rightarrow> db \<Rightarrow> (goerror + unit) \<times> db" where
  "domain_Delete G i d =
     rows_result ''failed to delete domain'' (g_Delete (g_domains G) (\<lambda>x. D_ID x = i) d)"

definition NewDomainRepository :: "gorm \<Rightarrow> DomainRepository" where
  "NewDomainRepository G = \<lparr>dr_Create = domain_Create G, dr_GetByID = domain_GetByID G,
     dr_GetByName = domain_GetByName G, dr_List = domain_List G, dr_Update = domain_Update G,
     dr_Delete = domain_Delete G\<rparr>"

section \<open>mailbox_repository.go\<close>

record MailboxRepository =
  mr_Create :: "Mailbox \<Rightarrow> db \<Rightarrow> (goerror + Mailbox) \<times> db"
  mr_GetByID :: "uint \<Rightarrow> db \<Rightarrow> goerror + Mailbox"
  mr_GetByAddress :: "string \<Rightarrow> db \<Rightarrow> goerror + Mailbox"
  mr_GetOrCreate :: "string \<Rightarrow> uint \<Rightarrow> string \<Rightarrow> db \<Rightarrow> (goerror + Mailbox \<times> bool) \<times> db"
  mr_ListByDomain :: "uint \<Rightarrow> int \<Rightarrow> int \<Rightarrow> db \<Rightarrow> goerror + MailboxWithUnreadCount list \<times> int"
  mr_UpdateLastAccessed :: "uint \<Rightarrow> time \<Rightarrow> db \<Rightarrow> (goerror + unit) \<times> db"
  mr_Delete :: "uint \<Rightarrow> db \<Rightarrow> (goerror + unit) \<times> db"

definition zero_Mailbox :: Mailbox where
  "zero_Mailbox = \<lparr>M_ID = 0, M_LocalPart = [], M_DomainID = 0, M_FullAddress = [],
     M_CreatedAt = 0, M_LastAccessedAt = None\<rparr>"

definition mailbox_Create :: "gorm \<Rightarrow> Mailbox \<Rightarrow> db \<Rightarrow> (goerror + Mailbox) \<times> db" where
  "mailbox_Create G x d =
     (case g_Create (g_mailboxes G) x d of
        (Inl e, d') \<Rightarrow>
          (if isDuplicateKeyError (gorm_goerror e)
           then Inl (Wrapf (''mailbox with address '' @ sq @ M_FullAddress x @ sq @ '' already exists'')
                      (Sentinel RepoErrDuplicateEntry))
           else Inl (Wrapf ''failed to create mailbox'' (gorm_goerror e)), d')
      | (Inr x', d') \<Rightarrow> (Inr x', d'))"

definition mailbox_GetByID :: "gorm \<Rightarrow> uint \<Rightarrow> db \<Rightarrow> goerror + Mailbox" where
  "mailbox_GetByID G i d =
     first_result ''failed to get mailbox by ID'' (g_First (g_mailboxes G) (\<lambda>x. M_ID x = i) d)"

definition mailbox_GetByAddress :: "gorm \<Rightarrow> string \<Rightarrow> db \<Rightarrow> goerror + Mailbox" where
  "mailbox_GetByAddress G a d =
     first_result ''failed to get mailbox by address'' (g_First (g_mailboxes G) (\<lambda>x. M_FullAddress x = a) d)"

definition mailbox_GetOrCreate ::
    "gorm \<Rightarrow> string \<Rightarrow> uint \<Rightarrow> string \<Rightarrow> db \<Rightarrow> (goerror + Mailbox \<times> bool) \<times> db" where
  "mailbox_GetOrCreate G localPart domainID domainName d =
     (let fullAddress = localPart @ ''@'' @ domainName in
      case mailbox_GetByAddress G fullAddress d of
        Inr mailbox \<Rightarrow> (Inr (mailbox, False), d)
      | Inl err \<Rightarrow>
          if \<not> errors_Is err RepoErrNotFound then (Inl err, d)
          else
            (case mailbox_Create G (zero_Mailbox\<lparr>M_LocalPart := localPart, M_DomainID := domainID,
                    M_FullAddress := fullAddress\<rparr>) d of
               (Inl err, d') \<Rightarrow>
                 if errors_Is err RepoErrDuplicateEntry then
                   (case mailbox_GetByAddress G fullAddress d' of
                      Inl err \<Rightarrow> (Inl err, d')
                    | Inr mailbox \<Rightarrow> (Inr (mailbox, False), d'))
                 else (Inl err, d')
             | (Inr mailbox, d') \<Rightarrow> (Inr (mailbox, True), d')))"

definition mailbox_ListByDomain ::
    "gorm \<Rightarrow> uint \<Rightarrow> int \<Rightarrow> int \<Rightarrow> db \<Rightarrow> goerror + MailboxWithUnreadCount list \<times> int" where
  "mailbox_ListByDomain G domainID limit offset d =
     (case g_Count (g_mailboxes G) (\<lambda>x. M_DomainID x = domainID) d of
        Inl e \<Rightarrow> Inl (Wrapf ''failed to count mailboxes'' (gorm_goerror e))
      | Inr n \<Rightarrow>
         (case g_ListMailboxes G domainID limit offset d of
            Inl e \<Rightarrow> Inl (Wrapf ''failed to list mailboxes'' (gorm_goerror e))
          | Inr results \<Rightarrow> Inr (results, n)))"

definition mailbox_UpdateLastAccessed :: "gorm \<Rightarrow> uint \<Rightarrow> time \<Rightarrow> db \<Rightarrow> (goerror + unit) \<times> db" where
  "mailbox_UpdateLastAccessed G i now d =
     rows_result ''failed to update last accessed''
       (g_Update (g_mailboxes G) (\<lambda>x. M_ID x = i) (\<lambda>x. x\<lparr>M_LastAccessedAt := Some now\<rparr>) d)"

definition mailbox_Delete :: "gorm \<Rightarrow> uint \<Rightarrow> db \<Rightarrow> (goerror + unit) \<times> db" where
  "mailbox_Delete G i d =
     rows_result ''failed to delete mailbox'' (g_Delete (g_mailboxes G) (\<lambda>x. M_ID x = i) d)"

definition NewMailboxRepository :: "gorm \<Rightarrow> MailboxRepository" where
  "NewMailboxRepository G = \<lparr>mr_Create = mailbox_Create G, mr_GetByID = mailbox_GetByID G,
     mr_GetByAddress = mailbox_GetByAddress G, mr_GetOrCreate = mailbox_GetOrCreate G,
     mr_ListByDomain = mailbox_ListByDomain G, mr_UpdateLastAccessed = mailbox_UpdateLastAccessed G,
     mr_Delete = mailbox_Delete G\<rparr>"

section \<open>message_repository.go\<close>

record MessageRepository =
  ms_Create :: "Message \<Rightarrow> db \<Rightarrow> (goerror + Message) \<times> db"
  ms_CreateWithAttachments :: "Message \<Rightarrow> Attachment list \<Rightarrow> db \<Rightarrow> (goerror + Message \<times> Attachment list) \<times> db"
  ms_GetByID :: "uint \<Rightarrow> db \<Rightarrow> goerror + Message \<times> Attachment list"
  ms_ListByMailbox :: "uint \<Rightarrow> int \<Rightarrow> int \<Rightarrow> db \<Rightarrow> goerror + MessageListItem list \<times> int"
  ms_MarkAsRead :: "uint \<Rightarrow> db \<Rightarrow> (goerror + unit) \<times> db"
  ms_Delete :: "uint \<Rightarrow> db \<Rightarrow> (goerror + unit) \<times> db"
  ms_CountUnread :: "uint \<Rightarrow> db \<Rightarrow> goerror + int"

definition message_Create :: "gorm \<Rightarrow> Message \<Rightarrow> db \<Rightarrow> (goerror + Message) \<times> db" where
  "message_Create G x d =
     (case g_Create (g_messages G) x d of
        (Inl e, d') \<Rightarrow> (Inl (Wrapf ''failed to create message'' (gorm_goerror e)), d')
      | (Inr x', d') \<Rightarrow> (Inr x', d'))"

fun create_attachments :: "gorm \<Rightarrow> uint \<Rightarrow> Attachment list \<Rightarrow> db \<Rightarrow> (goerror + Attachment list) \<times> db" where
  "create_attachments G mid [] d = (Inr [], d)"
| "create_attachments G mid (a # as) d =
     (case g_Create (g_attachments G) (a\<lparr>A_MessageID := mid\<rparr>) d of
        (Inl e, d1) \<Rightarrow> (Inl (Wrapf ''failed to create attachment'' (gorm_goerror e)), d1)
      | (Inr a', d1) \<Rightarrow>
         (case create_attachments G mid as d1 of
            (Inl e, d2) \<Rightarrow> (Inl e, d2)
          | (Inr as', d2) \<Rightarrow> (Inr (a' # as'), d2)))"

definition message_CreateWithAttachments ::
    "gorm \<Rightarrow> Message \<Rightarrow> Attachment list \<Rightarrow> db \<Rightarrow> (goerror + Message \<times> Attachment list) \<times> db" where
  "message_CreateWithAttachments G message attachments =
     g_Transaction G (\<lambda>d.
       (case g_Create (g_messages G) message d of
          (Inl e, d1) \<Rightarrow> (Inl (Wrapf ''failed to create message'' (gorm_goerror e)), d1)
        | (Inr m, d1) \<Rightarrow>
           (case create_attachments G (Msg_ID m) attachments d1 of
              (Inl e, d2) \<Rightarrow> (Inl e, d2)
            | (Inr as, d2) \<Rightarrow> (Inr (m, as), d2))))"

definition message_GetByID :: "gorm \<Rightarrow> uint \<Rightarrow> db \<Rightarrow> goerror + Message \<times> Attachment list" where
  "message_GetByID G i d =
     (case first_result ''failed to get message by ID'' (g_First (g_messages G) (\<lambda>x. Msg_ID x = i) d) of
        Inl e \<Rightarrow> Inl e
      | Inr m \<Rightarrow>
         (case g_Find (g_attachments G) (\<lambda>a. A_MessageID a = Msg_ID m) [] d of
            Inl e \<Rightarrow> Inl (Wrapf ''failed to get message by ID'' (gorm_goerror e))
          | Inr as \<Rightarrow> Inr (m, as)))"

definition message_ListByMailbox ::
    "gorm \<Rightarrow> uint \<Rightarrow> int \<Rightarrow> int \<Rightarrow> db \<Rightarrow> goerror + MessageListItem list \<times> int" where
  "message_ListByMailbox G mailboxID limit offset d =
     (case g_Count (g_messages G) (\<lambda>x. Msg_MailboxID x = mailboxID) d of
        Inl e \<Rightarrow> Inl (Wrapf ''failed to count messages'' (gorm_goerror e))
      | Inr n \<Rightarrow>
         (case g_ListMessages G mailboxID limit offset d of
            Inl e \<Rightarrow> Inl (Wrapf ''failed to list messages'' (gorm_goerror e))
          | Inr results \<Rightarrow> Inr (results, n)))"

definition message_MarkAsRead :: "gorm \<Rightarrow> uint \<Rightarrow> db \<Rightarrow> (goerror + unit) \<times> db" where
  "message_MarkAsRead G i d =
     rows_result ''failed to mark message as read''
       (g_Update (g_messages G) (\<lambda>x. Msg_ID x = i) (\<lambda>x. x\<lparr>Msg_IsRead := True\<rparr>) d)"

definition message_Delete :: "gorm \<Rightarrow> uint \<Rightarrow> db \<Rightarrow> (goerror + unit) \<times> db" where
  "message_Delete G i d =
     rows_result ''failed to delete message'' (g_Delete (g_messages G) (\<lambda>x. Msg_ID x = i) d)"

definition message_CountUnread :: "gorm \<Rightarrow> uint \<Rightarrow> db \<Rightarrow> goerror + int" where
  "message_CountUnread G mailboxID d =
     list_result ''failed to count unread messages''
       (g_Count (g_messages G) (\<lambda>x. Msg_MailboxID x = mailboxID \<and> \<not> Msg_IsRead x) d)"

definition NewMessageRepository :: "gorm \<Rightarrow> MessageRepository" where
  "NewMessageRepository G = \<lparr>ms_Create = message_Create G,
     ms_CreateWithAttachments = message_CreateWithAttachments G, ms_GetByID = message_GetByID G,
     ms_ListByMailbox = message_ListByMailbox G, ms_MarkAsRead = message_MarkAsRead G,
     ms_Delete = message_Delete G, ms_CountUnread = message_CountUnread G\<rparr>"

section \<open>attachment_repository.go\<close>

record AttachmentRepository =
  ar_Create :: "Attachment \<Rightarrow> db \<Rightarrow> (goerror + Attachment) \<times> db"
  ar_GetByID :: "uint \<Rightarrow> db \<Rightarrow> goerror + Attachment"
  ar_ListByMessage :: "uint \<Rightarrow> db \<Rightarrow> goerror + Attachment list"
  ar_Delete :: "uint \<Rightarrow> db \<times> osenv \<Rightarrow> (goerror + unit) \<times> db \<times> osenv"

definition attachment_Create :: "gorm \<Rightarrow> Attachment \<Rightarrow> db \<Rightarrow> (goerror + Attachment) \<times> db" where
  "attachment_Create G x d =
     (case g_Create (g_attachments G) x d of
        (Inl e, d') \<Rightarrow> (Inl (Wrapf ''failed to create attachment'' (gorm_goerror e)), d')
      | (Inr x', d') \<Rightarrow> (Inr x', d'))"

definition attachment_GetByID :: "gorm \<Rightarrow> uint \<Rightarrow> db \<Rightarrow> goerror + Attachment" where
  "attachment_GetByID G i d =
     first_result ''failed to get attachment by ID'' (g_First (g_attachments G) (\<lambda>x. A_ID x = i) d)"

definition attachment_ListByMessage :: "gorm \<Rightarrow> uint \<Rightarrow> db \<Rightarrow> goerror + Attachment list" where
  "attachment_ListByMessage G messageID d =
     list_result ''failed to list attachments''
       (g_Find (g_attachments G) (\<lambda>x. A_MessageID x = messageID) [] d)"

text \<open>The file storage is an optional field of the repository.\<close>

definition attachment_Delete ::
    "gorm \<Rightarrow> FileStorage option \<Rightarrow> uint \<Rightarrow> db \<times> osenv \<Rightarrow> (goerror + unit) \<times> db \<times> osenv" where
  "attachment_Delete G fileStorage i s =
     (let (d, w) = s in
      case attachment_GetByID G i d of
        Inl e \<Rightarrow> (Inl e, d, w)
      | Inr attachment \<Rightarrow>
         (case g_Delete (g_attachments G) (\<lambda>x. A_ID x = i) d of
            (Inl e, d') \<Rightarrow> (Inl (Wrapf ''failed to delete attachment'' (gorm_goerror e)), d', w)
          | (Inr _, d') \<Rightarrow>
             (case fileStorage of
                None \<Rightarrow> (Inr (), d', w)
              | Some fs \<Rightarrow>
                  if A_FilePath attachment \<noteq> []
                  then (Inr (), d', snd (fs_Delete fs (A_FilePath attachment) w))
                  else (Inr (), d', w))))"

definition NewAttachmentRepository :: "gorm \<Rightarrow> FileStorage option \<Rightarrow> AttachmentRepository" where
  "NewAttachmentRepository G fs = \<lparr>ar_Create = attachment_Create G, ar_GetByID = attachment_GetByID G,
     ar_ListByMessage = attachment_ListByMessage G, ar_Delete = attachment_Delete G fs\<rparr>"

section \<open>certificate_repository.go\<close>

record CertificateRepository =
  cr_Create :: "DomainCertificate \<Rightarrow> db \<Rightarrow> (goerror + DomainCertificate) \<times> db"
  cr_GetByID :: "uint \<Rightarrow> db \<Rightarrow> goerror + DomainCertificate"
  cr_GetByDomainID :: "uint \<Rightarrow> db \<Rightarrow> goerror + DomainCertificate"
  cr_GetByDomainName :: "string \<Rightarrow> db \<Rightarrow> goerror + DomainCertificate"
  cr_Update :: "DomainCertificate \<Rightarrow> db \<Rightarrow> (goerror + DomainCertificate) \<times> db"
  cr_Delete :: "uint \<Rightarrow> db \<Rightarrow> (goerror + unit) \<times> db"
  cr_DeleteByDomainID :: "uint \<Rightarrow> db \<Rightarrow> (goerror + unit) \<times> db"
  cr_GetExpiringCertificates :: "int \<Rightarrow> time \<Rightarrow> db \<Rightarrow> goerror + DomainCertificate list"
  cr_GetAllWithAutoRenew :: "db \<Rightarrow> goerror + DomainCertificate list"
  cr_List :: "db \<Rightarrow> goerror + DomainCertificate list"

definition cert_Create :: "gorm \<Rightarrow> DomainCertificate \<Rightarrow> db \<Rightarrow> (goerror + DomainCertificate) \<times> db" where
  "cert_Create G x d =
     (case g_Create (g_certs G) x d of
        (Inl e, d') \<Rightarrow>
          (if isDuplicateKeyError (gorm_goerror e)
           then Inl (Wrapf (''certificate for domain ID '' @ show_nat (C_DomainID x) @ '' already exists'')
                      (Sentinel RepoErrDuplicateEntry))
           else Inl (Wrapf ''failed to create certificate'' (gorm_goerror e)), d')
      | (Inr x', d') \<Rightarrow> (Inr x', d'))"

definition cert_GetByID :: "gorm \<Rightarrow> uint \<Rightarrow> db \<Rightarrow> goerror + DomainCertificate" where
  "cert_GetByID G i d =
     first_result ''failed to get certificate by ID'' (g_First (g_certs G) (\<lambda>x. C_ID x = i) d)"

definition cert_GetByDomainID :: "gorm \<Rightarrow> uint \<Rightarrow> db \<Rightarrow> goerror + DomainCertificate" where
  "cert_GetByDomainID G i d =
     first_result ''failed to get certificate by domain ID'' (g_First (g_certs G) (\<lambda>x. C_DomainID x = i) d)"

definition cert_GetByDomainName :: "gorm \<Rightarrow> string \<Rightarrow> db \<Rightarrow> goerror + DomainCertificate" where
  "cert_GetByDomainName G n d =
     first_result ''failed to get certificate by domain name'' (g_First (g_certs G) (\<lambda>x. C_DomainName x = n) d)"

definition cert_Update :: "gorm \<Rightarrow> DomainCertificate \<Rightarrow> db \<Rightarrow> (goerror + DomainCertificate) \<times> db" where
  "cert_Update G x d =
     (case g_Save (g_certs G) x d of
        (Inl e, d') \<Rightarrow> (Inl (Wrapf ''failed to update certificate'' (gorm_goerror e)), d')
      | (Inr (x', n), d') \<Rightarrow> (if n = 0 then Inl (Sentinel RepoErrNotFound) else Inr x', d'))"

definition cert_Delete :: "gorm \<Rightarrow> uint \<Rightarrow> db \<Rightarrow> (goerror + unit) \<times> db" where
  "cert_Delete G i d =
     rows_result ''failed to delete certificate'' (g_Delete (g_certs G) (\<lambda>x. C_ID x = i) d)"

definition cert_DeleteByDomainID :: "gorm \<Rightarrow> uint \<Rightarrow> db \<Rightarrow> (goerror + unit) \<times> db" where
  "cert_DeleteByDomainID G i d =
     (case g_Delete (g_certs G) (\<lambda>x. C_DomainID x = i) d of
        (Inl e, d') \<Rightarrow> (Inl (Wrapf ''failed to delete certificate by domain ID'' (gorm_goerror e)), d')
      | (Inr _, d') \<Rightarrow> (Inr (), d'))"

definition cert_GetExpiringCertificates :: "gorm \<Rightarrow> int \<Rightarrow> time \<Rightarrow> db \<Rightarrow> goerror + DomainCertificate list" where
  "cert_GetExpiringCertificates G days now d =
     (let expiryThreshold = AddDays now days in
      list_result ''failed to get expiring certificates''
        (g_Find (g_certs G) (\<lambda>x. C_ExpiresAt x \<le> expiryThreshold \<and> C_ExpiresAt x > now) ''expires_at ASC'' d))"

definition cert_GetAllWithAutoRenew :: "gorm \<Rightarrow> db \<Rightarrow> goerror + DomainCertificate list" where
  "cert_GetAllWithAutoRenew G d =
     list_result ''failed to get auto-renew certificates'' (g_Find (g_certs G) C_AutoRenew ''expires_at ASC'' d)"

definition cert_List :: "gorm \<Rightarrow> db \<Rightarrow> goerror + DomainCertificate list" where
  "cert_List G d =
     list_result ''failed to list certificates'' (g_Find (g_certs G) (\<lambda>x. True) ''domain_name ASC'' d)"

definition NewCertificateRepository :: "gorm \<Rightarrow> CertificateRepository" where
  "NewCertificateRepository G = \<lparr>cr_Create = cert_Create G, cr_GetByID = cert_GetByID G,
     cr_GetByDomainID = cert_GetByDomainID G, cr_GetByDomainName = cert_GetByDomainName G,
     cr_Update = cert_Update G, cr_Delete = cert_Delete G, cr_DeleteByDomainID = cert_DeleteByDomainID G,
     cr_GetExpiringCertificates = cert_GetExpiringCertificates G,
     cr_GetAllWithAutoRenew = cert_GetAllWithAutoRenew G, cr_List = cert_List G\<rparr>"


section \<open>Contracts\<close>

lemma first_result_cases:
  "first_result what r = Inr x \<longleftrightarrow> r = Inr x"
  "first_result what r = Inl e \<and> errors_Is e RepoErrNotFound \<longleftrightarrow>
     r = Inl ErrRecordNotFound \<and> e = Sentinel RepoErrNotFound"
proof -
  show "first_result what r = Inr x \<longleftrightarrow> r = Inr x"
    by (cases "(what, r)" rule: first_result.cases) auto
  show "first_result what r = Inl e \<and> errors_Is e RepoErrNotFound \<longleftrightarrow>
     r = Inl ErrRecordNotFound \<and> e = Sentinel RepoErrNotFound"
    by (cases "(what, r)" rule: first_result.cases) auto
qed

lemma list_result_Inr: "list_result what r = Inr x \<longleftrightarrow> r = Inr x"
  by (cases r) auto

lemma rows_result_cases:
  "rows_result what p = (Inr (), d') \<longleftrightarrow> (\<exists>n. p = (Inr n, d') \<and> n \<noteq> 0)"
  "rows_result what p = (Inl e, d') \<longleftrightarrow>
     (\<exists>g. p = (Inl g, d') \<and> e = Wrapf what (gorm_goerror g))
     \<or> (p = (Inr 0, d') \<and> e = Sentinel RepoErrNotFound)"
  by (cases "(what, p)" rule: rows_result.cases; auto)+

locale domain_repo =
  fixes R :: DomainRepository
  assumes GetByID_found: "dr_GetByID R i d = Inr x \<Longrightarrow> x \<in> set (t_domains d) \<and> D_ID x = i"
    and GetByID_missing: "dr_GetByID R i d = Inl e \<Longrightarrow> errors_Is e RepoErrNotFound \<Longrightarrow>
      x \<in> set (t_domains d) \<Longrightarrow> D_ID x \<noteq> i"
    and GetByName_found: "dr_GetByName R s d = Inr x \<Longrightarrow> x \<in> set (t_domains d) \<and> D_Name x = s"
    and GetByName_missing: "dr_GetByName R s d = Inl e \<Longrightarrow> errors_Is e RepoErrNotFound \<Longrightarrow>
      x \<in> set (t_domains d) \<Longrightarrow> D_Name x \<noteq> s"
    and List_rows: "dr_List R b d = Inr xs \<Longrightarrow>
      set xs = {x \<in> set (t_domains d). b \<longrightarrow> D_IsActive x}"
    and Create_ok: "dr_Create R x d = (Inr x', d') \<Longrightarrow>
      created_Domain x x' \<and> d' = put_domains (t_domains d @ [x']) d
      \<and> D_ID x' \<notin> D_ID ` set (t_domains d) \<and> (db_ok d \<longrightarrow> db_ok d')"
    and Create_err: "dr_Create R x d = (Inl e, d') \<Longrightarrow> d' = d"
    and Update_ok: "dr_Update R x d = (Inr x', d') \<Longrightarrow> y \<in> set (t_domains d) \<Longrightarrow> D_ID y = D_ID x \<Longrightarrow>
      saved_Domain x x' \<and> d' = put_domains (map (\<lambda>z. if D_ID z = D_ID x then x' else z) (t_domains d)) d"
    and Update_err: "dr_Update R x d = (Inl e, d') \<Longrightarrow> d' = d"
    and Update_keys: "dr_Update R x d = (Inr x', d') \<Longrightarrow> db_ok d \<Longrightarrow> db_ok d'"
    and Delete_ok: "dr_Delete R i d = (Inr (), d') \<Longrightarrow> d' = purge_domains (\<lambda>x. D_ID x = i) d"
    and Delete_err: "dr_Delete R i d = (Inl e, d') \<Longrightarrow> d' = d"

text \<open>A read-modify-write of one row: \<^verbatim>\<open>GetByID\<close>, changes that keep the key, \<^verbatim>\<open>Update\<close>.\<close>

definition row_replaced :: "db \<Rightarrow> uint \<Rightarrow> Domain \<Rightarrow> db \<Rightarrow> bool" where
  "row_replaced d i y d' \<longleftrightarrow> domain_row d' i = Some y \<and> (\<forall>j. j \<noteq> i \<longrightarrow> domain_row d' j = domain_row d j)
     \<and> t_certs d' = t_certs d \<and> t_mailboxes d' = t_mailboxes d \<and> t_messages d' = t_messages d
     \<and> t_attachments d' = t_attachments d"

lemma find_map_key:
  "\<exists>x \<in> set xs. f x = i \<Longrightarrow> f y = i \<Longrightarrow>
   find (\<lambda>x. f x = i) (map (\<lambda>z. if f z = i then y else z) xs) = Some y"
  by (induction xs) auto

lemma find_map_other:
  "f y = i \<Longrightarrow> j \<noteq> i \<Longrightarrow>
   find (\<lambda>x. f x = j) (map (\<lambda>z. if f z = i then y else z) xs) = find (\<lambda>x. f x = j) xs"
  by (induction xs) auto

context domain_repo
begin

lemma Get_row: "dr_GetByID R i d = Inr x \<Longrightarrow> db_ok d \<Longrightarrow> domain_row d i = Some x"
  by (blast dest: GetByID_found intro: domain_row_mem)

lemma Update_row:
  assumes get: "dr_GetByID R i d = Inr x" and id: "D_ID x' = i" and up: "dr_Update R x' d = (Inr y, d')"
  shows "saved_Domain x' y \<and> row_replaced d i y d'"
proof -
  note x = GetByID_found [OF get]
  note u = Update_ok [OF up, of x]
  with x id have u: "saved_Domain x' y" "d' = put_domains (map (\<lambda>z. if D_ID z = i then y else z) (t_domains d)) d" by auto
  have y: "D_ID y = i" using saved_Domain_fields [OF u(1)] id by simp
  have ex: "\<exists>z \<in> set (t_domains d). D_ID z = i" using x by blast
  show ?thesis
    unfolding row_replaced_def domain_row_def using u find_map_key [OF ex y] find_map_other [of D_ID, OF y] by simp
qed

end

locale mailbox_repo =
  fixes R :: MailboxRepository
  assumes GetByAddress_found: "mr_GetByAddress R a d = Inr x \<Longrightarrow>
      x \<in> set (t_mailboxes d) \<and> M_FullAddress x = a"
    and GetByAddress_missing: "mr_GetByAddress R a d = Inl e \<Longrightarrow> errors_Is e RepoErrNotFound \<Longrightarrow>
      x \<in> set (t_mailboxes d) \<Longrightarrow> M_FullAddress x \<noteq> a"
    and GetOrCreate_old: "mr_GetOrCreate R lp i dn d = (Inr (m, False), d') \<Longrightarrow>
      d' = d \<and> m \<in> set (t_mailboxes d) \<and> M_FullAddress m = lp @ ''@'' @ dn"
    and GetOrCreate_new: "mr_GetOrCreate R lp i dn d = (Inr (m, True), d') \<Longrightarrow>
      d' = put_mailboxes (t_mailboxes d @ [m]) d \<and> M_FullAddress m = lp @ ''@'' @ dn
      \<and> M_LocalPart m = lp \<and> M_DomainID m = i \<and> M_ID m \<notin> M_ID ` set (t_mailboxes d)
      \<and> (\<forall>x \<in> set (t_mailboxes d). M_FullAddress x \<noteq> lp @ ''@'' @ dn) \<and> (db_ok d \<longrightarrow> db_ok d')"
    and GetOrCreate_err: "mr_GetOrCreate R lp i dn d = (Inl e, d') \<Longrightarrow> d' = d"

locale message_repo =
  fixes R :: MessageRepository
  assumes CreateWithAttachments_ok: "ms_CreateWithAttachments R m as d = (Inr (m', as'), d') \<Longrightarrow>
      created_Message m m' \<and> Msg_ID m' \<notin> Msg_ID ` set (t_messages d)
      \<and> list_all2 (\<lambda>a a'. created_Attachment (a\<lparr>A_MessageID := Msg_ID m'\<rparr>) a') as as'
      \<and> d' = d\<lparr>t_messages := t_messages d @ [m'], t_attachments := t_attachments d @ as'\<rparr>"
    and CreateWithAttachments_keys: "ms_CreateWithAttachments R m as d = (Inr x, d') \<Longrightarrow> db_ok d \<Longrightarrow> db_ok d'"
    and CreateWithAttachments_err: "ms_CreateWithAttachments R m as d = (Inl e, d') \<Longrightarrow> d' = d"

locale cert_repo =
  fixes R :: CertificateRepository
  assumes GetByDomainID_found: "cr_GetByDomainID R i d = Inr x \<Longrightarrow> x \<in> set (t_certs d) \<and> C_DomainID x = i"
    and GetByDomainID_missing: "cr_GetByDomainID R i d = Inl e \<Longrightarrow> errors_Is e RepoErrNotFound \<Longrightarrow>
      x \<in> set (t_certs d) \<Longrightarrow> C_DomainID x \<noteq> i"
    and Cert_Create_ok: "cr_Create R x d = (Inr x', d') \<Longrightarrow>
      created_DomainCertificate x x' \<and> d' = put_certs (t_certs d @ [x']) d"
    and Cert_Create_keys: "cr_Create R x d = (Inr x', d') \<Longrightarrow> db_ok d \<Longrightarrow> db_ok d'"
    and Cert_Update_keys: "cr_Update R x d = (Inr x', d') \<Longrightarrow> db_ok d \<Longrightarrow> db_ok d'"
    and Cert_Create_err: "cr_Create R x d = (Inl e, d') \<Longrightarrow> d' = d"
    and Cert_Update_ok: "cr_Update R x d = (Inr x', d') \<Longrightarrow> y \<in> set (t_certs d) \<Longrightarrow> C_ID y = C_ID x \<Longrightarrow>
      saved_DomainCertificate x x' \<and> d' = put_certs (map (\<lambda>z. if C_ID z = C_ID x then x' else z) (t_certs d)) d"
    and Cert_Update_err: "cr_Update R x d = (Inl e, d') \<Longrightarrow> d' = d"
    and Expiring_rows: "cr_GetExpiringCertificates R n now d = Inr xs \<Longrightarrow>
      set xs = {x \<in> set (t_certs d). now < C_ExpiresAt x \<and> C_ExpiresAt x \<le> AddDays now n}"
    and Cert_List_rows: "cr_List R d = Inr xs \<Longrightarrow> set xs = set (t_certs d)"

section \<open>The GORM repositories satisfy the contracts\<close>

context gorm_table
begin

lemma lookup_found: "first_result what (g_First T P d) = Inr x \<Longrightarrow> x \<in> set (rows d) \<and> P x"
  by (simp add: first_result_cases First_found)

lemma lookup_missing:
  assumes "first_result what (g_First T P d) = Inl e" "errors_Is e RepoErrNotFound"
    and x: "x \<in> set (rows d)"
  shows "\<not> P x"
proof -
  from assms(1,2) have "g_First T P d = Inl ErrRecordNotFound"
    using first_result_cases(2) by blast
  from First_missing [OF this x] show ?thesis .
qed

lemma listed: "list_result what (g_Find T P ordr d) = Inr xs \<Longrightarrow> set xs = {x \<in> set (rows d). P x}"
  by (simp add: Find_rows list_result_Inr)

end

context gorm_db
begin

lemma domain_Update_cases:
  "domain_Update G x d = (Inr x', d') \<Longrightarrow> \<exists>n. n \<noteq> 0 \<and> g_Save (g_domains G) x d = (Inr (x', n), d')"
  "domain_Update G x d = (Inl e, d') \<Longrightarrow> d' = d"
  using dom.Save_err [of x d] dom.Save_none [of x d]
  by (auto simp: domain_Update_def split: sum.splits prod.splits if_splits)

lemma domain_repo_laws: "domain_repo (NewDomainRepository G)"
proof
  fix i d e d'
  assume "dr_Delete (NewDomainRepository G) i d = (Inl e, d')"
  then consider g where "g_Delete (g_domains G) (\<lambda>x. D_ID x = i) d = (Inl g, d')"
    | "g_Delete (g_domains G) (\<lambda>x. D_ID x = i) d = (Inr 0, d')" "e = Sentinel RepoErrNotFound"
    by (auto simp: NewDomainRepository_def domain_Delete_def rows_result_cases)
  then show "d' = d"
  proof cases
    case 1
    then show ?thesis by (rule dom.Delete_err)
  next
    case 2
    from dom.Delete_ok [OF 2(1)] show ?thesis by (simp add: purge_domains_none)
  qed
next
  fix x d x' d' y
  assume "dr_Update (NewDomainRepository G) x d = (Inr x', d')" "y \<in> set (t_domains d)" "D_ID y = D_ID x"
  then show "saved_Domain x x' \<and> d' = put_domains (map (\<lambda>z. if D_ID z = D_ID x then x' else z) (t_domains d)) d"
    using domain_Update_cases(1) dom.Save_ok by (fastforce simp: NewDomainRepository_def)
next
  fix x d x' d'
  assume "dr_Update (NewDomainRepository G) x d = (Inr x', d')" "db_ok d"
  then show "db_ok d'"
    using domain_Update_cases(1) dom.Save_keys by (fastforce simp: NewDomainRepository_def)
next
  fix x d x' d'
  assume "dr_Create (NewDomainRepository G) x d = (Inr x', d')"
  then have "g_Create (g_domains G) x d = (Inr x', d')"
    by (auto simp: NewDomainRepository_def domain_Create_def split: sum.splits prod.splits if_splits)
  then show "created_Domain x x' \<and> d' = put_domains (t_domains d @ [x']) d
      \<and> D_ID x' \<notin> D_ID ` set (t_domains d) \<and> (db_ok d \<longrightarrow> db_ok d')"
    using dom.Create_ok dom.Create_keys by blast
next
  fix x d e d'
  assume "dr_Create (NewDomainRepository G) x d = (Inl e, d')"
  then obtain g where "g_Create (g_domains G) x d = (Inl g, d')"
    by (auto simp: NewDomainRepository_def domain_Create_def split: sum.splits prod.splits if_splits)
  then show "d' = d" by (rule dom.Create_err)
qed (auto simp: NewDomainRepository_def domain_GetByID_def domain_GetByName_def
       domain_List_def domain_Delete_def rows_result_cases domain_Update_cases(2)
     dest!: dom.listed dest: dom.lookup_found dom.lookup_missing dom.Delete_ok)

lemma mailbox_Create_cases:
  "mailbox_Create G x d = (Inr x', d') \<Longrightarrow> g_Create (g_mailboxes G) x d = (Inr x', d')"
  "mailbox_Create G x d = (Inl e, d') \<Longrightarrow> d' = d"
  using mbox.Create_err [of x d]
  by (auto simp: mailbox_Create_def split: sum.splits prod.splits if_splits)

lemma mailbox_lookup:
  "mailbox_GetByAddress G a d = Inr x \<Longrightarrow> x \<in> set (t_mailboxes d) \<and> M_FullAddress x = a"
  "mailbox_GetByAddress G a d = Inl e \<Longrightarrow> errors_Is e RepoErrNotFound \<Longrightarrow>
     \<forall>x \<in> set (t_mailboxes d). M_FullAddress x \<noteq> a"
  by (auto simp: mailbox_GetByAddress_def dest: mbox.lookup_found mbox.lookup_missing)

lemma mailbox_repo_laws: "mailbox_repo (NewMailboxRepository G)"
proof
  fix lp i dn d m d'
  assume "mr_GetOrCreate (NewMailboxRepository G) lp i dn d = (Inr (m, False), d')"
  then show "d' = d \<and> m \<in> set (t_mailboxes d) \<and> M_FullAddress m = lp @ ''@'' @ dn"
    by (auto simp: NewMailboxRepository_def mailbox_GetOrCreate_def Let_def
        split: sum.splits if_splits prod.splits dest: mailbox_lookup(1) mailbox_Create_cases(2))
next
  fix lp i dn d m d'
  assume "mr_GetOrCreate (NewMailboxRepository G) lp i dn d = (Inr (m, True), d')"
  then obtain e where e: "mailbox_GetByAddress G (lp @ ''@'' @ dn) d = Inl e" "errors_Is e RepoErrNotFound"
    and c: "mailbox_Create G (zero_Mailbox\<lparr>M_LocalPart := lp, M_DomainID := i,
       M_FullAddress := lp @ ''@'' @ dn\<rparr>) d = (Inr m, d')"
    by (auto simp: NewMailboxRepository_def mailbox_GetOrCreate_def Let_def
        split: sum.splits if_splits prod.splits)
  note g = mailbox_Create_cases(1) [OF c]
  from mbox.Create_ok [OF g] have "created_Mailbox (zero_Mailbox\<lparr>M_LocalPart := lp, M_DomainID := i,
       M_FullAddress := lp @ ''@'' @ dn\<rparr>) m" by simp
  from created_Mailbox_fields [OF this] show "d' = put_mailboxes (t_mailboxes d @ [m]) d \<and> M_FullAddress m = lp @ ''@'' @ dn
      \<and> M_LocalPart m = lp \<and> M_DomainID m = i \<and> M_ID m \<notin> M_ID ` set (t_mailboxes d)
      \<and> (\<forall>x \<in> set (t_mailboxes d). M_FullAddress x \<noteq> lp @ ''@'' @ dn) \<and> (db_ok d \<longrightarrow> db_ok d')"
    using mbox.Create_ok [OF g] mbox.Create_keys [OF g] mailbox_lookup(2) [OF e] by simp
next
  fix lp i dn d e d'
  assume "mr_GetOrCreate (NewMailboxRepository G) lp i dn d = (Inl e, d')"
  then show "d' = d"
    by (auto simp: NewMailboxRepository_def mailbox_GetOrCreate_def Let_def
        split: sum.splits if_splits prod.splits dest: mailbox_Create_cases(2))
qed (auto simp: NewMailboxRepository_def dest: mailbox_lookup)

lemma create_attachments_ok:
  "create_attachments G mid as d = (Inr as', d') \<Longrightarrow>
     list_all2 (\<lambda>a a'. created_Attachment (a\<lparr>A_MessageID := mid\<rparr>) a') as as'
     \<and> d' = put_attachments (t_attachments d @ as') d"
proof (induction as arbitrary: d as')
  case (Cons a as)
  obtain a' d1 where a': "g_Create (g_attachments G) (a\<lparr>A_MessageID := mid\<rparr>) d = (Inr a', d1)"
    using Cons.prems by (auto split: sum.splits prod.splits)
  then obtain bs where bs: "create_attachments G mid as d1 = (Inr bs, d')" "as' = a' # bs"
    using Cons.prems by (auto split: sum.splits prod.splits)
  from Cons.IH [OF bs(1)] att.Create_ok [OF a'] bs(2) show ?case by simp
qed simp

lemma create_attachments_keys:
  "create_attachments G mid as d = (Inr as', d') \<Longrightarrow> db_ok d \<Longrightarrow> db_ok d'"
  by (induction as arbitrary: d as') (auto split: sum.splits prod.splits dest: att.Create_keys)

lemma message_repo_laws: "message_repo (NewMessageRepository G)"
proof
  fix m as d x d'
  assume "ms_CreateWithAttachments (NewMessageRepository G) m as d = (Inr x, d')" "db_ok d"
  then show "db_ok d'"
    by (auto simp: NewMessageRepository_def message_CreateWithAttachments_def split: sum.splits prod.splits
        dest!: Transaction_commit msg.Create_keys dest: create_attachments_keys)
next
  fix m as d m' as' d'
  assume "ms_CreateWithAttachments (NewMessageRepository G) m as d = (Inr (m', as'), d')"
  from this [unfolded NewMessageRepository_def, simplified] obtain d1
    where d1: "g_Create (g_messages G) m d = (Inr m', d1)"
      "create_attachments G (Msg_ID m') as d1 = (Inr as', d')"
    unfolding message_CreateWithAttachments_def
    by (auto dest!: Transaction_commit split: sum.splits prod.splits)
  from msg.Create_ok [OF d1(1)] create_attachments_ok [OF d1(2)]
  show "created_Message m m' \<and> Msg_ID m' \<notin> Msg_ID ` set (t_messages d)
      \<and> list_all2 (\<lambda>a a'. created_Attachment (a\<lparr>A_MessageID := Msg_ID m'\<rparr>) a') as as'
      \<and> d' = d\<lparr>t_messages := t_messages d @ [m'], t_attachments := t_attachments d @ as'\<rparr>" by simp
qed (auto simp: NewMessageRepository_def message_CreateWithAttachments_def dest: Transaction_rollback)

lemma cert_Update_cases:
  "cert_Update G x d = (Inr x', d') \<Longrightarrow> \<exists>n. n \<noteq> 0 \<and> g_Save (g_certs G) x d = (Inr (x', n), d')"
  "cert_Update G x d = (Inl e, d') \<Longrightarrow> d' = d"
  using cert.Save_err [of x d] cert.Save_none [of x d]
  by (auto simp: cert_Update_def split: sum.splits prod.splits if_splits)

lemma cert_repo_laws: "cert_repo (NewCertificateRepository G)"
proof
  fix x d x' d'
  assume "cr_Create (NewCertificateRepository G) x d = (Inr x', d')"
  then have "g_Create (g_certs G) x d = (Inr x', d')"
    by (auto simp: NewCertificateRepository_def cert_Create_def split: sum.splits prod.splits if_splits)
  then show "created_DomainCertificate x x' \<and> d' = put_certs (t_certs d @ [x']) d" "db_ok d \<Longrightarrow> db_ok d'"
    using cert.Create_ok cert.Create_keys by blast+
next
  fix x d x' d'
  assume "cr_Update (NewCertificateRepository G) x d = (Inr x', d')" "db_ok d"
  then show "db_ok d'" using cert_Update_cases(1) cert.Save_keys by (fastforce simp: NewCertificateRepository_def)
next
  fix x d e d'
  assume "cr_Create (NewCertificateRepository G) x d = (Inl e, d')"
  then obtain g where "g_Create (g_certs G) x d = (Inl g, d')"
    by (auto simp: NewCertificateRepository_def cert_Create_def split: sum.splits prod.splits if_splits)
  then show "d' = d" by (rule cert.Create_err)
next
  fix x d x' d' y
  assume "cr_Update (NewCertificateRepository G) x d = (Inr x', d')" "y \<in> set (t_certs d)" "C_ID y = C_ID x"
  then show "saved_DomainCertificate x x' \<and> d' = put_certs (map (\<lambda>z. if C_ID z = C_ID x then x' else z) (t_certs d)) d"
    using cert_Update_cases(1) cert.Save_ok by (fastforce simp: NewCertificateRepository_def)
qed (auto simp: NewCertificateRepository_def cert_GetByDomainID_def cert_GetExpiringCertificates_def
      cert_List_def Let_def cert_Update_cases(2)
     dest!: cert.listed dest: cert.lookup_found cert.lookup_missing)

end

sublocale gorm_db \<subseteq> dr: domain_repo "NewDomainRepository G" by (rule domain_repo_laws)
sublocale gorm_db \<subseteq> mr: mailbox_repo "NewMailboxRepository G" by (rule mailbox_repo_laws)
sublocale gorm_db \<subseteq> ms: message_repo "NewMessageRepository G" by (rule message_repo_laws)
sublocale gorm_db \<subseteq> cr: cert_repo "NewCertificateRepository G" by (rule cert_repo_laws)

interpretation mem_dr: domain_repo "NewDomainRepository (mem_gorm t)" by (rule mem.domain_repo_laws)
interpretation mem_mr: mailbox_repo "NewMailboxRepository (mem_gorm t)" by (rule mem.mailbox_repo_laws)
interpretation mem_ms: message_repo "NewMessageRepository (mem_gorm t)" by (rule mem.message_repo_laws)
interpretation mem_cr: cert_repo "NewCertificateRepository (mem_gorm t)" by (rule mem.cert_repo_laws)

section \<open>Concurrent get-or-create\<close>

text \<open>
  Two SMTP sessions may provision the same address at once. \<open>goc_step\<close> is
  \<^verbatim>\<open>GetOrCreate\<close> one database statement at a time; \<open>goc_run\<close> interleaves any number
  of calls with each other and with other transactions, as long as none deletes a mailbox.
\<close>

record goc_req =
  req_local :: string
  req_domainID :: uint
  req_domain :: string

definition req_address :: "goc_req \<Rightarrow> string" where
  "req_address r = req_local r @ ''@'' @ req_domain r"

datatype goc_pc = GocLookup | GocCreate | GocRetry | GocDone "goerror + Mailbox \<times> bool"

fun goc_step :: "gorm \<Rightarrow> goc_req \<Rightarrow> goc_pc \<Rightarrow> db \<Rightarrow> goc_pc \<times> db" where
  "goc_step G r GocLookup d =
     (case mailbox_GetByAddress G (req_address r) d of
        Inr mailbox \<Rightarrow> (GocDone (Inr (mailbox, False)), d)
      | Inl err \<Rightarrow> if \<not> errors_Is err RepoErrNotFound then (GocDone (Inl err), d) else (GocCreate, d))"
| "goc_step G r GocCreate d =
     (case mailbox_Create G (zero_Mailbox\<lparr>M_LocalPart := req_local r, M_DomainID := req_domainID r,
             M_FullAddress := req_address r\<rparr>) d of
        (Inl err, d') \<Rightarrow> if errors_Is err RepoErrDuplicateEntry then (GocRetry, d') else (GocDone (Inl err), d')
      | (Inr mailbox, d') \<Rightarrow> (GocDone (Inr (mailbox, True)), d'))"
| "goc_step G r GocRetry d =
     (case mailbox_GetByAddress G (req_address r) d of
        Inl err \<Rightarrow> (GocDone (Inl err), d)
      | Inr mailbox \<Rightarrow> (GocDone (Inr (mailbox, False)), d))"
| "goc_step G r (GocDone x) d = (GocDone x, d)"

lemma goc_step_sequential:
  "((\<lambda>(pc, d). goc_step G r pc d) ^^ 3) (GocLookup, d) =
   (let (x, d') = mailbox_GetOrCreate G (req_local r) (req_domainID r) (req_domain r) d in (GocDone x, d'))"
  by (auto simp: mailbox_GetOrCreate_def Let_def numeral_3_eq_3 req_address_def
      split: sum.splits prod.splits)

inductive goc_run :: "gorm \<Rightarrow> goc_req list \<Rightarrow> db \<Rightarrow> goc_pc list \<Rightarrow> db \<Rightarrow> bool"
  for G reqs d0 where
  start: "goc_run G reqs d0 (replicate (length reqs) GocLookup) d0"
| call: "goc_run G reqs d0 (pcs[i := pc']) d'"
    if "goc_run G reqs d0 pcs d" "i < length reqs" "goc_step G (reqs ! i) (pcs ! i) d = (pc', d')"
| other: "goc_run G reqs d0 pcs d'"
    if "goc_run G reqs d0 pcs d" "db_ok d'" "set (t_mailboxes d) \<subseteq> set (t_mailboxes d')"

definition goc_inv :: "goc_req list \<Rightarrow> goc_pc list \<Rightarrow> db \<Rightarrow> bool" where
  "goc_inv reqs pcs d \<longleftrightarrow> length pcs = length reqs \<and> db_ok d
    \<and> (\<forall>i m c. i < length reqs \<and> pcs ! i = GocDone (Inr (m, c)) \<longrightarrow>
         m \<in> set (t_mailboxes d) \<and> M_FullAddress m = req_address (reqs ! i))
    \<and> (\<forall>i j m. i < length reqs \<and> j < length reqs \<and> i \<noteq> j
         \<and> pcs ! i = GocDone (Inr (m, True)) \<longrightarrow> pcs ! j \<noteq> GocDone (Inr (m, True)))"

lemma goc_invD:
  assumes "goc_inv reqs pcs d"
  shows "length pcs = length reqs" "db_ok d"
    "j < length reqs \<Longrightarrow> pcs ! j = GocDone (Inr (m, c)) \<Longrightarrow>
       m \<in> set (t_mailboxes d) \<and> M_FullAddress m = req_address (reqs ! j)"
    "j < length reqs \<Longrightarrow> k < length reqs \<Longrightarrow> j \<noteq> k \<Longrightarrow>
       pcs ! j = GocDone (Inr (m, True)) \<Longrightarrow> pcs ! k \<noteq> GocDone (Inr (m, True))"
  using assms unfolding goc_inv_def by blast+

context gorm_db
begin

lemma mailbox_Create_ok:
  assumes "mailbox_Create G x d = (Inr m, d')"
  shows "d' = put_mailboxes (t_mailboxes d @ [m]) d" "M_ID m \<notin> M_ID ` set (t_mailboxes d)"
    "M_FullAddress m = M_FullAddress x" "db_ok d \<Longrightarrow> db_ok d'"
  using mbox.Create_ok [OF mailbox_Create_cases(1) [OF assms]] created_Mailbox_fields
    mbox.Create_keys [OF mailbox_Create_cases(1) [OF assms]] by auto

lemma goc_step_effect:
  assumes "goc_step G r pc d = (pc', d')" "db_ok d"
  shows "db_ok d'" "set (t_mailboxes d) \<subseteq> set (t_mailboxes d')"
    "pc' = GocDone (Inr (m, c)) \<Longrightarrow> pc \<noteq> pc' \<Longrightarrow> m \<in> set (t_mailboxes d') \<and> M_FullAddress m = req_address r"
    "pc' = GocDone (Inr (m, True)) \<Longrightarrow> pc \<noteq> pc' \<Longrightarrow> m \<notin> set (t_mailboxes d)"
  using assms
  by (cases pc; auto split: sum.splits prod.splits if_splits
      dest: mailbox_lookup(1) mailbox_Create_ok mailbox_Create_cases(2))+

lemma goc_inv_call:
  assumes inv: "goc_inv reqs pcs d" and i: "i < length reqs"
    and s: "goc_step G (reqs ! i) (pcs ! i) d = (pc', d')"
  shows "goc_inv reqs (pcs[i := pc']) d'"
proof -
  note l = goc_invD(1,2) [OF inv] and res = goc_invD(3) [OF inv] and one = goc_invD(4) [OF inv]
  note e = goc_step_effect [OF s l(2)]
  have "m \<in> set (t_mailboxes d') \<and> M_FullAddress m = req_address (reqs ! j)"
    if "j < length reqs" "pcs[i := pc'] ! j = GocDone (Inr (m, c))" for j m c
    using that e(2,3) res [of j m c] l i by (cases "j = i"; cases "pcs ! i = pc'") auto
  moreover have "pcs[i := pc'] ! k \<noteq> GocDone (Inr (m, True))"
    if "j < length reqs" "k < length reqs" "j \<noteq> k" "pcs[i := pc'] ! j = GocDone (Inr (m, True))" for j k m
    using that e(4) res [of _ m True] one [of j k m] l i
    by (cases "j = i"; cases "k = i"; cases "pcs ! i = pc'") auto
  moreover have "length (pcs[i := pc']) = length reqs" using l by simp
  ultimately show ?thesis using e(1) unfolding goc_inv_def by blast
qed

lemma goc_run_inv: "goc_run G reqs d0 pcs d \<Longrightarrow> db_ok d0 \<Longrightarrow> goc_inv reqs pcs d"
proof (induction rule: goc_run.induct)
  case (call pcs d i pc' d')
  then show ?case by (intro goc_inv_call) auto
next
  case (other pcs d d')
  then show ?case unfolding goc_inv_def by blast
qed (auto simp: goc_inv_def)

end

text \<open>
  C17. Concurrent provisioning: however the statements of concurrent \<^verbatim>\<open>GetOrCreate\<close> calls
  interleave, two calls for the same address that return a mailbox return the same one, and at
  most one of them reports having created it.
\<close>

theorem GetOrCreate_race:
  assumes "gorm_db G" "db_ok d0" "goc_run G reqs d0 pcs d"
    and "i < length reqs" "j < length reqs" "i \<noteq> j" "req_address (reqs ! i) = req_address (reqs ! j)"
    and "pcs ! i = GocDone (Inr (m, c))" "pcs ! j = GocDone (Inr (m', c'))"
  shows "m = m' \<and> \<not> (c \<and> c')"
proof -
  have inv: "goc_inv reqs pcs d" by (rule gorm_db.goc_run_inv [OF assms(1,3,2)])
  note m = goc_invD(3) [OF inv assms(4,8)] and m' = goc_invD(3) [OF inv assms(5,9)]
  have "distinct (map M_FullAddress (t_mailboxes d))"
    using goc_invD(2) [OF inv] by (simp add: db_ok_def)
  from distinct_map_inj [OF this] m m' assms(7) have eq: "m = m'" by simp
  have "\<not> (c \<and> c')"
  proof
    assume "c \<and> c'"
    with assms(8,9) eq have "pcs ! i = GocDone (Inr (m, True))" "pcs ! j = GocDone (Inr (m, True))" by simp_all
    with goc_invD(4) [OF inv assms(4,5,6)] show False by blast
  qed
  with eq show ?thesis by simp
qed

definition empty_db :: db where
  "empty_db = \<lparr>t_domains = [], t_certs = [], t_mailboxes = [], t_messages = [], t_attachments = []\<rparr>"

lemma empty_db_ok [simp]: "db_ok empty_db"
  by (simp add: db_ok_def empty_db_def)

fun goc_exec :: "gorm \<Rightarrow> goc_req list \<Rightarrow> nat list \<Rightarrow> goc_pc list \<times> db \<Rightarrow> goc_pc list \<times> db" where
  "goc_exec G reqs [] s = s"
| "goc_exec G reqs (i # is) (pcs, d) =
     (let (pc', d') = goc_step G (reqs ! i) (pcs ! i) d in goc_exec G reqs is (pcs[i := pc'], d'))"

lemma goc_exec_run:
  "goc_run G reqs d0 pcs d \<Longrightarrow> \<forall>i \<in> set is. i < length reqs \<Longrightarrow>
   goc_exec G reqs is (pcs, d) = (pcs', d') \<Longrightarrow> goc_run G reqs d0 pcs' d'"
proof (induction "is" arbitrary: pcs d)
  case (Cons i "is")
  obtain pc' e where s: "goc_step G (reqs ! i) (pcs ! i) d = (pc', e)" by fastforce
  with Cons show ?case by (auto intro: goc_run.call)
qed simp

text \<open>Both sessions look the address up before either creates it; the loser finds the winner's row.\<close>

theorem GetOrCreate_race_witness:
  "\<exists>d m m' c c'. goc_run (mem_gorm 5) (replicate 2 \<lparr>req_local = ''bob'', req_domainID = 1, req_domain = ''x.io''\<rparr>)
     empty_db [GocDone (Inr (m, c)), GocDone (Inr (m', c'))] d \<and> (m = m' \<and> \<not> (c \<and> c'))"
proof -
  let ?r = "\<lparr>req_local = ''bob'', req_domainID = 1, req_domain = ''x.io''\<rparr>"
  let ?m = "\<lparr>M_ID = 1, M_LocalPart = ''bob'', M_DomainID = 1, M_FullAddress = ''bob@x.io'', M_CreatedAt = 5,
    M_LastAccessedAt = None\<rparr>"
  let ?reqs = "replicate 2 ?r"
  have "fst (goc_exec (mem_gorm 5) ?reqs [0, 1, 0, 1, 1] (replicate (length ?reqs) GocLookup, empty_db))
      = [GocDone (Inr (?m, True)), GocDone (Inr (?m, False))]"
    by code_simp
  then obtain d where x: "goc_exec (mem_gorm 5) ?reqs [0, 1, 0, 1, 1] (replicate (length ?reqs) GocLookup, empty_db)
      = ([GocDone (Inr (?m, True)), GocDone (Inr (?m, False))], d)"
    by (metis prod.collapse)
  have r: "goc_run (mem_gorm 5) ?reqs empty_db [GocDone (Inr (?m, True)), GocDone (Inr (?m, False))] d"
    by (rule goc_exec_run [OF goc_run.start _ x]) simp
  have "?m = ?m \<and> \<not> (True \<and> False)"
    by (rule GetOrCreate_race [OF mem.gorm_db_axioms empty_db_ok r, of 0 1]) simp_all
  with r show ?thesis by blast
qed

section \<open>Properties of the other operations\<close>

text \<open>
  C24. \<^verbatim>\<open>CreateWithAttachments\<close> is atomic: it either stores the message, under a new key, with
  every attachment pointing at it, or leaves the database as it was.
\<close>

theorem CreateWithAttachments_atomic:
  assumes "gorm_db G" "message_CreateWithAttachments G m as d = (r, d')"
  shows "case r of
      Inl e \<Rightarrow> d' = d
    | Inr (m', as') \<Rightarrow>
        d' = d\<lparr>t_messages := t_messages d @ [m'], t_attachments := t_attachments d @ as'\<rparr>
        \<and> Msg_ID m' \<notin> Msg_ID ` set (t_messages d) \<and> Msg_MailboxID m' = Msg_MailboxID m
        \<and> length as' = length as
        \<and> (\<forall>k < length as. A_MessageID (as' ! k) = Msg_ID m' \<and> A_FilePath (as' ! k) = A_FilePath (as ! k)
             \<and> A_SizeBytes (as' ! k) = A_SizeBytes (as ! k))"
proof -
  note laws = gorm_db.message_repo_laws [OF assms(1)]
  have c: "ms_CreateWithAttachments (NewMessageRepository G) m as d = (r, d')"
    using assms(2) by (simp add: NewMessageRepository_def)
  show ?thesis
  proof (cases r)
    case (Inl e)
    with message_repo.CreateWithAttachments_err [OF laws] c show ?thesis by simp
  next
    case (Inr p)
    obtain m' as' where p: "p = (m', as')" by fastforce
    note o = message_repo.CreateWithAttachments_ok [OF laws c [unfolded Inr p]]
    then have "\<forall>k < length as. created_Attachment ((as ! k)\<lparr>A_MessageID := Msg_ID m'\<rparr>) (as' ! k)"
      "length as' = length as" by (auto simp: list_all2_conv_all_nth)
    with o Inr p show ?thesis using created_Message_fields created_Attachment_fields by fastforce
  qed
qed

theorem CreateWithAttachments_atomic_witness:
  "case fst (message_CreateWithAttachments (mem_gorm 9)
       \<lparr>Msg_ID = 0, Msg_MailboxID = 4, Msg_SenderEmail = [], Msg_SenderName = [], Msg_Subject = [],
        Msg_Snippet = [], Msg_BodyText = [], Msg_BodyHTML = [], Msg_IsRead = False, Msg_ReceivedAt = 0\<rparr>
       [\<lparr>A_ID = 0, A_MessageID = 0, A_Filename = ''f'', A_ContentType = [], A_FilePath = ''p'', A_SizeBytes = 3\<rparr>]
       empty_db) of
     Inl e \<Rightarrow> False
   | Inr (m', as') \<Rightarrow> Msg_MailboxID m' = 4 \<and> A_MessageID (as' ! 0) = Msg_ID m' \<and> length as' = 1"
  (is "case fst (message_CreateWithAttachments ?G ?m ?as ?d) of Inl e \<Rightarrow> False | Inr (m', as') \<Rightarrow> ?P m' as'")
proof -
  obtain r d' where rd: "message_CreateWithAttachments ?G ?m ?as ?d = (r, d')" by fastforce
  have "is_ok (fst (message_CreateWithAttachments ?G ?m ?as ?d))" by code_simp
  with rd obtain m' as' where r: "r = Inr (m', as')" by (auto simp: is_ok_iff)
  from CreateWithAttachments_atomic [OF mem.gorm_db_axioms rd] show ?thesis
    unfolding rd fst_conv r by simp
qed



end
