(* ===== verification/DomainMgr.thy ===== *)
theory DomainMgr
  imports Repository
begin

text \<open>
  \<^verbatim>\<open>internal/services/domain_manager.go\<close>: the life cycle of a domain and the DNS records its
  owner has to publish. The random source is an argument (the sixteen bytes read, or the error).
\<close>

section \<open>Data\<close>

record DNSRecord =
  R_Type :: string
  R_Name :: string
  R_Value :: string
  R_Priority :: int
  R_TTL :: int

record DNSGuide =
  G_MXRecord :: DNSRecord
  G_ARecord :: DNSRecord
  G_TXTRecord :: DNSRecord
  G_ACMEChallengeInfo :: string
  G_SMTPHost :: string
  G_ServerIP :: string

record DomainManagerConfig =
  dm_SMTPHostname :: string
  dm_ServerIP :: string

section \<open>Operations\<close>

definition hex_digit :: "nat \<Rightarrow> char" where
  "hex_digit n = (if n < 10 then char_of (48 + n) else char_of (87 + n))"

definition hex_EncodeToString :: "bytes \<Rightarrow> string" where
  "hex_EncodeToString bs = concat (map (\<lambda>c. [hex_digit (ord c div 16), hex_digit (ord c mod 16)]) bs)"

definition generateChallengeToken :: "goerror + bytes \<Rightarrow> goerror + string" where
  "generateChallengeToken rnd =
     (case rnd of Inl err \<Rightarrow> Inl err | Inr bs \<Rightarrow> Inr (hex_EncodeToString bs))"

definition CreateDomain :: "DomainRepository \<Rightarrow> goerror + bytes \<Rightarrow> string \<Rightarrow> db \<Rightarrow> (goerror + Domain) \<times> db" where
  "CreateDomain repo rnd name d =
     (let name = TrimSpace (ToLower name) in
      if name = [] then (Inl (Opaque ''domain name cannot be empty''), d)
      else
        case generateChallengeToken rnd of
          Inl err \<Rightarrow> (Inl (Wrapf ''failed to generate challenge token'' err), d)
        | Inr challengeToken \<Rightarrow>
           (case dr_Create repo (zero_Domain\<lparr>D_Name := name, D_IsActive := False,
                  D_Status := StatusPendingDNS, D_DNSChallenge := challengeToken\<rparr>) d of
              (Inl err, d') \<Rightarrow> (Inl (Wrapf ''failed to create domain'' err), d')
            | (Inr domain, d') \<Rightarrow> (Inr domain, d')))"

definition UpdateStatus :: "DomainRepository \<Rightarrow> uint \<Rightarrow> DomainStatus \<Rightarrow> string \<Rightarrow> db \<Rightarrow> (goerror + unit) \<times> db" where
  "UpdateStatus repo domainID status errorMsg d =
     (if \<not> DomainStatus_IsValid status
      then (Inl (Opaque (''invalid domain status: '' @ DomainStatus_String status)), d)
      else
        case dr_GetByID repo domainID d of
          Inl err \<Rightarrow> (Inl (Wrapf ''failed to get domain'' err), d)
        | Inr domain \<Rightarrow>
           (let domain = domain\<lparr>D_Status := status, D_ErrorMessage := errorMsg\<rparr>;
                domain = (if status \<noteq> StatusFailed then domain\<lparr>D_ErrorMessage := []\<rparr> else domain) in
            case dr_Update repo domain d of
              (Inl err, d') \<Rightarrow> (Inl (Wrapf ''failed to update domain status'' err), d')
            | (Inr _, d') \<Rightarrow> (Inr (), d')))"

definition getParentDomainName :: "string \<Rightarrow> string" where
  "getParentDomainName domainName =
     (if HasPrefix (ToLower domainName) ''mail.'' then drop 5 domainName else domainName)"

definition getMailHostnameName :: "string \<Rightarrow> string" where
  "getMailHostnameName domainName =
     (if HasPrefix (ToLower domainName) ''mail.'' then domainName else ''mail.'' @ domainName)"

definition guide_of :: "DomainManagerConfig \<Rightarrow> Domain \<Rightarrow> DNSGuide" where
  "guide_of config domain =
     (let parentDomain = getParentDomainName (D_Name domain);
          mailHostname = getMailHostnameName (D_Name domain) in
      \<lparr>G_MXRecord = \<lparr>R_Type = ''MX'', R_Name = parentDomain, R_Value = dm_SMTPHostname config,
         R_Priority = 10, R_TTL = 3600\<rparr>,
       G_ARecord = \<lparr>R_Type = ''A'', R_Name = mailHostname, R_Value = dm_ServerIP config,
         R_Priority = 0, R_TTL = 3600\<rparr>,
       G_TXTRecord = \<lparr>R_Type = ''TXT'', R_Name = ''_infinimail.'' @ parentDomain,
         R_Value = ''infinimail-verify='' @ D_DNSChallenge domain, R_Priority = 0, R_TTL = 3600\<rparr>,
       G_ACMEChallengeInfo = [], G_SMTPHost = dm_SMTPHostname config, G_ServerIP = dm_ServerIP config\<rparr>)"

definition GetDNSGuide :: "DomainRepository \<Rightarrow> DomainManagerConfig \<Rightarrow> uint \<Rightarrow> db \<Rightarrow> goerror + DNSGuide" where
  "GetDNSGuide repo config domainID d =
     (case dr_GetByID repo domainID d of
        Inl err \<Rightarrow> Inl (Wrapf ''failed to get domain'' err)
      | Inr domain \<Rightarrow> Inr (guide_of config domain))"

definition ActivateDomain :: "DomainRepository \<Rightarrow> uint \<Rightarrow> db \<Rightarrow> (goerror + unit) \<times> db" where
  "ActivateDomain repo domainID d =
     (case dr_GetByID repo domainID d of
        Inl err \<Rightarrow> (Inl (Wrapf ''failed to get domain'' err), d)
      | Inr domain \<Rightarrow>
          if D_Status domain \<noteq> StatusCertificateIssued
          then (Inl (Opaque (''domain must be in certificate_issued status to activate, current status: ''
                  @ DomainStatus_String (D_Status domain))), d)
          else
            (case dr_Update repo (domain\<lparr>D_Status := StatusActive, D_IsActive := True, D_ErrorMessage := []\<rparr>) d of
               (Inl err, d') \<Rightarrow> (Inl (Wrapf ''failed to activate domain'' err), d')
             | (Inr _, d') \<Rightarrow> (Inr (), d')))"

definition GenerateChallengeForLegacyDomain ::
    "DomainRepository \<Rightarrow> goerror + bytes \<Rightarrow> uint \<Rightarrow> db \<Rightarrow> (goerror + unit) \<times> db" where
  "GenerateChallengeForLegacyDomain repo rnd domainID d =
     (case dr_GetByID repo domainID d of
        Inl err \<Rightarrow> (Inl (Wrapf ''failed to get domain'' err), d)
      | Inr domain \<Rightarrow>
          if D_DNSChallenge domain \<noteq> [] then (Inr (), d)
          else
            case generateChallengeToken rnd of
              Inl err \<Rightarrow> (Inl (Wrapf ''failed to generate challenge token'' err), d)
            | Inr challengeToken \<Rightarrow>
               (case dr_Update repo (domain\<lparr>D_DNSChallenge := challengeToken, D_Status := StatusPendingDNS\<rparr>) d of
                  (Inl err, d') \<Rightarrow> (Inl (Wrapf ''failed to update domain with challenge token'' err), d')
                | (Inr _, d') \<Rightarrow> (Inr (), d')))"

section \<open>Names\<close>

text \<open>
  The two name functions fit together: the mail host of a domain is \<^verbatim>\<open>mail.\<close> (in the
  letter case the domain was entered in) before its parent domain, and both functions are
  idempotent on their own kind of name.
\<close>

theorem mail_hostname_of_parent:
  "ToLower (getMailHostnameName n) = ''mail.'' @ ToLower (getParentDomainName n)
   \<and> getMailHostnameName (getMailHostnameName n) = getMailHostnameName n"
proof (cases "HasPrefix (ToLower n) ''mail.''")
  case True
  then have "ToLower n = ''mail.'' @ drop 5 (ToLower n)"
    by (auto simp: HasPrefix_iff)
  with True show ?thesis
    by (simp add: getMailHostnameName_def getParentDomainName_def ToLower_def drop_map)
next
  case False
  have "ToLower ''mail.'' = ''mail.''" by code_simp
  then have l: "ToLower (''mail.'' @ n) = ''mail.'' @ ToLower n" by (simp only: ToLower_simps)
  then have "HasPrefix (ToLower (''mail.'' @ n)) ''mail.''" by (simp only: HasPrefix_append)
  with False l show ?thesis by (simp add: getMailHostnameName_def getParentDomainName_def)
qed

section \<open>Life cycle\<close>

lemma hex_EncodeToString_length: "length (hex_EncodeToString bs) = 2 * length bs"
  by (induction bs) (simp_all add: hex_EncodeToString_def)

context domain_repo
begin

lemma CreateDomain_new:
  assumes "CreateDomain R rnd n d = (Inr x, d')"
  shows "d' = put_domains (t_domains d @ [x]) d" "D_Status x = StatusPendingDNS" "\<not> D_IsActive x"
    "D_Name x = TrimSpace (ToLower n)" "D_Name x \<noteq> []" "\<exists>bs. rnd = Inr bs \<and> D_DNSChallenge x = hex_EncodeToString bs"
    "db_ok d \<Longrightarrow> db_ok d'"
proof -
  from assms obtain t where n: "TrimSpace (ToLower n) \<noteq> []" and t: "generateChallengeToken rnd = Inr t"
    and c: "dr_Create R (zero_Domain\<lparr>D_Name := TrimSpace (ToLower n), D_IsActive := False,
        D_Status := StatusPendingDNS, D_DNSChallenge := t\<rparr>) d = (Inr x, d')"
    by (auto simp: CreateDomain_def Let_def split: if_splits sum.splits prod.splits)
  have "\<exists>bs. rnd = Inr bs \<and> t = hex_EncodeToString bs"
    using t by (auto simp: generateChallengeToken_def split: sum.splits)
  moreover have "created_Domain (zero_Domain\<lparr>D_Name := TrimSpace (ToLower n), D_IsActive := False,
        D_Status := StatusPendingDNS, D_DNSChallenge := t\<rparr>) x" using Create_ok [OF c] by simp
  note f = created_Domain_fields [OF this]
  ultimately show "d' = put_domains (t_domains d @ [x]) d" "D_Status x = StatusPendingDNS" "\<not> D_IsActive x"
    "D_Name x = TrimSpace (ToLower n)" "D_Name x \<noteq> []" "\<exists>bs. rnd = Inr bs \<and> D_DNSChallenge x = hex_EncodeToString bs"
    "db_ok d \<Longrightarrow> db_ok d'"
    using Create_ok [OF c] f n by auto
qed

lemma ActivateDomain_ok:
  assumes "ActivateDomain R i d = (Inr u, d')" "db_ok d"
  shows "\<exists>x y. domain_row d i = Some x \<and> D_Status x = StatusCertificateIssued \<and> row_replaced d i y d'
    \<and> saved_Domain (x\<lparr>D_Status := StatusActive, D_IsActive := True, D_ErrorMessage := []\<rparr>) y"
proof -
  from assms obtain x y where x: "dr_GetByID R i d = Inr x" "D_Status x = StatusCertificateIssued"
    and u: "dr_Update R (x\<lparr>D_Status := StatusActive, D_IsActive := True, D_ErrorMessage := []\<rparr>) d = (Inr y, d')"
    by (auto simp: ActivateDomain_def split: if_splits sum.splits prod.splits)
  from Update_row [OF x(1) _ u] GetByID_found [OF x(1)] Get_row [OF x(1) assms(2)] x(2) show ?thesis by auto
qed

lemma ActivateDomain_err: "ActivateDomain R i d = (Inl e, d') \<Longrightarrow> d' = d"
  by (auto simp: ActivateDomain_def split: if_splits sum.splits prod.splits dest: Update_err)

lemma UpdateStatus_ok:
  assumes "UpdateStatus R i st msg d = (Inr u, d')" "db_ok d"
  shows "\<exists>x y. domain_row d i = Some x \<and> row_replaced d i y d' \<and> DomainStatus_IsValid st
    \<and> saved_Domain (x\<lparr>D_Status := st, D_ErrorMessage := (if st = StatusFailed then msg else [])\<rparr>) y"
proof -
  let ?x' = "\<lambda>x. x\<lparr>D_Status := st, D_ErrorMessage := (if st = StatusFailed then msg else [])\<rparr>"
  from assms obtain x y where x: "dr_GetByID R i d = Inr x" and v: "DomainStatus_IsValid st"
    and u: "dr_Update R (?x' x) d = (Inr y, d')"
    by (cases "st = StatusFailed") (auto simp: UpdateStatus_def Let_def split: if_splits sum.splits prod.splits)
  from Update_row [OF x _ u] GetByID_found [OF x] Get_row [OF x assms(2)] v show ?thesis by auto
qed

lemma UpdateStatus_err: "UpdateStatus R i st msg d = (Inl e, d') \<Longrightarrow> d' = d"
  by (auto simp: UpdateStatus_def Let_def split: if_splits sum.splits prod.splits dest: Update_err)

lemma LegacyChallenge_ok:
  assumes "GenerateChallengeForLegacyDomain R rnd i d = (Inr u, d')" "db_ok d"
  shows "\<exists>x. domain_row d i = Some x \<and> (if D_DNSChallenge x \<noteq> [] then d' = d
    else \<exists>y t. row_replaced d i y d' \<and> saved_Domain (x\<lparr>D_DNSChallenge := t, D_Status := StatusPendingDNS\<rparr>) y)"
proof -
  from assms obtain x where x: "dr_GetByID R i d = Inr x"
    by (auto simp: GenerateChallengeForLegacyDomain_def split: sum.splits)
  note row = Get_row [OF x assms(2)]
  show ?thesis
  proof (cases "D_DNSChallenge x = []")
    case True
    with assms x obtain t y where "dr_Update R (x\<lparr>D_DNSChallenge := t, D_Status := StatusPendingDNS\<rparr>) d = (Inr y, d')"
      by (auto simp: GenerateChallengeForLegacyDomain_def split: sum.splits prod.splits)
    from Update_row [OF x _ this] GetByID_found [OF x] row True show ?thesis by auto
  next
    case False
    with assms x row show ?thesis by (simp add: GenerateChallengeForLegacyDomain_def)
  qed
qed

end

text \<open>
  A domain starts out unable to receive mail: \<^verbatim>\<open>CreateDomain\<close> adds one row, inactive, in
  \<^verbatim>\<open>pending_dns\<close>, under the trimmed lower-case name, with a 32-digit challenge; on any error
  the database is unchanged.
\<close>

theorem CreateDomain_spec:
  assumes "gorm_db G" "CreateDomain (NewDomainRepository G) rnd name d = (r, d')" "rnd = Inr bs" "length bs = 16"
  shows "case r of
      Inl e \<Rightarrow> d' = d
    | Inr x \<Rightarrow> d' = put_domains (t_domains d @ [x]) d \<and> D_Status x = StatusPendingDNS \<and> \<not> D_IsActive x
        \<and> D_Name x = ToLower (TrimSpace name) \<and> D_Name x \<noteq> [] \<and> length (D_DNSChallenge x) = 32"
proof (cases r)
  case (Inl e)
  have "\<forall>x d'. dr_Create (NewDomainRepository G) x d = (Inl e', d') \<longrightarrow> d' = d" for e'
    using domain_repo.Create_err [OF gorm_db.domain_repo_laws [OF assms(1)]] by blast
  with Inl assms(2) show ?thesis
    by (auto simp: CreateDomain_def Let_def split: if_splits sum.splits prod.splits)
next
  case (Inr x)
  note c = domain_repo.CreateDomain_new [OF gorm_db.domain_repo_laws [OF assms(1)] assms(2) [unfolded Inr]]
  have "length (D_DNSChallenge x) = 32" using c(6) assms(3,4) hex_EncodeToString_length by auto
  with Inr c show ?thesis by (simp add: TrimSpace_ToLower)
qed

text \<open>
  Activation guard: \<^verbatim>\<open>ActivateDomain\<close> succeeds only on a domain in
  \<^verbatim>\<open>certificate_issued\<close>; it then sets that row to active, with its name, challenge and ACME
  columns kept, and changes nothing else. A failed activation changes nothing.
\<close>

theorem ActivateDomain_guard:
  assumes "gorm_db G" "db_ok d" "ActivateDomain (NewDomainRepository G) i d = (r, d')"
  shows "case r of
      Inl e \<Rightarrow> d' = d
    | Inr u \<Rightarrow> \<exists>x y. domain_row d i = Some x \<and> D_Status x = StatusCertificateIssued \<and> row_replaced d i y d'
        \<and> D_Status y = StatusActive \<and> D_IsActive y \<and> D_ErrorMessage y = [] \<and> D_Name y = D_Name x
        \<and> D_DNSChallenge y = D_DNSChallenge x \<and> D_ACMEChallengeValue y = D_ACMEChallengeValue x"
proof (cases r)
  case (Inl e)
  with domain_repo.ActivateDomain_err [OF gorm_db.domain_repo_laws [OF assms(1)]] assms(3) show ?thesis by simp
next
  case (Inr u)
  from domain_repo.ActivateDomain_ok [OF gorm_db.domain_repo_laws [OF assms(1)] assms(3) [unfolded Inr] assms(2)]
  obtain x y where xy: "domain_row d i = Some x" "D_Status x = StatusCertificateIssued" "row_replaced d i y d'"
    "saved_Domain (x\<lparr>D_Status := StatusActive, D_IsActive := True, D_ErrorMessage := []\<rparr>) y" by blast
  from saved_Domain_fields [OF xy(4)] xy(1-3) Inr show ?thesis by auto
qed

text \<open>
  Status changes by \<^verbatim>\<open>UpdateStatus\<close> never switch mail reception on or off, only the eight
  named statuses are ever written, and an error message stays only with the status
  \<^verbatim>\<open>failed\<close>.
\<close>

theorem UpdateStatus_spec:
  assumes "gorm_db G" "db_ok d" "UpdateStatus (NewDomainRepository G) i st msg d = (Inr u, d')"
  shows "\<exists>x y. domain_row d i = Some x \<and> row_replaced d i y d' \<and> D_Status y = st \<and> DomainStatus_IsValid st
    \<and> D_IsActive y = D_IsActive x \<and> D_Name y = D_Name x
    \<and> D_ErrorMessage y = (if st = StatusFailed then msg else [])"
proof -
  from domain_repo.UpdateStatus_ok [OF gorm_db.domain_repo_laws [OF assms(1)] assms(3,2)]
  obtain x y where xy: "domain_row d i = Some x" "row_replaced d i y d'" "DomainStatus_IsValid st"
    "saved_Domain (x\<lparr>D_Status := st, D_ErrorMessage := (if st = StatusFailed then msg else [])\<rparr>) y" by blast
  from saved_Domain_fields [OF xy(4)] xy(1-3) show ?thesis by auto
qed

section \<open>Concrete runs\<close>

theorem CreateDomain_spec_witness:
  "\<exists>x d'. CreateDomain (NewDomainRepository (mem_gorm 5)) (Inr (replicate 16 CHR ''a'')) '' X.io '' empty_db = (Inr x, d')
     \<and> D_Name x = ToLower (TrimSpace '' X.io '') \<and> \<not> D_IsActive x \<and> length (D_DNSChallenge x) = 32"
proof -
  let ?c = "CreateDomain (NewDomainRepository (mem_gorm 5)) (Inr (replicate 16 CHR ''a'')) '' X.io '' empty_db"
  have "is_ok (fst ?c)" by code_simp
  then obtain x d' where r: "?c = (Inr x, d')" by (auto simp: is_ok_iff prod_eq_iff)
  from CreateDomain_spec [OF mem.gorm_db_axioms r refl] show ?thesis using r by simp
qed

definition issued_db :: db where
  "issued_db = empty_db\<lparr>t_domains := [zero_Domain\<lparr>D_ID := 1, D_Name := ''x.io'', D_Status := StatusCertificateIssued\<rparr>]\<rparr>"

lemma issued_db_ok: "db_ok issued_db"
  by (simp add: issued_db_def db_ok_def empty_db_def)

theorem ActivateDomain_guard_witness:
  "\<exists>d' y. ActivateDomain (NewDomainRepository (mem_gorm 5)) 1 issued_db = (Inr (), d')
     \<and> row_replaced issued_db 1 y d' \<and> D_Status y = StatusActive \<and> D_IsActive y"
proof -
  let ?a = "ActivateDomain (NewDomainRepository (mem_gorm 5)) 1 issued_db"
  have "fst ?a = Inr ()" by code_simp
  then obtain d' where r: "?a = (Inr (), d')" by (metis prod.collapse)
  from ActivateDomain_guard [OF mem.gorm_db_axioms issued_db_ok r] show ?thesis using r by auto
qed

theorem UpdateStatus_spec_witness:
  "\<exists>d' y. UpdateStatus (NewDomainRepository (mem_gorm 5)) 1 StatusFailed ''boom'' issued_db = (Inr (), d')
     \<and> row_replaced issued_db 1 y d' \<and> D_Status y = StatusFailed \<and> D_ErrorMessage y = ''boom''"
proof -
  let ?a = "UpdateStatus (NewDomainRepository (mem_gorm 5)) 1 StatusFailed ''boom'' issued_db"
  have "fst ?a = Inr ()" by code_simp
  then obtain d' where r: "?a = (Inr (), d')" by (metis prod.collapse)
  from UpdateStatus_spec [OF mem.gorm_db_axioms issued_db_ok r] show ?thesis using r by auto
qed

end
