(* ===== verification/CertFiles.thy ===== *)
theory CertFiles
  imports OsFiles
begin

text \<open>
  \<^verbatim>\<open>internal/services/cert_storage.go\<close>: certificates and keys on disk. Decoding a PEM block and
  the X.509 certificate in it is the parameter \<open>x509\<close>, which gives the validity interval.
\<close>

section \<open>Data\<close>

record CertificateBundle =
  B_Certificate :: bytes
  B_PrivateKey :: bytes
  B_Chain :: bytes
  B_ExpiresAt :: time

record StoredCertificate =
  SC_DomainName :: string
  SC_CertPath :: string
  SC_KeyPath :: string
  SC_ChainPath :: string
  SC_ExpiresAt :: time
  SC_IssuedAt :: time

record CertStorage =
  cs_SaveCertificate :: "string \<Rightarrow> CertificateBundle option \<Rightarrow> time \<Rightarrow> osenv \<Rightarrow> (goerror + StoredCertificate) \<times> osenv"
  cs_LoadCertificate :: "string \<Rightarrow> osenv \<Rightarrow> goerror + CertificateBundle"
  cs_DeleteCertificate :: "string \<Rightarrow> osenv \<Rightarrow> (goerror + unit) \<times> osenv"
  cs_CertificateExists :: "string \<Rightarrow> osenv \<Rightarrow> bool"
  cs_GetCertificatePath :: "string \<Rightarrow> string"
  cs_GetKeyPath :: "string \<Rightarrow> string"

section \<open>Operations\<close>

definition writeFileSecure :: "string \<Rightarrow> bytes \<Rightarrow> osenv \<Rightarrow> (os_error + unit) \<times> osenv" where
  "writeFileSecure path data w =
     (case os_WriteFile path data w of
        (Inl e, w') \<Rightarrow> (Inl e, w')
      | (Inr _, w') \<Rightarrow> (os_Chmod path w', w'))"

definition SaveCertificate :: "(bytes \<Rightarrow> (time \<times> time) option) \<Rightarrow> string \<Rightarrow> string \<Rightarrow> CertificateBundle option \<Rightarrow> time \<Rightarrow>
    osenv \<Rightarrow> (goerror + StoredCertificate) \<times> osenv" where
  "SaveCertificate x509 basePath domainName bundleptr now w =
     (if domainName = [] then (Inl (Opaque ''domain name cannot be empty''), w)
      else case bundleptr of
        None \<Rightarrow> (Inl (Opaque ''certificate bundle cannot be nil''), w)
      | Some bundle \<Rightarrow>
      if length (B_Certificate bundle) = 0 then (Inl (Opaque ''certificate data cannot be empty''), w)
      else if length (B_PrivateKey bundle) = 0 then (Inl (Opaque ''private key data cannot be empty''), w)
      else
        let domainDir = FJoin [basePath, domainName] in
        case os_MkdirAll domainDir w of
          (Inl e, w1) \<Rightarrow> (Inl (Wrapf ''failed to create domain directory'' (os_goerror e)), w1)
        | (Inr _, w1) \<Rightarrow>
          (let certPath = FJoin [domainDir, ''fullchain.pem'']; keyPath = FJoin [domainDir, ''privkey.pem''] in
           case writeFileSecure certPath (B_Certificate bundle) w1 of
             (Inl e, w2) \<Rightarrow> (Inl (Wrapf ''failed to write certificate'' (os_goerror e)), w2)
           | (Inr _, w2) \<Rightarrow>
            (case writeFileSecure keyPath (B_PrivateKey bundle) w2 of
               (Inl e, w3) \<Rightarrow>
                 (Inl (Wrapf ''failed to write private key'' (os_goerror e)), snd (os_Remove certPath w3))
             | (Inr _, w3) \<Rightarrow>
               (let issuedAt = (case x509 (B_Certificate bundle) of None \<Rightarrow> now | Some (nb, na) \<Rightarrow> nb);
                    result = \<lambda>chainPath. \<lparr>SC_DomainName = domainName, SC_CertPath = certPath, SC_KeyPath = keyPath,
                      SC_ChainPath = chainPath, SC_ExpiresAt = B_ExpiresAt bundle, SC_IssuedAt = issuedAt\<rparr> in
                if length (B_Chain bundle) > 0 then
                  (let chainPath = FJoin [domainDir, ''chain.pem''] in
                   case writeFileSecure chainPath (B_Chain bundle) w3 of
                     (Inl e, w4) \<Rightarrow> (Inl (Wrapf ''failed to write chain'' (os_goerror e)),
                       snd (os_Remove keyPath (snd (os_Remove certPath w4))))
                   | (Inr _, w4) \<Rightarrow> (Inr (result chainPath), w4))
                else (Inr (result []), w3)))))"

definition GetCertificatePath :: "string \<Rightarrow> string \<Rightarrow> string" where
  "GetCertificatePath basePath domainName = FJoin [basePath, domainName, ''fullchain.pem'']"

definition GetKeyPath :: "string \<Rightarrow> string \<Rightarrow> string" where
  "GetKeyPath basePath domainName = FJoin [basePath, domainName, ''privkey.pem'']"

definition LoadCertificate :: "(bytes \<Rightarrow> (time \<times> time) option) \<Rightarrow> string \<Rightarrow> string \<Rightarrow> osenv \<Rightarrow> goerror + CertificateBundle" where
  "LoadCertificate x509 basePath domainName w =
     (if domainName = [] then Inl (Opaque ''domain name cannot be empty'')
      else
        case os_ReadFile (GetCertificatePath basePath domainName) w of
          Inl e \<Rightarrow> Inl (Wrapf ''failed to read certificate'' (os_goerror e))
        | Inr certData \<Rightarrow>
           (case os_ReadFile (GetKeyPath basePath domainName) w of
              Inl e \<Rightarrow> Inl (Wrapf ''failed to read private key'' (os_goerror e))
            | Inr keyData \<Rightarrow>
               (let chainPath = FJoin [basePath, domainName, ''chain.pem''];
                    chainData = (case os_Stat chainPath w of
                        Inl e \<Rightarrow> []
                      | Inr _ \<Rightarrow> (case os_ReadFile chainPath w of Inl e \<Rightarrow> [] | Inr b \<Rightarrow> b)) in
                Inr \<lparr>B_Certificate = certData, B_PrivateKey = keyData, B_Chain = chainData,
                  B_ExpiresAt = (case x509 certData of None \<Rightarrow> 0 | Some (nb, na) \<Rightarrow> na)\<rparr>)))"

definition DeleteCertificate :: "string \<Rightarrow> string \<Rightarrow> osenv \<Rightarrow> (goerror + unit) \<times> osenv" where
  "DeleteCertificate basePath domainName w =
     (if domainName = [] then (Inl (Opaque ''domain name cannot be empty''), w)
      else
        let domainDir = FJoin [basePath, domainName] in
        if (case os_Stat domainDir w of Inl e \<Rightarrow> IsNotExist e | Inr _ \<Rightarrow> False) then (Inr (), w)
        else
          case os_RemoveAll domainDir w of
            (Inl e, w') \<Rightarrow> (Inl (Wrapf ''failed to delete certificate directory'' (os_goerror e)), w')
          | (Inr _, w') \<Rightarrow> (Inr (), w'))"

definition CertificateExists :: "string \<Rightarrow> string \<Rightarrow> osenv \<Rightarrow> bool" where
  "CertificateExists basePath domainName w =
     (is_ok (os_Stat (GetCertificatePath basePath domainName) w)
      \<and> is_ok (os_Stat (GetKeyPath basePath domainName) w))"

definition certStorage :: "(bytes \<Rightarrow> (time \<times> time) option) \<Rightarrow> string \<Rightarrow> CertStorage" where
  "certStorage x509 basePath = \<lparr>cs_SaveCertificate = SaveCertificate x509 basePath,
     cs_LoadCertificate = LoadCertificate x509 basePath, cs_DeleteCertificate = DeleteCertificate basePath,
     cs_CertificateExists = CertificateExists basePath, cs_GetCertificatePath = GetCertificatePath basePath,
     cs_GetKeyPath = GetKeyPath basePath\<rparr>"

definition NewCertStorage :: "(bytes \<Rightarrow> (time \<times> time) option) \<Rightarrow> string \<Rightarrow> osenv \<Rightarrow> (goerror + CertStorage) \<times> osenv" where
  "NewCertStorage x509 basePath w =
     (if basePath = [] then (Inl (Opaque ''base path cannot be empty''), w)
      else case os_MkdirAll basePath w of
        (Inl e, w') \<Rightarrow> (Inl (Wrapf ''failed to create base directory'' (os_goerror e)), w')
      | (Inr _, w') \<Rightarrow> (Inr (certStorage x509 basePath), w'))"

section \<open>Save, then load\<close>

definition cert_dir :: "string \<Rightarrow> string \<Rightarrow> osenv \<Rightarrow> key" where
  "cert_dir basePath domainName w = fkey w (FJoin [basePath, domainName])"

lemma cert_names [simp]:
  "path_name ''fullchain.pem''" "path_name ''privkey.pem''" "path_name ''chain.pem''"
  by (simp_all add: path_name_def)

lemma FJoin_dir_neq_Nil: "a \<noteq> [] \<Longrightarrow> FJoin [a, b] \<noteq> []"
  by (simp add: FJoin.simps Clean_neq_Nil)

lemma cert_keys:
  assumes "basePath \<noteq> []"
  shows "fkey w (FJoin [FJoin [basePath, n], ''fullchain.pem'']) = cert_dir basePath n w @ [''fullchain.pem'']"
    "fkey w (FJoin [FJoin [basePath, n], ''privkey.pem'']) = cert_dir basePath n w @ [''privkey.pem'']"
    "fkey w (FJoin [FJoin [basePath, n], ''chain.pem'']) = cert_dir basePath n w @ [''chain.pem'']"
    "fkey w (GetCertificatePath basePath n) = cert_dir basePath n w @ [''fullchain.pem'']"
    "fkey w (GetKeyPath basePath n) = cert_dir basePath n w @ [''privkey.pem'']"
    "fkey w (FJoin [basePath, n, ''chain.pem'']) = cert_dir basePath n w @ [''chain.pem'']"
  using assms FJoin_dir_neq_Nil [OF assms]
  by (simp_all add: cert_dir_def GetCertificatePath_def GetKeyPath_def fkey_FJoin_file fkey_FJoin3)

definition os_same :: "osenv \<Rightarrow> osenv \<Rightarrow> bool" where
  "os_same w w' \<longleftrightarrow> os_wd w' = os_wd w \<and> os_fault w' = os_fault w"

lemma cert_dir_same: "os_same w w' \<Longrightarrow> cert_dir b n w' = cert_dir b n w"
  by (simp add: os_same_def cert_dir_def fkey_def abs_path_def)

lemma writeFileSecure_ok:
  assumes "writeFileSecure p data w = (Inr u, w')"
  shows "os_files w' = (os_files w)(fkey w p \<mapsto> data)" "os_same w w'" "os_dirs w' = os_dirs w"
  using assms
  by (auto simp: writeFileSecure_def os_WriteFile_def os_WriteAll_def os_Create_def os_same_def Let_def
      split: sum.splits prod.splits option.splits if_splits)

lemma os_MkdirAll_same: "os_MkdirAll p w = (r, w') \<Longrightarrow> os_same w w' \<and> os_files w' = os_files w"
  by (auto simp: os_MkdirAll_def os_same_def split: option.splits if_splits)

lemma os_same_trans: "os_same a b \<Longrightarrow> os_same b c \<Longrightarrow> os_same a c"
  by (simp add: os_same_def)

lemma sum_unit_cases: "r = Inr () \<or> (\<exists>e. r = Inl e)"
  by (cases r) auto

lemma SaveCertificate_calls:
  assumes s: "SaveCertificate x509 basePath n (Some bundle) now w = (Inr sc, w')"
  shows "n \<noteq> [] \<and> (\<exists>w1 w2 w3.
     os_MkdirAll (FJoin [basePath, n]) w = (Inr (), w1)
     \<and> writeFileSecure (FJoin [FJoin [basePath, n], ''fullchain.pem'']) (B_Certificate bundle) w1 = (Inr (), w2)
     \<and> writeFileSecure (FJoin [FJoin [basePath, n], ''privkey.pem'']) (B_PrivateKey bundle) w2 = (Inr (), w3)
     \<and> (if B_Chain bundle = [] then w' = w3
        else writeFileSecure (FJoin [FJoin [basePath, n], ''chain.pem'']) (B_Chain bundle) w3 = (Inr (), w'))
     \<and> SC_DomainName sc = n \<and> SC_ExpiresAt sc = B_ExpiresAt bundle
     \<and> SC_CertPath sc = FJoin [FJoin [basePath, n], ''fullchain.pem'']
     \<and> SC_KeyPath sc = FJoin [FJoin [basePath, n], ''privkey.pem''])"
proof -
  let ?d = "FJoin [basePath, n]"
  note s = s [unfolded SaveCertificate_def Let_def option.case]
  have g: "n \<noteq> []" "B_Certificate bundle \<noteq> []" "B_PrivateKey bundle \<noteq> []" using s by (auto split: if_splits)
  obtain r1 w1 where m: "os_MkdirAll ?d w = (r1, w1)" by fastforce
  have m1: "r1 = Inr ()" using s g m sum_unit_cases [of r1] by auto
  obtain r2 w2 where c: "writeFileSecure (FJoin [?d, ''fullchain.pem'']) (B_Certificate bundle) w1 = (r2, w2)"
    by fastforce
  have c1: "r2 = Inr ()" using s g m m1 c sum_unit_cases [of r2] by auto
  obtain r3 w3 where k: "writeFileSecure (FJoin [?d, ''privkey.pem'']) (B_PrivateKey bundle) w2 = (r3, w3)"
    by fastforce
  have k1: "r3 = Inr ()" using s g m m1 c c1 k sum_unit_cases [of r3] by auto
  obtain r4 w4 where h: "writeFileSecure (FJoin [?d, ''chain.pem'']) (B_Chain bundle) w3 = (r4, w4)"
    by fastforce
  note s = s g m [unfolded m1] c [unfolded c1] k [unfolded k1]
  show ?thesis
  proof (cases "B_Chain bundle = []")
    case True
    then show ?thesis using s by auto
  next
    case False
    have "r4 = Inr ()" using s False h sum_unit_cases [of r4] by auto
    then show ?thesis using s False h by auto
  qed
qed

lemma SaveCertificate_files:
  assumes b: "basePath \<noteq> []" and s: "SaveCertificate x509 basePath n (Some bundle) now w = (Inr sc, w')"
  shows "os_same w w'" "os_files w' (cert_dir basePath n w @ [''fullchain.pem'']) = Some (B_Certificate bundle)"
    "os_files w' (cert_dir basePath n w @ [''privkey.pem'']) = Some (B_PrivateKey bundle)"
    "os_files w' (cert_dir basePath n w @ [''chain.pem'']) = (if B_Chain bundle \<noteq> [] then Some (B_Chain bundle)
       else os_files w (cert_dir basePath n w @ [''chain.pem'']))"
    "SC_DomainName sc = n" "SC_ExpiresAt sc = B_ExpiresAt bundle"
    "fkey w' (SC_CertPath sc) = cert_dir basePath n w @ [''fullchain.pem'']"
    "fkey w' (SC_KeyPath sc) = cert_dir basePath n w @ [''privkey.pem'']" "n \<noteq> []"
proof -
  let ?d = "FJoin [basePath, n]"
  from SaveCertificate_calls [OF s] obtain w1 w2 w3 where
    m: "os_MkdirAll ?d w = (Inr (), w1)"
    and c: "writeFileSecure (FJoin [?d, ''fullchain.pem'']) (B_Certificate bundle) w1 = (Inr (), w2)"
    and k: "writeFileSecure (FJoin [?d, ''privkey.pem'']) (B_PrivateKey bundle) w2 = (Inr (), w3)"
    and h: "if B_Chain bundle = [] then w' = w3
        else writeFileSecure (FJoin [?d, ''chain.pem'']) (B_Chain bundle) w3 = (Inr (), w')"
    and sc: "SC_DomainName sc = n" "SC_ExpiresAt sc = B_ExpiresAt bundle"
      "SC_CertPath sc = FJoin [?d, ''fullchain.pem'']" "SC_KeyPath sc = FJoin [?d, ''privkey.pem'']" "n \<noteq> []"
    by blast
  note e1 = os_MkdirAll_same [OF m] and e2 = writeFileSecure_ok [OF c] and e3 = writeFileSecure_ok [OF k]
  have s13: "os_same w w1" "os_same w w2" "os_same w w3"
    using e1 e2(2) e3(2) os_same_trans by blast+
  note ks = cert_keys [OF b] and d = cert_dir_same [of w]
  have f3: "os_files w3 = (os_files w)(cert_dir basePath n w @ [''fullchain.pem''] \<mapsto> B_Certificate bundle,
      cert_dir basePath n w @ [''privkey.pem''] \<mapsto> B_PrivateKey bundle)"
    using e1 e2(1) e3(1) s13 by (simp add: ks d)
  have fin: "os_same w w' \<and> os_files w' = (if B_Chain bundle \<noteq> []
      then (os_files w3)(cert_dir basePath n w @ [''chain.pem''] \<mapsto> B_Chain bundle) else os_files w3)"
  proof (cases "B_Chain bundle = []")
    case True
    with h s13 show ?thesis by simp
  next
    case False
    with h have "writeFileSecure (FJoin [?d, ''chain.pem'']) (B_Chain bundle) w3 = (Inr (), w')" by simp
    note e4 = writeFileSecure_ok [OF this]
    with False s13 os_same_trans [of w w3 w'] show ?thesis by (simp add: ks d)
  qed
  show "os_same w w'" using fin by simp
  show "os_files w' (cert_dir basePath n w @ [''fullchain.pem'']) = Some (B_Certificate bundle)"
    "os_files w' (cert_dir basePath n w @ [''privkey.pem'']) = Some (B_PrivateKey bundle)"
    "os_files w' (cert_dir basePath n w @ [''chain.pem'']) = (if B_Chain bundle \<noteq> [] then Some (B_Chain bundle)
       else os_files w (cert_dir basePath n w @ [''chain.pem'']))"
    using fin f3 by simp_all
  show "SC_DomainName sc = n" "SC_ExpiresAt sc = B_ExpiresAt bundle" "n \<noteq> []" using sc by auto
  show "fkey w' (SC_CertPath sc) = cert_dir basePath n w @ [''fullchain.pem'']"
    "fkey w' (SC_KeyPath sc) = cert_dir basePath n w @ [''privkey.pem'']"
    using sc fin d by (simp_all add: ks)
qed

text \<open>A cleaned path has no NUL byte that its parts do not have.\<close>

lemma clean_push_chars:
  "a \<in> set c' \<Longrightarrow> c' \<in> set (clean_push r c st) \<Longrightarrow> (\<forall>d\<in>set st. a \<notin> set d) \<Longrightarrow> a \<noteq> CHR ''.'' \<Longrightarrow> a \<in> set c"
  by (auto simp: clean_push_def split: if_splits list.splits)

lemma clean_fold_chars:
  "(\<forall>d\<in>set st. a \<notin> set d) \<Longrightarrow> (\<forall>d\<in>set cs. a \<notin> set d) \<Longrightarrow> a \<noteq> CHR ''.'' \<Longrightarrow>
   (\<forall>d\<in>set (fold (clean_push r) cs st). a \<notin> set d)"
proof (induction cs arbitrary: st)
  case (Cons c cs)
  then have "\<forall>d\<in>set (clean_push r c st). a \<notin> set d" using clean_push_chars [of a _ r c st] by auto
  with Cons show ?case by simp
qed simp

lemma Split_sub_chars: "d \<in> set (Split b p) \<Longrightarrow> set d \<subseteq> set p"
proof (induction p arbitrary: d)
  case (Cons x p)
  then show ?case by (cases "Split b p") (auto split: if_splits, fastforce+)
qed simp

lemma Clean_chars: "a \<in> set (Clean p) \<Longrightarrow> a \<in> set p \<or> a = CHR ''.'' \<or> a = CHR ''/''"
proof -
  assume a: "a \<in> set (Clean p)"
  have c: "a \<in> set p \<or> a = CHR ''.''" if "d \<in> set (clean_comps r p)" "a \<in> set d" for r d
    using clean_fold_chars [of "[]" a "Split CHR ''/'' p" r] Split_sub_chars [of _ "CHR ''/''" p] that
    by (auto simp: clean_comps_def)
  have j: "a = CHR ''/'' \<or> (\<exists>d \<in> set (clean_comps r p). a \<in> set d)" if "a \<in> set (Join (clean_comps r p) ''/'')" for r
    using Join_chars [OF that] by auto
  have "a = CHR ''.'' \<or> a = CHR ''/'' \<or> (\<exists>r. a \<in> set (Join (clean_comps r p) ''/''))"
    using a by (auto simp: Clean_def split: if_splits)
  then show ?thesis using j c by blast
qed

lemma cert_path_no_nul:
  assumes "CHR 0x00 \<notin> set basePath" "CHR 0x00 \<notin> set n" "CHR 0x00 \<notin> set f"
  shows "CHR 0x00 \<notin> set (FJoin [basePath, n, f])"
proof -
  have "FJoin [basePath, n, f] = [] \<or> (\<exists>p. FJoin [basePath, n, f] = Clean p \<and> CHR 0x00 \<notin> set p)"
    using assms by (auto simp: FJoin.simps)
  then show ?thesis using Clean_chars [of "CHR 0x00"] by (elim disjE exE conjE) auto
qed

definition no_read_faults :: "osenv \<Rightarrow> bool" where
  "no_read_faults w \<longleftrightarrow> (\<forall>k. os_fault w (OpenCall k) = None \<and> os_fault w (ReadCall k) = None \<and> os_fault w (StatCall k) = None)"

lemma no_fault_reads:
  assumes "no_read_faults w" "CHR 0x00 \<notin> set p"
  shows "os_files w (fkey w p) = Some b \<Longrightarrow> os_ReadFile p w = Inr b"
    "os_files w (fkey w p) = Some b \<Longrightarrow> os_Stat p w = Inr ()"
    "os_files w (fkey w p) = None \<Longrightarrow> \<not> is_ok (os_ReadFile p w)"
  using assms by (auto simp: no_read_faults_def os_ReadFile_def os_Open_def os_Stat_def os_check_def is_ok_def
      split: option.splits)

text \<open>
  A certificate that was saved is found under the paths the store names, and loading it gives
  the certificate and the key back; the expiry is read from the certificate itself. The chain is the
  saved one when there is one; otherwise it is whatever an earlier certificate of the same domain
  left in \<^verbatim>\<open>chain.pem\<close>, which saving does not remove.
\<close>

theorem SaveCertificate_then_Load:
  assumes b: "basePath \<noteq> []" and nul: "CHR 0x00 \<notin> set basePath" "CHR 0x00 \<notin> set n"
    and nf: "no_read_faults w"
    and s: "SaveCertificate x509 basePath n (Some bundle) now w = (Inr sc, w')"
  shows "fkey w' (SC_CertPath sc) = fkey w' (GetCertificatePath basePath n)
    \<and> fkey w' (SC_KeyPath sc) = fkey w' (GetKeyPath basePath n)
    \<and> CertificateExists basePath n w'
    \<and> LoadCertificate x509 basePath n w' = Inr \<lparr>B_Certificate = B_Certificate bundle,
        B_PrivateKey = B_PrivateKey bundle,
        B_Chain = (if B_Chain bundle \<noteq> [] then B_Chain bundle
          else case os_files w (fkey w (FJoin [basePath, n, ''chain.pem''])) of None \<Rightarrow> [] | Some c \<Rightarrow> c),
        B_ExpiresAt = (case x509 (B_Certificate bundle) of None \<Rightarrow> 0 | Some (nb, na) \<Rightarrow> na)\<rparr>"
proof -
  note f = SaveCertificate_files [OF b s] and ks = cert_keys [OF b] and d = cert_dir_same [of w w' basePath n]
  have nf': "no_read_faults w'" using nf f(1) by (simp add: no_read_faults_def os_same_def)
  have nn: "CHR 0x00 \<notin> set (GetCertificatePath basePath n)" "CHR 0x00 \<notin> set (GetKeyPath basePath n)"
     "CHR 0x00 \<notin> set (FJoin [basePath, n, ''chain.pem''])"
    unfolding GetCertificatePath_def GetKeyPath_def by (rule cert_path_no_nul [OF nul]; simp)+
  have c: "os_files w' (fkey w' (GetCertificatePath basePath n)) = Some (B_Certificate bundle)"
    and k: "os_files w' (fkey w' (GetKeyPath basePath n)) = Some (B_PrivateKey bundle)"
    using f d by (simp_all add: ks)
  note rc = no_fault_reads(1,2) [OF nf' nn(1) c] and rk = no_fault_reads(1,2) [OF nf' nn(2) k]
  let ?h = "FJoin [basePath, n, ''chain.pem'']"
  have hk: "os_files w' (fkey w' ?h) = (if B_Chain bundle \<noteq> [] then Some (B_Chain bundle) else os_files w (fkey w ?h))"
    using f d by (simp add: ks)
  have ch: "(case os_Stat ?h w' of Inl e \<Rightarrow> [] | Inr _ \<Rightarrow> (case os_ReadFile ?h w' of Inl e \<Rightarrow> [] | Inr b \<Rightarrow> b))
     = (case os_files w' (fkey w' ?h) of None \<Rightarrow> [] | Some c \<Rightarrow> c)"
    using no_fault_reads [OF nf' nn(3)]
    by (cases "os_files w' (fkey w' ?h)") (auto simp: is_ok_def split: sum.splits)
  have e: "CertificateExists basePath n w'" using rc rk by (simp add: CertificateExists_def is_ok_def)
  have l: "LoadCertificate x509 basePath n w' = Inr \<lparr>B_Certificate = B_Certificate bundle,
      B_PrivateKey = B_PrivateKey bundle,
      B_Chain = (case os_files w' (fkey w' ?h) of None \<Rightarrow> [] | Some c \<Rightarrow> c),
      B_ExpiresAt = (case x509 (B_Certificate bundle) of None \<Rightarrow> 0 | Some (nb, na) \<Rightarrow> na)\<rparr>"
    unfolding LoadCertificate_def using f(9) rc rk ch by simp
  show ?thesis using e l [unfolded hk] f(7,8) d f(1) by (simp add: ks split: option.splits)
qed

section \<open>What the certificate storage promises\<close>

text \<open>The interface the certificate store and the certificate manager rely on.\<close>

locale cert_files =
  fixes S :: CertStorage
  assumes saved_exists: "cs_SaveCertificate S n (Some b) now w = (Inr sc, w') \<Longrightarrow> CHR 0x00 \<notin> set n \<Longrightarrow>
      no_read_faults w \<Longrightarrow> cs_CertificateExists S n w'"
    and saved_cert: "cs_SaveCertificate S n (Some b) now w = (Inr sc, w') \<Longrightarrow> CHR 0x00 \<notin> set n \<Longrightarrow>
      no_read_faults w \<Longrightarrow> os_ReadFile (cs_GetCertificatePath S n) w' = Inr (B_Certificate b)"
    and saved_key: "cs_SaveCertificate S n (Some b) now w = (Inr sc, w') \<Longrightarrow> CHR 0x00 \<notin> set n \<Longrightarrow>
      no_read_faults w \<Longrightarrow> os_ReadFile (cs_GetKeyPath S n) w' = Inr (B_PrivateKey b)"
    and saved_meta: "cs_SaveCertificate S n (Some b) now w = (Inr sc, w') \<Longrightarrow>
      n \<noteq> [] \<and> SC_DomainName sc = n \<and> SC_ExpiresAt sc = B_ExpiresAt b"

lemma certStorage_laws:
  assumes b: "basePath \<noteq> []" "CHR 0x00 \<notin> set basePath"
  shows "cert_files (certStorage x509 basePath)"
proof (unfold_locales; unfold certStorage_def CertStorage.select_convs)
  fix n bd now w sc w'
  assume s: "SaveCertificate x509 basePath n (Some bd) now w = (Inr sc, w')"
  note f = SaveCertificate_files [OF b(1) s]
  show "n \<noteq> [] \<and> SC_DomainName sc = n \<and> SC_ExpiresAt sc = B_ExpiresAt bd" using f by simp
  assume n: "CHR 0x00 \<notin> set n" and nf: "no_read_faults w"
  have nf': "no_read_faults w'" using nf f(1) by (simp add: no_read_faults_def os_same_def)
  have nn: "CHR 0x00 \<notin> set (GetCertificatePath basePath n)" "CHR 0x00 \<notin> set (GetKeyPath basePath n)"
    unfolding GetCertificatePath_def GetKeyPath_def by (rule cert_path_no_nul [OF b(2) n]; simp)+
  have c: "os_files w' (fkey w' (GetCertificatePath basePath n)) = Some (B_Certificate bd)"
    and k: "os_files w' (fkey w' (GetKeyPath basePath n)) = Some (B_PrivateKey bd)"
    using f cert_dir_same [OF f(1)] by (simp_all add: cert_keys [OF b(1)])
  note rc = no_fault_reads(1,2) [OF nf' nn(1) c] and rk = no_fault_reads(1,2) [OF nf' nn(2) k]
  show "os_ReadFile (GetCertificatePath basePath n) w' = Inr (B_Certificate bd)"
    "os_ReadFile (GetKeyPath basePath n) w' = Inr (B_PrivateKey bd)" by (rule rc(1), rule rk(1))
  show "CertificateExists basePath n w'" using rc rk by (simp add: CertificateExists_def is_ok_def)
qed

interpretation default_certs: cert_files "certStorage x509 ''./certs''"
  by (rule certStorage_laws) simp_all

definition demo_bundle :: CertificateBundle where
  "demo_bundle = \<lparr>B_Certificate = ''C'', B_PrivateKey = ''K'', B_Chain = [], B_ExpiresAt = 9\<rparr>"

definition demo_certos :: osenv where
  "demo_certos = \<lparr>os_wd = ''/'', os_table = [([''c'', ''a.b'', ''chain.pem''], ''old'')], os_dirs = [[], [''c''], [''c'', ''a.b'']],
     os_fault = (\<lambda>c. None), os_written = (\<lambda>k. 0), os_uuid = (\<lambda>n. []), os_next = 0,
     os_readers = (\<lambda>r. []), os_rnext = 0\<rparr>"

theorem SaveCertificate_then_Load_witness:
  "\<exists>sc w'. SaveCertificate (\<lambda>c. Some (1, 9)) ''/c'' ''a.b'' (Some demo_bundle) 5 demo_certos = (Inr sc, w')
    \<and> LoadCertificate (\<lambda>c. Some (1, 9)) ''/c'' ''a.b'' w' = Inr (demo_bundle\<lparr>B_Chain := ''old''\<rparr>)"
proof -
  have "is_ok (fst (SaveCertificate (\<lambda>c. Some (1, 9)) ''/c'' ''a.b'' (Some demo_bundle) 5 demo_certos))" by code_simp
  then obtain sc w' where s: "SaveCertificate (\<lambda>c. Some (1, 9)) ''/c'' ''a.b'' (Some demo_bundle) 5 demo_certos = (Inr sc, w')"
    by (auto simp: is_ok_iff prod_eq_iff)
  have f: "no_read_faults demo_certos" by (simp add: no_read_faults_def demo_certos_def)
  have o: "os_files demo_certos (fkey demo_certos (FJoin [''/c'', ''a.b'', ''chain.pem''])) = Some ''old''" by code_simp
  show ?thesis using s SaveCertificate_then_Load [OF _ _ _ f s] o by (simp add: demo_bundle_def)
qed

end
