(* ===== verification/CertStore.thy ===== *)
theory CertStore
  imports CertFiles Repository "HOL-Library.AList"
begin

text \<open>
  \<^verbatim>\<open>internal/services/cert_store.go\<close>: the in-memory certificates that TLS picks by server name.
  The map of the code is an association list without double keys. \<^verbatim>\<open>tls.LoadX509KeyPair\<close> reads the
  two files and hands their bytes to the parameter \<open>x509pair\<close>. The read lock is taken separately
  for each of the three lookups of a handshake, so \<open>select_certificate\<close> gets the state of the store at
  each of them. Callbacks are named by numbers and the calls made are kept in \<open>st_notified\<close>.
\<close>

section \<open>State\<close>

record 'c certificateStore =
  st_certificates :: "(string \<times> 'c) list"
  st_defaultCert :: "'c option"
  st_reloadCallbacks :: "nat list"
  st_notified :: "nat list"

definition NewCertificateStore :: "CertStorage option \<Rightarrow> goerror + 'c certificateStore" where
  "NewCertificateStore storage =
     (case storage of
        None \<Rightarrow> Inl (Opaque ''cert storage cannot be nil'')
      | Some _ \<Rightarrow> Inr \<lparr>st_certificates = [], st_defaultCert = None, st_reloadCallbacks = [], st_notified = []\<rparr>)"

section \<open>Operations\<close>

definition tls_LoadX509KeyPair :: "(bytes \<Rightarrow> bytes \<Rightarrow> goerror + 'c) \<Rightarrow> string \<Rightarrow> string \<Rightarrow> osenv \<Rightarrow> goerror + 'c" where
  "tls_LoadX509KeyPair x509pair certPath keyPath w =
     (case os_ReadFile certPath w of
        Inl e \<Rightarrow> Inl (os_goerror e)
      | Inr c \<Rightarrow> (case os_ReadFile keyPath w of Inl e \<Rightarrow> Inl (os_goerror e) | Inr k \<Rightarrow> x509pair c k))"

definition store_LoadCertificate ::
  "(bytes \<Rightarrow> bytes \<Rightarrow> goerror + 'c) \<Rightarrow> CertStorage \<Rightarrow> string \<Rightarrow> osenv \<Rightarrow> goerror + 'c" where
  "store_LoadCertificate x509pair storage domainName w =
     (if domainName = [] then Inl (Opaque ''domain name cannot be empty'')
      else if \<not> cs_CertificateExists storage domainName w
      then Inl (Opaque (''certificate not found for domain: '' @ domainName))
      else
        let certPath = cs_GetCertificatePath storage domainName;
            keyPath = cs_GetKeyPath storage domainName in
        case tls_LoadX509KeyPair x509pair certPath keyPath w of
          Inl e \<Rightarrow> Inl (Wrapf (''failed to load certificate for domain '' @ domainName) e)
        | Inr cert \<Rightarrow> Inr cert)"

definition AddCertificate :: "string \<Rightarrow> 'c option \<Rightarrow> 'c certificateStore \<Rightarrow> (goerror + unit) \<times> 'c certificateStore" where
  "AddCertificate domainName certptr s =
     (if domainName = [] then (Inl (Opaque ''domain name cannot be empty''), s)
      else case certptr of
        None \<Rightarrow> (Inl (Opaque ''certificate cannot be nil''), s)
      | Some cert \<Rightarrow> (Inr (), s\<lparr>st_certificates := AList.update domainName cert (st_certificates s)\<rparr>))"

definition RemoveCertificate :: "string \<Rightarrow> 'c certificateStore \<Rightarrow> (goerror + unit) \<times> 'c certificateStore" where
  "RemoveCertificate domainName s =
     (if domainName = [] then (Inl (Opaque ''domain name cannot be empty''), s)
      else (Inr (), s\<lparr>st_certificates := AList.delete domainName (st_certificates s)\<rparr>))"

fun extractParentDomain :: "string \<Rightarrow> string" where
  "extractParentDomain [] = []"
| "extractParentDomain (c # cs) = (if c = CHR ''.'' then cs else extractParentDomain cs)"

definition select_certificate ::
  "'c certificateStore \<Rightarrow> 'c certificateStore \<Rightarrow> 'c certificateStore \<Rightarrow> string \<Rightarrow> goerror + 'c" where
  "select_certificate s1 s2 s3 serverName =
     (let fallback = (case st_defaultCert s3 of
            Some d \<Rightarrow> Inr d
          | None \<Rightarrow> Inl (Opaque (''no certificate found for server name: '' @ serverName))) in
      if serverName \<noteq> [] then
        case map_of (st_certificates s1) serverName of
          Some cert \<Rightarrow> Inr cert
        | None \<Rightarrow>
           (let parentDomain = extractParentDomain serverName in
            if parentDomain \<noteq> [] \<and> parentDomain \<noteq> serverName then
              case map_of (st_certificates s2) parentDomain of
                Some cert \<Rightarrow> Inr cert
              | None \<Rightarrow> fallback
            else fallback)
      else fallback)"

definition GetCertificateFunc :: "'c certificateStore \<Rightarrow> string \<Rightarrow> goerror + 'c" where
  "GetCertificateFunc s serverName = select_certificate s s s serverName"

definition notifyReloadCallbacks :: "'c certificateStore \<Rightarrow> 'c certificateStore" where
  "notifyReloadCallbacks s = s\<lparr>st_notified := st_notified s @ st_reloadCallbacks s\<rparr>"

definition RegisterReloadCallback :: "nat option \<Rightarrow> 'c certificateStore \<Rightarrow> 'c certificateStore" where
  "RegisterReloadCallback callback s =
     (case callback of None \<Rightarrow> s | Some c \<Rightarrow> s\<lparr>st_reloadCallbacks := st_reloadCallbacks s @ [c]\<rparr>)"

fun reload_loop ::
  "(string \<Rightarrow> goerror + 'c) \<Rightarrow> DomainCertificate list \<Rightarrow> (string \<times> 'c) list \<Rightarrow> (string \<times> 'c) list" where
  "reload_loop load [] newCerts = newCerts"
| "reload_loop load (dbCert # certs) newCerts =
     (case load (C_DomainName dbCert) of
        Inl e \<Rightarrow> reload_loop load certs newCerts
      | Inr cert \<Rightarrow> reload_loop load certs
          (AList.update (''mail.'' @ C_DomainName dbCert) cert (AList.update (C_DomainName dbCert) cert newCerts)))"

definition ReloadAll ::
  "(bytes \<Rightarrow> bytes \<Rightarrow> goerror + 'c) \<Rightarrow> CertStorage \<Rightarrow> CertificateRepository option \<Rightarrow> db \<Rightarrow> osenv \<Rightarrow>
    'c certificateStore \<Rightarrow> (goerror + unit) \<times> 'c certificateStore" where
  "ReloadAll x509pair storage certRepo d w s =
     (case certRepo of
        None \<Rightarrow> (Inl (Opaque ''certificate repository not configured''), s)
      | Some R \<Rightarrow>
         (case cr_List R d of
            Inl e \<Rightarrow> (Inl (Wrapf ''failed to get certificates from database'' e), s)
          | Inr certs \<Rightarrow>
              (Inr (), notifyReloadCallbacks
                 (s\<lparr>st_certificates := reload_loop (\<lambda>n. store_LoadCertificate x509pair storage n w) certs []\<rparr>))))"

definition store_GetCertificate :: "string \<Rightarrow> 'c certificateStore \<Rightarrow> goerror + 'c" where
  "store_GetCertificate domainName s =
     (if domainName = [] then Inl (Opaque ''domain name cannot be empty'')
      else case map_of (st_certificates s) domainName of
        None \<Rightarrow> Inl (Opaque (''certificate not found for domain: '' @ domainName))
      | Some cert \<Rightarrow> Inr cert)"

definition SetDefaultCertificate :: "'c option \<Rightarrow> 'c certificateStore \<Rightarrow> 'c certificateStore" where
  "SetDefaultCertificate cert s = s\<lparr>st_defaultCert := cert\<rparr>"

definition GetDefaultCertificate :: "'c certificateStore \<Rightarrow> 'c option" where
  "GetDefaultCertificate s = st_defaultCert s"

definition Count :: "'c certificateStore \<Rightarrow> nat" where
  "Count s = length (st_certificates s)"

definition LoadAndAddCertificate ::
  "(bytes \<Rightarrow> bytes \<Rightarrow> goerror + 'c) \<Rightarrow> CertStorage \<Rightarrow> string \<Rightarrow> osenv \<Rightarrow>
    'c certificateStore \<Rightarrow> (goerror + unit) \<times> 'c certificateStore" where
  "LoadAndAddCertificate x509pair storage domainName w s =
     (case store_LoadCertificate x509pair storage domainName w of
        Inl e \<Rightarrow> (Inl e, s)
      | Inr cert \<Rightarrow>
         (case AddCertificate domainName (Some cert) s of
            (Inl e, s1) \<Rightarrow> (Inl e, s1)
          | (Inr _, s1) \<Rightarrow>
             (case AddCertificate (''mail.'' @ domainName) (Some cert) s1 of
                (Inl e, s2) \<Rightarrow> (Inl e, s2)
              | (Inr _, s2) \<Rightarrow> (Inr (), notifyReloadCallbacks s2))))"

section \<open>The selection by server name\<close>

lemma extractParentDomain_label: "CHR ''.'' \<notin> set l \<Longrightarrow> extractParentDomain (l @ CHR ''.'' # n) = n"
  by (induction l) auto

lemma AddCertificate_ok:
  "n \<noteq> [] \<Longrightarrow> AddCertificate n (Some c) s = (Inr (), s\<lparr>st_certificates := AList.update n c (st_certificates s)\<rparr>)"
  by (simp add: AddCertificate_def)

lemma LoadAndAdd_ok:
  assumes "store_LoadCertificate x509pair storage n w = Inr c"
  shows "\<exists>s'. LoadAndAddCertificate x509pair storage n w s = (Inr (), s')
    \<and> map_of (st_certificates s') = (map_of (st_certificates s))(n \<mapsto> c, ''mail.'' @ n \<mapsto> c)
    \<and> st_defaultCert s' = st_defaultCert s \<and> st_reloadCallbacks s' = st_reloadCallbacks s
    \<and> st_notified s' = st_notified s @ st_reloadCallbacks s"
proof -
  have "n \<noteq> []" using assms by (auto simp: store_LoadCertificate_def)
  then show ?thesis using assms
    by (auto simp: LoadAndAddCertificate_def AddCertificate_ok notifyReloadCallbacks_def update_conv')
qed

context cert_files
begin

lemma saved_loads:
  assumes s: "cs_SaveCertificate S n (Some b) now w = (Inr sc, w')" "CHR 0x00 \<notin> set n" "no_read_faults w"
    and p: "x509pair (B_Certificate b) (B_PrivateKey b) = Inr c"
  shows "store_LoadCertificate x509pair S n w' = Inr c"
  using saved_exists [OF s] saved_cert [OF s] saved_key [OF s] saved_meta [OF s(1)] p
  by (simp add: store_LoadCertificate_def tls_LoadX509KeyPair_def)

end

lemma select_own: "map_of (st_certificates s) m = Some c \<Longrightarrow> m \<noteq> [] \<Longrightarrow> GetCertificateFunc s m = Inr c"
  by (simp add: GetCertificateFunc_def select_certificate_def)

lemma select_parent:
  assumes "map_of (st_certificates s) (l @ CHR ''.'' # n) = None" "CHR ''.'' \<notin> set l" "n \<noteq> []"
    and "map_of (st_certificates s) n = Some c"
  shows "GetCertificateFunc s (l @ CHR ''.'' # n) = Inr c"
proof -
  have "n \<noteq> l @ CHR ''.'' # n" by (metis append_Cons append_assoc append_self_conv2 list.distinct(1))
  with assms show ?thesis
    by (simp add: GetCertificateFunc_def select_certificate_def extractParentDomain_label)
qed

text \<open>
  A certificate just saved for a domain and hot-loaded is what a TLS client gets for the domain,
  for its \<^verbatim>\<open>mail.\<close> host and for every other direct subdomain that has no certificate of its own; names
  outside the domain keep the certificate they had, and every reload callback is called once.
\<close>

theorem issued_certificate_is_served:
  assumes b: "basePath \<noteq> []" "CHR 0x00 \<notin> set basePath" and n: "CHR 0x00 \<notin> set n" and nf: "no_read_faults w"
    and s: "cs_SaveCertificate (certStorage x509 basePath) n (Some bundle) now w = (Inr sc, w')"
    and p: "x509pair (B_Certificate bundle) (B_PrivateKey bundle) = Inr c"
  shows "\<exists>s'. LoadAndAddCertificate x509pair (certStorage x509 basePath) n w' s = (Inr (), s')
    \<and> GetCertificateFunc s' n = Inr c \<and> GetCertificateFunc s' (''mail.'' @ n) = Inr c
    \<and> (\<forall>l. CHR ''.'' \<notin> set l \<longrightarrow> map_of (st_certificates s) (l @ CHR ''.'' # n) = None \<longrightarrow>
         GetCertificateFunc s' (l @ CHR ''.'' # n) = Inr c)
    \<and> (\<forall>m. m \<noteq> n \<longrightarrow> m \<noteq> ''mail.'' @ n \<longrightarrow> extractParentDomain m \<noteq> n \<longrightarrow> extractParentDomain m \<noteq> ''mail.'' @ n \<longrightarrow>
         GetCertificateFunc s' m = GetCertificateFunc s m)
    \<and> st_notified s' = st_notified s @ st_reloadCallbacks s"
proof -
  note laws = certStorage_laws [OF b, of x509]
  note l = cert_files.saved_loads [where x509pair = x509pair, OF laws s n nf p] and ne = cert_files.saved_meta [OF laws s]
  obtain s' where r: "LoadAndAddCertificate x509pair (certStorage x509 basePath) n w' s = (Inr (), s')"
    and m: "map_of (st_certificates s') = (map_of (st_certificates s))(n \<mapsto> c, ''mail.'' @ n \<mapsto> c)"
    and d: "st_defaultCert s' = st_defaultCert s" and cb: "st_notified s' = st_notified s @ st_reloadCallbacks s"
    using LoadAndAdd_ok [OF l] by blast
  have own: "GetCertificateFunc s' n = Inr c" "GetCertificateFunc s' (''mail.'' @ n) = Inr c"
    using m ne by (simp_all add: select_own)
  have sub: "GetCertificateFunc s' (u @ CHR ''.'' # n) = Inr c"
    if "CHR ''.'' \<notin> set u" "map_of (st_certificates s) (u @ CHR ''.'' # n) = None" for u
  proof (cases "u @ CHR ''.'' # n = ''mail.'' @ n")
    case True
    then show ?thesis using own by simp
  next
    case False
    then have "map_of (st_certificates s') (u @ CHR ''.'' # n) = None" "map_of (st_certificates s') n = Some c"
      using m that by simp_all
    then show ?thesis using that ne by (intro select_parent) auto
  qed
  have "GetCertificateFunc s' k = GetCertificateFunc s k"
    if "k \<noteq> n" "k \<noteq> ''mail.'' @ n" "extractParentDomain k \<noteq> n" "extractParentDomain k \<noteq> ''mail.'' @ n" for k
  proof -
    have "map_of (st_certificates s') k = map_of (st_certificates s) k"
      "map_of (st_certificates s') (extractParentDomain k) = map_of (st_certificates s) (extractParentDomain k)"
      using that m by simp_all
    then show ?thesis using d by (simp add: GetCertificateFunc_def select_certificate_def Let_def split: option.splits)
  qed
  with r own sub cb show ?thesis by blast
qed

section \<open>Reloading from the database\<close>

definition row_certificate :: "(string \<Rightarrow> goerror + 'c) \<Rightarrow> DomainCertificate \<Rightarrow> (string \<times> 'c) list" where
  "row_certificate load r = (case load (C_DomainName r) of Inl e \<Rightarrow> [] | Inr c \<Rightarrow> [(C_DomainName r, c)])"

definition serves :: "string \<Rightarrow> string \<times> 'c \<Rightarrow> bool" where
  "serves k p \<longleftrightarrow> fst p = k \<or> ''mail.'' @ fst p = k"

lemma find_append: "find P (xs @ ys) = (case find P xs of None \<Rightarrow> find P ys | Some x \<Rightarrow> Some x)"
  by (induction xs) auto

lemma reload_loop_map:
  "map_of (reload_loop load rs acc) k
   = (case find (serves k) (rev (concat (map (row_certificate load) rs))) of
        Some p \<Rightarrow> Some (snd p) | None \<Rightarrow> map_of acc k)"
proof (induction load rs acc rule: reload_loop.induct)
  case (2 load r rs acc)
  then show ?case
    by (auto simp: row_certificate_def serves_def find_append update_conv' split: sum.splits option.splits)
qed simp

lemma reload_loop_distinct: "distinct (map fst acc) \<Longrightarrow> distinct (map fst (reload_loop load rs acc))"
  by (induction load rs acc rule: reload_loop.induct) (auto simp: distinct_update split: sum.splits)

lemma find_SomeD: "find P xs = Some x \<Longrightarrow> x \<in> set xs \<and> P x"
  by (induction xs) (auto split: if_splits)

lemma find_NoneD: "find P xs = None \<Longrightarrow> x \<in> set xs \<Longrightarrow> \<not> P x"
  by (induction xs) (auto split: if_splits)

lemma reload_loop_iff:
  "map_of (reload_loop load rs []) k = Some c \<Longrightarrow>
     \<exists>r\<in>set rs. load (C_DomainName r) = Inr c \<and> (k = C_DomainName r \<or> k = ''mail.'' @ C_DomainName r)"
  by (force simp: reload_loop_map row_certificate_def serves_def split: option.splits sum.splits dest!: find_SomeD)

lemma reload_loop_defined:
  assumes "r \<in> set rs" "load (C_DomainName r) = Inr c" "k = C_DomainName r \<or> k = ''mail.'' @ C_DomainName r"
  shows "\<exists>c'. map_of (reload_loop load rs []) k = Some c'"
proof -
  have "(C_DomainName r, c) \<in> set (rev (concat (map (row_certificate load) rs)))"
    using assms(1,2) by (auto simp: row_certificate_def intro!: bexI [of _ r])
  moreover have "serves k (C_DomainName r, c)" using assms(3) by (auto simp: serves_def)
  ultimately have "find (serves k) (rev (concat (map (row_certificate load) rs))) \<noteq> None"
    using find_NoneD [of "serves k"] by blast
  then show ?thesis by (auto simp: reload_loop_map)
qed

text \<open>
  A successful reload replaces the whole store: a name is served afterwards only if it is the
  domain of a certificate row, or \<^verbatim>\<open>mail.\<close> and that domain, and then with that domain's certificate
  from disk; a row whose files load is served under both names, unless another row claims the name
  too; rows that do not load are skipped, keys stay unique and every callback is called.
\<close>

theorem ReloadAll_replaces:
  assumes g: "gorm_db G"
    and r: "ReloadAll x509pair storage (Some (NewCertificateRepository G)) d w s = (Inr (), s')"
  shows "(\<forall>k c. map_of (st_certificates s') k = Some c \<longrightarrow>
       (\<exists>x\<in>set (t_certs d). store_LoadCertificate x509pair storage (C_DomainName x) w = Inr c
          \<and> (k = C_DomainName x \<or> k = ''mail.'' @ C_DomainName x)))
    \<and> (\<forall>x\<in>set (t_certs d). \<forall>c. store_LoadCertificate x509pair storage (C_DomainName x) w = Inr c \<longrightarrow>
         ((\<forall>y\<in>set (t_certs d). ''mail.'' @ C_DomainName y \<noteq> C_DomainName x) \<longrightarrow>
            map_of (st_certificates s') (C_DomainName x) = Some c)
       \<and> ((\<forall>y\<in>set (t_certs d). C_DomainName y \<noteq> ''mail.'' @ C_DomainName x) \<longrightarrow>
            map_of (st_certificates s') (''mail.'' @ C_DomainName x) = Some c))
    \<and> distinct (map fst (st_certificates s')) \<and> st_notified s' = st_notified s @ st_reloadCallbacks s"
proof -
  let ?load = "\<lambda>n. store_LoadCertificate x509pair storage n w"
  obtain rs where l: "cr_List (NewCertificateRepository G) d = Inr rs"
    and s': "s' = notifyReloadCallbacks (s\<lparr>st_certificates := reload_loop ?load rs []\<rparr>)"
    using r by (auto simp: ReloadAll_def split: sum.splits)
  have rs: "set rs = set (t_certs d)" by (rule cert_repo.Cert_List_rows [OF gorm_db.cert_repo_laws [OF g] l])
  have m: "st_certificates s' = reload_loop ?load rs []" using s' by (simp add: notifyReloadCallbacks_def)
  have sound: "\<exists>x\<in>set (t_certs d). ?load (C_DomainName x) = Inr c \<and> (k = C_DomainName x \<or> k = ''mail.'' @ C_DomainName x)"
    if "map_of (st_certificates s') k = Some c" for k c
    using reload_loop_iff [of ?load rs k c] that unfolding m rs by blast
  have comp: "map_of (st_certificates s') k = Some c"
    if x: "x \<in> set (t_certs d)" "?load (C_DomainName x) = Inr c" "k = C_DomainName x \<or> k = ''mail.'' @ C_DomainName x"
      and u: "\<And>y. y \<in> set (t_certs d) \<Longrightarrow> k = C_DomainName y \<or> k = ''mail.'' @ C_DomainName y \<Longrightarrow> C_DomainName y = C_DomainName x"
    for x c k
  proof -
    obtain c' where c': "map_of (st_certificates s') k = Some c'"
      using reload_loop_defined [of x rs ?load c k] x unfolding m rs by blast
    from sound [OF c'] u x(2) have "c' = c" by fastforce
    with c' show ?thesis by simp
  qed
  have "map_of (st_certificates s') (C_DomainName x) = Some c"
    if "x \<in> set (t_certs d)" "?load (C_DomainName x) = Inr c" "\<forall>y\<in>set (t_certs d). ''mail.'' @ C_DomainName y \<noteq> C_DomainName x"
    for x c using that by (intro comp) force+
  moreover have "map_of (st_certificates s') (''mail.'' @ C_DomainName x) = Some c"
    if "x \<in> set (t_certs d)" "?load (C_DomainName x) = Inr c" "\<forall>y\<in>set (t_certs d). C_DomainName y \<noteq> ''mail.'' @ C_DomainName x"
    for x c using that by (intro comp) force+
  moreover have "distinct (map fst (st_certificates s'))" unfolding m by (rule reload_loop_distinct) simp
  moreover have "st_notified s' = st_notified s @ st_reloadCallbacks s" using s' by (simp add: notifyReloadCallbacks_def)
  ultimately show ?thesis using sound by blast
qed

text \<open>
  Removing a domain's certificate from the store does not remove the entry that loading it made
  for the \<^verbatim>\<open>mail.\<close> host: TLS clients of \<^verbatim>\<open>mail.\<close> and the domain still get the removed certificate.
\<close>

theorem RemoveCertificate_keeps_mail_host:
  assumes l: "LoadAndAddCertificate x509pair storage n w s = (Inr (), s1)"
  shows "\<exists>c s2. store_LoadCertificate x509pair storage n w = Inr c \<and> RemoveCertificate n s1 = (Inr (), s2)
    \<and> map_of (st_certificates s2) n = None \<and> GetCertificateFunc s2 (''mail.'' @ n) = Inr c"
proof -
  obtain c where c: "store_LoadCertificate x509pair storage n w = Inr c"
    using l by (auto simp: LoadAndAddCertificate_def split: sum.splits)
  then have n: "n \<noteq> []" by (auto simp: store_LoadCertificate_def)
  have m: "map_of (st_certificates s1) = (map_of (st_certificates s))(n \<mapsto> c, ''mail.'' @ n \<mapsto> c)"
    using LoadAndAdd_ok [OF c, of s] l by auto
  show ?thesis using c n m
    by (auto simp: RemoveCertificate_def delete_conv' GetCertificateFunc_def select_certificate_def)
qed

section \<open>Witnesses\<close>

definition demo_store :: "bytes certificateStore" where
  "demo_store = \<lparr>st_certificates = [(''x'', ''X'')], st_defaultCert = None, st_reloadCallbacks = [7], st_notified = []\<rparr>"

definition demo_pair :: "bytes \<Rightarrow> bytes \<Rightarrow> goerror + bytes" where
  "demo_pair c k = Inr (c @ k)"

lemma demo_saved:
  "\<exists>sc w'. cs_SaveCertificate (certStorage (\<lambda>c. None) ''/c'') ''a.b'' (Some demo_bundle) 5 demo_certos = (Inr sc, w')"
proof -
  have "is_ok (fst (SaveCertificate (\<lambda>c. None) ''/c'' ''a.b'' (Some demo_bundle) 5 demo_certos))" by code_simp
  then show ?thesis by (auto simp: is_ok_iff prod_eq_iff certStorage_def)
qed

theorem issued_certificate_is_served_witness:
  "\<exists>sc w' s'. cs_SaveCertificate (certStorage (\<lambda>c. None) ''/c'') ''a.b'' (Some demo_bundle) 5 demo_certos = (Inr sc, w')
    \<and> LoadAndAddCertificate demo_pair (certStorage (\<lambda>c. None) ''/c'') ''a.b'' w' demo_store = (Inr (), s')
    \<and> GetCertificateFunc s' ''mail.a.b'' = Inr ''CK'' \<and> GetCertificateFunc s' ''www.a.b'' = Inr ''CK''
    \<and> GetCertificateFunc s' ''x'' = Inr ''X'' \<and> st_notified s' = [7]"
proof -
  obtain sc w' where s: "cs_SaveCertificate (certStorage (\<lambda>c. None) ''/c'') ''a.b'' (Some demo_bundle) 5 demo_certos = (Inr sc, w')"
    using demo_saved by blast
  have f: "no_read_faults demo_certos" by (simp add: no_read_faults_def demo_certos_def)
  have p: "demo_pair (B_Certificate demo_bundle) (B_PrivateKey demo_bundle) = Inr ''CK''"
    by (simp add: demo_pair_def demo_bundle_def)
  have e: "''/c'' \<noteq> []" "CHR 0x00 \<notin> set ''/c''" "CHR 0x00 \<notin> set ''a.b''" by simp_all
  note t = issued_certificate_is_served [OF e f s, where x509pair = demo_pair, OF p, of demo_store]
  have x: "GetCertificateFunc demo_store ''x'' = Inr ''X''" by code_simp
  from t obtain s' where r: "LoadAndAddCertificate demo_pair (certStorage (\<lambda>c. None) ''/c'') ''a.b'' w' demo_store = (Inr (), s')"
    "GetCertificateFunc s' (''mail.'' @ ''a.b'') = Inr ''CK''"
    "\<forall>l. CHR ''.'' \<notin> set l \<longrightarrow> map_of (st_certificates demo_store) (l @ CHR ''.'' # ''a.b'') = None \<longrightarrow>
         GetCertificateFunc s' (l @ CHR ''.'' # ''a.b'') = Inr ''CK''"
    "\<forall>m. m \<noteq> ''a.b'' \<longrightarrow> m \<noteq> ''mail.'' @ ''a.b'' \<longrightarrow> extractParentDomain m \<noteq> ''a.b'' \<longrightarrow> extractParentDomain m \<noteq> ''mail.'' @ ''a.b'' \<longrightarrow>
         GetCertificateFunc s' m = GetCertificateFunc demo_store m"
    "st_notified s' = st_notified demo_store @ st_reloadCallbacks demo_store" by blast
  have "GetCertificateFunc s' ''www.a.b'' = Inr ''CK''" using r(3) [rule_format, of "''www''"] by (simp add: demo_store_def)
  moreover have "GetCertificateFunc s' ''x'' = Inr ''X''" using r(4) [rule_format, of "''x''"] x by simp
  ultimately show ?thesis using s r by (auto simp: demo_store_def)
qed

theorem RemoveCertificate_keeps_mail_host_witness:
  "\<exists>w' s1 s2. LoadAndAddCertificate demo_pair (certStorage (\<lambda>c. None) ''/c'') ''a.b'' w' demo_store = (Inr (), s1)
    \<and> RemoveCertificate ''a.b'' s1 = (Inr (), s2) \<and> is_ok (GetCertificateFunc s2 ''mail.a.b'')"
proof -
  let ?w = "demo_certos\<lparr>os_table := [([''c'', ''a.b'', ''fullchain.pem''], ''C''), ([''c'', ''a.b'', ''privkey.pem''], ''K'')]\<rparr>"
  have "is_ok (fst (LoadAndAddCertificate demo_pair (certStorage (\<lambda>c. None) ''/c'') ''a.b'' ?w demo_store))" by code_simp
  then obtain s1 where l: "LoadAndAddCertificate demo_pair (certStorage (\<lambda>c. None) ''/c'') ''a.b'' ?w demo_store = (Inr (), s1)"
    by (auto simp: is_ok_iff prod_eq_iff)
  from RemoveCertificate_keeps_mail_host [OF l] show ?thesis using l by (auto simp: is_ok_def intro!: exI)
qed

definition demo_cert_row :: DomainCertificate where
  "demo_cert_row = \<lparr>C_ID = 1, C_DomainID = 1, C_DomainName = ''a.b'', C_CertPath = [], C_KeyPath = [],
     C_ExpiresAt = 9, C_IssuedAt = 1, C_AutoRenew = True, C_CreatedAt = 0, C_UpdatedAt = 0\<rparr>"

theorem ReloadAll_replaces_witness:
  "\<exists>s'. ReloadAll demo_pair (certStorage (\<lambda>c. None) ''/c'') (Some (NewCertificateRepository (mem_gorm 0)))
      (empty_db\<lparr>t_certs := [demo_cert_row]\<rparr>)
      (demo_certos\<lparr>os_table := [([''c'', ''a.b'', ''fullchain.pem''], ''C''), ([''c'', ''a.b'', ''privkey.pem''], ''K'')]\<rparr>)
      demo_store = (Inr (), s')
    \<and> map_of (st_certificates s') ''a.b'' = Some ''CK'' \<and> map_of (st_certificates s') ''x'' = None"
proof -
  let ?w = "demo_certos\<lparr>os_table := [([''c'', ''a.b'', ''fullchain.pem''], ''C''), ([''c'', ''a.b'', ''privkey.pem''], ''K'')]\<rparr>"
  let ?d = "empty_db\<lparr>t_certs := [demo_cert_row]\<rparr>"
  let ?S = "certStorage (\<lambda>c. None) ''/c''"
  have "is_ok (fst (ReloadAll demo_pair ?S (Some (NewCertificateRepository (mem_gorm 0))) ?d ?w demo_store))" by code_simp
  then obtain s' where r: "ReloadAll demo_pair ?S (Some (NewCertificateRepository (mem_gorm 0))) ?d ?w demo_store = (Inr (), s')"
    by (auto simp: is_ok_iff prod_eq_iff)
  have l: "store_LoadCertificate demo_pair ?S ''a.b'' ?w = Inr ''CK''" by code_simp
  have n: "C_DomainName demo_cert_row = ''a.b''" by (simp add: demo_cert_row_def)
  note t = ReloadAll_replaces [OF mem.gorm_db_axioms r]
  have "map_of (st_certificates s') ''a.b'' = Some ''CK''" using t l by (simp add: n)
  moreover have "map_of (st_certificates s') ''x'' = None"
  proof (cases "map_of (st_certificates s') ''x''")
    case (Some c)
    with t have "''x'' = ''a.b'' \<or> ''x'' = ''mail.'' @ ''a.b''" by (fastforce simp: n)
    then show ?thesis by simp
  qed
  ultimately show ?thesis using r by blast
qed

end
