(* ===== verification/CertManager.thy ===== *)
theory CertManager
  imports DomainMgr CertStore
begin

text \<open>
  \<^verbatim>\<open>internal/services/certificate_manager.go\<close>: from a verified domain to an issued, stored and served
  certificate. The ACME server behind \<^verbatim>\<open>ACMEClient\<close> has a state of its own, the type variable \<open>'a\<close>; the
  world also holds the database, the disk, the certificate store, the clock (one reading per
  \<^verbatim>\<open>time.Now\<close>) and the entries given to the domain-setup log. The lines sent to the process log by
  \<^verbatim>\<open>log.Printf\<close> are left out. Looking up a TXT record at one DNS server is the parameter \<open>LookupTXT\<close>.
\<close>

section \<open>State\<close>

record DNSChallengeInfo =
  DC_Domain :: string
  DC_Token :: string
  DC_KeyAuth :: string
  DC_TXTRecord :: string

record 'a ACMEClient =
  ac_GetDNSChallenge :: "string \<Rightarrow> 'a \<Rightarrow> (goerror + DNSChallengeInfo) \<times> 'a"
  ac_CompleteDNSChallenge :: "string \<Rightarrow> 'a \<Rightarrow> (goerror + unit) \<times> 'a"
  ac_RequestCertificate :: "string list \<Rightarrow> 'a \<Rightarrow> (goerror + CertificateBundle) \<times> 'a"

datatype acme_log =
    StartDomainLog string
  | LogInfo string string string
  | LogError string string string goerror
  | MarkFailed string goerror
  | MarkSuccess string

record ('a, 'c) world =
  w_db :: db
  w_os :: osenv
  w_acme :: 'a
  w_store :: "'c certificateStore option"
  w_log :: "acme_log list"
  w_clock :: "nat \<Rightarrow> time"
  w_tick :: nat

record Certificate =
  CT_ID :: uint
  CT_DomainID :: uint
  CT_DomainName :: string
  CT_CertPath :: string
  CT_KeyPath :: string
  CT_ExpiresAt :: time
  CT_IssuedAt :: time
  CT_AutoRenew :: bool

record ACMEChallengeInfo =
  AC_Domain :: string
  AC_TXTRecordName :: string
  AC_TXTRecordValue :: string
  AC_ExpiresAt :: time
  AC_PropagationNote :: string

record ACMEDNSVerificationResult =
  AV_Verified :: bool
  AV_ExpectedValue :: string
  AV_FoundValues :: "string list"
  AV_Message :: string
  AV_CanProceed :: bool

record ACMEStatus =
  AS_Step :: string
  AS_ChallengeInfo :: "ACMEChallengeInfo option"
  AS_DNSVerified :: bool
  AS_ErrorMessage :: string
  AS_SuggestedAction :: string
  AS_LastUpdated :: time

record ('a, 'c) certificateManagerService =
  cm_acmeClient :: "'a ACMEClient"
  cm_certStorage :: CertStorage
  cm_certRepo :: CertificateRepository
  cm_domainRepo :: DomainRepository
  cm_UpdateStatus :: "uint \<Rightarrow> DomainStatus \<Rightarrow> string \<Rightarrow> db \<Rightarrow> (goerror + unit) \<times> db"
  cm_x509pair :: "bytes \<Rightarrow> bytes \<Rightarrow> goerror + 'c"
  cm_LookupTXT :: "string \<Rightarrow> string \<Rightarrow> goerror + string list"
  cm_fmt_time :: "time \<Rightarrow> string"
  cm_RenewalDays :: int

definition NewCertificateManagerService ::
  "'a ACMEClient \<Rightarrow> CertStorage \<Rightarrow> CertificateRepository \<Rightarrow> DomainRepository \<Rightarrow>
   (uint \<Rightarrow> DomainStatus \<Rightarrow> string \<Rightarrow> db \<Rightarrow> (goerror + unit) \<times> db) \<Rightarrow> (bytes \<Rightarrow> bytes \<Rightarrow> goerror + 'c) \<Rightarrow>
   (string \<Rightarrow> string \<Rightarrow> goerror + string list) \<Rightarrow> (time \<Rightarrow> string) \<Rightarrow> int \<Rightarrow> ('a, 'c) certificateManagerService" where
  "NewCertificateManagerService acme storage certRepo domainRepo updateStatus x509pair lookup ft renewalDays =
     \<lparr>cm_acmeClient = acme, cm_certStorage = storage, cm_certRepo = certRepo, cm_domainRepo = domainRepo,
      cm_UpdateStatus = updateStatus, cm_x509pair = x509pair, cm_LookupTXT = lookup, cm_fmt_time = ft,
      cm_RenewalDays = (if renewalDays \<le> 0 then 30 else renewalDays)\<rparr>"

section \<open>Sequencing\<close>

text \<open>
  \<open>attempt m h k\<close> is \<^verbatim>\<open>x, err := m(); if err != nil { h } ; k\<close>; the other definitions run an operation of
  one part of the world.
\<close>

definition attempt :: "('w \<Rightarrow> ('e + 'x) \<times> 'w) \<Rightarrow> ('e \<Rightarrow> 'w \<Rightarrow> 'r \<times> 'w) \<Rightarrow> ('x \<Rightarrow> 'w \<Rightarrow> 'r \<times> 'w) \<Rightarrow> 'w \<Rightarrow> 'r \<times> 'w" where
  "attempt m h k w = (case m w of (Inl e, w') \<Rightarrow> h e w' | (Inr x, w') \<Rightarrow> k x w')"

definition fail :: "goerror \<Rightarrow> 'w \<Rightarrow> (goerror + 'x) \<times> 'w" where
  "fail e w = (Inl e, w)"

definition ret :: "'x \<Rightarrow> 'w \<Rightarrow> ('e + 'x) \<times> 'w" where
  "ret x w = (Inr x, w)"

definition on_db :: "(db \<Rightarrow> 'r \<times> db) \<Rightarrow> ('a, 'c) world \<Rightarrow> 'r \<times> ('a, 'c) world" where
  "on_db f w = (case f (w_db w) of (r, d') \<Rightarrow> (r, w\<lparr>w_db := d'\<rparr>))"

definition read_db :: "(db \<Rightarrow> 'r) \<Rightarrow> ('a, 'c) world \<Rightarrow> 'r \<times> ('a, 'c) world" where
  "read_db f w = (f (w_db w), w)"

definition on_acme :: "('a \<Rightarrow> 'r \<times> 'a) \<Rightarrow> ('a, 'c) world \<Rightarrow> 'r \<times> ('a, 'c) world" where
  "on_acme f w = (case f (w_acme w) of (r, a') \<Rightarrow> (r, w\<lparr>w_acme := a'\<rparr>))"

definition on_os :: "(osenv \<Rightarrow> 'r \<times> osenv) \<Rightarrow> ('a, 'c) world \<Rightarrow> 'r \<times> ('a, 'c) world" where
  "on_os f w = (case f (w_os w) of (r, o') \<Rightarrow> (r, w\<lparr>w_os := o'\<rparr>))"

definition logged :: "acme_log \<Rightarrow> (('a, 'c) world \<Rightarrow> 'r) \<Rightarrow> ('a, 'c) world \<Rightarrow> 'r" where
  "logged ev k w = k (w\<lparr>w_log := w_log w @ [ev]\<rparr>)"

definition exec :: "('w \<Rightarrow> 'x \<times> 'w) \<Rightarrow> ('w \<Rightarrow> 'r) \<Rightarrow> 'w \<Rightarrow> 'r" where
  "exec m k w = k (snd (m w))"

definition time_Now :: "('a, 'c) world \<Rightarrow> time \<times> ('a, 'c) world" where
  "time_Now w = (w_clock w (w_tick w), w\<lparr>w_tick := Suc (w_tick w)\<rparr>)"

definition expired :: "time option \<Rightarrow> ('a, 'c) world \<Rightarrow> bool \<times> ('a, 'c) world" where
  "expired t w = (case t of None \<Rightarrow> (False, w) | Some e \<Rightarrow> (case time_Now w of (now, w') \<Rightarrow> (e < now, w')))"

definition save_certificate ::
  "('a, 'c) certificateManagerService \<Rightarrow> string \<Rightarrow> CertificateBundle \<Rightarrow> ('a, 'c) world \<Rightarrow> (goerror + StoredCertificate) \<times> ('a, 'c) world" where
  "save_certificate M n bundle w =
     (case time_Now w of (now, w1) \<Rightarrow> on_os (cs_SaveCertificate (cm_certStorage M) n (Some bundle) now) w1)"

section \<open>Operations\<close>

definition modelToCertificate :: "DomainCertificate \<Rightarrow> Certificate" where
  "modelToCertificate m = \<lparr>CT_ID = C_ID m, CT_DomainID = C_DomainID m, CT_DomainName = C_DomainName m,
     CT_CertPath = C_CertPath m, CT_KeyPath = C_KeyPath m, CT_ExpiresAt = C_ExpiresAt m,
     CT_IssuedAt = C_IssuedAt m, CT_AutoRenew = C_AutoRenew m\<rparr>"

definition triggerHotReload :: "('a, 'c) certificateManagerService \<Rightarrow> string \<Rightarrow> ('a, 'c) world \<Rightarrow> ('a, 'c) world" where
  "triggerHotReload M domainName w =
     (case w_store w of
        None \<Rightarrow> w
      | Some st \<Rightarrow> w\<lparr>w_store := Some (snd (LoadAndAddCertificate (cm_x509pair M) (cm_certStorage M) domainName (w_os w) st))\<rparr>)"

definition SetCertificateStore :: "'c certificateStore \<Rightarrow> ('a, 'c) world \<Rightarrow> ('a, 'c) world" where
  "SetCertificateStore st w = w\<lparr>w_store := Some st\<rparr>"

definition ClearACMEChallenge ::
  "('a, 'c) certificateManagerService \<Rightarrow> uint \<Rightarrow> ('a, 'c) world \<Rightarrow> (goerror + unit) \<times> ('a, 'c) world" where
  "ClearACMEChallenge M domainID =
     attempt (read_db (dr_GetByID (cm_domainRepo M) domainID)) (\<lambda>err. fail (Wrapf ''failed to get domain'' err)) (\<lambda>domain.
     attempt (on_db (dr_Update (cm_domainRepo M) (domain\<lparr>D_ACMEChallengeToken := [], D_ACMEChallengeValue := [],
            D_ACMEChallengeExpiresAt := None, D_ACMEDNSVerified := False\<rparr>)))
         (\<lambda>err. fail (Wrapf ''failed to clear ACME challenge data'' err)) (\<lambda>_.
     ret ()))"

text \<open>
  The certificate row, updated or created (lines 262--299 of \<^verbatim>\<open>GenerateCertificate\<close> and 788--818 of
  \<^verbatim>\<open>SubmitACMEChallenge\<close>); only the former logs the failures, which is the argument \<open>failed\<close>.
\<close>

definition with_files :: "StoredCertificate \<Rightarrow> DomainCertificate \<Rightarrow> DomainCertificate" where
  "with_files sc c = c\<lparr>C_CertPath := SC_CertPath sc, C_KeyPath := SC_KeyPath sc,
     C_ExpiresAt := SC_ExpiresAt sc, C_IssuedAt := SC_IssuedAt sc\<rparr>"

definition new_certificate_row :: "Domain \<Rightarrow> StoredCertificate \<Rightarrow> DomainCertificate" where
  "new_certificate_row domain sc = \<lparr>C_ID = 0, C_DomainID = D_ID domain, C_DomainName = D_Name domain,
     C_CertPath = SC_CertPath sc, C_KeyPath = SC_KeyPath sc, C_ExpiresAt = SC_ExpiresAt sc,
     C_IssuedAt = SC_IssuedAt sc, C_AutoRenew = True, C_CreatedAt = 0, C_UpdatedAt = 0\<rparr>"

definition record_certificate ::
  "('a, 'c) certificateManagerService \<Rightarrow> (goerror \<Rightarrow> acme_log list) \<Rightarrow> Domain \<Rightarrow> StoredCertificate \<Rightarrow>
    ('a, 'c) world \<Rightarrow> (goerror + DomainCertificate) \<times> ('a, 'c) world" where
  "record_certificate M failed domain sc w =
     (let failing = \<lambda>what err w'. (Inl (Wrapf what err), w'\<lparr>w_log := w_log w' @ failed err\<rparr>) in
      case cr_GetByDomainID (cm_certRepo M) (D_ID domain) (w_db w) of
        Inr existingCert \<Rightarrow>
          attempt (on_db (cr_Update (cm_certRepo M) (with_files sc existingCert))) (failing ''failed to update certificate record'')
            (\<lambda>c. logged (LogInfo (D_Name domain) ''db_updated'' ''Certificate record updated in database'') (ret c)) w
      | Inl err \<Rightarrow>
          if \<not> errors_Is err RepoErrNotFound then failing ''failed to check existing certificate'' err w
          else
          attempt (on_db (cr_Create (cm_certRepo M) (new_certificate_row domain sc))) (failing ''failed to create certificate record'')
            (\<lambda>c. logged (LogInfo (D_Name domain) ''db_created'' ''Certificate record created in database'') (ret c)) w)"

definition GenerateCertificate ::
  "('a, 'c) certificateManagerService \<Rightarrow> Domain option \<Rightarrow> ('a, 'c) world \<Rightarrow> (goerror + Certificate) \<times> ('a, 'c) world" where
  "GenerateCertificate M domainptr w0 =
     (case domainptr of
        None \<Rightarrow> (Inl (Opaque ''domain cannot be nil''), w0)
      | Some domain \<Rightarrow>
     (let name = D_Name domain;
          info = \<lambda>step msg. logged (LogInfo name step msg);
          failed = \<lambda>err ret_err. logged (MarkFailed name err) (fail ret_err);
          set_status = \<lambda>st msg. on_db (cm_UpdateStatus M (D_ID domain) st msg) in
      logged (StartDomainLog name) (\<lambda>w.
      if D_Status domain \<noteq> StatusACMEChallengeReady then
        if D_Status domain = StatusDNSVerified then
          let err = Opaque ''please use the manual DNS verification flow: 1) Request ACME challenge, 2) Add DNS TXT record, 3) Verify DNS, 4) Submit challenge'' in
          failed err err w
        else
          let err = Opaque (''domain must be in acme_challenge_ready status (DNS verified) to generate certificate, current status: '' @
                DomainStatus_String (D_Status domain)) in
          failed err err w
      else if \<not> D_ACMEDNSVerified domain then
        let err = Opaque ''DNS has not been verified. Please verify DNS first using VerifyACMEDNS before generating certificate'' in
        failed err err w
      else if D_ACMEChallengeToken domain = [] \<or> D_ACMEChallengeValue domain = [] then
        let err = Opaque ''no stored ACME challenge data found. Please request a new challenge using RequestACMEChallenge'' in
        failed err err w
      else case expired (D_ACMEChallengeExpiresAt domain) w of (late, w1) \<Rightarrow>
      if late then
        let err = Opaque ''ACME challenge has expired. Please request a new challenge using RequestACMEChallenge'' in
        failed err err w1
      else
      info ''init'' ''Starting certificate generation using stored challenge data (manual DNS verification flow)''
      (attempt (set_status StatusPendingCertificate [])
        (\<lambda>err. failed err (Wrapf ''failed to update domain status to pending_certificate'' err)) (\<lambda>_.
      let domains = [name] in
      info ''domains'' (''Requesting certificate for domain: '' @ name)
      (info ''complete_challenge'' ''Submitting DNS challenge to Let's Encrypt (DNS already verified)''
      (attempt (on_acme (ac_CompleteDNSChallenge (cm_acmeClient M) name))
        (\<lambda>err. exec (set_status StatusFailed (''ACME DNS challenge failed: '' @ Error_text err @
             ''. Please verify the TXT record is still correctly configured and try again.''))
           (failed err (Wrapf ''failed to complete DNS challenge'' err))) (\<lambda>_.
      info ''challenge_complete'' ''DNS challenge completed successfully''
      (info ''request_cert'' ''Requesting certificate from ACME server''
      (attempt (on_acme (ac_RequestCertificate (cm_acmeClient M) domains))
        (\<lambda>err. exec (set_status StatusFailed (''Certificate request failed: '' @ Error_text err))
           (failed err (Wrapf ''failed to request certificate'' err))) (\<lambda>bundle.
      info ''cert_received'' (''Certificate received! Expires at: '' @ cm_fmt_time M (B_ExpiresAt bundle))
      (attempt (save_certificate M name bundle)
        (\<lambda>err. exec (set_status StatusFailed (''Certificate storage failed: '' @ Error_text err))
           (failed err (Wrapf ''failed to save certificate'' err))) (\<lambda>storedCert.
      info ''cert_saved'' (''Certificate saved to disk: '' @ SC_CertPath storedCert)
      (attempt (record_certificate M (\<lambda>err. [MarkFailed name err]) domain storedCert) fail (\<lambda>dbCert.
      exec (ClearACMEChallenge M (D_ID domain))
      (attempt (set_status StatusCertificateIssued [])
        (\<lambda>err. failed err (Wrapf ''failed to update domain status to certificate_issued'' err)) (\<lambda>_ w2.
      logged (MarkSuccess name) (ret (modelToCertificate dbCert)) (triggerHotReload M name w2)
      )))))))))))))) w1) w0))"

definition mgr_GetCertificate :: "('a, 'c) certificateManagerService \<Rightarrow> string \<Rightarrow> db \<Rightarrow> goerror + Certificate" where
  "mgr_GetCertificate M domainName d =
     (if domainName = [] then Inl (Opaque ''domain name cannot be empty'')
      else case cr_GetByDomainName (cm_certRepo M) domainName d of
        Inl err \<Rightarrow> if errors_Is err RepoErrNotFound then Inl (Opaque (''certificate not found for domain: '' @ domainName))
                    else Inl (Wrapf ''failed to get certificate'' err)
      | Inr cert \<Rightarrow> Inr (modelToCertificate cert))"

definition GetCertificateByDomainID :: "('a, 'c) certificateManagerService \<Rightarrow> uint \<Rightarrow> db \<Rightarrow> goerror + Certificate" where
  "GetCertificateByDomainID M domainID d =
     (case cr_GetByDomainID (cm_certRepo M) domainID d of
        Inl err \<Rightarrow> if errors_Is err RepoErrNotFound then Inl (Opaque (''certificate not found for domain ID: '' @ show_nat domainID))
                    else Inl (Wrapf ''failed to get certificate'' err)
      | Inr cert \<Rightarrow> Inr (modelToCertificate cert))"

definition RenewCertificate ::
  "('a, 'c) certificateManagerService \<Rightarrow> uint \<Rightarrow> ('a, 'c) world \<Rightarrow> (goerror + Certificate) \<times> ('a, 'c) world" where
  "RenewCertificate M domainID =
     attempt (read_db (cr_GetByDomainID (cm_certRepo M) domainID))
       (\<lambda>err. if errors_Is err RepoErrNotFound then fail (Opaque (''no certificate found for domain ID: '' @ show_nat domainID))
              else fail (Wrapf ''failed to get existing certificate'' err)) (\<lambda>existingCert.
     attempt (read_db (dr_GetByID (cm_domainRepo M) domainID)) (\<lambda>err. fail (Wrapf ''failed to get domain'' err)) (\<lambda>domain.
     let domains = [D_Name domain] in
     attempt (on_acme (ac_GetDNSChallenge (cm_acmeClient M) (D_Name domain)))
       (\<lambda>err. fail (Wrapf ''failed to get DNS challenge for renewal'' err)) (\<lambda>_.
     attempt (on_acme (ac_CompleteDNSChallenge (cm_acmeClient M) (D_Name domain)))
       (\<lambda>err. fail (Wrapf ''failed to complete DNS challenge for renewal'' err)) (\<lambda>_.
     attempt (on_acme (ac_RequestCertificate (cm_acmeClient M) domains))
       (\<lambda>err. fail (Wrapf ''failed to request renewal certificate'' err)) (\<lambda>bundle.
     attempt (save_certificate M (D_Name domain) bundle)
       (\<lambda>err. fail (Wrapf ''failed to save renewal certificate'' err)) (\<lambda>storedCert.
     attempt (on_db (cr_Update (cm_certRepo M) (with_files storedCert existingCert)))
       (\<lambda>err. fail (Wrapf ''failed to update certificate record'' err)) (\<lambda>existingCert w.
     ret (modelToCertificate existingCert) (triggerHotReload M (D_Name domain) w))))))))"

definition mgr_GetExpiringCertificates ::
  "('a, 'c) certificateManagerService \<Rightarrow> int \<Rightarrow> ('a, 'c) world \<Rightarrow> (goerror + Certificate list) \<times> ('a, 'c) world" where
  "mgr_GetExpiringCertificates M days w =
     (let days = (if days \<le> 0 then cm_RenewalDays M else days) in
      case time_Now w of (now, w1) \<Rightarrow>
      attempt (read_db (cr_GetExpiringCertificates (cm_certRepo M) days now))
        (\<lambda>err. fail (Wrapf ''failed to get expiring certificates'' err))
        (\<lambda>certs. ret (map modelToCertificate certs)) w1)"

definition mgr_DeleteCertificate ::
  "('a, 'c) certificateManagerService \<Rightarrow> uint \<Rightarrow> ('a, 'c) world \<Rightarrow> (goerror + unit) \<times> ('a, 'c) world" where
  "mgr_DeleteCertificate M domainID =
     attempt (read_db (cr_GetByDomainID (cm_certRepo M) domainID))
       (\<lambda>err. if errors_Is err RepoErrNotFound then ret () else fail (Wrapf ''failed to get certificate'' err)) (\<lambda>cert.
     attempt (on_os (cs_DeleteCertificate (cm_certStorage M) (C_DomainName cert)))
       (\<lambda>err. fail (Wrapf ''failed to delete certificate from storage'' err)) (\<lambda>_.
     attempt (on_db (cr_DeleteByDomainID (cm_certRepo M) domainID))
       (\<lambda>err. fail (Wrapf ''failed to delete certificate from database'' err)) (\<lambda>_.
     ret ())))"

definition SetAutoRenew ::
  "('a, 'c) certificateManagerService \<Rightarrow> uint \<Rightarrow> bool \<Rightarrow> ('a, 'c) world \<Rightarrow> (goerror + unit) \<times> ('a, 'c) world" where
  "SetAutoRenew M domainID autoRenew =
     attempt (read_db (cr_GetByDomainID (cm_certRepo M) domainID))
       (\<lambda>err. if errors_Is err RepoErrNotFound then fail (Opaque (''certificate not found for domain ID: '' @ show_nat domainID))
              else fail (Wrapf ''failed to get certificate'' err)) (\<lambda>cert.
     attempt (on_db (cr_Update (cm_certRepo M) (cert\<lparr>C_AutoRenew := autoRenew\<rparr>)))
       (\<lambda>err. fail (Wrapf ''failed to update auto-renew setting'' err)) (\<lambda>_.
     ret ()))"

section \<open>Manual DNS verification\<close>

definition propagation_note :: string where
  "propagation_note = ''DNS propagation may take up to 24 hours. Please wait a few minutes after adding the record before verifying.''"

definition RequestACMEChallenge ::
  "('a, 'c) certificateManagerService \<Rightarrow> uint \<Rightarrow> ('a, 'c) world \<Rightarrow> (goerror + ACMEChallengeInfo) \<times> ('a, 'c) world" where
  "RequestACMEChallenge M domainID =
     attempt (read_db (dr_GetByID (cm_domainRepo M) domainID)) (\<lambda>err. fail (Wrapf ''failed to get domain'' err)) (\<lambda>domain.
     if D_Status domain \<noteq> StatusDNSVerified then
       fail (Opaque (''domain must be in dns_verified status to request ACME challenge, current status: '' @
         DomainStatus_String (D_Status domain)))
     else
     let name = D_Name domain in
     logged (StartDomainLog name) (
     logged (LogInfo name ''request_challenge'' ''Requesting ACME challenge from Let's Encrypt'') (
     attempt (on_acme (ac_GetDNSChallenge (cm_acmeClient M) name))
       (\<lambda>err. logged (LogError name ''challenge_failed'' ''Failed to get ACME challenge'' err)
         (fail (Wrapf ''failed to get ACME challenge'' err))) (\<lambda>challengeInfo w.
     case time_Now w of (now, w1) \<Rightarrow>
     let expiresAt = now + 24 * hour in
     attempt (on_db (dr_Update (cm_domainRepo M) (domain\<lparr>D_ACMEChallengeToken := DC_Token challengeInfo,
          D_ACMEChallengeValue := DC_TXTRecord challengeInfo, D_ACMEChallengeExpiresAt := Some expiresAt,
          D_ACMEDNSVerified := False, D_Status := StatusPendingACMEChallenge, D_ErrorMessage := []\<rparr>)))
       (\<lambda>err. logged (LogError name ''store_challenge_failed'' ''Failed to store ACME challenge'' err)
         (fail (Wrapf ''failed to store ACME challenge'' err))) (\<lambda>domain.
     logged (LogInfo name ''challenge_stored'' ''ACME challenge stored successfully'') (
     ret \<lparr>AC_Domain = name, AC_TXTRecordName = ''_acme-challenge.'' @ name,
       AC_TXTRecordValue = DC_TXTRecord challengeInfo, AC_ExpiresAt = expiresAt,
       AC_PropagationNote = propagation_note\<rparr>)) w1))))"

definition dnsServers :: "string list" where
  "dnsServers = [''8.8.8.8:53'', ''1.1.1.1:53'', ''208.67.222.222:53'']"

definition add_unseen :: "string \<Rightarrow> string list \<Rightarrow> string list" where
  "add_unseen txt allValues = (let trimmed = TrimSpace txt in
     if trimmed \<in> set allValues then allValues else allValues @ [trimmed])"

definition lookupACMETXTRecord :: "(string \<Rightarrow> string \<Rightarrow> goerror + string list) \<Rightarrow> string \<Rightarrow> string list" where
  "lookupACMETXTRecord lookup challengeDomain =
     fold (\<lambda>server allValues. case lookup server challengeDomain of
         Inl err \<Rightarrow> allValues
       | Inr txtRecords \<Rightarrow> fold add_unseen txtRecords allValues) dnsServers []"

definition fmt_strings :: "string list \<Rightarrow> string" where
  "fmt_strings vs = ''['' @ Join vs '' '' @ '']''"

definition VerifyACMEDNS ::
  "('a, 'c) certificateManagerService \<Rightarrow> uint \<Rightarrow> ('a, 'c) world \<Rightarrow> (goerror + ACMEDNSVerificationResult) \<times> ('a, 'c) world" where
  "VerifyACMEDNS M domainID =
     (let unverified = \<lambda>expected msg. \<lparr>AV_Verified = False, AV_ExpectedValue = expected, AV_FoundValues = [],
            AV_Message = msg, AV_CanProceed = False\<rparr> in
     attempt (read_db (dr_GetByID (cm_domainRepo M) domainID)) (\<lambda>err. fail (Wrapf ''failed to get domain'' err)) (\<lambda>domain w.
     if D_ACMEChallengeToken domain = [] \<or> D_ACMEChallengeValue domain = [] then
       ret (unverified [] ''No active ACME challenge found. Please request a new challenge first.'') w
     else case expired (D_ACMEChallengeExpiresAt domain) w of (late, w1) \<Rightarrow>
     if late then
       attempt (on_db (dr_Update (cm_domainRepo M) (domain\<lparr>D_Status := StatusDNSVerified\<rparr>)))
         (\<lambda>err. fail (Wrapf ''failed to reset domain status for challenge renewal'' err)) (\<lambda>domain.
       attempt (RequestACMEChallenge M domainID)
         (\<lambda>err. ret (unverified (D_ACMEChallengeValue domain)
            (''ACME challenge has expired and auto-renewal failed: '' @ Error_text err @ ''. Please request a new challenge manually.'')))
         (\<lambda>newChallenge. ret (unverified (AC_TXTRecordValue newChallenge)
            (''ACME challenge has expired. A new challenge has been automatically requested. Please update your DNS TXT record '' @
             AC_TXTRecordName newChallenge @ '' with the new value: '' @ AC_TXTRecordValue newChallenge)))) w1
     else
       let challengeDomain = ''_acme-challenge.'' @ D_Name domain;
           foundValues = lookupACMETXTRecord (cm_LookupTXT M) challengeDomain;
           verified = list_ex (\<lambda>val. val = D_ACMEChallengeValue domain) foundValues;
           result = \<lambda>msg. \<lparr>AV_Verified = verified, AV_ExpectedValue = D_ACMEChallengeValue domain,
              AV_FoundValues = foundValues, AV_Message = msg, AV_CanProceed = verified\<rparr> in
       if verified then
         attempt (on_db (dr_Update (cm_domainRepo M) (domain\<lparr>D_ACMEDNSVerified := True, D_Status := StatusACMEChallengeReady\<rparr>)))
           (\<lambda>err. fail (Wrapf ''failed to update domain after DNS verification'' err))
           (\<lambda>_. ret (result ''DNS TXT record verified successfully!'')) w1
       else if foundValues = [] then
         ret (result (''DNS TXT record not found. Please add a TXT record for '' @ sq @ challengeDomain @ sq @ '' with value: '' @ sq @
           D_ACMEChallengeValue domain @ sq @ ''. DNS propagation may take up to 24 hours - please wait a few minutes after adding the record before verifying again.'')) w1
       else
         ret (result (''DNS TXT record value mismatch. Expected: '' @ sq @ D_ACMEChallengeValue domain @ sq @ '', Found: '' @
           fmt_strings foundValues @ ''. Please update the TXT record '' @ sq @ challengeDomain @ sq @ '' with the correct value.'')) w1))"

definition SubmitACMEChallenge ::
  "('a, 'c) certificateManagerService \<Rightarrow> uint \<Rightarrow> ('a, 'c) world \<Rightarrow> (goerror + unit) \<times> ('a, 'c) world" where
  "SubmitACMEChallenge M domainID =
     attempt (read_db (dr_GetByID (cm_domainRepo M) domainID)) (\<lambda>err. fail (Wrapf ''failed to get domain'' err)) (\<lambda>domain.
     if D_Status domain \<noteq> StatusACMEChallengeReady then
       fail (Opaque (''domain must be in acme_challenge_ready status to submit ACME challenge, current status: '' @
         DomainStatus_String (D_Status domain) @ ''. Please verify DNS first''))
     else if \<not> D_ACMEDNSVerified domain then
       fail (Opaque ''DNS has not been verified. Please verify DNS first using VerifyACMEDNS'')
     else
     let name = D_Name domain; info = \<lambda>step msg. logged (LogInfo name step msg) in
     info ''submit_challenge'' ''Submitting ACME challenge to Let's Encrypt''
     (attempt (on_db (dr_Update (cm_domainRepo M) (domain\<lparr>D_Status := StatusPendingCertificate\<rparr>)))
       (\<lambda>err. fail (Wrapf ''failed to update domain status'' err)) (\<lambda>domain.
     let set_failed = \<lambda>msg. on_db (dr_Update (cm_domainRepo M) (domain\<lparr>D_Status := StatusFailed, D_ErrorMessage := msg\<rparr>)) in
     attempt (on_acme (ac_CompleteDNSChallenge (cm_acmeClient M) name))
       (\<lambda>err. exec (set_failed (''ACME validation failed: '' @ Error_text err @
            ''. Please ensure the TXT record is correctly configured and try again.''))
          (logged (LogError name ''validation_failed'' ''ACME validation failed'' err)
          (fail (Wrapf ''ACME validation failed'' err)))) (\<lambda>_.
     info ''validation_success'' ''ACME challenge validated successfully''
     (let domains = [name] in
     info ''request_cert'' (''Requesting certificate from ACME server for domain: '' @ name)
     (attempt (on_acme (ac_RequestCertificate (cm_acmeClient M) domains))
       (\<lambda>err. exec (set_failed (''Certificate request failed: '' @ Error_text err))
          (logged (LogError name ''cert_request_failed'' ''Certificate request failed'' err)
          (fail (Wrapf ''failed to request certificate'' err)))) (\<lambda>bundle.
     info ''cert_received'' (''Certificate received! Expires at: '' @ cm_fmt_time M (B_ExpiresAt bundle))
     (attempt (save_certificate M name bundle)
       (\<lambda>err. exec (set_failed (''Certificate storage failed: '' @ Error_text err))
          (logged (LogError name ''cert_storage_failed'' ''Certificate storage failed'' err)
          (fail (Wrapf ''failed to save certificate'' err)))) (\<lambda>storedCert.
     info ''cert_saved'' (''Certificate saved to disk: '' @ SC_CertPath storedCert)
     (attempt (record_certificate M (\<lambda>err. []) domain storedCert) fail (\<lambda>_.
     exec (ClearACMEChallenge M domainID)
     (attempt (on_db (dr_Update (cm_domainRepo M) (domain\<lparr>D_Status := StatusCertificateIssued, D_ErrorMessage := []\<rparr>)))
       (\<lambda>err. fail (Wrapf ''failed to update domain status to certificate_issued'' err)) (\<lambda>_ w.
     logged (MarkSuccess name) (ret ()) (triggerHotReload M name w)
     )))))))))))))"

definition GetACMEStatus ::
  "('a, 'c) certificateManagerService \<Rightarrow> uint \<Rightarrow> ('a, 'c) world \<Rightarrow> (goerror + ACMEStatus) \<times> ('a, 'c) world" where
  "GetACMEStatus M domainID =
     attempt (read_db (dr_GetByID (cm_domainRepo M) domainID)) (\<lambda>err. fail (Wrapf ''failed to get domain'' err)) (\<lambda>domain.
     let status = \<lambda>step errMsg action. \<lparr>AS_Step = step, AS_ChallengeInfo = None, AS_DNSVerified = D_ACMEDNSVerified domain,
           AS_ErrorMessage = errMsg, AS_SuggestedAction = action, AS_LastUpdated = D_UpdatedAt domain\<rparr> in
     case D_Status domain of
       StatusDNSVerified \<Rightarrow> ret (status ''ready_to_start'' [] ''Click 'Request Challenge' to start the ACME challenge process.'')
     | StatusPendingACMEChallenge \<Rightarrow> (\<lambda>w. case expired (D_ACMEChallengeExpiresAt domain) w of (late, w1) \<Rightarrow>
         if late then
           attempt (on_db (dr_Update (cm_domainRepo M) (domain\<lparr>D_Status := StatusDNSVerified\<rparr>)))
             (\<lambda>err. ret (status ''challenge_expired'' ''Challenge has expired and status reset failed. Please request a new challenge manually.''
                ''Click 'Request Challenge' to get a new challenge.'')) (\<lambda>_.
           attempt (RequestACMEChallenge M domainID)
             (\<lambda>err. ret (status ''challenge_expired'' (''Challenge has expired and auto-renewal failed: '' @ Error_text err @
                ''. Please request a new challenge.'') ''Click 'Request Challenge' to get a new challenge.''))
             (\<lambda>newChallenge. ret ((status ''dns_pending'' []
                ''A new challenge has been automatically requested. Add the TXT record to your DNS provider, then click 'Verify DNS'.'')
                \<lparr>AS_ChallengeInfo := Some newChallenge\<rparr>))) w1
         else
           ret ((status ''dns_pending'' [] ''Add the TXT record to your DNS provider, then click 'Verify DNS'.'')
             \<lparr>AS_ChallengeInfo := (if D_ACMEChallengeValue domain \<noteq> [] then
                Some \<lparr>AC_Domain = D_Name domain, AC_TXTRecordName = ''_acme-challenge.'' @ D_Name domain,
                  AC_TXTRecordValue = D_ACMEChallengeValue domain,
                  AC_ExpiresAt = (case D_ACMEChallengeExpiresAt domain of None \<Rightarrow> 0 | Some t \<Rightarrow> t),
                  AC_PropagationNote = propagation_note\<rparr> else None)\<rparr>) w1)
     | StatusACMEChallengeReady \<Rightarrow>
         ret (status ''dns_verified'' [] ''DNS verified! Click 'Continue' to submit the challenge to Let's Encrypt.'')
     | StatusPendingCertificate \<Rightarrow>
         ret (status ''validating'' [] ''Please wait while Let's Encrypt validates the challenge...'')
     | StatusCertificateIssued \<Rightarrow> ret (status ''completed'' [] ''Certificate has been issued successfully!'')
     | StatusActive \<Rightarrow> ret (status ''completed'' [] ''Domain is active and ready to receive email.'')
     | StatusFailed \<Rightarrow> ret (status ''failed'' (D_ErrorMessage domain)
         ''Please check the error message and try again. You may need to request a new challenge.'')
     | _ \<Rightarrow> ret (status ''unknown'' [] ''Please start the domain setup process.''))"

section \<open>What the operations change\<close>

lemma attempt_Inr:
  "attempt m h k w = (r, w') \<Longrightarrow> m w = (Inr x, w1) \<Longrightarrow> k x w1 = (r, w')"
  by (simp add: attempt_def)

lemma attemptE:
  assumes "attempt m h k w = (r, w')"
  obtains (err) e w1 where "m w = (Inl e, w1)" "h e w1 = (r, w')" | (ok) x w1 where "m w = (Inr x, w1)" "k x w1 = (r, w')"
  using assms by (auto simp: attempt_def split: prod.splits sum.splits)

lemma attempt_okE:
  assumes "attempt m h k w = (Inr y, w')" "\<And>e w1. \<not> is_ok (fst (h e w1))"
  obtains x w1 where "m w = (Inr x, w1)" "k x w1 = (Inr y, w')"
proof -
  have "h e w1 \<noteq> (Inr y, w')" for e w1 using assms(2) [of e w1] by (cases "h e w1") auto
  with assms(1) that show ?thesis by (elim attemptE) blast+
qed

lemma fail_not_ok [simp]: "\<not> is_ok (fst (fail e w))" "\<not> is_ok (fst (logged ev (fail e) w))"
    "\<not> is_ok (fst (exec m (fail e) w))" "\<not> is_ok (fst (exec m (logged ev (fail e)) w))"
  by (simp_all add: fail_def logged_def exec_def)

lemma fail_eq [simp]: "fail e w = (r, w') \<longleftrightarrow> r = Inl e \<and> w' = w"
  by (auto simp: fail_def)

lemma ret_eq [simp]: "ret x w = (r, w') \<longleftrightarrow> r = Inr x \<and> w' = w"
  by (auto simp: ret_def)

lemma on_db_eq: "on_db f w = (r, w') \<longleftrightarrow> (\<exists>d'. f (w_db w) = (r, d') \<and> w' = w\<lparr>w_db := d'\<rparr>)"
  by (auto simp: on_db_def split: prod.splits)

lemma read_db_eq [simp]: "read_db f w = (r, w') \<longleftrightarrow> f (w_db w) = r \<and> w' = w"
  by (auto simp: read_db_def)

lemma on_acme_eq: "on_acme f w = (r, w') \<longleftrightarrow> (\<exists>a'. f (w_acme w) = (r, a') \<and> w' = w\<lparr>w_acme := a'\<rparr>)"
  by (auto simp: on_acme_def split: prod.splits)

lemma on_os_eq: "on_os f w = (r, w') \<longleftrightarrow> (\<exists>a'. f (w_os w) = (r, a') \<and> w' = w\<lparr>w_os := a'\<rparr>)"
  by (auto simp: on_os_def split: prod.splits)

lemma expired_eq: "expired t w = (b, w') \<longleftrightarrow>
  (case t of None \<Rightarrow> \<not> b \<and> w' = w | Some e \<Rightarrow> b = (e < w_clock w (w_tick w)) \<and> w' = w\<lparr>w_tick := Suc (w_tick w)\<rparr>)"
  by (auto simp: expired_def time_Now_def split: option.splits)

lemma triggerHotReload_parts [simp]: "w_db (triggerHotReload M n w) = w_db w" "w_os (triggerHotReload M n w) = w_os w"
    "w_acme (triggerHotReload M n w) = w_acme w" "w_log (triggerHotReload M n w) = w_log w"
  by (auto simp: triggerHotReload_def split: option.splits)

lemma set_add_unseen: "set (fold add_unseen txts vs) = set vs \<union> TrimSpace ` set txts"
  by (induction txts arbitrary: vs) (auto simp: add_unseen_def Let_def)

lemma distinct_add_unseen: "distinct vs \<Longrightarrow> distinct (fold add_unseen txts vs)"
  by (induction txts arbitrary: vs) (auto simp: add_unseen_def Let_def)

definition txt_published :: "(string \<Rightarrow> string \<Rightarrow> goerror + string list) \<Rightarrow> string \<Rightarrow> string \<Rightarrow> bool" where
  "txt_published lookup n v \<longleftrightarrow>
     (\<exists>server \<in> set dnsServers. case lookup server n of Inl err \<Rightarrow> False | Inr txts \<Rightarrow> v \<in> TrimSpace ` set txts)"

lemma lookup_fold:
  "set (fold (\<lambda>server vs. case lookup server n of Inl err \<Rightarrow> vs | Inr txts \<Rightarrow> fold add_unseen txts vs) servers vs)
   = set vs \<union> {v. \<exists>server \<in> set servers. \<exists>txts. lookup server n = Inr txts \<and> v \<in> TrimSpace ` set txts}"
  "distinct vs \<Longrightarrow> distinct (fold (\<lambda>server vs. case lookup server n of Inl err \<Rightarrow> vs | Inr txts \<Rightarrow> fold add_unseen txts vs) servers vs)"
proof (induction servers arbitrary: vs)
  case (Cons s servers)
  { case 1 then show ?case by (cases "lookup s n") (auto simp: Cons set_add_unseen) }
  { case 2 then show ?case by (cases "lookup s n") (auto intro!: Cons distinct_add_unseen) }
qed auto

lemma lookup_set: "v \<in> set (lookupACMETXTRecord lookup n) \<longleftrightarrow> txt_published lookup n v"
proof -
  have "(case r of Inl err \<Rightarrow> False | Inr txts \<Rightarrow> v \<in> TrimSpace ` set txts) \<longleftrightarrow> (\<exists>txts. r = Inr txts \<and> v \<in> TrimSpace ` set txts)"
    for r :: "goerror + string list" by (cases r) auto
  then show ?thesis by (simp add: lookupACMETXTRecord_def lookup_fold txt_published_def)
qed

lemma lookup_distinct: "distinct (lookupACMETXTRecord lookup n)"
  by (simp add: lookupACMETXTRecord_def lookup_fold)

definition has_challenge :: "Domain \<Rightarrow> bool" where
  "has_challenge x \<longleftrightarrow> D_ACMEChallengeToken x \<noteq> [] \<and> D_ACMEChallengeValue x \<noteq> []"

definition challenge_late :: "Domain \<Rightarrow> time \<Rightarrow> bool" where
  "challenge_late x now \<longleftrightarrow> (case D_ACMEChallengeExpiresAt x of None \<Rightarrow> False | Some t \<Rightarrow> t < now)"

definition challenged :: "DNSChallengeInfo \<Rightarrow> time \<Rightarrow> Domain \<Rightarrow> Domain" where
  "challenged ci t x = x\<lparr>D_ACMEChallengeToken := DC_Token ci, D_ACMEChallengeValue := DC_TXTRecord ci,
     D_ACMEChallengeExpiresAt := Some t, D_ACMEDNSVerified := False, D_Status := StatusPendingACMEChallenge, D_ErrorMessage := []\<rparr>"

locale cert_manager =
  domain_repo "cm_domainRepo M" + cert_repo "cm_certRepo M" + cert_files "cm_certStorage M"
  for M :: "('a, 'c) certificateManagerService" +
  assumes UpdateStatus_is: "cm_UpdateStatus M = UpdateStatus (cm_domainRepo M)"

text \<open>
  The manager as \<^verbatim>\<open>cmd/server/main.go\<close> builds it: repositories on one database, the domain manager on
  the same domain repository, the certificate storage at the configured path. What it gets from outside
  (ACME server, X.509 and DNS libraries, formatting of times) is one record.
\<close>

record ('a, 'c) outside =
  out_acme :: "'a ACMEClient"
  out_x509 :: "bytes \<Rightarrow> (time \<times> time) option"
  out_x509pair :: "bytes \<Rightarrow> bytes \<Rightarrow> goerror + 'c"
  out_LookupTXT :: "string \<Rightarrow> string \<Rightarrow> goerror + string list"
  out_fmt_time :: "time \<Rightarrow> string"

definition app_manager :: "gorm \<Rightarrow> string \<Rightarrow> ('a, 'c) outside \<Rightarrow> int \<Rightarrow> ('a, 'c) certificateManagerService" where
  "app_manager G certStoragePath ext renewalDays =
     NewCertificateManagerService (out_acme ext) (certStorage (out_x509 ext) certStoragePath) (NewCertificateRepository G)
       (NewDomainRepository G) (UpdateStatus (NewDomainRepository G)) (out_x509pair ext) (out_LookupTXT ext)
       (out_fmt_time ext) renewalDays"

lemma app_manager_laws:
  assumes "gorm_db G" "basePath \<noteq> []" "CHR 0x00 \<notin> set basePath"
  shows "cert_manager (app_manager G basePath ext days)"
  using gorm_db.domain_repo_laws [OF assms(1)] gorm_db.cert_repo_laws [OF assms(1)] certStorage_laws [OF assms(2,3), of "out_x509 ext"]
  by (simp add: cert_manager_def cert_manager_axioms_def app_manager_def NewCertificateManagerService_def)

lemma app_manager_parts [simp]:
  "cm_domainRepo (app_manager G p ext days) = NewDomainRepository G"
  "cm_certRepo (app_manager G p ext days) = NewCertificateRepository G"
  "cm_acmeClient (app_manager G p ext days) = out_acme ext"
  "cm_LookupTXT (app_manager G p ext days) = out_LookupTXT ext"
  "cm_certStorage (app_manager G p ext days) = certStorage (out_x509 ext) p"
  "cm_x509pair (app_manager G p ext days) = out_x509pair ext"
  by (simp_all add: app_manager_def NewCertificateManagerService_def)

interpretation app_certs: cert_manager "app_manager (mem_gorm t) ''./certs'' ext days"
  by (rule app_manager_laws [OF mem.gorm_db_axioms]) simp_all

context cert_manager
begin

lemma Request_ok:
  assumes r: "RequestACMEChallenge M i w = (Inr info, w')" and ok: "db_ok (w_db w)"
  shows "\<exists>x y ci a now. domain_row (w_db w) i = Some x \<and> D_Status x = StatusDNSVerified
    \<and> ac_GetDNSChallenge (cm_acmeClient M) (D_Name x) (w_acme w) = (Inr ci, a) \<and> now = w_clock w (w_tick w)
    \<and> w_acme w' = a \<and> w_os w' = w_os w \<and> w_store w' = w_store w
    \<and> row_replaced (w_db w) i y (w_db w') \<and> saved_Domain (challenged ci (now + 24 * hour) x) y
    \<and> info = \<lparr>AC_Domain = D_Name x, AC_TXTRecordName = ''_acme-challenge.'' @ D_Name x,
         AC_TXTRecordValue = DC_TXTRecord ci, AC_ExpiresAt = now + 24 * hour, AC_PropagationNote = propagation_note\<rparr>"
proof -
  from r obtain x where x: "dr_GetByID (cm_domainRepo M) i (w_db w) = Inr x"
    unfolding RequestACMEChallenge_def by (elim attempt_okE) auto
  from r x have st: "D_Status x = StatusDNSVerified"
    by (auto simp: RequestACMEChallenge_def attempt_def read_db_def fail_def split: if_splits)
  note r = r [unfolded RequestACMEChallenge_def attempt_def [of "read_db _"] read_db_def x sum.case prod.case]
  obtain c a where c: "ac_GetDNSChallenge (cm_acmeClient M) (D_Name x) (w_acme w) = (c, a)" by fastforce
  obtain ci where ci: "c = Inr ci"
    using r st c by (cases c) (auto simp: logged_def attempt_def on_acme_def Let_def fail_def)
  obtain u d' where u: "dr_Update (cm_domainRepo M) (challenged ci (w_clock w (w_tick w) + 24 * hour) x) (w_db w) = (u, d')"
    by fastforce
  obtain y where y: "u = Inr y"
    using r st c ci u by (cases u) (auto simp: logged_def attempt_def on_acme_def on_db_def Let_def fail_def time_Now_def challenged_def)
  have id: "D_ID (challenged ci (w_clock w (w_tick w) + 24 * hour) x) = i"
    using GetByID_found [OF x] by (simp add: challenged_def)
  note up = Update_row [OF x id u [unfolded y]]
  show ?thesis using r st c ci u y up Get_row [OF x ok]
    by (auto simp: logged_def attempt_def on_acme_def on_db_def Let_def ret_def time_Now_def challenged_def)
qed

lemma Request_err: "RequestACMEChallenge M i w = (Inl e, w') \<Longrightarrow> w_db w' = w_db w \<and> w_os w' = w_os w \<and> w_store w' = w_store w"
  by (auto simp: RequestACMEChallenge_def attempt_def read_db_def fail_def logged_def on_acme_def on_db_def Let_def time_Now_def ret_def
      split: sum.splits prod.splits if_splits dest: Update_err)

end

definition verifiable :: "('a, 'c) certificateManagerService \<Rightarrow> Domain \<Rightarrow> time \<Rightarrow> bool" where
  "verifiable M x now \<longleftrightarrow> has_challenge x \<and> \<not> challenge_late x now
     \<and> txt_published (cm_LookupTXT M) (''_acme-challenge.'' @ D_Name x) (D_ACMEChallengeValue x)"

lemma expired_late: "\<exists>w1. expired (D_ACMEChallengeExpiresAt x) w = (challenge_late x (w_clock w (w_tick w)), w1)
    \<and> w_db w1 = w_db w \<and> w_os w1 = w_os w \<and> w_acme w1 = w_acme w \<and> w_store w1 = w_store w"
  by (auto simp: expired_def challenge_late_def time_Now_def split: option.splits)

context cert_manager
begin

lemma Verify_verified:
  assumes v: "VerifyACMEDNS M i w = (Inr res, w')" "AV_Verified res" and ok: "db_ok (w_db w)"
  shows "\<exists>x y. domain_row (w_db w) i = Some x \<and> verifiable M x (w_clock w (w_tick w)) \<and> row_replaced (w_db w) i y (w_db w')
    \<and> saved_Domain (x\<lparr>D_ACMEDNSVerified := True, D_Status := StatusACMEChallengeReady\<rparr>) y
    \<and> w_acme w' = w_acme w \<and> w_os w' = w_os w"
proof -
  obtain x where x: "dr_GetByID (cm_domainRepo M) i (w_db w) = Inr x"
    using v by (cases "dr_GetByID (cm_domainRepo M) i (w_db w)")
      (auto simp: VerifyACMEDNS_def Let_def attempt_def read_db_def fail_def)
  note v1 = v(1) [unfolded VerifyACMEDNS_def Let_def attempt_def [of "read_db _"] read_db_def x sum.case prod.case]
  have c: "has_challenge x" using v1 v(2) by (auto simp: has_challenge_def split: if_splits)
  obtain w1 where e: "expired (D_ACMEChallengeExpiresAt x) w = (challenge_late x (w_clock w (w_tick w)), w1)"
    and w1: "w_db w1 = w_db w" "w_os w1 = w_os w" "w_acme w1 = w_acme w" using expired_late by blast
  note v1 = v1 [unfolded e prod.case]
  have l: "\<not> challenge_late x (w_clock w (w_tick w))"
  proof
    assume late: "challenge_late x (w_clock w (w_tick w))"
    then have "\<not> AV_Verified res"
      using v1 c by (auto simp: has_challenge_def attempt_def fail_def ret_def split: prod.splits sum.splits)
    with v(2) show False by simp
  qed
  have p: "D_ACMEChallengeValue x \<in> set (lookupACMETXTRecord (cm_LookupTXT M) (''_acme-challenge.'' @ D_Name x))"
    using v1 v(2) c l by (auto simp: has_challenge_def list_ex_iff split: if_splits)
  let ?x = "x\<lparr>D_ACMEDNSVerified := True, D_Status := StatusACMEChallengeReady\<rparr>"
  obtain u d' where u: "dr_Update (cm_domainRepo M) ?x (w_db w) = (u, d')" by fastforce
  have w': "\<exists>y. u = Inr y \<and> w_db w' = d' \<and> w_acme w' = w_acme w \<and> w_os w' = w_os w"
    using v1 c l p u w1 by (cases u) (auto simp: has_challenge_def list_ex_iff attempt_def on_db_def fail_def ret_def)
  then obtain y where y: "u = Inr y" by blast
  note up = Update_row [OF x _ u [unfolded y]]
  show ?thesis using up GetByID_found [OF x] Get_row [OF x ok] c l p w'
    by (auto simp: verifiable_def lookup_set)
qed

lemma Verify_complete:
  assumes v: "VerifyACMEDNS M i w = (Inr res, w')" and x: "dr_GetByID (cm_domainRepo M) i (w_db w) = Inr x"
    and p: "verifiable M x (w_clock w (w_tick w))"
  shows "AV_Verified res"
proof -
  obtain w1 where e: "expired (D_ACMEChallengeExpiresAt x) w = (challenge_late x (w_clock w (w_tick w)), w1)"
    and w1: "w_db w1 = w_db w" using expired_late by blast
  note v1 = v(1) [unfolded VerifyACMEDNS_def Let_def attempt_def [of "read_db _"] read_db_def x sum.case prod.case e]
  show ?thesis using v1 p
    by (auto simp: verifiable_def has_challenge_def lookup_set [symmetric] list_ex_iff attempt_def fail_def ret_def
        split: prod.splits sum.splits if_splits)
qed

lemma Verify_unverified:
  assumes v: "VerifyACMEDNS M i w = (Inr res, w')" "\<not> AV_Verified res"
    and x: "dr_GetByID (cm_domainRepo M) i (w_db w) = Inr x" and l: "\<not> challenge_late x (w_clock w (w_tick w))"
  shows "w_db w' = w_db w"
proof -
  obtain w1 where e: "expired (D_ACMEChallengeExpiresAt x) w = (challenge_late x (w_clock w (w_tick w)), w1)"
    and w1: "w_db w1 = w_db w" using expired_late by blast
  note v1 = v(1) [unfolded VerifyACMEDNS_def Let_def attempt_def [of "read_db _"] read_db_def x sum.case prod.case e]
  show ?thesis using v1 v(2) l w1
    by (auto simp: list_ex_iff attempt_def fail_def ret_def split: prod.splits sum.splits if_splits)
qed

end

lemma attempt_ok_iff:
  assumes "\<And>e w1. \<not> is_ok (fst (h e w1))"
  shows "attempt m h k w = (Inr y, w') \<longleftrightarrow> (\<exists>x w1. m w = (Inr x, w1) \<and> k x w1 = (Inr y, w'))" (is "?l \<longleftrightarrow> ?r")
proof
  show "?l \<Longrightarrow> ?r" by (erule attempt_okE [OF _ assms]) blast
qed (auto simp: attempt_def)

lemma logged_not_ok [simp]: "\<not> is_ok (fst (logged ev (exec m (fail e)) w))"
  by (simp add: fail_def logged_def exec_def)

definition ready :: "Domain \<Rightarrow> bool" where
  "ready x \<longleftrightarrow> D_Status x = StatusACMEChallengeReady \<and> D_ACMEDNSVerified x"

context cert_manager
begin

lemma Submit_steps:
  assumes r: "SubmitACMEChallenge M i w = (Inr u, w')"
  obtains x x1 x2 d1 d2 a1 a2 b sc w3 w4 w4' w5 row
  where "dr_GetByID (cm_domainRepo M) i (w_db w) = Inr x" "ready x"
    "dr_Update (cm_domainRepo M) (x\<lparr>D_Status := StatusPendingCertificate\<rparr>) (w_db w) = (Inr x1, d1)"
    "ac_CompleteDNSChallenge (cm_acmeClient M) (D_Name x) (w_acme w) = (Inr (), a1)"
    "ac_RequestCertificate (cm_acmeClient M) [D_Name x] a1 = (Inr b, a2)"
    "save_certificate M (D_Name x) b w3 = (Inr sc, w4)"
    "w_db w3 = d1" "w_os w3 = w_os w" "w_store w3 = w_store w"
    "record_certificate M (\<lambda>err. []) x1 sc w4' = (Inr row, w5)"
    "w_db w4' = w_db w4" "w_os w4' = w_os w4" "w_store w4' = w_store w4"
    "dr_Update (cm_domainRepo M) (x1\<lparr>D_Status := StatusCertificateIssued, D_ErrorMessage := []\<rparr>) (w_db (snd (ClearACMEChallenge M i w5))) = (Inr x2, d2)"
    "w' = (triggerHotReload M (D_Name x) ((snd (ClearACMEChallenge M i w5))\<lparr>w_db := d2\<rparr>))
            \<lparr>w_log := w_log (snd (ClearACMEChallenge M i w5)) @ [MarkSuccess (D_Name x)]\<rparr>"
  using r unfolding SubmitACMEChallenge_def Let_def ready_def
  by - (simp add: attempt_ok_iff on_db_eq on_acme_eq logged_def exec_def split: if_splits,
     elim exE conjE, rule that, (assumption | simp add: ready_def)+)

end

definition certificate_recorded :: "db \<Rightarrow> Domain \<Rightarrow> StoredCertificate \<Rightarrow> DomainCertificate \<Rightarrow> db \<Rightarrow> bool" where
  "certificate_recorded d x sc row d' \<longleftrightarrow> row \<in> set (t_certs d') \<and> C_DomainID row = D_ID x
     \<and> C_CertPath row = SC_CertPath sc \<and> C_KeyPath row = SC_KeyPath sc \<and> C_ExpiresAt row = SC_ExpiresAt sc
     \<and> C_IssuedAt row = SC_IssuedAt sc \<and> t_domains d' = t_domains d \<and> t_mailboxes d' = t_mailboxes d
     \<and> t_messages d' = t_messages d \<and> t_attachments d' = t_attachments d"

definition only_row :: "uint \<Rightarrow> db \<Rightarrow> db \<Rightarrow> bool" where
  "only_row i d d' \<longleftrightarrow> (\<forall>j. j \<noteq> i \<longrightarrow> domain_row d' j = domain_row d j) \<and> t_mailboxes d' = t_mailboxes d
     \<and> t_messages d' = t_messages d \<and> t_attachments d' = t_attachments d"

lemma only_row_trans: "only_row i a b \<Longrightarrow> only_row i b c \<Longrightarrow> only_row i a c"
  by (simp add: only_row_def)

lemma row_replaced_only: "row_replaced d i y d' \<Longrightarrow> only_row i d d'"
  by (simp add: row_replaced_def only_row_def)

lemma recorded_only: "certificate_recorded d x sc row d' \<Longrightarrow> only_row i d d' \<and> domain_row d' i = domain_row d i"
  by (simp add: certificate_recorded_def only_row_def domain_row_def)

lemma save_certificate_eq:
  assumes "save_certificate M n b w = (Inr sc, w')"
  shows "cs_SaveCertificate (cm_certStorage M) n (Some b) (w_clock w (w_tick w)) (w_os w) = (Inr sc, w_os w')
    \<and> w_db w' = w_db w \<and> w_store w' = w_store w \<and> w_acme w' = w_acme w"
  using assms by (auto simp: save_certificate_def time_Now_def on_os_eq)

lemma ClearACMEChallenge_parts [simp]:
  "w_os (snd (ClearACMEChallenge M i w)) = w_os w" "w_store (snd (ClearACMEChallenge M i w)) = w_store w"
  by (auto simp: ClearACMEChallenge_def attempt_def read_db_def on_db_def fail_def ret_def split: sum.splits prod.splits)

context cert_manager
begin

lemma Update_known_row:
  assumes k: "domain_row d i = Some z" and id: "D_ID x' = i" and up: "dr_Update (cm_domainRepo M) x' d = (Inr y, d')"
  shows "saved_Domain x' y \<and> row_replaced d i y d'"
proof -
  from k have z: "z \<in> set (t_domains d)" "D_ID z = i" by (auto simp: domain_row_def find_Some_iff)
  note u = Update_ok [OF up z(1)]
  with z id have u: "saved_Domain x' y" "d' = put_domains (map (\<lambda>z. if D_ID z = i then y else z) (t_domains d)) d" by auto
  have y: "D_ID y = i" using saved_Domain_fields [OF u(1)] id by simp
  have ex: "\<exists>z \<in> set (t_domains d). D_ID z = i" using z by blast
  show ?thesis
    unfolding row_replaced_def domain_row_def using u find_map_key [OF ex y] find_map_other [of D_ID, OF y] by simp
qed

lemma record_certificate_ok:
  assumes "record_certificate M failed x sc w = (Inr row, w')"
  shows "certificate_recorded (w_db w) x sc row (w_db w') \<and> w_os w' = w_os w \<and> w_store w' = w_store w"
proof (cases "cr_GetByDomainID (cm_certRepo M) (D_ID x) (w_db w)")
  case (Inr c)
  then obtain d' where u: "cr_Update (cm_certRepo M) (with_files sc c) (w_db w) = (Inr row, d')" "w_db w' = d'" "w_os w' = w_os w"
    "w_store w' = w_store w"
    using assms by (auto simp: record_certificate_def attempt_def on_db_def logged_def ret_def split: sum.splits prod.splits)
  note c = GetByDomainID_found [OF Inr]
  have "saved_DomainCertificate (with_files sc c) row"
    "d' = put_certs (map (\<lambda>z. if C_ID z = C_ID c then row else z) (t_certs (w_db w))) (w_db w)"
    using Cert_Update_ok [OF u(1), of c] c by (simp_all add: with_files_def)
  moreover from this(1) have "C_DomainID row = C_DomainID c" "C_CertPath row = SC_CertPath sc" "C_KeyPath row = SC_KeyPath sc"
    "C_ExpiresAt row = SC_ExpiresAt sc" "C_IssuedAt row = SC_IssuedAt sc"
    unfolding saved_DomainCertificate_def with_files_def by (cases row; simp)+
  ultimately show ?thesis using u c by (auto simp: certificate_recorded_def)
next
  case (Inl e)
  then obtain d' where u: "cr_Create (cm_certRepo M) (new_certificate_row x sc) (w_db w) = (Inr row, d')" "w_db w' = d'" "w_os w' = w_os w"
    "w_store w' = w_store w"
    using assms by (auto simp: record_certificate_def attempt_def on_db_def logged_def ret_def split: sum.splits prod.splits if_splits)
  have "created_DomainCertificate (new_certificate_row x sc) row" "d' = put_certs (t_certs (w_db w) @ [row]) (w_db w)"
    using Cert_Create_ok [OF u(1)] by simp_all
  moreover from this(1) have "C_DomainID row = D_ID x" "C_CertPath row = SC_CertPath sc" "C_KeyPath row = SC_KeyPath sc"
    "C_ExpiresAt row = SC_ExpiresAt sc" "C_IssuedAt row = SC_IssuedAt sc"
    unfolding created_DomainCertificate_def new_certificate_row_def by (cases row; simp)+
  ultimately show ?thesis using u by (auto simp: certificate_recorded_def)
qed

lemma Clear_effect:
  assumes "domain_row (w_db w) i = Some z"
  shows "\<exists>y. domain_row (w_db (snd (ClearACMEChallenge M i w))) i = Some y \<and> only_row i (w_db w) (w_db (snd (ClearACMEChallenge M i w)))
    \<and> t_certs (w_db (snd (ClearACMEChallenge M i w))) = t_certs (w_db w)"
proof (cases "dr_GetByID (cm_domainRepo M) i (w_db w)")
  case (Inl e)
  with assms show ?thesis by (simp add: ClearACMEChallenge_def attempt_def read_db_def fail_def only_row_def)
next
  case (Inr x)
  let ?x = "x\<lparr>D_ACMEChallengeToken := [], D_ACMEChallengeValue := [], D_ACMEChallengeExpiresAt := None, D_ACMEDNSVerified := False\<rparr>"
  have id: "D_ID ?x = i" using GetByID_found [OF Inr] by simp
  obtain u d' where u: "dr_Update (cm_domainRepo M) ?x (w_db w) = (u, d')" by fastforce
  have w': "w_db (snd (ClearACMEChallenge M i w)) = d'"
    using Inr u by (cases u) (auto simp: ClearACMEChallenge_def attempt_def read_db_def on_db_def fail_def ret_def)
  show ?thesis
  proof (cases u)
    case (Inl e)
    with u Update_err have "d' = w_db w" by blast
    with assms w' show ?thesis by (simp add: only_row_def)
  next
    case (Inr y)
    with Update_known_row [OF assms id] u have "row_replaced (w_db w) i y d'" by blast
    then show ?thesis using w' row_replaced_only by (auto simp: row_replaced_def)
  qed
qed

end

context cert_manager
begin

lemma Submit_ok:
  assumes r: "SubmitACMEChallenge M i w = (Inr u, w')" and ok: "db_ok (w_db w)"
  obtains x y b sc row now where "domain_row (w_db w) i = Some x" "ready x"
    "\<exists>a1 a2. ac_CompleteDNSChallenge (cm_acmeClient M) (D_Name x) (w_acme w) = (Inr (), a1)
       \<and> ac_RequestCertificate (cm_acmeClient M) [D_Name x] a1 = (Inr b, a2)"
    "cs_SaveCertificate (cm_certStorage M) (D_Name x) (Some b) now (w_os w) = (Inr sc, w_os w')"
    "row \<in> set (t_certs (w_db w'))" "C_DomainID row = i" "C_CertPath row = SC_CertPath sc"
    "C_KeyPath row = SC_KeyPath sc" "C_ExpiresAt row = SC_ExpiresAt sc"
    "domain_row (w_db w') i = Some y" "only_row i (w_db w) (w_db w')"
    "saved_Domain (x\<lparr>D_Status := StatusCertificateIssued, D_ErrorMessage := [], D_UpdatedAt := D_UpdatedAt y\<rparr>) y"
    "w_store w' = (case w_store w of None \<Rightarrow> None
       | Some st \<Rightarrow> Some (snd (LoadAndAddCertificate (cm_x509pair M) (cm_certStorage M) (D_Name x) (w_os w') st)))"
proof -
  from r show ?thesis
  proof (rule Submit_steps)
    fix x x1 x2 d1 d2 a1 a2 b sc w3 w4 w4' w5 row
    assume x: "dr_GetByID (cm_domainRepo M) i (w_db w) = Inr x" "ready x"
      and u1: "dr_Update (cm_domainRepo M) (x\<lparr>D_Status := StatusPendingCertificate\<rparr>) (w_db w) = (Inr x1, d1)"
      and ac: "ac_CompleteDNSChallenge (cm_acmeClient M) (D_Name x) (w_acme w) = (Inr (), a1)"
        "ac_RequestCertificate (cm_acmeClient M) [D_Name x] a1 = (Inr b, a2)"
      and sv: "save_certificate M (D_Name x) b w3 = (Inr sc, w4)"
      and w3: "w_db w3 = d1" "w_os w3 = w_os w" "w_store w3 = w_store w"
      and rc: "record_certificate M (\<lambda>err. []) x1 sc w4' = (Inr row, w5)"
      and w4: "w_db w4' = w_db w4" "w_os w4' = w_os w4" "w_store w4' = w_store w4"
      and u2: "dr_Update (cm_domainRepo M) (x1\<lparr>D_Status := StatusCertificateIssued, D_ErrorMessage := []\<rparr>) (w_db (snd (ClearACMEChallenge M i w5))) = (Inr x2, d2)"
      and w': "w' = (triggerHotReload M (D_Name x) ((snd (ClearACMEChallenge M i w5))\<lparr>w_db := d2\<rparr>))
            \<lparr>w_log := w_log (snd (ClearACMEChallenge M i w5)) @ [MarkSuccess (D_Name x)]\<rparr>"
    have id: "D_ID x = i" using GetByID_found [OF x(1)] by simp
    note p1 = Update_row [OF x(1) _ u1, simplified, OF id]
    note f1 = saved_Domain_fields [OF conjunct1 [OF p1]]
    note sv' = save_certificate_eq [OF sv] and rec = record_certificate_ok [OF rc]
    have r5: "domain_row (w_db w5) i = Some x1" "only_row i d1 (w_db w5)"
      using recorded_only [OF conjunct1 [OF rec], of i] p1 sv' w3 w4 by (auto simp: row_replaced_def)
    note cl = Clear_effect [OF r5(1)]
    from cl obtain z where z: "domain_row (w_db (snd (ClearACMEChallenge M i w5))) i = Some z" by blast
    have i1: "D_ID (x1\<lparr>D_Status := StatusCertificateIssued, D_ErrorMessage := []\<rparr>) = i" using f1 id by simp
    note p2 = Update_known_row [OF z i1 u2]
    have db': "w_db w' = d2" "w_os w' = w_os w4" using w' rec w4 by simp_all
    have only: "only_row i (w_db w) d2"
      using p1 p2 r5 cl by (blast intro: row_replaced_only only_row_trans)
    have certs: "row \<in> set (t_certs d2)" "C_DomainID row = i"
      using rec cl p2 f1 id by (auto simp: certificate_recorded_def row_replaced_def)
    have st: "w_store w' = (case w_store w of None \<Rightarrow> None
       | Some st \<Rightarrow> Some (snd (LoadAndAddCertificate (cm_x509pair M) (cm_certStorage M) (D_Name x) (w_os w') st)))"
      using w' rec w4 sv' w3 by (auto simp: triggerHotReload_def split: option.splits)
    have same: "saved_Domain (x\<lparr>D_Status := StatusCertificateIssued, D_ErrorMessage := [], D_UpdatedAt := D_UpdatedAt x2\<rparr>) x2"
      using p1 p2 unfolding saved_Domain_def by (cases x; cases x1; cases x2) simp
    from ac have "\<exists>a1 a2. ac_CompleteDNSChallenge (cm_acmeClient M) (D_Name x) (w_acme w) = (Inr (), a1)
       \<and> ac_RequestCertificate (cm_acmeClient M) [D_Name x] a1 = (Inr b, a2)" by blast
    from that [OF Get_row [OF x(1) ok] x(2) this _ _ certs(2) _ _ _ _ _ same st] sv' w3 db' certs rec only p2
    show thesis by (auto simp: certificate_recorded_def row_replaced_def)
  qed
qed

lemma Submit_guard:
  assumes "dr_GetByID (cm_domainRepo M) i (w_db w) = Inr x" "\<not> ready x"
  shows "snd (SubmitACMEChallenge M i w) = w \<and> \<not> is_ok (fst (SubmitACMEChallenge M i w))"
  using assms by (auto simp: SubmitACMEChallenge_def attempt_def read_db_def fail_def ready_def)

end

section \<open>Properties\<close>

text \<open>
  C18. A challenge is requested only for a domain in \<^verbatim>\<open>dns_verified\<close>. What the ACME server answers is
  stored in that row, unverified and valid for 24 hours, the status becomes
  \<^verbatim>\<open>pending_acme_challenge\<close>, and the user is told exactly the record name and value that verification
  will look for; no other row, file or served certificate changes. A failed request changes nothing stored.
\<close>

theorem RequestACMEChallenge_spec:
  assumes G: "gorm_db G" and p: "path \<noteq> []" "CHR 0x00 \<notin> set path" and ok: "db_ok (w_db w)"
    and r: "RequestACMEChallenge (app_manager G path ext days) i w = (r, w')"
  shows "w_os w' = w_os w \<and> w_store w' = w_store w \<and> (case r of
      Inl e \<Rightarrow> w_db w' = w_db w
    | Inr info \<Rightarrow> (\<exists>x y ci a. domain_row (w_db w) i = Some x \<and> D_Status x = StatusDNSVerified
        \<and> ac_GetDNSChallenge (out_acme ext) (D_Name x) (w_acme w) = (Inr ci, a)
        \<and> row_replaced (w_db w) i y (w_db w') \<and> D_Status y = StatusPendingACMEChallenge \<and> \<not> D_ACMEDNSVerified y
        \<and> D_ACMEChallengeToken y = DC_Token ci \<and> D_ACMEChallengeValue y = DC_TXTRecord ci \<and> D_Name y = D_Name x
        \<and> D_ACMEChallengeExpiresAt y = Some (w_clock w (w_tick w) + 24 * hour)
        \<and> D_IsActive y = D_IsActive x \<and> AC_TXTRecordName info = ''_acme-challenge.'' @ D_Name x
        \<and> AC_TXTRecordValue info = DC_TXTRecord ci \<and> AC_ExpiresAt info = w_clock w (w_tick w) + 24 * hour))"
proof (cases r)
  case (Inl e)
  from cert_manager.Request_err [OF app_manager_laws [OF G p] r [unfolded Inl]] Inl show ?thesis by simp
next
  case (Inr info)
  from cert_manager.Request_ok [OF app_manager_laws [OF G p] r [unfolded Inr] ok] obtain x y ci a where
    q: "domain_row (w_db w) i = Some x" "D_Status x = StatusDNSVerified"
      "ac_GetDNSChallenge (out_acme ext) (D_Name x) (w_acme w) = (Inr ci, a)"
      "w_os w' = w_os w" "w_store w' = w_store w" "row_replaced (w_db w) i y (w_db w')"
    and sv: "saved_Domain (challenged ci (w_clock w (w_tick w) + 24 * hour) x) y"
    and info: "info = \<lparr>AC_Domain = D_Name x, AC_TXTRecordName = ''_acme-challenge.'' @ D_Name x,
         AC_TXTRecordValue = DC_TXTRecord ci, AC_ExpiresAt = w_clock w (w_tick w) + 24 * hour, AC_PropagationNote = propagation_note\<rparr>"
    by (simp only: app_manager_parts) blast
  from saved_Domain_fields [OF sv] q info Inr show ?thesis
    by (intro conjI) (simp_all add: challenged_def, intro exI conjI, (assumption | simp)+)
qed



text \<open>
  The challenge outlives the certificate: a successful submission clears the stored challenge and
  then writes its own older copy of the row back, so token, value, expiry and the verified flag
  are still there afterwards.
\<close>

theorem Submit_restores_challenge:
  assumes G: "gorm_db G" and p: "path \<noteq> []" "CHR 0x00 \<notin> set path" and ok: "db_ok (w_db w)"
    and r: "SubmitACMEChallenge (app_manager G path ext days) i w = (Inr (), w')"
  shows "\<exists>x y. domain_row (w_db w) i = Some x \<and> domain_row (w_db w') i = Some y \<and> D_Status y = StatusCertificateIssued
    \<and> D_ACMEChallengeToken y = D_ACMEChallengeToken x \<and> D_ACMEChallengeValue y = D_ACMEChallengeValue x
    \<and> D_ACMEChallengeExpiresAt y = D_ACMEChallengeExpiresAt x \<and> D_ACMEDNSVerified y"
proof -
  obtain x y where
    x: "domain_row (w_db w) i = Some x" "ready x" and y: "domain_row (w_db w') i = Some y"
      "saved_Domain (x\<lparr>D_Status := StatusCertificateIssued, D_ErrorMessage := [], D_UpdatedAt := D_UpdatedAt y\<rparr>) y"
    by (rule cert_manager.Submit_ok [OF app_manager_laws [OF G p] r ok]) (rule that; assumption)
  from saved_Domain_fields [OF y(2)] x y show ?thesis by (auto simp: ready_def)
qed

lemma GenerateCertificate_refuses:
  assumes "\<not> ready x \<or> \<not> has_challenge x \<or> challenge_late x (w_clock w (w_tick w))"
  shows "\<not> is_ok (fst (GenerateCertificate M (Some x) w))
    \<and> w_db (snd (GenerateCertificate M (Some x) w)) = w_db w \<and> w_os (snd (GenerateCertificate M (Some x) w)) = w_os w
    \<and> w_acme (snd (GenerateCertificate M (Some x) w)) = w_acme w \<and> w_store (snd (GenerateCertificate M (Some x) w)) = w_store w"
proof -
  obtain w1 where e: "expired (D_ACMEChallengeExpiresAt x) (w\<lparr>w_log := w_log w @ [StartDomainLog (D_Name x)]\<rparr>)
       = (challenge_late x (w_clock w (w_tick w)), w1)"
    and w1: "w_db w1 = w_db w" "w_os w1 = w_os w" "w_acme w1 = w_acme w" "w_store w1 = w_store w"
    using expired_late [of x "w\<lparr>w_log := w_log w @ [StartDomainLog (D_Name x)]\<rparr>"] by auto
  show ?thesis
  proof (cases "ready x \<and> has_challenge x")
    case True
    with assms have "challenge_late x (w_clock w (w_tick w))" by simp
    with True e w1 show ?thesis
      by (simp add: GenerateCertificate_def Let_def logged_def fail_def ready_def has_challenge_def)
  next
    case False
    then show ?thesis
      by (auto simp: GenerateCertificate_def Let_def logged_def fail_def ready_def has_challenge_def)
  qed
qed

text \<open>
  The one-step \<^verbatim>\<open>GenerateCertificate\<close> keeps to the manual flow: unless the domain it is given is
  \<^verbatim>\<open>acme_challenge_ready\<close> with verified DNS and an unexpired stored challenge it fails, and neither the
  database nor the disk, the ACME server or the served certificates are touched.
\<close>

theorem GenerateCertificate_guard:
  assumes "GenerateCertificate (app_manager G path ext days) (Some x) w = (r, w')"
  shows "(D_Status x = StatusACMEChallengeReady \<and> D_ACMEDNSVerified x \<and> D_ACMEChallengeToken x \<noteq> [] \<and> D_ACMEChallengeValue x \<noteq> []
      \<and> (\<forall>t. D_ACMEChallengeExpiresAt x = Some t \<longrightarrow> w_clock w (w_tick w) \<le> t))
    \<or> (\<not> is_ok r \<and> w_db w' = w_db w \<and> w_os w' = w_os w \<and> w_acme w' = w_acme w \<and> w_store w' = w_store w)"
  using GenerateCertificate_refuses [of x w "app_manager G path ext days"] assms
  by (cases "ready x \<and> has_challenge x \<and> \<not> challenge_late x (w_clock w (w_tick w))")
    (auto simp: ready_def has_challenge_def challenge_late_def split: option.splits)

section \<open>Witnesses\<close>

definition demo_acme :: "nat ACMEClient" where
  "demo_acme = \<lparr>ac_GetDNSChallenge = (\<lambda>n a. (Inr \<lparr>DC_Domain = n, DC_Token = ''t'', DC_KeyAuth = [], DC_TXTRecord = ''v''\<rparr>, Suc a)),
     ac_CompleteDNSChallenge = (\<lambda>n a. (Inr (), Suc a)),
     ac_RequestCertificate = (\<lambda>ns a. (Inr demo_bundle, Suc a))\<rparr>"

definition demo_out :: "(nat, bytes) outside" where
  "demo_out = \<lparr>out_acme = demo_acme, out_x509 = (\<lambda>c. None), out_x509pair = demo_pair,
     out_LookupTXT = (\<lambda>s n. if s = ''1.1.1.1:53'' then Inr [''w'', '' v ''] else Inl (Opaque ''timeout'')),
     out_fmt_time = (\<lambda>t. [])\<rparr>"

definition demo_row :: "DomainStatus \<Rightarrow> Domain" where
  "demo_row st = zero_Domain\<lparr>D_ID := 1, D_Name := ''a.b'', D_Status := st, D_ACMEChallengeToken := ''t'',
     D_ACMEChallengeValue := ''v'', D_ACMEChallengeExpiresAt := Some 100, D_ACMEDNSVerified := (st = StatusACMEChallengeReady)\<rparr>"

definition demo_world :: "DomainStatus \<Rightarrow> (nat, bytes) world" where
  "demo_world st = \<lparr>w_db = empty_db\<lparr>t_domains := [demo_row st]\<rparr>, w_os = demo_certos, w_acme = 0, w_store = Some demo_store,
     w_log = [], w_clock = (\<lambda>n. int n), w_tick = 0\<rparr>"

abbreviation demo_mgr :: "(nat, bytes) certificateManagerService" where
  "demo_mgr \<equiv> app_manager (mem_gorm 0) ''/c'' demo_out 0"

lemma demo_world_parts [simp]:
  "w_os (demo_world st) = demo_certos"
  "w_store (demo_world st) = Some demo_store" "w_clock (demo_world st) n = int n" "w_tick (demo_world st) = 0"
  by (simp_all add: demo_world_def)

lemma demo_world_ok: "db_ok (w_db (demo_world st))"
  by (simp add: db_ok_def empty_db_def demo_world_def)

lemma demo_row_of [simp]: "domain_row (w_db (demo_world st)) (Suc 0) = Some (demo_row st)" "D_Name (demo_row st) = ''a.b''"
  by (simp_all add: domain_row_def demo_row_def demo_world_def)

lemma demo_path: "''/c'' \<noteq> []" "CHR 0x00 \<notin> set ''/c''" "no_read_faults demo_certos"
  by (simp_all add: no_read_faults_def demo_certos_def)

theorem RequestACMEChallenge_spec_witness:
  "\<exists>info w'. RequestACMEChallenge demo_mgr 1 (demo_world StatusDNSVerified) = (Inr info, w')
    \<and> AC_TXTRecordName info = ''_acme-challenge.a.b'' \<and> w_os w' = demo_certos"
proof -
  have "is_ok (fst (RequestACMEChallenge demo_mgr 1 (demo_world StatusDNSVerified)))" by code_simp
  then obtain info w' where r: "RequestACMEChallenge demo_mgr 1 (demo_world StatusDNSVerified) = (Inr info, w')"
    by (auto simp: is_ok_iff prod_eq_iff)
  from RequestACMEChallenge_spec [OF mem.gorm_db_axioms demo_path(1,2) demo_world_ok r] show ?thesis
    using r by auto
qed


lemma demo_submit: "\<exists>w'. SubmitACMEChallenge demo_mgr 1 (demo_world StatusACMEChallengeReady) = (Inr (), w')"
proof -
  have "is_ok (fst (SubmitACMEChallenge demo_mgr 1 (demo_world StatusACMEChallengeReady)))" by code_simp
  then show ?thesis by (auto simp: is_ok_iff prod_eq_iff)
qed


theorem Submit_restores_challenge_witness:
  "\<exists>w' y. SubmitACMEChallenge demo_mgr 1 (demo_world StatusACMEChallengeReady) = (Inr (), w')
    \<and> domain_row (w_db w') 1 = Some y \<and> D_ACMEChallengeToken y = ''t''"
proof -
  obtain w' where r: "SubmitACMEChallenge demo_mgr 1 (demo_world StatusACMEChallengeReady) = (Inr (), w')" using demo_submit by blast
  from Submit_restores_challenge [OF mem.gorm_db_axioms demo_path(1,2) demo_world_ok r] r show ?thesis
    by (auto simp: demo_row_def)
qed

theorem GenerateCertificate_guard_witness:
  "\<exists>r w'. GenerateCertificate demo_mgr (Some (demo_row StatusDNSVerified)) (demo_world StatusDNSVerified) = (r, w')
    \<and> \<not> is_ok r \<and> w_os w' = demo_certos"
proof -
  obtain r w' where g: "GenerateCertificate demo_mgr (Some (demo_row StatusDNSVerified)) (demo_world StatusDNSVerified) = (r, w')"
    by fastforce
  have "D_Status (demo_row StatusDNSVerified) \<noteq> StatusACMEChallengeReady" by (simp add: demo_row_def)
  with GenerateCertificate_guard [OF g] g show ?thesis by auto
qed

end
