(* ===== verification/CertRenewal.thy ===== *)
theory CertRenewal
  imports CertManager
begin

text \<open>
  \<^verbatim>\<open>internal/services/cert_renewal.go\<close>: the background job that renews certificates. The pass over the
  expiring certificates is a function on the world of the certificate manager; starting and stopping
  the goroutine is a step relation, because \<^verbatim>\<open>Start\<close>, \<^verbatim>\<open>Stop\<close> and the loop run concurrently. The lines for
  the process log are left out.
\<close>

section \<open>One pass\<close>

record CertRenewalConfig =
  rn_CheckInterval :: duration
  rn_RenewalDays :: int

definition NewCertRenewalService :: "CertRenewalConfig \<Rightarrow> CertRenewalConfig" where
  "NewCertRenewalService config =
     (let config = (if rn_CheckInterval config \<le> 0 then config\<lparr>rn_CheckInterval := 24 * hour\<rparr> else config) in
      if rn_RenewalDays config \<le> 0 then config\<lparr>rn_RenewalDays := 30\<rparr> else config)"

definition renewCertificate :: "('a, 'c) certificateManagerService \<Rightarrow> Certificate \<Rightarrow> ('a, 'c) world \<Rightarrow> ('a, 'c) world" where
  "renewCertificate M cert w = snd (RenewCertificate M (CT_DomainID cert) w)"

fun renew_each :: "('a, 'c) certificateManagerService \<Rightarrow> Certificate list \<Rightarrow> ('a, 'c) world \<Rightarrow> ('a, 'c) world" where
  "renew_each M [] w = w"
| "renew_each M (cert # certs) w =
     (if \<not> CT_AutoRenew cert then renew_each M certs w else renew_each M certs (renewCertificate M cert w))"

definition checkAndRenewCertificates ::
  "('a, 'c) certificateManagerService \<Rightarrow> CertRenewalConfig \<Rightarrow> ('a, 'c) world \<Rightarrow> ('a, 'c) world" where
  "checkAndRenewCertificates M config w =
     (case mgr_GetExpiringCertificates M (rn_RenewalDays config) w of
        (Inl err, w1) \<Rightarrow> w1
      | (Inr expiringCerts, w1) \<Rightarrow> if length expiringCerts = 0 then w1 else renew_each M expiringCerts w1)"

definition ForceCheck :: "('a, 'c) certificateManagerService \<Rightarrow> CertRenewalConfig \<Rightarrow> bool \<Rightarrow> ('a, 'c) world \<Rightarrow> ('a, 'c) world" where
  "ForceCheck M config running w = (if \<not> running then w else checkAndRenewCertificates M config w)"

section \<open>What a pass changes\<close>

definition certs_kept :: "uint set \<Rightarrow> db \<Rightarrow> db \<Rightarrow> bool" where
  "certs_kept ids d d' \<longleftrightarrow> t_domains d' = t_domains d \<and> t_mailboxes d' = t_mailboxes d \<and> t_messages d' = t_messages d
     \<and> t_attachments d' = t_attachments d
     \<and> (distinct (map C_ID (t_certs d)) \<longrightarrow> distinct (map C_ID (t_certs d'))
        \<and> (\<forall>r \<in> set (t_certs d). C_DomainID r \<notin> ids \<longrightarrow> r \<in> set (t_certs d')))"

lemma certs_kept_refl: "certs_kept ids d d"
  by (simp add: certs_kept_def)

lemma certs_kept_trans: "certs_kept I a b \<Longrightarrow> certs_kept J b c \<Longrightarrow> certs_kept (I \<union> J) a c"
  by (auto simp: certs_kept_def)

lemma certs_kept_mono: "certs_kept I a b \<Longrightarrow> I \<subseteq> J \<Longrightarrow> certs_kept J a b"
  by (auto simp: certs_kept_def)

context cert_manager
begin

lemma Renew_steps:
  assumes "RenewCertificate M i w = (Inr c, w')"
  shows "\<exists>ex x sc row. cr_GetByDomainID (cm_certRepo M) i (w_db w) = Inr ex \<and> dr_GetByID (cm_domainRepo M) i (w_db w) = Inr x
    \<and> cr_Update (cm_certRepo M) (with_files sc ex) (w_db w) = (Inr row, w_db w') \<and> c = modelToCertificate row"
  using assms unfolding RenewCertificate_def Let_def
  by (auto simp: attempt_ok_iff on_db_eq on_acme_eq dest!: save_certificate_eq) blast

lemma Renew_kept: "certs_kept {i} (w_db w) (w_db (snd (RenewCertificate M i w)))"
proof (cases "RenewCertificate M i w")
  case (Pair r w')
  show ?thesis
  proof (cases r)
    case (Inl e)
    with Pair have "w_db w' = w_db w"
      by (auto simp: RenewCertificate_def Let_def attempt_def read_db_def fail_def ret_def on_acme_def on_db_def save_certificate_def
          time_Now_def on_os_def split: sum.splits prod.splits if_splits dest: Cert_Update_err)
    with Pair show ?thesis by (simp add: certs_kept_refl)
  next
    case (Inr c)
    obtain ex sc row d' where ex: "cr_GetByDomainID (cm_certRepo M) i (w_db w) = Inr ex"
      and u: "cr_Update (cm_certRepo M) (with_files sc ex) (w_db w) = (Inr row, d')" and w': "w_db w' = d'"
      using Renew_steps [OF Pair [unfolded Inr]] by blast
    note e = GetByDomainID_found [OF ex]
    have s: "saved_DomainCertificate (with_files sc ex) row"
      and d: "d' = put_certs (map (\<lambda>z. if C_ID z = C_ID ex then row else z) (t_certs (w_db w))) (w_db w)"
      using Cert_Update_ok [OF u, of ex] e by (simp_all add: with_files_def)
    have id: "C_ID row = C_ID ex" using s unfolding saved_DomainCertificate_def with_files_def by (cases row) simp
    have m: "C_ID \<circ> (\<lambda>z. if C_ID z = C_ID ex then row else z) = C_ID" using id by auto
    show ?thesis using Pair w' e d by (auto simp: certs_kept_def m dest: distinct_map_inj)
  qed
qed

lemma renew_each_kept:
  "certs_kept {CT_DomainID c | c. c \<in> set cs \<and> CT_AutoRenew c} (w_db w) (w_db (renew_each M cs w))"
proof (induction cs arbitrary: w)
  case (Cons c cs)
  show ?case
  proof (cases "CT_AutoRenew c")
    case True
    from certs_kept_trans [OF Renew_kept [of "CT_DomainID c" w] Cons [of "renewCertificate M c w", unfolded renewCertificate_def]]
    show ?thesis using True by (auto simp: renewCertificate_def intro: certs_kept_mono)
  next
    case False
    then show ?thesis by (auto intro!: certs_kept_mono [OF Cons [of w]])
  qed
qed (simp add: certs_kept_refl)

lemma check_kept:
  assumes days: "0 < rn_RenewalDays config"
  shows "certs_kept {C_DomainID r | r. r \<in> set (t_certs (w_db w)) \<and> C_AutoRenew r \<and> w_clock w (w_tick w) < C_ExpiresAt r
       \<and> C_ExpiresAt r \<le> AddDays (w_clock w (w_tick w)) (rn_RenewalDays config)}
     (w_db w) (w_db (checkAndRenewCertificates M config w))"
proof (cases "cr_GetExpiringCertificates (cm_certRepo M) (rn_RenewalDays config) (w_clock w (w_tick w)) (w_db w)")
  case (Inl e)
  with days show ?thesis
    by (simp add: checkAndRenewCertificates_def mgr_GetExpiringCertificates_def time_Now_def attempt_def read_db_def fail_def certs_kept_refl)
next
  case (Inr rs)
  let ?w = "w\<lparr>w_tick := Suc (w_tick w)\<rparr>"
  have e: "checkAndRenewCertificates M config w = renew_each M (map modelToCertificate rs) ?w"
    using days Inr by (simp add: checkAndRenewCertificates_def mgr_GetExpiringCertificates_def time_Now_def attempt_def read_db_def ret_def)
  have "certs_kept {CT_DomainID c | c. c \<in> set (map modelToCertificate rs) \<and> CT_AutoRenew c} (w_db w)
      (w_db (renew_each M (map modelToCertificate rs) ?w))"
    using renew_each_kept [of "map modelToCertificate rs" ?w] by simp
  then show ?thesis unfolding e
    by (rule certs_kept_mono) (auto simp: modelToCertificate_def Expiring_rows [OF Inr])
qed

end

text \<open>
  C20. One renewal pass touches only certificate rows, and of these only rows of domains that have a
  certificate with auto-renewal on, not yet expired and expiring within the configured number of days.
  In particular a certificate that has already expired is never renewed by the job, nor is one whose
  owner switched renewal off.
\<close>

theorem checkAndRenew_spec:
  assumes G: "gorm_db G" and p: "path \<noteq> []" "CHR 0x00 \<notin> set path" and k: "distinct (map C_ID (t_certs (w_db w)))"
    and w': "w' = checkAndRenewCertificates (app_manager G path ext days) (NewCertRenewalService config) w"
    and one: "\<And>q. q \<in> set (t_certs (w_db w)) \<Longrightarrow> C_DomainID q = C_DomainID r \<Longrightarrow> q = r"
    and r: "r \<in> set (t_certs (w_db w))"
  shows "t_domains (w_db w') = t_domains (w_db w) \<and> t_mailboxes (w_db w') = t_mailboxes (w_db w)
    \<and> t_messages (w_db w') = t_messages (w_db w)
    \<and> (C_AutoRenew r \<and> w_clock w (w_tick w) < C_ExpiresAt r
         \<and> C_ExpiresAt r \<le> AddDays (w_clock w (w_tick w)) (rn_RenewalDays (NewCertRenewalService config))
       \<or> r \<in> set (t_certs (w_db w')))"
proof -
  have "0 < rn_RenewalDays (NewCertRenewalService config)" by (simp add: NewCertRenewalService_def Let_def)
  note kept = cert_manager.check_kept [OF app_manager_laws [OF G p, of ext days] this, of w, folded w']
  show ?thesis
  proof (cases "C_AutoRenew r \<and> w_clock w (w_tick w) < C_ExpiresAt r
         \<and> C_ExpiresAt r \<le> AddDays (w_clock w (w_tick w)) (rn_RenewalDays (NewCertRenewalService config))")
    case True
    with kept show ?thesis by (simp add: certs_kept_def)
  next
    case False
    then have "C_DomainID r \<notin> {C_DomainID q | q. q \<in> set (t_certs (w_db w)) \<and> C_AutoRenew q \<and> w_clock w (w_tick w) < C_ExpiresAt q
       \<and> C_ExpiresAt q \<le> AddDays (w_clock w (w_tick w)) (rn_RenewalDays (NewCertRenewalService config))}"
      using one by force
    with kept k r show ?thesis unfolding certs_kept_def by blast
  qed
qed

theorem checkAndRenew_spec_witness:
  "demo_cert_row \<in> set (t_certs (w_db (checkAndRenewCertificates demo_mgr
      (NewCertRenewalService \<lparr>rn_CheckInterval = 0, rn_RenewalDays = 0\<rparr>)
      ((demo_world StatusActive)\<lparr>w_db := empty_db\<lparr>t_certs := [demo_cert_row]\<rparr>, w_clock := (\<lambda>n. 10)\<rparr>))))"
proof -
  let ?w = "(demo_world StatusActive)\<lparr>w_db := empty_db\<lparr>t_certs := [demo_cert_row]\<rparr>, w_clock := (\<lambda>n. 10)\<rparr>"
  have k: "distinct (map C_ID (t_certs (w_db ?w)))" "demo_cert_row \<in> set (t_certs (w_db ?w))"
    "\<And>q. q \<in> set (t_certs (w_db ?w)) \<Longrightarrow> C_DomainID q = C_DomainID demo_cert_row \<Longrightarrow> q = demo_cert_row" by auto
  have "\<not> w_clock ?w (w_tick ?w) < C_ExpiresAt demo_cert_row" by (simp add: demo_cert_row_def)
  with checkAndRenew_spec [OF mem.gorm_db_axioms demo_path(1,2) k(1) refl k(3) k(2)] show ?thesis by blast
qed

section \<open>Starting and stopping\<close>

text \<open>
  Channels are numbered; \<open>rs_stopCh\<close> is the field of the service, read anew by the loop each time it
  reaches its \<^verbatim>\<open>select\<close>. A loop is inside the check, waits in the \<^verbatim>\<open>select\<close> on the channel it read, or has
  returned. \<^verbatim>\<open>Stop\<close> is two steps: the locked part, and the return after \<^verbatim>\<open>wg.Wait\<close>; \<open>rs_waiting\<close> counts the
  calls in between.
\<close>

datatype loop_pc = Checking | Selecting nat | Returned

record renewal_state =
  rs_running :: bool
  rs_stopCh :: nat
  rs_closed :: "nat list"
  rs_loops :: "loop_pc list"
  rs_waiting :: nat

definition renewal_init :: renewal_state where
  "renewal_init = \<lparr>rs_running = False, rs_stopCh = 0, rs_closed = [], rs_loops = [], rs_waiting = 0\<rparr>"

definition renewal_Start :: "renewal_state \<Rightarrow> renewal_state" where
  "renewal_Start s = (if rs_running s then s
     else s\<lparr>rs_running := True, rs_stopCh := Suc (rs_stopCh s), rs_loops := rs_loops s @ [Checking]\<rparr>)"

definition renewal_Stop :: "renewal_state \<Rightarrow> renewal_state" where
  "renewal_Stop s = (if \<not> rs_running s then s
     else s\<lparr>rs_running := False, rs_closed := rs_stopCh s # rs_closed s, rs_waiting := Suc (rs_waiting s)\<rparr>)"

definition IsRunning :: "renewal_state \<Rightarrow> bool" where
  "IsRunning s = rs_running s"

inductive loop_step :: "renewal_state \<Rightarrow> renewal_state \<Rightarrow> bool" where
  checked: "k < length (rs_loops s) \<Longrightarrow> rs_loops s ! k = Checking \<Longrightarrow>
     loop_step s (s\<lparr>rs_loops := (rs_loops s)[k := Selecting (rs_stopCh s)]\<rparr>)"
| tick: "k < length (rs_loops s) \<Longrightarrow> rs_loops s ! k = Selecting c \<Longrightarrow> loop_step s (s\<lparr>rs_loops := (rs_loops s)[k := Checking]\<rparr>)"
| stopped: "k < length (rs_loops s) \<Longrightarrow> rs_loops s ! k = Selecting c \<Longrightarrow> c \<in> set (rs_closed s) \<Longrightarrow>
     loop_step s (s\<lparr>rs_loops := (rs_loops s)[k := Returned]\<rparr>)"

inductive renewal_step :: "renewal_state \<Rightarrow> renewal_state \<Rightarrow> bool" where
  start: "renewal_step s (renewal_Start s)"
| stop: "renewal_step s (renewal_Stop s)"
| waited: "0 < rs_waiting s \<Longrightarrow> \<forall>l \<in> set (rs_loops s). l = Returned \<Longrightarrow> renewal_step s (s\<lparr>rs_waiting := rs_waiting s - 1\<rparr>)"
| loop: "loop_step s s' \<Longrightarrow> renewal_step s s'"

inductive renewal_reach :: "renewal_state \<Rightarrow> bool" where
  init: "renewal_reach renewal_init"
| step: "renewal_reach s \<Longrightarrow> renewal_step s s' \<Longrightarrow> renewal_reach s'"

inductive_cases loop_stepE: "loop_step s s'"
inductive_cases renewal_stepE: "renewal_step s s'"

definition renewal_inv :: "renewal_state \<Rightarrow> bool" where
  "renewal_inv s \<longleftrightarrow> distinct (rs_closed s) \<and> (\<forall>c \<in> set (rs_closed s). 0 < c \<and> c \<le> rs_stopCh s)
     \<and> (\<forall>c. 0 < c \<and> c \<le> rs_stopCh s \<longrightarrow> c \<in> set (rs_closed s) \<or> rs_running s \<and> c = rs_stopCh s)
     \<and> (rs_running s \<longrightarrow> 0 < rs_stopCh s \<and> rs_stopCh s \<notin> set (rs_closed s))
     \<and> (\<forall>c. Selecting c \<in> set (rs_loops s) \<longrightarrow> 0 < c \<and> c \<le> rs_stopCh s)
     \<and> (rs_loops s \<noteq> [] \<longrightarrow> 0 < rs_stopCh s)"

lemma selecting_update:
  "Selecting c \<in> set (ls[k := l]) \<Longrightarrow> Selecting c = l \<or> Selecting c \<in> set ls"
  using set_update_subset_insert [of ls k l] by auto

lemma loop_step_inv: "loop_step s s' \<Longrightarrow> renewal_inv s \<Longrightarrow> renewal_inv s'"
proof (induction rule: loop_step.induct)
  case (checked k s)
  then have "0 < rs_stopCh s" by (auto simp: renewal_inv_def)
  with checked show ?case by (auto simp: renewal_inv_def dest!: selecting_update)
qed (auto simp: renewal_inv_def dest!: selecting_update)

lemma Start_inv: "renewal_inv s \<Longrightarrow> renewal_inv (renewal_Start s)"
  by (auto simp: renewal_inv_def renewal_Start_def le_Suc_eq)

lemma Stop_inv: "renewal_inv s \<Longrightarrow> renewal_inv (renewal_Stop s)"
  by (auto simp: renewal_inv_def renewal_Stop_def)

lemma renewal_step_inv: "renewal_step s s' \<Longrightarrow> renewal_inv s \<Longrightarrow> renewal_inv s'"
  by (induction rule: renewal_step.induct) (auto intro: loop_step_inv Start_inv Stop_inv, simp add: renewal_inv_def)

lemma renewal_reach_inv: "renewal_reach s \<Longrightarrow> renewal_inv s"
proof (induction rule: renewal_reach.induct)
  case init
  show ?case by (auto simp: renewal_inv_def renewal_init_def)
qed (rule renewal_step_inv)

lemma loop_steps_inv: "loop_step\<^sup>*\<^sup>* s s' \<Longrightarrow> renewal_inv s \<Longrightarrow> renewal_inv s'"
  by (induction rule: rtranclp_induct) (auto intro: loop_step_inv)

lemma old_channels_closed: "renewal_inv s \<Longrightarrow> \<not> rs_running s \<Longrightarrow> Selecting c \<in> set (rs_loops s) \<Longrightarrow> c \<in> set (rs_closed s)"
  unfolding renewal_inv_def by blast

definition loop_running :: "loop_pc \<Rightarrow> bool" where
  "loop_running l \<longleftrightarrow> l \<noteq> Returned"

lemma loop_returns:
  assumes inv: "renewal_inv s" and off: "\<not> rs_running s" and k: "k < length (rs_loops s)" "rs_loops s ! k \<noteq> Returned"
  shows "loop_step\<^sup>*\<^sup>* s (s\<lparr>rs_loops := (rs_loops s)[k := Returned]\<rparr>)"
proof -
  have sel: "loop_step t (t\<lparr>rs_loops := (rs_loops t)[k := Returned]\<rparr>)"
    if "renewal_inv t" "\<not> rs_running t" "k < length (rs_loops t)" "rs_loops t ! k = Selecting c" for t c
  proof -
    have "Selecting c \<in> set (rs_loops t)" using that(3,4) by (metis nth_mem)
    from loop_step.stopped [OF that(3,4) old_channels_closed [OF that(1,2) this]] show ?thesis .
  qed
  show ?thesis
  proof (cases "rs_loops s ! k")
    case Checking
    let ?t = "s\<lparr>rs_loops := (rs_loops s)[k := Selecting (rs_stopCh s)]\<rparr>"
    have a: "loop_step s ?t" using k Checking by (auto intro: loop_step.checked)
    have "loop_step ?t (?t\<lparr>rs_loops := (rs_loops ?t)[k := Returned]\<rparr>)"
      using sel [of ?t "rs_stopCh s"] loop_step_inv [OF a inv] off k by simp
    with a show ?thesis by (simp add: converse_rtranclp_into_rtranclp)
  next
    case (Selecting c)
    then show ?thesis using sel [OF inv off k(1)] by blast
  qed (use k in simp)
qed

lemma loops_return:
  assumes "renewal_inv s" "\<not> rs_running s"
  shows "loop_step\<^sup>*\<^sup>* s (s\<lparr>rs_loops := map (\<lambda>l. Returned) (rs_loops s)\<rparr>)"
  using assms
proof (induction "length (filter loop_running (rs_loops s))" arbitrary: s rule: less_induct)
  case less
  show ?case
  proof (cases "\<exists>k < length (rs_loops s). rs_loops s ! k \<noteq> Returned")
    case True
    then obtain k where k: "k < length (rs_loops s)" "rs_loops s ! k \<noteq> Returned" by blast
    let ?t = "s\<lparr>rs_loops := (rs_loops s)[k := Returned]\<rparr>"
    have st: "loop_step\<^sup>*\<^sup>* s ?t" by (rule loop_returns [OF less.prems k])
    have inv: "renewal_inv ?t" by (rule loop_steps_inv [OF st less.prems(1)])
    have "length (filter loop_running (rs_loops ?t)) < length (filter loop_running (rs_loops s))"
    proof -
      have a: "rs_loops ?t = take k (rs_loops s) @ Returned # drop (Suc k) (rs_loops s)" by (simp add: upd_conv_take_nth_drop [OF k(1)])
      have "length (filter loop_running (rs_loops s))
          = length (filter loop_running (take k (rs_loops s) @ rs_loops s ! k # drop (Suc k) (rs_loops s)))"
        using id_take_nth_drop [OF k(1)] by (rule arg_cong)
      with k(2) show ?thesis unfolding a by (simp add: loop_running_def)
    qed
    from less.hyps [OF this inv] less.prems(2)
    have "loop_step\<^sup>*\<^sup>* ?t (?t\<lparr>rs_loops := map (\<lambda>l. Returned) (rs_loops ?t)\<rparr>)" by simp
    moreover have "map (\<lambda>l. Returned) (rs_loops ?t) = map (\<lambda>l. Returned) (rs_loops s)" by (simp add: map_replicate_const)
    ultimately show ?thesis using st by (simp add: rtranclp_trans)
  next
    case False
    then have "map (\<lambda>l. Returned) (rs_loops s) = rs_loops s" by (simp add: list_eq_iff_nth_eq)
    then show ?thesis by simp
  qed
qed

text \<open>
  C21. Starting and stopping the renewal job in any interleaving with its goroutines never closes a
  channel twice, and \<^verbatim>\<open>Stop\<close> cannot hang on a stopped service: as long as nobody starts the service again,
  the loops alone can always run to their end, which lets every waiting \<^verbatim>\<open>Stop\<close> return.
\<close>

theorem renewal_stop_returns:
  assumes "renewal_reach s"
  shows "distinct (rs_closed s) \<and> (rs_running s \<or> (\<exists>s'. loop_step\<^sup>*\<^sup>* s s' \<and> renewal_reach s'
     \<and> (\<forall>l \<in> set (rs_loops s'). l = Returned) \<and> rs_waiting s' = rs_waiting s))"
proof -
  note inv = renewal_reach_inv [OF assms]
  have reach: "renewal_reach t" if "loop_step\<^sup>*\<^sup>* s t" for t
    using that assms by (induction rule: rtranclp.induct) (auto intro: renewal_reach.step renewal_step.loop)
  show ?thesis
  proof (cases "rs_running s")
    case False
    let ?s = "s\<lparr>rs_loops := map (\<lambda>l. Returned) (rs_loops s)\<rparr>"
    note st = loops_return [OF inv False]
    have "loop_step\<^sup>*\<^sup>* s ?s \<and> renewal_reach ?s \<and> (\<forall>l \<in> set (rs_loops ?s). l = Returned) \<and> rs_waiting ?s = rs_waiting s"
      using st reach [OF st] by simp
    with inv show ?thesis unfolding renewal_inv_def by blast
  qed (use inv in \<open>simp add: renewal_inv_def\<close>)
qed

theorem renewal_stop_returns_witness:
  "\<exists>s'. loop_step\<^sup>*\<^sup>* (renewal_Stop (renewal_Start renewal_init)) s' \<and> (\<forall>l \<in> set (rs_loops s'). l = Returned)"
proof -
  let ?s = "renewal_Stop (renewal_Start renewal_init)"
  have r: "renewal_reach ?s" by (blast intro: renewal_reach.intros renewal_step.start renewal_step.stop)
  have "\<not> rs_running ?s" by code_simp
  with renewal_stop_returns [OF r] show ?thesis by blast
qed

text \<open>
  Restarting while a \<^verbatim>\<open>Stop\<close> is still waiting breaks that: the loop reads the channel field only when it
  reaches its \<^verbatim>\<open>select\<close>, so a loop that was busy picks up the new service's channel. Two loops then run,
  both waiting on a channel nobody has closed, and the earlier \<^verbatim>\<open>Stop\<close> waits for both.
\<close>

theorem renewal_restart_race:
  "\<exists>s. renewal_reach s \<and> rs_running s \<and> rs_waiting s = 1 \<and> rs_loops s = [Selecting 2, Selecting 2] \<and> 2 \<notin> set (rs_closed s)"
proof -
  let ?s = "renewal_Start (renewal_Stop (renewal_Start renewal_init))"
  have r: "renewal_reach ?s" by (blast intro: renewal_reach.intros renewal_step.start renewal_step.stop)
  have s: "?s = \<lparr>rs_running = True, rs_stopCh = 2, rs_closed = [1], rs_loops = [Checking, Checking], rs_waiting = 1\<rparr>"
    by code_simp
  have "loop_step ?s (?s\<lparr>rs_loops := [Selecting 2, Checking]\<rparr>)" using loop_step.checked [of 0 ?s] by (simp add: s)
  with r have r2: "renewal_reach (?s\<lparr>rs_loops := [Selecting 2, Checking]\<rparr>)" by (blast intro: renewal_reach.step renewal_step.loop)
  have "loop_step (?s\<lparr>rs_loops := [Selecting 2, Checking]\<rparr>) (?s\<lparr>rs_loops := [Selecting 2, Selecting 2]\<rparr>)"
    using loop_step.checked [of 1 "?s\<lparr>rs_loops := [Selecting 2, Checking]\<rparr>"] by (simp add: s)
  with r2 have "renewal_reach (?s\<lparr>rs_loops := [Selecting 2, Selecting 2]\<rparr>)" by (blast intro: renewal_reach.step renewal_step.loop)
  then show ?thesis by (intro exI [of _ "?s\<lparr>rs_loops := [Selecting 2, Selecting 2]\<rparr>"]) (simp add: s)
qed

end
