(* ===== verification/DnsVerify.thy ===== *)
theory DnsVerify
  imports DomainMgr
begin

text \<open>
  \<^verbatim>\<open>internal/services/dns_verifier.go\<close>: the check that a domain's owner has published the
  records of the setup guide. The resolver is the interface of the source; since its answers change
  with time, attempt \<open>k\<close> of a lookup sees the resolver \<open>net k\<close>. The context says at which points it
  has been cancelled.
\<close>

section \<open>Data\<close>

record MX =
  MX_Host :: string
  MX_Pref :: int

record DNSResolver =
  LookupMX :: "string \<Rightarrow> goerror + MX list"
  LookupHost :: "string \<Rightarrow> goerror + string list"
  LookupTXT :: "string \<Rightarrow> goerror + string list"

record DNSVerifierConfig =
  dv_SMTPHostname :: string
  dv_ServerIP :: string
  dv_MaxRetries :: int

record DNSVerificationResult =
  MXVerified :: bool
  AVerified :: bool
  TXTVerified :: bool
  AllVerified :: bool
  Errors :: "string list"

record ctx =
  ctx_done :: "nat \<Rightarrow> bool"
  ctx_done_sleeping :: "nat \<Rightarrow> bool"
  ctx_Err :: goerror

definition DefaultDNSVerifierConfig :: DNSVerifierConfig where
  "DefaultDNSVerifierConfig = \<lparr>dv_SMTPHostname = ''mail.infinimail.local'', dv_ServerIP = ''127.0.0.1'',
     dv_MaxRetries = 3\<rparr>"

section \<open>Retries\<close>

text \<open>A Go result \<^verbatim>\<open>(bool, error)\<close>; the loop carries the attempt number and the last error.\<close>

type_synonym verdict = "bool \<times> goerror option"

function retry_loop :: "int \<Rightarrow> ctx \<Rightarrow> (nat \<Rightarrow> verdict) \<Rightarrow> nat \<Rightarrow> goerror option \<Rightarrow> verdict \<times> nat" where
  "retry_loop maxRetries ctx verify attempt lastErr =
     (if int attempt \<le> maxRetries then
        if ctx_done ctx attempt then ((False, Some (ctx_Err ctx)), attempt)
        else
          let (verified, err) = verify attempt in
          if err = None \<and> verified then ((True, None), Suc attempt)
          else
            let lastErr = (if err \<noteq> None then err else lastErr) in
            if int attempt < maxRetries \<and> ctx_done_sleeping ctx attempt
            then ((False, Some (ctx_Err ctx)), Suc attempt)
            else retry_loop maxRetries ctx verify (Suc attempt) lastErr
      else ((False, lastErr), attempt))"
  by pat_completeness auto
termination
  by (relation "measure (\<lambda>(m, c, v, a, l). nat (m + 1 - int a))") auto

declare retry_loop.simps [simp del]

text \<open>The second component counts the calls of the verification function.\<close>

definition verifyWithRetry :: "DNSVerifierConfig \<Rightarrow> ctx \<Rightarrow> (nat \<Rightarrow> verdict) \<Rightarrow> verdict \<times> nat" where
  "verifyWithRetry config ctx verify = retry_loop (dv_MaxRetries config) ctx verify 0 None"

section \<open>The three checks\<close>

definition norm_host :: "string \<Rightarrow> string" where
  "norm_host h = TrimSuffix (ToLower h) ''.''"

definition VerifyMXRecord :: "DNSResolver \<Rightarrow> string \<Rightarrow> string \<Rightarrow> verdict" where
  "VerifyMXRecord resolver domainName expectedHost =
     (if domainName = [] then (False, Some (Opaque ''domain name cannot be empty''))
      else if expectedHost = [] then (False, Some (Opaque ''expected host cannot be empty''))
      else
        let expectedHost = norm_host expectedHost in
        case LookupMX resolver domainName of
          Inl err \<Rightarrow> (False, Some (Wrapf (''MX lookup failed for '' @ domainName) err))
        | Inr [] \<Rightarrow> (False, Some (Opaque (''no MX records found for '' @ domainName)))
        | Inr (mx # mxs) \<Rightarrow>
            if list_ex (\<lambda>m. norm_host (MX_Host m) = expectedHost) (mx # mxs) then (True, None)
            else (False, Some (Opaque (''MX record mismatch: expected '' @ expectedHost @ '', found '' @ MX_Host mx))))"

definition VerifyARecord :: "DNSResolver \<Rightarrow> string \<Rightarrow> string \<Rightarrow> verdict" where
  "VerifyARecord resolver hostname expectedIP =
     (if hostname = [] then (False, Some (Opaque ''hostname cannot be empty''))
      else if expectedIP = [] then (False, Some (Opaque ''expected IP cannot be empty''))
      else
        let expectedIP = TrimSpace expectedIP in
        case LookupHost resolver hostname of
          Inl err \<Rightarrow> (False, Some (Wrapf (''A record lookup failed for '' @ hostname) err))
        | Inr ips \<Rightarrow>
            if ips = [] then (False, Some (Opaque (''no A records found for '' @ hostname)))
            else if list_ex (\<lambda>ip. TrimSpace ip = expectedIP) ips then (True, None)
            else (False, Some (Opaque (''A record mismatch: expected '' @ expectedIP @ '', found '' @ show_slice ips))))"

definition VerifyTXTRecord :: "DNSResolver \<Rightarrow> string \<Rightarrow> string \<Rightarrow> verdict" where
  "VerifyTXTRecord resolver domainName challengeToken =
     (if domainName = [] then (False, Some (Opaque ''domain name cannot be empty''))
      else if challengeToken = [] then (False, Some (Opaque ''challenge token cannot be empty''))
      else
        let txtDomain = ''_infinimail.'' @ domainName;
            expectedValue = ''infinimail-verify='' @ challengeToken in
        case LookupTXT resolver txtDomain of
          Inl err \<Rightarrow> (False, Some (Wrapf (''TXT lookup failed for '' @ txtDomain) err))
        | Inr txtRecords \<Rightarrow>
            if txtRecords = [] then (False, Some (Opaque (''no TXT records found for '' @ txtDomain)))
            else if list_ex (\<lambda>txt. TrimSpace txt = expectedValue) txtRecords then (True, None)
            else (False, Some (Opaque (''TXT record mismatch: expected '' @ expectedValue @ '' at '' @ txtDomain))))"

definition getParentDomain :: "string \<Rightarrow> string" where
  "getParentDomain domainName =
     (if HasPrefix (ToLower domainName) ''mail.'' then drop 5 domainName else domainName)"

definition getMailHostname :: "string \<Rightarrow> string" where
  "getMailHostname domainName =
     (if HasPrefix (ToLower domainName) ''mail.'' then domainName else ''mail.'' @ domainName)"

definition add_error :: "string \<Rightarrow> goerror option \<Rightarrow> string list \<Rightarrow> string list" where
  "add_error what err es = (case err of None \<Rightarrow> es | Some e \<Rightarrow> es @ [what @ '': '' @ Error_text e])"

definition VerifyDNS :: "DNSVerifierConfig \<Rightarrow> ctx \<Rightarrow> (nat \<Rightarrow> DNSResolver) \<Rightarrow> Domain \<Rightarrow> DNSVerificationResult" where
  "VerifyDNS config ctx net domain =
     (let parentDomain = getParentDomain (D_Name domain);
          mailHostname = getMailHostname (D_Name domain);
          (mx, e1) = fst (verifyWithRetry config ctx
             (\<lambda>k. VerifyMXRecord (net k) parentDomain (dv_SMTPHostname config)));
          (a, e2) = fst (verifyWithRetry config ctx
             (\<lambda>k. VerifyARecord (net k) mailHostname (dv_ServerIP config)));
          (txt, e3) = fst (verifyWithRetry config ctx
             (\<lambda>k. VerifyTXTRecord (net k) parentDomain (D_DNSChallenge domain))) in
      \<lparr>MXVerified = mx, AVerified = a, TXTVerified = txt, AllVerified = (mx \<and> a \<and> txt),
       Errors = add_error ''TXT verification failed'' e3 (add_error ''A record verification failed'' e2
         (add_error ''MX verification failed'' e1 []))\<rparr>)"

section \<open>The retry loop\<close>

definition success :: "(nat \<Rightarrow> verdict) \<Rightarrow> nat \<Rightarrow> bool" where
  "success verify k \<longleftrightarrow> verify k = (True, None)"

lemma retry_loop_bound:
  "snd (retry_loop m ctx verify a l) \<le> nat (max (int a) (m + 1))"
proof (induction m ctx verify a l rule: retry_loop.induct)
  case (1 m ctx verify a l)
  show ?case
    by (subst retry_loop.simps) (use 1 in \<open>auto simp: Let_def split: prod.splits\<close>)
qed

definition live :: "ctx \<Rightarrow> bool" where
  "live ctx \<longleftrightarrow> (\<forall>k. \<not> ctx_done ctx k \<and> \<not> ctx_done_sleeping ctx k)"

lemma retry_loop_step:
  assumes "live ctx"
  shows "int a > m \<Longrightarrow> retry_loop m ctx verify a l = ((False, l), a)"
    "int a \<le> m \<Longrightarrow> success verify a \<Longrightarrow> retry_loop m ctx verify a l = ((True, None), Suc a)"
    "int a \<le> m \<Longrightarrow> \<not> success verify a \<Longrightarrow>
       \<exists>l'. retry_loop m ctx verify a l = retry_loop m ctx verify (Suc a) l' \<and> (snd (verify a) = None \<longrightarrow> l' = l)
         \<and> (snd (verify a) \<noteq> None \<longrightarrow> l' = snd (verify a))"
  using assms by (subst retry_loop.simps, auto simp: live_def success_def Let_def split: prod.splits)+

lemma retry_loop_success:
  assumes "live ctx"
  shows "fst (fst (retry_loop m ctx verify a l)) \<longleftrightarrow> (\<exists>k \<ge> a. int k \<le> m \<and> success verify k)"
proof (induction "nat (m + 1 - int a)" arbitrary: a l rule: less_induct)
  case less
  note st = retry_loop_step [OF assms, where verify = verify and a = a and m = m and l = l]
  consider "int a > m" | "int a \<le> m" "success verify a" | "int a \<le> m" "\<not> success verify a" by linarith
  then show ?case
  proof cases
    case 1
    then show ?thesis using st(1) by auto
  next
    case 2
    then show ?thesis using st(2) by auto
  next
    case 3
    obtain l' where l': "retry_loop m ctx verify a l = retry_loop m ctx verify (Suc a) l'"
      using st(3) [OF 3] by blast
    have "fst (fst (retry_loop m ctx verify (Suc a) l')) \<longleftrightarrow> (\<exists>k \<ge> Suc a. int k \<le> m \<and> success verify k)"
      by (rule less) (use 3 in simp)
    with l' 3(2) show ?thesis by (metis Suc_leD le_antisym not_less_eq_eq)
  qed
qed

lemma retry_loop_true:
  "fst (fst (retry_loop m ctx verify a l)) \<Longrightarrow> \<exists>k \<ge> a. int k \<le> m \<and> success verify k"
proof (induction m ctx verify a l rule: retry_loop.induct)
  case (1 m ctx verify a l)
  obtain v er where ve: "verify a = (v, er)" by fastforce
  let ?l' = "if er \<noteq> None then er else l"
  from "1.prems" have c: "int a \<le> m" "\<not> ctx_done ctx a"
    by (subst (asm) retry_loop.simps, simp split: if_splits)+
  show ?case
  proof (cases "er = None \<and> v")
    case True
    with ve c show ?thesis by (auto simp: success_def)
  next
    case False
    with "1.prems" c ve have s: "\<not> (int a < m \<and> ctx_done_sleeping ctx a)"
      and r: "fst (fst (retry_loop m ctx verify (Suc a) ?l'))"
      by (subst (asm) retry_loop.simps, simp add: Let_def split: if_splits)+
    from "1.IH" [OF c ve [symmetric] refl False refl s r] show ?thesis by (meson Suc_leD)
  qed
qed


section \<open>The verdict\<close>

lemma VerifyMXRecord_iff: "VerifyMXRecord r n h = (True, None) \<longleftrightarrow> n \<noteq> [] \<and> h \<noteq> [] \<and>
    (\<exists>mxs mx. LookupMX r n = Inr mxs \<and> mx \<in> set mxs \<and> norm_host (MX_Host mx) = norm_host h)"
  by (cases "LookupMX r n") (auto simp: VerifyMXRecord_def Let_def list_ex_iff split: list.splits)

lemma VerifyARecord_iff: "VerifyARecord r n ip = (True, None) \<longleftrightarrow> n \<noteq> [] \<and> ip \<noteq> [] \<and>
    (\<exists>ips i. LookupHost r n = Inr ips \<and> i \<in> set ips \<and> TrimSpace i = TrimSpace ip)"
  by (cases "LookupHost r n") (auto simp: VerifyARecord_def Let_def list_ex_iff)

lemma VerifyTXTRecord_iff: "VerifyTXTRecord r n c = (True, None) \<longleftrightarrow> n \<noteq> [] \<and> c \<noteq> [] \<and>
    (\<exists>txts t. LookupTXT r (''_infinimail.'' @ n) = Inr txts \<and> t \<in> set txts
       \<and> TrimSpace t = ''infinimail-verify='' @ c)"
  unfolding VerifyTXTRecord_def Let_def
  by (cases "LookupTXT r (''_infinimail.'' @ n)") (auto simp: list_ex_iff)

lemma AllVerified_iff:
  "AllVerified (VerifyDNS config ctx net x) \<longleftrightarrow>
     fst (fst (verifyWithRetry config ctx (\<lambda>k. VerifyMXRecord (net k) (getParentDomain (D_Name x)) (dv_SMTPHostname config))))
   \<and> fst (fst (verifyWithRetry config ctx (\<lambda>k. VerifyARecord (net k) (getMailHostname (D_Name x)) (dv_ServerIP config))))
   \<and> fst (fst (verifyWithRetry config ctx (\<lambda>k. VerifyTXTRecord (net k) (getParentDomain (D_Name x)) (D_DNSChallenge x))))"
  by (simp add: VerifyDNS_def Let_def split: prod.splits)

lemma verifyWithRetry_true:
  "fst (fst (verifyWithRetry config ctx v)) \<Longrightarrow> \<exists>k. v k = (True, None)"
  unfolding verifyWithRetry_def using retry_loop_true by (fastforce simp: success_def)

text \<open>
  \<^verbatim>\<open>AllVerified\<close> means what the guide asked for: it holds only if, in some attempt each,
  the MX lookup of the parent domain lists the mail host, the lookup of the mail host lists the
  server address, and the TXT lookup shows exactly the domain's challenge.
\<close>

theorem VerifyDNS_sound:
  assumes "AllVerified (VerifyDNS config ctx net x)"
  shows "(\<exists>k mxs mx. LookupMX (net k) (getParentDomain (D_Name x)) = Inr mxs \<and> mx \<in> set mxs
           \<and> norm_host (MX_Host mx) = norm_host (dv_SMTPHostname config))
    \<and> (\<exists>k ips ip. LookupHost (net k) (getMailHostname (D_Name x)) = Inr ips \<and> ip \<in> set ips
           \<and> TrimSpace ip = TrimSpace (dv_ServerIP config))
    \<and> (\<exists>k txts txt. LookupTXT (net k) (''_infinimail.'' @ getParentDomain (D_Name x)) = Inr txts \<and> txt \<in> set txts
           \<and> TrimSpace txt = ''infinimail-verify='' @ D_DNSChallenge x) \<and> D_DNSChallenge x \<noteq> []"
proof -
  note v = assms [unfolded AllVerified_iff]
  show ?thesis
    using v [THEN conjunct1, THEN verifyWithRetry_true] v [THEN conjunct2, THEN conjunct1, THEN verifyWithRetry_true]
      v [THEN conjunct2, THEN conjunct2, THEN verifyWithRetry_true]
    unfolding VerifyMXRecord_iff VerifyARecord_iff VerifyTXTRecord_iff by blast
qed

text \<open>A resolver that serves exactly the records of a setup guide.\<close>

definition publishes :: "DNSResolver \<Rightarrow> DNSGuide \<Rightarrow> bool" where
  "publishes r g \<longleftrightarrow>
     (\<exists>p. LookupMX r (R_Name (G_MXRecord g)) = Inr [\<lparr>MX_Host = R_Value (G_MXRecord g), MX_Pref = p\<rparr>])
   \<and> LookupHost r (R_Name (G_ARecord g)) = Inr [R_Value (G_ARecord g)]
   \<and> LookupTXT r (R_Name (G_TXTRecord g)) = Inr [R_Value (G_TXTRecord g)]"


section \<open>Concrete runs\<close>

definition demo_ctx :: ctx where
  "demo_ctx = \<lparr>ctx_done = (\<lambda>k. False), ctx_done_sleeping = (\<lambda>k. False), ctx_Err = Opaque ''context canceled''\<rparr>"

lemma demo_ctx_live: "live demo_ctx"
  by (simp add: live_def demo_ctx_def)

definition demo_domain :: Domain where
  "demo_domain = zero_Domain\<lparr>D_ID := 1, D_Name := ''Mail.x.io'', D_DNSChallenge := ''0af''\<rparr>"

definition demo_dm :: DomainManagerConfig where
  "demo_dm = \<lparr>dm_SMTPHostname = ''smtp.y.io.'', dm_ServerIP = ''1.2.3.4''\<rparr>"

definition demo_config :: DNSVerifierConfig where
  "demo_config = \<lparr>dv_SMTPHostname = ''smtp.y.io.'', dv_ServerIP = ''1.2.3.4'', dv_MaxRetries = 2\<rparr>"

definition demo_net :: "nat \<Rightarrow> DNSResolver" where
  "demo_net k = \<lparr>LookupMX = (\<lambda>n. Inr [\<lparr>MX_Host = ''smtp.y.io.'', MX_Pref = 10\<rparr>]),
     LookupHost = (\<lambda>n. Inr [''1.2.3.4'']), LookupTXT = (\<lambda>n. Inr [''infinimail-verify=0af''])\<rparr>"


theorem VerifyDNS_sound_witness:
  "AllVerified (VerifyDNS demo_config demo_ctx demo_net demo_domain)
   \<and> (\<exists>k txts txt. LookupTXT (demo_net k) (''_infinimail.'' @ getParentDomain (D_Name demo_domain)) = Inr txts
        \<and> txt \<in> set txts \<and> TrimSpace txt = ''infinimail-verify='' @ D_DNSChallenge demo_domain)"
proof -
  have a: "AllVerified (VerifyDNS demo_config demo_ctx demo_net demo_domain)" by code_simp
  from VerifyDNS_sound [OF a] a show ?thesis by blast
qed


end
