(* ===== verification/DnsExport.thy ===== *)
theory DnsExport
  imports DomainMgr
begin

text \<open>
  \<^verbatim>\<open>internal/services/dns_exporter.go\<close>: the setup guide as a BIND zone file, as Cloudflare and
  Route53 records and as CSV. The two JSON formats are the structures that
  \<^verbatim>\<open>json.MarshalIndent\<close> prints.
\<close>

abbreviation tab :: string where "tab \<equiv> [CHR 0x09]"
abbreviation nl :: string where "nl \<equiv> [CHR 0x0A]"
abbreviation dq :: string where "dq \<equiv> [CHR 0x22]"

datatype DNSExportFormat = ExportFormatBIND | ExportFormatCloudflare | ExportFormatRoute53 | ExportFormatCSV
  | ExportFormatOther string

fun DNSExportFormat_of :: "string \<Rightarrow> DNSExportFormat" where
  "DNSExportFormat_of s =
     (if s = ''bind'' then ExportFormatBIND else if s = ''cloudflare'' then ExportFormatCloudflare
      else if s = ''route53'' then ExportFormatRoute53 else if s = ''csv'' then ExportFormatCSV
      else ExportFormatOther s)"

fun DNSExportFormat_IsValid :: "DNSExportFormat \<Rightarrow> bool" where
  "DNSExportFormat_IsValid (ExportFormatOther s) = False"
| "DNSExportFormat_IsValid _ = True"

record CloudflareDNSRecord =
  CF_Type :: string
  CF_Name :: string
  CF_Content :: string
  CF_Priority :: int
  CF_TTL :: int
  CF_Proxied :: bool

record Route53RecordSet =
  R53_Name :: string
  R53_Type :: string
  R53_TTL :: int
  R53_Values :: "string list"

record Route53ChangeBatch =
  R53_Comment :: string
  R53_Changes :: "(string \<times> Route53RecordSet) list"

datatype export_content = TextContent string | CloudflareContent "CloudflareDNSRecord list"
  | Route53Content Route53ChangeBatch

record DNSExportResult =
  X_Format :: DNSExportFormat
  X_Content :: export_content
  X_Filename :: string

text \<open>The name of a record relative to the zone.\<close>

definition relative_name :: "string \<Rightarrow> string \<Rightarrow> string" where
  "relative_name name domain =
     (if HasSuffix name (''.'' @ domain) then TrimSuffix name (''.'' @ domain)
      else if name = domain then ''@'' else name)"

definition ExportBIND :: "DNSGuide \<Rightarrow> string \<Rightarrow> string" where
  "ExportBIND guide domain =
     ''@'' @ tab @ show_int (R_TTL (G_MXRecord guide)) @ tab @ ''IN'' @ tab @ ''MX'' @ tab
       @ show_int (R_Priority (G_MXRecord guide)) @ tab @ R_Value (G_MXRecord guide) @ ''.'' @ nl
     @ relative_name (R_Name (G_ARecord guide)) domain @ tab @ show_int (R_TTL (G_ARecord guide)) @ tab
       @ ''IN'' @ tab @ ''A'' @ tab @ R_Value (G_ARecord guide) @ nl
     @ relative_name (R_Name (G_TXTRecord guide)) domain @ tab @ show_int (R_TTL (G_TXTRecord guide)) @ tab
       @ ''IN'' @ tab @ ''TXT'' @ tab @ dq @ R_Value (G_TXTRecord guide) @ dq @ nl"

definition ExportCloudflare :: "DNSGuide \<Rightarrow> string \<Rightarrow> CloudflareDNSRecord list" where
  "ExportCloudflare guide domain =
     [\<lparr>CF_Type = R_Type (G_MXRecord guide), CF_Name = ''@'', CF_Content = R_Value (G_MXRecord guide),
       CF_Priority = R_Priority (G_MXRecord guide), CF_TTL = R_TTL (G_MXRecord guide), CF_Proxied = False\<rparr>,
      \<lparr>CF_Type = R_Type (G_ARecord guide), CF_Name = ''mail'', CF_Content = R_Value (G_ARecord guide),
       CF_Priority = 0, CF_TTL = R_TTL (G_ARecord guide), CF_Proxied = False\<rparr>,
      \<lparr>CF_Type = R_Type (G_TXTRecord guide), CF_Name = ''_infinimail'', CF_Content = R_Value (G_TXTRecord guide),
       CF_Priority = 0, CF_TTL = R_TTL (G_TXTRecord guide), CF_Proxied = False\<rparr>]"

definition ExportRoute53 :: "DNSGuide \<Rightarrow> string \<Rightarrow> Route53ChangeBatch" where
  "ExportRoute53 guide domain =
     \<lparr>R53_Comment = ''Infinimail DNS records for '' @ domain,
      R53_Changes =
       [(''UPSERT'', \<lparr>R53_Name = R_Name (G_MXRecord guide) @ ''.'', R53_Type = R_Type (G_MXRecord guide),
           R53_TTL = R_TTL (G_MXRecord guide),
           R53_Values = [show_int (R_Priority (G_MXRecord guide)) @ '' '' @ R_Value (G_MXRecord guide) @ ''.'']\<rparr>),
        (''UPSERT'', \<lparr>R53_Name = R_Name (G_ARecord guide) @ ''.'', R53_Type = R_Type (G_ARecord guide),
           R53_TTL = R_TTL (G_ARecord guide), R53_Values = [R_Value (G_ARecord guide)]\<rparr>),
        (''UPSERT'', \<lparr>R53_Name = R_Name (G_TXTRecord guide) @ ''.'', R53_Type = R_Type (G_TXTRecord guide),
           R53_TTL = R_TTL (G_TXTRecord guide), R53_Values = [dq @ R_Value (G_TXTRecord guide) @ dq]\<rparr>)]\<rparr>"

definition ExportCSV :: "DNSGuide \<Rightarrow> string \<Rightarrow> string" where
  "ExportCSV guide domain =
     ''Type,Name,Value,Priority,TTL'' @ nl
     @ R_Type (G_MXRecord guide) @ '','' @ R_Name (G_MXRecord guide) @ '','' @ R_Value (G_MXRecord guide) @ '',''
       @ show_int (R_Priority (G_MXRecord guide)) @ '','' @ show_int (R_TTL (G_MXRecord guide)) @ nl
     @ R_Type (G_ARecord guide) @ '','' @ R_Name (G_ARecord guide) @ '','' @ R_Value (G_ARecord guide) @ '',,''
       @ show_int (R_TTL (G_ARecord guide)) @ nl
     @ R_Type (G_TXTRecord guide) @ '','' @ R_Name (G_TXTRecord guide) @ '','' @ dq @ R_Value (G_TXTRecord guide)
       @ dq @ '',,'' @ show_int (R_TTL (G_TXTRecord guide)) @ nl"

fun Export :: "DNSGuide \<Rightarrow> string \<Rightarrow> DNSExportFormat \<Rightarrow> goerror + DNSExportResult" where
  "Export guide domain (ExportFormatOther s) = Inl (Opaque (''invalid export format: '' @ s))"
| "Export guide domain ExportFormatBIND = Inr \<lparr>X_Format = ExportFormatBIND,
     X_Content = TextContent (ExportBIND guide domain), X_Filename = domain @ ''.zone''\<rparr>"
| "Export guide domain ExportFormatCloudflare = Inr \<lparr>X_Format = ExportFormatCloudflare,
     X_Content = CloudflareContent (ExportCloudflare guide domain), X_Filename = domain @ ''-cloudflare.json''\<rparr>"
| "Export guide domain ExportFormatRoute53 = Inr \<lparr>X_Format = ExportFormatRoute53,
     X_Content = Route53Content (ExportRoute53 guide domain), X_Filename = domain @ ''-route53.json''\<rparr>"
| "Export guide domain ExportFormatCSV = Inr \<lparr>X_Format = ExportFormatCSV,
     X_Content = TextContent (ExportCSV guide domain), X_Filename = domain @ ''-dns.csv''\<rparr>"

section \<open>Names in the zone file\<close>

text \<open>How a name server reads a zone-file name without a trailing dot in a zone.\<close>

definition zone_name :: "string \<Rightarrow> string \<Rightarrow> string" where
  "zone_name zone n = (if n = ''@'' then zone else n @ ''.'' @ zone)"

lemma relative_name_below: "relative_name (u @ ''.'' @ domain) domain = u"
  using HasSuffix_append [of u "''.'' @ domain"] TrimSuffix_append [of u "''.'' @ domain"]
  by (simp add: relative_name_def)

text \<open>
  The zone file of a domain that was not entered with a \<^verbatim>\<open>mail.\<close> prefix is right: read in
  the domain's own zone, the names of its three records are the names of the setup guide.
\<close>

theorem ExportBIND_names_ok:
  assumes "\<not> HasPrefix (ToLower (D_Name x)) ''mail.''"
  shows "let g = guide_of cfg x; z = D_Name x in
      zone_name z ''@'' = R_Name (G_MXRecord g)
    \<and> zone_name z (relative_name (R_Name (G_ARecord g)) z) = R_Name (G_ARecord g)
    \<and> zone_name z (relative_name (R_Name (G_TXTRecord g)) z) = R_Name (G_TXTRecord g)"
proof -
  note r = relative_name_below [of "''mail''" "D_Name x"] relative_name_below [of "''_infinimail''" "D_Name x"]
  show ?thesis
    using assms by (simp add: guide_of_def getParentDomainName_def getMailHostnameName_def Let_def
        zone_name_def r [simplified])
qed

theorem ExportBIND_names_ok_witness:
  "zone_name ''x.io'' (relative_name (R_Name (G_TXTRecord (guide_of \<lparr>dm_SMTPHostname = ''h'', dm_ServerIP = ''1''\<rparr> (zero_Domain\<lparr>D_Name := ''x.io''\<rparr>)))) ''x.io'')
     = ''_infinimail.x.io''"
proof -
  have "\<not> HasPrefix (ToLower (D_Name (zero_Domain\<lparr>D_Name := ''x.io''\<rparr>))) ''mail.''" by code_simp
  from ExportBIND_names_ok [OF this, of "\<lparr>dm_SMTPHostname = ''h'', dm_ServerIP = ''1''\<rparr>"] show ?thesis
    by (simp add: Let_def guide_of_def getParentDomainName_def HasPrefix_def lower_char_def is_upper_def)
qed

text \<open>
  For a domain entered as \<^verbatim>\<open>mail.x.io\<close> it is wrong: the guide asks for the MX and TXT
  records of \<^verbatim>\<open>x.io\<close>, but in the zone file the MX name stands for \<^verbatim>\<open>mail.x.io\<close> and the
  TXT name for \<^verbatim>\<open>_infinimail.x.io.mail.x.io\<close>.
\<close>

theorem ExportBIND_mail_prefix_wrong:
  "let x = zero_Domain\<lparr>D_Name := ''mail.x.io''\<rparr>; g = guide_of cfg x; z = D_Name x in
     R_Name (G_MXRecord g) = ''x.io'' \<and> zone_name z ''@'' = ''mail.x.io''
   \<and> R_Name (G_TXTRecord g) = ''_infinimail.x.io''
   \<and> zone_name z (relative_name (R_Name (G_TXTRecord g)) z) = ''_infinimail.x.io.mail.x.io''"
proof -
  have p: "HasPrefix (ToLower ''mail.x.io'') ''mail.''" by code_simp
  have r: "relative_name ''_infinimail.x.io'' ''mail.x.io'' = ''_infinimail.x.io''" by code_simp
  show ?thesis
    by (simp add: guide_of_def getParentDomainName_def Let_def p [simplified] zone_name_def r [simplified])
qed

end
