(* ===== verification/DomainHandlers.thy ===== *)
theory DomainHandlers
  imports CertRenewal DnsVerify DnsExport
begin

text \<open>
  \<^verbatim>\<open>internal/api/handlers/domain_handler.go\<close>: the HTTP handlers that lead a domain from creation to an
  active mail domain. A handler is a function on the world of the certificate manager; path and query
  parameters are strings, a request body is the result of \<^verbatim>\<open>c.Bind\<close> (\<open>None\<close> when it fails). The
  services a handler was built with may be missing, as in the source. A handler that dereferences the
  nil pointer of a failed reload ends in \<open>NilDereference\<close>.
\<close>

section \<open>Requests, answers and the handler\<close>

record CreateDomainRequest =
  CD_Name :: string
  CD_IsActive :: "bool option"

record UpdateDomainRequest =
  UD_Name :: string
  UD_IsActive :: "bool option"

record DomainSetupProgress =
  CurrentStep :: int
  TotalSteps :: int
  StepName :: string
  IsComplete :: bool

record DomainStatusResponse =
  DS_ID :: uint
  DS_Name :: string
  DS_Status :: DomainStatus
  DS_IsActive :: bool
  DS_ErrorMessage :: string
  DS_Progress :: DomainSetupProgress
  DS_NextStep :: string

text \<open>The data of an answer; a \<^verbatim>\<open>*models.Domain\<close> may be nil.\<close>

datatype domain_data =
    DomainData "Domain option"
  | DomainsData "Domain list"
  | GuideData DNSGuide
  | ExportData DNSExportResult
  | VerificationData DNSVerificationResult
  | LegacyChallengeData Domain string
  | IssuedData "Domain option" Certificate
  | HintData string string string
  | StatusData DomainStatusResponse
  | ChallengeData ACMEChallengeInfo
  | ACMEVerificationData ACMEDNSVerificationResult
  | ACMEStatusData ACMEStatus

datatype 'd outcome = Responds "'d response" | NilDereference

type_synonym ('a, 'c) handler = "('a, 'c) world \<Rightarrow> domain_data response \<times> ('a, 'c) world"

record ('a, 'c) DomainHandler =
  h_repo :: DomainRepository
  h_domainManager :: "(DomainRepository \<times> DomainManagerConfig) option"
  h_dnsVerifier :: "DNSVerifierConfig option"
  h_dnsExporter :: "(DNSGuide \<Rightarrow> string \<Rightarrow> DNSExportFormat \<Rightarrow> goerror + DNSExportResult) option"
  h_certManager :: "('a, 'c) certificateManagerService option"

definition NewDomainHandler :: "DomainRepository \<Rightarrow> ('a, 'c) DomainHandler" where
  "NewDomainHandler repo = \<lparr>h_repo = repo, h_domainManager = None, h_dnsVerifier = None, h_dnsExporter = None,
     h_certManager = None\<rparr>"

definition NewDomainHandlerWithServices ::
  "DomainRepository \<Rightarrow> (DomainRepository \<times> DomainManagerConfig) option \<Rightarrow> DNSVerifierConfig option \<Rightarrow>
   (DNSGuide \<Rightarrow> string \<Rightarrow> DNSExportFormat \<Rightarrow> goerror + DNSExportResult) option \<Rightarrow>
   ('a, 'c) certificateManagerService option \<Rightarrow> ('a, 'c) DomainHandler" where
  "NewDomainHandlerWithServices repo domainManager dnsVerifier dnsExporter certManager =
     \<lparr>h_repo = repo, h_domainManager = domainManager, h_dnsVerifier = dnsVerifier, h_dnsExporter = dnsExporter,
      h_certManager = certManager\<rparr>"

text \<open>The two openings most handlers share: the identifier of the path, and the row it names.\<close>

definition answer :: "'d response \<Rightarrow> 'w \<Rightarrow> 'd response \<times> 'w" where
  "answer r w = (r, w)"

definition path_id :: "string \<Rightarrow> (uint \<Rightarrow> 'w \<Rightarrow> 'd response \<times> 'w) \<Rightarrow> 'w \<Rightarrow> 'd response \<times> 'w" where
  "path_id idStr k = (case ParseUint idStr 32 of None \<Rightarrow> answer (BadRequest ''invalid domain ID'') | Some i \<Rightarrow> k i)"

definition get_domain :: "DomainRepository \<Rightarrow> uint \<Rightarrow> (Domain \<Rightarrow> ('a, 'c) handler) \<Rightarrow> ('a, 'c) handler" where
  "get_domain repo i k =
     attempt (read_db (dr_GetByID repo i))
       (\<lambda>err. answer (if errors_Is err RepoErrNotFound then NotFound ''domain not found'' else InternalError ''failed to get domain'')) k"

text \<open>\<^verbatim>\<open>domain, _ = h.repo.GetByID(...)\<close>.\<close>

definition reload :: "DomainRepository \<Rightarrow> uint \<Rightarrow> db \<Rightarrow> Domain option" where
  "reload repo i d = (case dr_GetByID repo i d of Inl err \<Rightarrow> None | Inr domain \<Rightarrow> Some domain)"

section \<open>Create, list, get, update, delete\<close>

definition domain_h_Create ::
  "('a, 'c) DomainHandler \<Rightarrow> goerror + bytes \<Rightarrow> CreateDomainRequest option \<Rightarrow> ('a, 'c) handler" where
  "domain_h_Create h rnd body =
     (case body of
        None \<Rightarrow> answer (BadRequest ''invalid request body'')
      | Some req \<Rightarrow>
        if CD_Name req = [] then answer (BadRequest ''name is required'')
        else
          let failed = \<lambda>err. answer (if errors_Is err RepoErrDuplicateEntry then Conflict ''domain already exists''
                 else InternalError ''failed to create domain'') in
          case h_domainManager h of
            Some (repo, config) \<Rightarrow>
              attempt (on_db (CreateDomain repo rnd (CD_Name req))) failed (\<lambda>domain. answer (Created (DomainData (Some domain))))
          | None \<Rightarrow>
              let domain = zero_Domain\<lparr>D_Name := CD_Name req, D_IsActive := True\<rparr>;
                  domain = (case CD_IsActive req of None \<Rightarrow> domain | Some b \<Rightarrow> domain\<lparr>D_IsActive := b\<rparr>) in
              attempt (on_db (dr_Create (h_repo h) domain)) failed (\<lambda>domain. answer (Created (DomainData (Some domain)))))"

definition domain_h_List :: "('a, 'c) DomainHandler \<Rightarrow> string \<Rightarrow> ('a, 'c) handler" where
  "domain_h_List h active_only =
     attempt (read_db (dr_List (h_repo h) (active_only = ''true'')))
       (\<lambda>err. answer (InternalError ''failed to list domains''))
       (\<lambda>domains. answer (Success (DomainsData domains)))"

definition domain_h_Get :: "('a, 'c) DomainHandler \<Rightarrow> string \<Rightarrow> ('a, 'c) handler" where
  "domain_h_Get h idStr = path_id idStr (\<lambda>i. get_domain (h_repo h) i (\<lambda>domain. answer (Success (DomainData (Some domain)))))"

definition domain_h_Update :: "('a, 'c) DomainHandler \<Rightarrow> string \<Rightarrow> UpdateDomainRequest option \<Rightarrow> ('a, 'c) handler" where
  "domain_h_Update h idStr body =
     path_id idStr (\<lambda>i.
     case body of
       None \<Rightarrow> answer (BadRequest ''invalid request body'')
     | Some req \<Rightarrow>
       get_domain (h_repo h) i (\<lambda>domain.
       let domain = (if UD_Name req \<noteq> [] then domain\<lparr>D_Name := UD_Name req\<rparr> else domain);
           domain = (case UD_IsActive req of None \<Rightarrow> domain | Some b \<Rightarrow> domain\<lparr>D_IsActive := b\<rparr>) in
       attempt (on_db (dr_Update (h_repo h) domain))
         (\<lambda>err. answer (if errors_Is err RepoErrDuplicateEntry then Conflict ''domain name already exists''
            else InternalError ''failed to update domain''))
         (\<lambda>domain. answer (Success (DomainData (Some domain))))))"

definition domain_h_Delete :: "('a, 'c) DomainHandler \<Rightarrow> string \<Rightarrow> ('a, 'c) handler" where
  "domain_h_Delete h idStr =
     path_id idStr (\<lambda>i.
     attempt (on_db (dr_Delete (h_repo h) i))
       (\<lambda>err. answer (if errors_Is err RepoErrNotFound then NotFound ''domain not found'' else InternalError ''failed to delete domain''))
       (\<lambda>_. answer NoContent))"

section \<open>DNS set-up\<close>

definition domain_h_GetDNSGuide :: "('a, 'c) DomainHandler \<Rightarrow> string \<Rightarrow> ('a, 'c) handler" where
  "domain_h_GetDNSGuide h idStr =
     (case h_domainManager h of
        None \<Rightarrow> answer (InternalError ''domain manager not configured'')
      | Some (repo, config) \<Rightarrow>
        path_id idStr (\<lambda>i.
        attempt (read_db (GetDNSGuide repo config i))
          (\<lambda>err. answer (if errors_Is err RepoErrNotFound then NotFound ''domain not found'' else InternalError ''failed to get DNS guide''))
          (\<lambda>guide. answer (Success (GuideData guide)))))"

definition domain_h_GetDNSExport :: "('a, 'c) DomainHandler \<Rightarrow> string \<Rightarrow> string \<Rightarrow> ('a, 'c) handler" where
  "domain_h_GetDNSExport h idStr formatParam =
     (case (h_domainManager h, h_dnsExporter h) of
        (Some (repo, config), Some exporter) \<Rightarrow>
        path_id idStr (\<lambda>i.
        let formatStr = (if formatParam = [] then ''bind'' else formatParam);
            format = DNSExportFormat_of formatStr in
        if \<not> DNSExportFormat_IsValid format
        then answer (BadRequest ''invalid export format, must be one of: bind, cloudflare, route53, csv'')
        else get_domain (h_repo h) i (\<lambda>domain.
          attempt (read_db (GetDNSGuide repo config i)) (\<lambda>err. answer (InternalError ''failed to get DNS guide'')) (\<lambda>guide.
          case exporter guide (D_Name domain) format of
            Inl err \<Rightarrow> answer (InternalError ''failed to export DNS records'')
          | Inr result \<Rightarrow> answer (Success (ExportData result)))))
      | _ \<Rightarrow> answer (InternalError ''domain manager or DNS exporter not configured''))"

text \<open>\<^verbatim>\<open>VerifyDNS\<close> of the verifier reports an error for a nil domain only, which is not passed here.\<close>

definition is_legacy :: "Domain \<Rightarrow> bool" where
  "is_legacy domain \<longleftrightarrow> D_Status domain = RawStatus [] \<or> (D_IsActive domain \<and> D_Status domain \<noteq> StatusActive)"

definition domain_h_VerifyDNS ::
  "('a, 'c) DomainHandler \<Rightarrow> goerror + bytes \<Rightarrow> ctx \<Rightarrow> (nat \<Rightarrow> DNSResolver) \<Rightarrow> string \<Rightarrow> ('a, 'c) handler" where
  "domain_h_VerifyDNS h rnd ctx net idStr =
     (case (h_domainManager h, h_dnsVerifier h) of
        (Some (repo, dmcfg), Some config) \<Rightarrow>
        path_id idStr (\<lambda>i.
        get_domain (h_repo h) i (\<lambda>domain.
        if \<not> is_legacy domain \<and> D_Status domain \<noteq> StatusPendingDNS \<and> D_Status domain \<noteq> StatusFailed
        then answer (BadRequest ''domain must be in pending_dns or failed status to verify DNS'')
        else if D_DNSChallenge domain = [] then
          attempt (on_db (GenerateChallengeForLegacyDomain repo rnd i))
            (\<lambda>err. answer (InternalError ''failed to generate DNS challenge for legacy domain'')) (\<lambda>_.
          attempt (read_db (dr_GetByID (h_repo h) i)) (\<lambda>err. answer (InternalError ''failed to reload domain'')) (\<lambda>domain.
          answer (SuccessWithMessage (Some (LegacyChallengeData domain
              ''DNS challenge token generated. Please configure the TXT record and verify again.''))
            ''DNS challenge token generated for legacy domain'')))
        else
          let result = VerifyDNS config ctx net domain in
          if AllVerified result then
            attempt (on_db (UpdateStatus repo i StatusDNSVerified []))
              (\<lambda>err. answer (InternalError ''failed to update domain status''))
              (\<lambda>_. answer (Success (VerificationData result)))
          else answer (Success (VerificationData result))))
      | _ \<Rightarrow> answer (InternalError ''domain manager or DNS verifier not configured''))"

section \<open>Certificates and status\<close>

definition domain_h_GenerateCertificate :: "('a, 'c) DomainHandler \<Rightarrow> string \<Rightarrow> ('a, 'c) handler" where
  "domain_h_GenerateCertificate h idStr =
     (case (h_domainManager h, h_certManager h) of
        (Some (repo, config), Some M) \<Rightarrow>
        path_id idStr (\<lambda>i.
        get_domain (h_repo h) i (\<lambda>domain.
        if D_Status domain \<noteq> StatusDNSVerified
        then answer (BadRequest ''domain must be in dns_verified status to generate certificate'')
        else
          attempt (GenerateCertificate M (Some domain))
            (\<lambda>err. let errMsg = Error_text err in
               if Contains errMsg ''_acme-challenge'' then
                 answer (BadRequestWithData ''ACME DNS challenge failed. Please add the required TXT record and try again.''
                   (HintData errMsg (''Add a TXT record with name '' @ sq @ ''_acme-challenge.'' @ D_Name domain @ sq @ '' before generating certificate'')
                     ''Wait 1-5 minutes for DNS propagation after adding the TXT record''))
               else answer (InternalError (''certificate generation failed: '' @ Error_text err))) (\<lambda>cert.
          attempt (on_db (ActivateDomain repo i)) (\<lambda>err. answer (InternalError ''failed to activate domain'')) (\<lambda>_ w.
          answer (Success (IssuedData (reload (h_repo h) i (w_db w)) cert)) w))))
      | _ \<Rightarrow> answer (InternalError ''domain manager or certificate manager not configured''))"

definition totalSteps :: int where
  "totalSteps = 4"

definition getProgressForStatus :: "DomainStatus \<Rightarrow> DomainSetupProgress" where
  "getProgressForStatus status =
     (let progress = \<lambda>n name complete. \<lparr>CurrentStep = n, TotalSteps = totalSteps, StepName = name, IsComplete = complete\<rparr> in
      case status of
        StatusPendingDNS \<Rightarrow> progress 1 ''Configure DNS Records'' False
      | StatusDNSVerified \<Rightarrow> progress 2 ''DNS Verified'' False
      | StatusPendingCertificate \<Rightarrow> progress 3 ''Generating Certificate'' False
      | StatusCertificateIssued \<Rightarrow> progress 3 ''Certificate Issued'' False
      | StatusActive \<Rightarrow> progress 4 ''Ready to Receive Email'' True
      | StatusFailed \<Rightarrow> progress 0 ''Setup Failed'' False
      | _ \<Rightarrow> progress 0 ''Unknown'' False)"

definition getNextStepForStatus :: "DomainStatus \<Rightarrow> string" where
  "getNextStepForStatus status =
     (case status of
        StatusPendingDNS \<Rightarrow> ''Configure DNS records and verify''
      | StatusDNSVerified \<Rightarrow> ''Generate SSL certificate''
      | StatusPendingCertificate \<Rightarrow> ''Waiting for certificate generation''
      | StatusCertificateIssued \<Rightarrow> ''Activate domain''
      | StatusActive \<Rightarrow> ''Domain is ready to receive email''
      | StatusFailed \<Rightarrow> ''Retry the failed step''
      | _ \<Rightarrow> [])"

definition domain_h_GetStatus :: "('a, 'c) DomainHandler \<Rightarrow> string \<Rightarrow> ('a, 'c) handler" where
  "domain_h_GetStatus h idStr =
     path_id idStr (\<lambda>i. get_domain (h_repo h) i (\<lambda>domain.
     answer (Success (StatusData \<lparr>DS_ID = D_ID domain, DS_Name = D_Name domain, DS_Status = D_Status domain,
       DS_IsActive = D_IsActive domain, DS_ErrorMessage = D_ErrorMessage domain,
       DS_Progress = getProgressForStatus (D_Status domain), DS_NextStep = getNextStepForStatus (D_Status domain)\<rparr>))))"

text \<open>
  What \<^verbatim>\<open>Retry\<close> does to each status: move to a new one (\<open>Inr\<close>), or answer at once (\<open>Inl\<close>).
\<close>

definition acme_related :: "string \<Rightarrow> bool" where
  "acme_related msg \<longleftrightarrow> Contains (ToLower msg) ''acme'' \<or> Contains (ToLower msg) ''certificate''
     \<or> Contains (ToLower msg) ''dns txt'' \<or> Contains (ToLower msg) ''_acme-challenge''"

definition retry_step :: "string \<Rightarrow> Domain \<Rightarrow> domain_data response + DomainStatus \<times> string" where
  "retry_step resetTo domain =
     (case D_Status domain of
        StatusFailed \<Rightarrow>
          if resetTo = ''dns_verified'' then Inr (StatusDNSVerified, ''Domain reset to dns_verified status for certificate retry'')
          else if resetTo = ''pending_dns'' then Inr (StatusPendingDNS, ''Domain reset to pending_dns status for retry'')
          else if resetTo = ''pending_acme_challenge''
          then Inr (StatusPendingACMEChallenge, ''Domain reset to pending_acme_challenge status for retry'')
          else if acme_related (D_ErrorMessage domain)
          then Inr (StatusDNSVerified, ''Domain reset to dns_verified status for certificate retry'')
          else Inr (StatusPendingDNS, ''Domain reset to pending_dns status for retry'')
      | StatusPendingDNS \<Rightarrow> Inr (StatusPendingDNS, ''Ready to verify DNS'')
      | StatusDNSVerified \<Rightarrow> Inl (SuccessWithMessage (Some (DomainData (Some domain))) ''Ready to generate certificate'')
      | StatusPendingACMEChallenge \<Rightarrow> Inr (StatusDNSVerified, ''Domain reset to dns_verified status to request new ACME challenge'')
      | StatusACMEChallengeReady \<Rightarrow>
          Inl (SuccessWithMessage (Some (DomainData (Some domain))) ''Ready to submit ACME challenge to Let's Encrypt'')
      | StatusPendingCertificate \<Rightarrow> Inr (StatusDNSVerified, ''Domain reset to dns_verified status for certificate retry'')
      | StatusCertificateIssued \<Rightarrow> Inl (SuccessWithMessage (Some (DomainData (Some domain))) ''Ready to activate domain'')
      | StatusActive \<Rightarrow> Inl (SuccessWithMessage (Some (DomainData (Some domain))) ''Domain is already active'')
      | RawStatus s \<Rightarrow>
          if s = [] then Inr (StatusPendingDNS, ''Legacy domain updated to pending_dns status'')
          else Inl (BadRequest (''unknown domain status: '' @ s)))"

definition domain_h_Retry :: "('a, 'c) DomainHandler \<Rightarrow> string \<Rightarrow> string \<Rightarrow> ('a, 'c) handler" where
  "domain_h_Retry h idStr resetTo =
     (case h_domainManager h of
        None \<Rightarrow> answer (InternalError ''domain manager not configured'')
      | Some (repo, config) \<Rightarrow>
        path_id idStr (\<lambda>i.
        get_domain (h_repo h) i (\<lambda>domain.
        case retry_step resetTo domain of
          Inl r \<Rightarrow> answer r
        | Inr (newStatus, message) \<Rightarrow>
          attempt (on_db (UpdateStatus repo i newStatus [])) (\<lambda>err. answer (InternalError ''failed to update domain status'')) (\<lambda>_ w.
          answer (SuccessWithMessage (Some (DomainData (reload (h_repo h) i (w_db w)))) message) w))))"

section \<open>Manual DNS verification\<close>

definition domain_h_RequestACMEChallenge :: "('a, 'c) DomainHandler \<Rightarrow> string \<Rightarrow> ('a, 'c) handler" where
  "domain_h_RequestACMEChallenge h idStr =
     (case h_certManager h of
        None \<Rightarrow> answer (InternalError ''certificate manager not configured'')
      | Some M \<Rightarrow>
        path_id idStr (\<lambda>i.
        get_domain (h_repo h) i (\<lambda>domain.
        if D_Status domain \<noteq> StatusDNSVerified then
          answer (RespACMEError (NewInvalidDomainStatusError (D_Name domain) (DomainStatus_String (D_Status domain))
            (DomainStatus_String StatusDNSVerified) ''request ACME challenge''))
        else
          attempt (RequestACMEChallenge M i)
            (\<lambda>err. case GetACMEError err of
               Some acmeErr \<Rightarrow> answer (RespACMEError acmeErr)
             | None \<Rightarrow> answer (RespACMEError
                 (ACMEError err CodeACMEChallengeFailed (''Failed to request ACME challenge: '' @ Error_text err) [] []
                   ''Please try again. If the problem persists, check your domain configuration and ensure DNS records are properly set up.''
                   (D_Name domain) [] [] [])))
            (\<lambda>challengeInfo. answer (Success (ChallengeData challengeInfo))))))"

definition domain_h_VerifyACMEDNS :: "('a, 'c) DomainHandler \<Rightarrow> string \<Rightarrow> ('a, 'c) handler" where
  "domain_h_VerifyACMEDNS h idStr =
     (case h_certManager h of
        None \<Rightarrow> answer (InternalError ''certificate manager not configured'')
      | Some M \<Rightarrow>
        path_id idStr (\<lambda>i.
        get_domain (h_repo h) i (\<lambda>domain.
        if D_ACMEChallengeToken domain = [] \<or> D_ACMEChallengeValue domain = []
        then answer (RespACMEError (NewNoChallengeFoundError (D_Name domain)))
        else
          attempt (VerifyACMEDNS M i)
            (\<lambda>err. case GetACMEError err of
               Some acmeErr \<Rightarrow> answer (RespACMEError acmeErr)
             | None \<Rightarrow> answer (InternalError (''failed to verify ACME DNS: '' @ Error_text err)))
            (\<lambda>result. answer (Success (ACMEVerificationData result))))))"

text \<open>\<^verbatim>\<open>acmeErr.CurrentStatus = ...\<close>\<close>

fun set_CurrentStatus :: "string \<Rightarrow> goerror \<Rightarrow> goerror" where
  "set_CurrentStatus st (ACMEError e c m x f a d t s r) = ACMEError e c m x f a d t st r"
| "set_CurrentStatus st e = e"

definition submit_answers ::
  "('a, 'c) DomainHandler \<Rightarrow> ('a, 'c) certificateManagerService \<Rightarrow> uint \<Rightarrow> ('a, 'c) world \<Rightarrow> domain_data outcome \<times> ('a, 'c) world" where
  "submit_answers h M i =
     attempt (SubmitACMEChallenge M i)
       (\<lambda>err w. (case reload (h_repo h) i (w_db w) of
            None \<Rightarrow> NilDereference
          | Some domain \<Rightarrow>
              Responds (RespACMEError (set_CurrentStatus (DomainStatus_String (D_Status domain))
                (case GetACMEError err of Some acmeErr \<Rightarrow> acmeErr | None \<Rightarrow> NewACMEValidationError (D_Name domain) err))), w))
       (\<lambda>_ w.
         let done = \<lambda>domain. Responds (SuccessWithMessage (Some (DomainData domain)) ''Certificate generated and domain activated successfully!'') in
         case h_domainManager h of
           None \<Rightarrow> (done (reload (h_repo h) i (w_db w)), w)
         | Some (repo, config) \<Rightarrow>
            (case reload (h_repo h) i (w_db w) of
               None \<Rightarrow> (NilDereference, w)
             | Some domain \<Rightarrow>
                 if D_Status domain = StatusCertificateIssued then
                   attempt (on_db (ActivateDomain repo i))
                     (\<lambda>err w'. (Responds (InternalError (''certificate issued but failed to activate domain: '' @ Error_text err)), w'))
                     (\<lambda>_ w'. (done (reload (h_repo h) i (w_db w')), w')) w
                 else (done (Some domain), w)))"

definition domain_h_SubmitACMEChallenge ::
  "('a, 'c) DomainHandler \<Rightarrow> string \<Rightarrow> ('a, 'c) world \<Rightarrow> domain_data outcome \<times> ('a, 'c) world" where
  "domain_h_SubmitACMEChallenge h idStr w =
     (case h_certManager h of
        None \<Rightarrow> (Responds (InternalError ''certificate manager not configured''), w)
      | Some M \<Rightarrow>
        (case ParseUint idStr 32 of
           None \<Rightarrow> (Responds (BadRequest ''invalid domain ID''), w)
         | Some i \<Rightarrow>
           (case dr_GetByID (h_repo h) i (w_db w) of
              Inl err \<Rightarrow> (Responds (if errors_Is err RepoErrNotFound then NotFound ''domain not found'' else InternalError ''failed to get domain''), w)
            | Inr domain \<Rightarrow>
                if D_Status domain \<noteq> StatusACMEChallengeReady then
                  (Responds (RespACMEError (NewInvalidDomainStatusError (D_Name domain) (DomainStatus_String (D_Status domain))
                     (DomainStatus_String StatusACMEChallengeReady) ''submit ACME challenge'')), w)
                else submit_answers h M i w)))"

definition domain_h_GetACMEStatus :: "('a, 'c) DomainHandler \<Rightarrow> string \<Rightarrow> ('a, 'c) handler" where
  "domain_h_GetACMEStatus h idStr =
     (case h_certManager h of
        None \<Rightarrow> answer (InternalError ''certificate manager not configured'')
      | Some M \<Rightarrow>
        path_id idStr (\<lambda>i.
        get_domain (h_repo h) i (\<lambda>_.
        attempt (GetACMEStatus M i)
          (\<lambda>err. case GetACMEError err of
             Some acmeErr \<Rightarrow> answer (RespACMEError acmeErr)
           | None \<Rightarrow> answer (InternalError (''failed to get ACME status: '' @ Error_text err)))
          (\<lambda>status. answer (Success (ACMEStatusData status))))))"

end
