(* ===== verification/ServerState.thy ===== *)
theory ServerState
  imports Repository
begin

text \<open>
  What holds of the database between requests: the keys are unique, every foreign key refers to an
  existing row, and every domain whose status says that a certificate was issued has one. The lemmas say
  which changes of the tables keep this.
\<close>

section \<open>The invariant\<close>

definition refs_ok :: "db \<Rightarrow> bool" where
  "refs_ok d \<longleftrightarrow> C_DomainID ` set (t_certs d) \<subseteq> D_ID ` set (t_domains d)
     \<and> M_DomainID ` set (t_mailboxes d) \<subseteq> D_ID ` set (t_domains d)
     \<and> Msg_MailboxID ` set (t_messages d) \<subseteq> M_ID ` set (t_mailboxes d)
     \<and> A_MessageID ` set (t_attachments d) \<subseteq> Msg_ID ` set (t_messages d)"

definition has_certificate_status :: "Domain \<Rightarrow> bool" where
  "has_certificate_status x \<longleftrightarrow> D_Status x \<in> {StatusCertificateIssued, StatusActive}"

definition certified :: "db \<Rightarrow> bool" where
  "certified d \<longleftrightarrow> (\<forall>x \<in> set (t_domains d). has_certificate_status x \<longrightarrow> D_ID x \<in> C_DomainID ` set (t_certs d))"

definition server_ok :: "db \<Rightarrow> bool" where
  "server_ok d \<longleftrightarrow> db_ok d \<and> refs_ok d \<and> certified d"

lemma server_ok_empty: "server_ok \<lparr>t_domains = [], t_certs = [], t_mailboxes = [], t_messages = [], t_attachments = []\<rparr>"
  by (simp add: server_ok_def db_ok_def refs_ok_def certified_def)

lemma server_okI: "db_ok d \<Longrightarrow> refs_ok d \<Longrightarrow> certified d \<Longrightarrow> server_ok d"
  by (simp add: server_ok_def)

lemma server_okD: "server_ok d \<Longrightarrow> db_ok d" "server_ok d \<Longrightarrow> refs_ok d" "server_ok d \<Longrightarrow> certified d"
  by (simp_all add: server_ok_def)

section \<open>Changes of rows\<close>

lemma image_replace: "f y = i \<Longrightarrow> f ` set (map (\<lambda>z. if f z = i then y else z) xs) = f ` set xs"
  by (induction xs) auto

lemma server_ok_new_domain:
  assumes "server_ok d" "db_ok (put_domains (t_domains d @ [x]) d)" "\<not> has_certificate_status x"
  shows "server_ok (put_domains (t_domains d @ [x]) d)"
  using assms by (auto simp: server_ok_def refs_ok_def certified_def)

lemma server_ok_domain_row:
  assumes ok: "server_ok d" and keys: "db_ok d'"
    and d': "d' = put_domains (map (\<lambda>z. if D_ID z = i then y else z) (t_domains d)) d" and y: "D_ID y = i"
    and st: "has_certificate_status y \<Longrightarrow> i \<in> C_DomainID ` set (t_certs d)"
  shows "server_ok d'"
proof (rule server_okI [OF keys])
  note im = image_replace [of D_ID y i "t_domains d", OF y]
  show "refs_ok d'" using server_okD(2) [OF ok] im unfolding refs_ok_def d' by simp
  show "certified d'" using server_okD(3) [OF ok] st y unfolding certified_def d' by (auto split: if_splits)
qed

lemma server_ok_new_cert:
  assumes "server_ok d" "db_ok (put_certs (t_certs d @ [c]) d)" "C_DomainID c \<in> D_ID ` set (t_domains d)"
  shows "server_ok (put_certs (t_certs d @ [c]) d)"
  using assms by (auto simp: server_ok_def refs_ok_def certified_def)

lemma image_replace_other:
  assumes "inj_on k (set xs)" "x \<in> set xs" "k x = i" "f y = f x"
  shows "f ` set (map (\<lambda>z. if k z = i then y else z) xs) = f ` set xs"
proof -
  have "f (if k z = i then y else z) = f z" if "z \<in> set xs" for z
    using assms that by (cases "k z = i") (auto dest: inj_onD)
  then have "map f (map (\<lambda>z. if k z = i then y else z) xs) = map f xs" by simp
  then show ?thesis by (metis set_map)
qed

lemma server_ok_cert_row:
  assumes ok: "server_ok d" and keys: "db_ok d'" and c: "c \<in> set (t_certs d)" "C_ID c = i" "C_DomainID c' = C_DomainID c"
    and d': "d' = put_certs (map (\<lambda>z. if C_ID z = i then c' else z) (t_certs d)) d"
  shows "server_ok d'"
proof -
  have "inj_on C_ID (set (t_certs d))" using server_okD(1) [OF ok] by (simp add: db_ok_def distinct_map)
  from image_replace_other [OF this c(1,2), of C_DomainID c', OF c(3)]
  have "C_DomainID ` set (t_certs d') = C_DomainID ` set (t_certs d)" unfolding d' by simp
  with ok keys show ?thesis unfolding d' by (auto simp: server_ok_def refs_ok_def certified_def)
qed

lemma server_ok_new_mailbox:
  assumes "server_ok d" "db_ok (put_mailboxes (t_mailboxes d @ [m]) d)" "M_DomainID m \<in> D_ID ` set (t_domains d)"
  shows "server_ok (put_mailboxes (t_mailboxes d @ [m]) d)"
  using assms by (auto simp: server_ok_def refs_ok_def certified_def)

lemma server_ok_new_message:
  assumes "server_ok d" "db_ok d'" "d' = d\<lparr>t_messages := t_messages d @ [m], t_attachments := t_attachments d @ as\<rparr>"
    "Msg_MailboxID m \<in> M_ID ` set (t_mailboxes d)" "\<And>a. a \<in> set as \<Longrightarrow> A_MessageID a = Msg_ID m"
  shows "server_ok d'"
  using assms by (auto simp: server_ok_def refs_ok_def certified_def)

text \<open>Columns other than keys: the last access of a mailbox, the read flag of a message.\<close>

lemma server_ok_mailbox_columns:
  assumes ok: "server_ok d" and k: "map M_ID ms = map M_ID (t_mailboxes d)"
    "map M_FullAddress ms = map M_FullAddress (t_mailboxes d)" "map M_DomainID ms = map M_DomainID (t_mailboxes d)"
  shows "server_ok (put_mailboxes ms d)"
proof -
  have "M_ID ` set ms = M_ID ` set (t_mailboxes d)" "M_DomainID ` set ms = M_DomainID ` set (t_mailboxes d)"
    using k(1,3) by (metis set_map)+
  with ok k show ?thesis by (simp add: server_ok_def db_ok_def refs_ok_def certified_def)
qed

lemma server_ok_message_columns:
  assumes ok: "server_ok d" and k: "map Msg_ID ms = map Msg_ID (t_messages d)" "map Msg_MailboxID ms = map Msg_MailboxID (t_messages d)"
  shows "server_ok (put_messages ms d)"
proof -
  have "Msg_ID ` set ms = Msg_ID ` set (t_messages d)" "Msg_MailboxID ` set ms = Msg_MailboxID ` set (t_messages d)"
    using k by (metis set_map)+
  with ok k show ?thesis by (simp add: server_ok_def db_ok_def refs_ok_def certified_def)
qed

section \<open>Deletions\<close>

lemma db_ok_purge:
  "db_ok d \<Longrightarrow> db_ok (purge_attachments PA d)" "db_ok d \<Longrightarrow> db_ok (purge_messages PM d)"
  "db_ok d \<Longrightarrow> db_ok (purge_mailboxes PB d)" "db_ok d \<Longrightarrow> db_ok (purge_domains PD d)"
  by (simp_all add: db_ok_def purge_attachments_def purge_messages_def purge_mailboxes_def purge_certs_def purge_domains_def
      Let_def distinct_map_filter)

lemma cascade_refs:
  "f ` Y \<subseteq> k ` X \<Longrightarrow> f ` {y \<in> Y. f y \<notin> k ` {x \<in> X. P x}} \<subseteq> k ` {x \<in> X. \<not> P x}"
  by (auto simp: subset_iff image_iff)

lemma filter_refs: "f ` Y \<subseteq> A \<Longrightarrow> f ` {y \<in> Y. P y} \<subseteq> A"
  by auto

lemmas purge_defs = purge_domains_def purge_certs_def purge_mailboxes_def purge_messages_def purge_attachments_def

lemma refs_ok_purge_messages: "refs_ok d \<Longrightarrow> refs_ok (purge_messages P d)"
  by (simp add: refs_ok_def purge_defs Let_def cascade_refs filter_refs)

lemma refs_ok_purge_mailboxes: "refs_ok d \<Longrightarrow> refs_ok (purge_mailboxes P d)"
  by (simp add: refs_ok_def purge_defs Let_def cascade_refs [where P = P] cascade_refs filter_refs
      cascade_refs [where k = Msg_ID and P = "\<lambda>m. Msg_MailboxID m \<in> A" for A, simplified])

lemma refs_ok_purge_domains: "refs_ok d \<Longrightarrow> refs_ok (purge_domains P d)"
  by (simp add: refs_ok_def purge_defs Let_def cascade_refs filter_refs
      cascade_refs [where k = Msg_ID and P = "\<lambda>m. Msg_MailboxID m \<in> A" for A, simplified]
      cascade_refs [where k = M_ID and P = "\<lambda>m. M_DomainID m \<in> A" for A, simplified])

lemma purge_parts [simp]:
  "t_domains (purge_messages PM d) = t_domains d" "t_certs (purge_messages PM d) = t_certs d"
  "t_domains (purge_mailboxes PB d) = t_domains d" "t_certs (purge_mailboxes PB d) = t_certs d"
  by (simp_all add: purge_messages_def purge_mailboxes_def purge_attachments_def Let_def)

lemma server_ok_purge:
  "server_ok d \<Longrightarrow> server_ok (purge_messages PM d)" "server_ok d \<Longrightarrow> server_ok (purge_mailboxes PB d)"
  by (simp_all add: server_ok_def db_ok_purge refs_ok_purge_messages refs_ok_purge_mailboxes certified_def)

lemma server_ok_purge_domains:
  assumes ok: "server_ok d"
  shows "server_ok (purge_domains (\<lambda>x. D_ID x = i) d)"
proof -
  have "certified (purge_domains (\<lambda>x. D_ID x = i) d)"
    using server_okD(3) [OF ok] by (auto simp: certified_def purge_domains_def purge_certs_def Let_def image_iff)
  with ok show ?thesis by (simp add: server_ok_def db_ok_purge refs_ok_purge_domains)
qed

end
