(* ===== verification/Lifecycle.thy ===== *)
theory Lifecycle
  imports DomainHandlers ServerState
begin

text \<open>
  The life cycle of a domain as an abstract transition system, one transition per kind of request, and
  the proof that the handlers of \<open>DomainHandlers\<close> refine it: whatever a request does, and wherever
  it stops, every row moves along one transition of the specification and the database invariant is kept.
  The proofs use Hoare triples whose assertions speak about the database.
\<close>

section \<open>Specification\<close>

type_synonym setup_state = "DomainStatus \<times> bool"

text \<open>\<open>Administer\<close> covers creating, reading, renaming, switching and deleting domains.\<close>

datatype action =
    Administer
  | CheckDNS
  | Generate
  | RequestChallenge
  | CheckChallenge
  | PollChallenge
  | SubmitChallenge
  | RetrySetup

definition checkable :: "setup_state \<Rightarrow> bool" where
  "checkable p \<longleftrightarrow> fst p \<in> {RawStatus [], StatusPendingDNS, StatusFailed} \<or> (snd p \<and> fst p \<noteq> StatusActive)"

fun retry_targets :: "DomainStatus \<Rightarrow> DomainStatus set" where
  "retry_targets StatusFailed = {StatusPendingDNS, StatusDNSVerified, StatusPendingACMEChallenge}"
| "retry_targets StatusPendingACMEChallenge = {StatusDNSVerified}"
| "retry_targets StatusPendingCertificate = {StatusDNSVerified}"
| "retry_targets (RawStatus s) = (if s = [] then {StatusPendingDNS} else {})"
| "retry_targets _ = {}"

inductive lifecycle :: "action \<Rightarrow> setup_state \<Rightarrow> setup_state \<Rightarrow> bool" where
  unchanged: "lifecycle a p p"
| switched: "lifecycle Administer (s, b) (s, b')"
| dns_checked: "checkable (s, b) \<Longrightarrow> s' \<in> {StatusPendingDNS, StatusDNSVerified} \<Longrightarrow> lifecycle CheckDNS (s, b) (s', b)"
| requested: "lifecycle RequestChallenge (StatusDNSVerified, b) (StatusPendingACMEChallenge, b)"
| challenge_checked: "s' \<in> {StatusACMEChallengeReady, StatusDNSVerified, StatusPendingACMEChallenge} \<Longrightarrow>
    lifecycle CheckChallenge (s, b) (s', b)"
| polled: "lifecycle PollChallenge (StatusPendingACMEChallenge, b) (StatusDNSVerified, b)"
| submitted: "s' \<in> {StatusPendingCertificate, StatusFailed, StatusCertificateIssued} \<Longrightarrow>
    lifecycle SubmitChallenge (StatusACMEChallengeReady, b) (s', b)"
| activated: "lifecycle SubmitChallenge (StatusACMEChallengeReady, b) (StatusActive, True)"
| reset: "s' \<in> retry_targets s \<Longrightarrow> lifecycle RetrySetup (s, b) (s', b)"

inductive_cases lifecycle_cases: "lifecycle a p q"

definition setup_of :: "Domain \<Rightarrow> setup_state" where
  "setup_of x = (D_Status x, D_IsActive x)"

section \<open>Hoare triples on the database\<close>

named_theorems vcg

definition hoare :: "(db \<Rightarrow> bool) \<Rightarrow> (('a, 'c) world \<Rightarrow> 'r \<times> ('a, 'c) world) \<Rightarrow> ('r \<Rightarrow> db \<Rightarrow> bool) \<Rightarrow> bool" where
  "hoare P m Q \<longleftrightarrow> (\<forall>w r w'. P (w_db w) \<longrightarrow> m w = (r, w') \<longrightarrow> Q r (w_db w'))"

lemma hoareI: "(\<And>w r w'. P (w_db w) \<Longrightarrow> m w = (r, w') \<Longrightarrow> Q r (w_db w')) \<Longrightarrow> hoare P m Q"
  by (simp add: hoare_def)

lemma hoareD: "hoare P m Q \<Longrightarrow> P (w_db w) \<Longrightarrow> m w = (r, w') \<Longrightarrow> Q r (w_db w')"
  by (simp add: hoare_def)

lemma hoare_conseq:
  "hoare P m Q \<Longrightarrow> (\<And>d. P' d \<Longrightarrow> P d) \<Longrightarrow> (\<And>r d. Q r d \<Longrightarrow> Q' r d) \<Longrightarrow> hoare P' m Q'"
  unfolding hoare_def by blast

lemma hoare_pre: "hoare P m Q \<Longrightarrow> (\<And>d. P' d \<Longrightarrow> P d) \<Longrightarrow> hoare P' m Q"
  unfolding hoare_def by blast

lemma hoare_post: "hoare P m Q \<Longrightarrow> (\<And>r d. Q r d \<Longrightarrow> Q' r d) \<Longrightarrow> hoare P m Q'"
  unfolding hoare_def by blast

lemma hoare_pure: "(F \<Longrightarrow> hoare P m Q) \<Longrightarrow> hoare (\<lambda>d. P d \<and> F) m Q"
  unfolding hoare_def by blast

lemma hoare_attempt:
  assumes "hoare P m R" "\<And>e. hoare (R (Inl e)) (h e) Q" "\<And>x. hoare (R (Inr x)) (k x) Q"
  shows "hoare P (attempt m h k) Q"
  by (rule hoareI) (erule attemptE; blast dest: hoareD [OF assms(1)] hoareD [OF assms(2)] hoareD [OF assms(3)])

lemma hoare_if [vcg]: "(c \<Longrightarrow> hoare P m Q) \<Longrightarrow> (\<not> c \<Longrightarrow> hoare P n Q) \<Longrightarrow> hoare P (if c then m else n) Q"
  "(c \<Longrightarrow> hoare P m Q) \<Longrightarrow> (\<not> c \<Longrightarrow> hoare P n Q) \<Longrightarrow> hoare P (\<lambda>w. if c then m w else n w) Q"
  by (cases c; simp)+

lemma hoare_status_case [vcg]:
  assumes "st = StatusPendingDNS \<Longrightarrow> hoare P m1 Q" "st = StatusDNSVerified \<Longrightarrow> hoare P m2 Q"
    "st = StatusPendingACMEChallenge \<Longrightarrow> hoare P m3 Q" "st = StatusACMEChallengeReady \<Longrightarrow> hoare P m4 Q"
    "st = StatusPendingCertificate \<Longrightarrow> hoare P m5 Q" "st = StatusCertificateIssued \<Longrightarrow> hoare P m6 Q"
    "st = StatusActive \<Longrightarrow> hoare P m7 Q" "st = StatusFailed \<Longrightarrow> hoare P m8 Q" "\<And>s. st = RawStatus s \<Longrightarrow> hoare P (m9 s) Q"
  shows "hoare P (case st of StatusPendingDNS \<Rightarrow> m1 | StatusDNSVerified \<Rightarrow> m2 | StatusPendingACMEChallenge \<Rightarrow> m3
    | StatusACMEChallengeReady \<Rightarrow> m4 | StatusPendingCertificate \<Rightarrow> m5 | StatusCertificateIssued \<Rightarrow> m6 | StatusActive \<Rightarrow> m7
    | StatusFailed \<Rightarrow> m8 | RawStatus s \<Rightarrow> m9 s) Q"
  using assms by (cases st) simp_all

lemma hoare_case [vcg]:
  "(opt = None \<Longrightarrow> hoare P m Q) \<Longrightarrow> (\<And>x. opt = Some x \<Longrightarrow> hoare P (k x) Q) \<Longrightarrow>
   hoare P (case opt of None \<Rightarrow> m | Some x \<Rightarrow> k x) Q"
  "(\<And>e. res = Inl e \<Longrightarrow> hoare P (h e) Q) \<Longrightarrow> (\<And>x. res = Inr x \<Longrightarrow> hoare P (k x) Q) \<Longrightarrow>
   hoare P (case res of Inl e \<Rightarrow> h e | Inr x \<Rightarrow> k x) Q"
  "(\<And>x y. p = (x, y) \<Longrightarrow> hoare P (f x y) Q) \<Longrightarrow> hoare P (case p of (x, y) \<Rightarrow> f x y) Q"
  by (auto split: option.splits sum.splits prod.splits)

lemma hoare_return:
  assumes "\<And>d. P d \<Longrightarrow> Q r d" shows "hoare P (answer r) Q"
  using assms by (auto simp: hoare_def answer_def)

lemma hoare_ret [vcg]: "(\<And>d. P d \<Longrightarrow> Q (Inr x) d) \<Longrightarrow> hoare P (ret x) Q" "(\<And>d. P d \<Longrightarrow> Q (Inl e) d) \<Longrightarrow> hoare P (fail e) Q"
  by (auto simp: hoare_def)

lemma hoare_moved: "hoare P k Q \<Longrightarrow> P (w_db w) \<Longrightarrow> k w1 = (r, w') \<Longrightarrow> w_db w1 = w_db w \<Longrightarrow> Q r (w_db w')"
  using hoareD [of P k Q w1 r w'] by simp

lemma hoare_logged [vcg]: "hoare P k Q \<Longrightarrow> hoare P (logged ev k) Q"
  by (rule hoareI) (auto simp: logged_def elim: hoare_moved)

lemma hoare_exec: "hoare P m (\<lambda>_. R) \<Longrightarrow> hoare R k Q \<Longrightarrow> hoare P (exec m k) Q"
  unfolding hoare_def exec_def by (metis prod.collapse)

lemma hoare_outside: "hoare P (on_acme f) (\<lambda>_. P)" "hoare P (save_certificate M n b) (\<lambda>_. P)"
  by (auto simp: hoare_def on_acme_eq save_certificate_def time_Now_def on_os_eq)

lemma hoare_now [vcg]:
  assumes "\<And>now. hoare P (k now) Q"
  shows "hoare P (\<lambda>w. case time_Now w of (now, w1) \<Rightarrow> k now w1) Q"
  by (rule hoareI) (auto simp: time_Now_def elim: hoare_moved [OF assms])

lemma hoare_expired [vcg]:
  assumes "\<And>late. hoare P (k late) Q"
  shows "hoare P (\<lambda>w. case expired t w of (late, w1) \<Rightarrow> k late w1) Q"
  by (rule hoareI) (auto simp: expired_def time_Now_def split: option.splits elim: hoare_moved [OF assms])

lemma hoare_read: "hoare P (read_db f) (\<lambda>r d. P d \<and> f d = r)"
  by (simp add: hoare_def)

lemma hoare_on_db: "(\<And>d r d'. P d \<Longrightarrow> f d = (r, d') \<Longrightarrow> Q r d') \<Longrightarrow> hoare P (on_db f) Q"
  by (auto simp: hoare_def on_db_eq)

lemma hoare_attempt_read:
  "(\<And>e. hoare P (h e) Q) \<Longrightarrow> (\<And>x. hoare P (k x) Q) \<Longrightarrow> hoare P (attempt (read_db f) h k) Q"
  by (rule hoare_attempt [OF hoare_conseq [OF hoare_read, where Q' = "\<lambda>_. P"]]) auto

section \<open>Following one row\<close>

text \<open>
  \<open>follows d0 i S b c d\<close>: \<open>d\<close> satisfies the invariant, agrees with \<open>d0\<close> on all rows but \<open>i\<close>, whose status
  is one of \<open>S\<close> and whose activity is \<open>b\<close>; if \<open>c\<close>, the domain has a certificate row.
\<close>

definition follows :: "db \<Rightarrow> uint \<Rightarrow> DomainStatus set \<Rightarrow> bool \<Rightarrow> bool \<Rightarrow> db \<Rightarrow> bool" where
  "follows d0 i S b c d \<longleftrightarrow> server_ok d \<and> (\<forall>j. j \<noteq> i \<longrightarrow> domain_row d j = domain_row d0 j)
     \<and> (\<exists>y. domain_row d i = Some y \<and> D_Status y \<in> S \<and> D_IsActive y = b)
     \<and> (c \<longrightarrow> i \<in> C_DomainID ` set (t_certs d))"

lemma follows_start:
  "server_ok d \<Longrightarrow> domain_row d i = Some x \<Longrightarrow> follows d i {D_Status x} (D_IsActive x) False d"
  by (simp add: follows_def)

lemma follows_mono: "follows d0 i S b c d \<Longrightarrow> S \<subseteq> T \<Longrightarrow> (c' \<longrightarrow> c) \<Longrightarrow> follows d0 i T b c' d"
  by (auto simp: follows_def)

lemma domain_rowD: "domain_row d i = Some x \<Longrightarrow> x \<in> set (t_domains d) \<and> D_ID x = i"
  by (auto simp: domain_row_def find_Some_iff)

context domain_repo
begin

lemma hoare_get:
  "hoare (follows d0 i S b c) (read_db (dr_GetByID R i))
     (\<lambda>r d. case r of Inl e \<Rightarrow> follows d0 i S b c d
        | Inr x \<Rightarrow> follows d0 i {D_Status x} b (c \<or> has_certificate_status x) d \<and> D_ID x = i \<and> D_Status x \<in> S \<and> D_IsActive x = b)"
proof (rule hoare_post [OF hoare_read])
  fix r d assume f: "follows d0 i S b c d \<and> dr_GetByID R i d = r"
  show "case r of Inl e \<Rightarrow> follows d0 i S b c d
        | Inr x \<Rightarrow> follows d0 i {D_Status x} b (c \<or> has_certificate_status x) d \<and> D_ID x = i \<and> D_Status x \<in> S \<and> D_IsActive x = b"
  proof (cases r)
    case (Inr x)
    with f have g: "dr_GetByID R i d = Inr x" by simp
    from Get_row [OF g] GetByID_found [OF g] f Inr show ?thesis
      by (auto simp: follows_def server_ok_def certified_def)
  qed (use f in simp)
qed

lemma hoare_update:
  assumes id: "D_ID x = i" "D_Status x \<in> T" and cs: "has_certificate_status x \<Longrightarrow> c"
  shows "hoare (follows d0 i S b c) (on_db (dr_Update R x))
     (\<lambda>r d. case r of Inl e \<Rightarrow> follows d0 i S b c d | Inr y \<Rightarrow> follows d0 i T (D_IsActive x) c d \<and> saved_Domain x y)"
proof (rule hoare_on_db)
  fix d r d' assume f: "follows d0 i S b c d" and u: "dr_Update R x d = (r, d')"
  show "case r of Inl e \<Rightarrow> follows d0 i S b c d' | Inr y \<Rightarrow> follows d0 i T (D_IsActive x) c d' \<and> saved_Domain x y"
  proof (cases r)
    case (Inl e)
    with Update_err u have "d' = d" by blast
    with f Inl show ?thesis by simp
  next
    case (Inr y)
    note u = u [unfolded Inr]
    from f obtain z where z: "z \<in> set (t_domains d)" "D_ID z = D_ID x" using id by (auto simp: follows_def dest: domain_rowD)
    note up = Update_ok [OF u z] and k = Update_keys [OF u]
    have y: "D_ID y = i" "D_Status y = D_Status x" "D_IsActive y = D_IsActive x" using saved_Domain_fields [of x y] up id by simp_all
    have ok: "server_ok d'"
      by (rule server_ok_domain_row [of d d' i y]) (use f up k y id cs in \<open>auto simp: follows_def server_ok_def has_certificate_status_def\<close>)
    have "domain_row d' i = Some y" "\<And>j. j \<noteq> i \<Longrightarrow> domain_row d' j = domain_row d j"
      using up id y z unfolding domain_row_def by (auto intro: find_map_key simp: find_map_other [of D_ID y i])
    with ok f up y id Inr show ?thesis by (auto simp: follows_def)
  qed
qed

lemma hoare_attempt_get [vcg]:
  assumes "\<And>e. hoare (follows d0 i S b c) (h e) Q"
    and "\<And>x. D_ID x = i \<Longrightarrow> D_Status x \<in> S \<Longrightarrow> D_IsActive x = b \<Longrightarrow>
      hoare (follows d0 i {D_Status x} b (c \<or> has_certificate_status x)) (k x) Q"
  shows "hoare (follows d0 i S b c) (attempt (read_db (dr_GetByID R i)) h k) Q"
  by (rule hoare_attempt [OF hoare_get]) (simp_all add: assms hoare_pure)

lemma hoare_attempt_update [vcg]:
  assumes "D_ID x = i" "has_certificate_status x \<Longrightarrow> c" "\<And>e. hoare (follows d0 i S b c) (h e) Q"
    and "\<And>y. D_ID y = D_ID x \<Longrightarrow> D_Status y = D_Status x \<Longrightarrow> D_IsActive y = D_IsActive x \<Longrightarrow>
      hoare (follows d0 i {D_Status x} (D_IsActive x) c) (k y) Q"
  shows "hoare (follows d0 i S b c) (attempt (on_db (dr_Update R x)) h k) Q"
proof -
  have "hoare (follows d0 i {D_Status x} (D_IsActive x) c) (k y) Q" if "saved_Domain x y" for y
    using assms(4) saved_Domain_fields [OF that] by simp
  then show ?thesis
    by (intro hoare_attempt [OF hoare_update [OF assms(1) insertI1 [of _ "{}"] assms(2)]]) (simp_all add: assms(3) hoare_pure)
qed

lemma hoare_exec_update [vcg]:
  assumes "D_ID x = i" "has_certificate_status x \<Longrightarrow> c" "D_IsActive x = b" "hoare (follows d0 i (insert (D_Status x) S) b c) k Q"
  shows "hoare (follows d0 i S b c) (exec (on_db (dr_Update R x)) k) Q"
proof (rule hoare_exec [OF hoare_post [OF hoare_update [OF assms(1) insertI1 assms(2)]] assms(4)])
  fix r d
  assume "case r of Inl e \<Rightarrow> follows d0 i S b c d | Inr y \<Rightarrow> follows d0 i {D_Status x} (D_IsActive x) c d \<and> saved_Domain x y"
  then show "follows d0 i (insert (D_Status x) S) b c d"
    using assms(3) by (cases r) (auto elim: follows_mono)
qed

end

lemma hoare_attempt_outside [vcg]:
  "(\<And>e. hoare P (h e) Q) \<Longrightarrow> (\<And>x. hoare P (k x) Q) \<Longrightarrow> hoare P (attempt (on_acme f) h k) Q"
  "(\<And>e. hoare P (h e) Q) \<Longrightarrow> (\<And>x. hoare P (k' x) Q) \<Longrightarrow> hoare P (attempt (save_certificate M n bundle) h k') Q"
  by (rule hoare_attempt [OF hoare_outside(1)]; simp) (rule hoare_attempt [OF hoare_outside(2)]; simp)

section \<open>The certificate manager\<close>

context cert_manager
begin

lemma hoare_Request:
  "hoare (follows d0 i S b c) (RequestACMEChallenge M i)
     (\<lambda>_. follows d0 i (if StatusDNSVerified \<in> S then insert StatusPendingACMEChallenge S else S) b c)"
  unfolding RequestACMEChallenge_def Let_def
  by (intro vcg) (auto simp: has_certificate_status_def elim!: follows_mono)

lemma hoare_attempt_Request [vcg]:
  assumes "\<And>r. hoare (follows d0 i (insert StatusPendingACMEChallenge S) b c) (h r) Q"
    "\<And>r. hoare (follows d0 i (insert StatusPendingACMEChallenge S) b c) (k r) Q"
  shows "hoare (follows d0 i S b c) (attempt (RequestACMEChallenge M i) h k) Q"
proof -
  have "hoare (follows d0 i S b c) (RequestACMEChallenge M i) (\<lambda>_. follows d0 i (insert StatusPendingACMEChallenge S) b c)"
    by (rule hoare_post [OF hoare_Request]) (auto split: if_splits elim: follows_mono)
  from hoare_attempt [OF this assms] show ?thesis .
qed

lemma hoare_Verify:
  "hoare (follows d0 i S b c) (VerifyACMEDNS M i)
     (\<lambda>_. follows d0 i (S \<union> {StatusDNSVerified, StatusPendingACMEChallenge, StatusACMEChallengeReady}) b c)"
  unfolding VerifyACMEDNS_def Let_def
  by (intro vcg) (auto simp: has_certificate_status_def elim!: follows_mono)

lemma hoare_Clear: "hoare (follows d0 i S b c) (ClearACMEChallenge M i) (\<lambda>_. follows d0 i S b c)"
  unfolding ClearACMEChallenge_def by (intro vcg) (auto simp: has_certificate_status_def elim!: follows_mono)

lemma hoare_Status:
  "hoare (follows d0 i S b c) (GetACMEStatus M i)
     (\<lambda>_. follows d0 i (if StatusPendingACMEChallenge \<in> S then insert StatusDNSVerified S else S) b c)"
  unfolding GetACMEStatus_def Let_def
  by (intro vcg) (auto simp: has_certificate_status_def elim!: follows_mono)

lemma cert_row_updated:
  assumes u: "cr_Update (cm_certRepo M) (with_files sc e) d = (Inr c, d')" and e: "e \<in> set (t_certs d)" and ok: "server_ok d"
  shows "server_ok d' \<and> t_domains d' = t_domains d \<and> C_DomainID e \<in> C_DomainID ` set (t_certs d')"
proof -
  from Cert_Update_ok [OF u, of e] e have c: "saved_DomainCertificate (with_files sc e) c"
    "d' = put_certs (map (\<lambda>z. if C_ID z = C_ID e then c else z) (t_certs d)) d" by (simp_all add: with_files_def)
  from c(1) have id: "C_DomainID c = C_DomainID e" unfolding saved_DomainCertificate_def with_files_def by (cases c; simp)
  have "server_ok d'"
    by (rule server_ok_cert_row [OF ok Cert_Update_keys [OF u] _ _ _ c(2)]) (use e id ok in \<open>auto simp: server_ok_def\<close>)
  moreover have "c \<in> set (t_certs d')" using e unfolding c(2) by auto
  then have "C_DomainID e \<in> C_DomainID ` set (t_certs d')" by (rule rev_image_eqI) (use id in simp)
  moreover have "t_domains d' = t_domains d" unfolding c(2) by simp
  ultimately show ?thesis by blast
qed

lemma record_row:
  assumes "record_certificate M failed x sc w = (r, w')" "server_ok (w_db w)" "D_ID x \<in> D_ID ` set (t_domains (w_db w))"
  shows "w_db w' = w_db w \<and> \<not> is_ok r
    \<or> server_ok (w_db w') \<and> t_domains (w_db w') = t_domains (w_db w) \<and> D_ID x \<in> C_DomainID ` set (t_certs (w_db w'))"
proof (cases "cr_GetByDomainID (cm_certRepo M) (D_ID x) (w_db w)")
  case (Inr e)
  note e = GetByDomainID_found [OF Inr]
  obtain u d' where u: "cr_Update (cm_certRepo M) (with_files sc e) (w_db w) = (u, d')" by fastforce
  have w': "w_db w' = d' \<and> (is_ok r \<longleftrightarrow> is_ok u)"
    using assms(1) Inr u by (cases u) (auto simp: record_certificate_def Let_def attempt_def on_db_def logged_def ret_def)
  show ?thesis
  proof (cases u)
    case (Inl er)
    with u Cert_Update_err w' show ?thesis by fastforce
  next
    case (Inr c)
    with cert_row_updated [of sc e "w_db w" c d'] u e w' assms(2) show ?thesis by simp
  qed
next
  case (Inl er)
  show ?thesis
  proof (cases "errors_Is er RepoErrNotFound")
    case False
    with assms(1) Inl show ?thesis by (auto simp: record_certificate_def Let_def)
  next
    case True
    obtain u d' where u: "cr_Create (cm_certRepo M) (new_certificate_row x sc) (w_db w) = (u, d')" by fastforce
    have w': "w_db w' = d' \<and> (is_ok r \<longleftrightarrow> is_ok u)"
      using assms(1) Inl True u by (cases u) (auto simp: record_certificate_def Let_def attempt_def on_db_def logged_def ret_def)
    show ?thesis
    proof (cases u)
      case (Inl er')
      with u Cert_Create_err w' show ?thesis by fastforce
    next
      case (Inr c)
      note u = u [unfolded Inr]
      from Cert_Create_ok [OF u] have c: "created_DomainCertificate (new_certificate_row x sc) c" "d' = put_certs (t_certs (w_db w) @ [c]) (w_db w)"
        by simp_all
      from c(1) have id: "C_DomainID c = D_ID x"
        unfolding created_DomainCertificate_def new_certificate_row_def by (cases c; simp)
      have "server_ok d'" unfolding c(2)
        by (rule server_ok_new_cert) (use assms(2,3) id Cert_Create_keys [OF u] c(2) in \<open>auto simp: server_ok_def\<close>)
      with w' c(2) id show ?thesis by auto
    qed
  qed
qed

lemma hoare_attempt_record [vcg]:
  assumes "D_ID x = i" "\<And>e. hoare (follows d0 i S b c) (h e) Q" "\<And>row. hoare (follows d0 i S b True) (k row) Q"
  shows "hoare (follows d0 i S b c) (attempt (record_certificate M failed x sc) h k) Q"
proof (rule hoare_attempt)
  show "hoare (follows d0 i S b c) (record_certificate M failed x sc)
    (\<lambda>r. if is_ok r then follows d0 i S b True else follows d0 i S b c)"
  proof (rule hoareI)
    fix w r w' assume f: "follows d0 i S b c (w_db w)" and r: "record_certificate M failed x sc w = (r, w')"
    obtain y where "domain_row (w_db w) i = Some y" using f by (auto simp: follows_def)
    from domain_rowD [OF this] assms(1) have "D_ID x \<in> D_ID ` set (t_domains (w_db w))" by (auto intro: rev_image_eqI)
    from record_row [OF r _ this] f assms(1)
    show "(if is_ok r then follows d0 i S b True else follows d0 i S b c) (w_db w')"
      by (auto simp: follows_def domain_row_def)
  qed
qed (simp_all add: assms)

lemma hoare_Renew: "hoare server_ok (RenewCertificate M i) (\<lambda>_. server_ok)"
  unfolding RenewCertificate_def Let_def
proof (rule hoare_attempt [OF hoare_read], goal_cases)
  case (1 er)
  show ?case by (intro vcg) auto
next
  case (2 e)
  have u: "hoare (\<lambda>d. server_ok d \<and> e \<in> set (t_certs d)) (on_db (cr_Update (cm_certRepo M) (with_files sc e))) (\<lambda>_. server_ok)" for sc
  proof (rule hoare_on_db)
    fix d r d' assume "server_ok d \<and> e \<in> set (t_certs d)" "cr_Update (cm_certRepo M) (with_files sc e) d = (r, d')"
    then show "server_ok d'" using cert_row_updated [of sc e d _ d'] Cert_Update_err [of "with_files sc e" d _ d'] by (cases r) auto
  qed
  have t: "hoare server_ok (\<lambda>w. ret x (triggerHotReload M n w)) (\<lambda>_. server_ok)" for x :: Certificate and n
    by (simp add: hoare_def)
  show ?case
    by (rule hoare_pre [where P = "\<lambda>d. server_ok d \<and> e \<in> set (t_certs d)"], (intro vcg hoare_attempt_read hoare_attempt [OF u] t; auto))
      (auto dest: GetByDomainID_found)
qed

lemma hoare_exec_Clear [vcg]:
  "hoare (follows d0 i S b c) k Q \<Longrightarrow> hoare (follows d0 i S b c) (exec (ClearACMEChallenge M i) k) Q"
  by (rule hoare_exec [OF hoare_Clear])

lemma hoare_reload: "hoare P (\<lambda>w. logged ev (ret x) (triggerHotReload M n w)) (\<lambda>_. P)"
  by (auto simp: hoare_def logged_def)

lemma hoare_Submit:
  "hoare (follows d0 i S b c) (SubmitACMEChallenge M i) (\<lambda>r. follows d0 i (if StatusACMEChallengeReady \<in> S
      then S \<union> {StatusPendingCertificate, StatusFailed, StatusCertificateIssued} else S) b c)"
  unfolding SubmitACMEChallenge_def Let_def
  by (intro vcg hoare_post [OF hoare_reload]) (auto simp: has_certificate_status_def elim!: follows_mono)

lemmas hoare_attempt_Verify [vcg] = hoare_attempt [OF hoare_Verify]
lemmas hoare_attempt_Status [vcg] = hoare_attempt [OF hoare_Status]
lemmas hoare_attempt_Submit [vcg] = hoare_attempt [OF hoare_Submit]

end

lemma hoare_attempt_Generate [vcg]:
  assumes "D_Status x \<noteq> StatusACMEChallengeReady" "\<And>e. hoare P (h e) Q"
  shows "hoare P (attempt (GenerateCertificate M (Some x)) h k) Q"
proof (rule hoareI, erule attemptE)
  have n: "\<not> ready x" using assms(1) by (simp add: ready_def)
  fix w r w'
  { fix e w1 assume p: "P (w_db w)" and g: "GenerateCertificate M (Some x) w = (Inl e, w1)" and h: "h e w1 = (r, w')"
    from GenerateCertificate_refuses [of x w M] n g have "w_db w1 = w_db w" by simp
    with hoare_moved [OF assms(2) p h] show "Q r (w_db w')" . }
  { fix y w1 assume "GenerateCertificate M (Some x) w = (Inr y, w1)"
    with GenerateCertificate_refuses [of x w M] n show "Q r (w_db w')" by simp }
qed

section \<open>The domain manager\<close>

context domain_repo
begin

lemma on_db_UpdateStatus:
  "DomainStatus_IsValid st \<Longrightarrow> on_db (UpdateStatus R i st msg) =
     attempt (read_db (dr_GetByID R i)) (\<lambda>err. fail (Wrapf ''failed to get domain'' err)) (\<lambda>x.
     attempt (on_db (dr_Update R (x\<lparr>D_Status := st, D_ErrorMessage := (if st \<noteq> StatusFailed then [] else msg)\<rparr>)))
       (\<lambda>err. fail (Wrapf ''failed to update domain status'' err)) (\<lambda>_. ret ()))"
  by (rule ext) (auto simp: UpdateStatus_def Let_def attempt_def on_db_def read_db_def fail_def ret_def split: sum.splits prod.splits)

lemma on_db_ActivateDomain:
  "on_db (ActivateDomain R i) =
     attempt (read_db (dr_GetByID R i)) (\<lambda>err. fail (Wrapf ''failed to get domain'' err)) (\<lambda>x.
     if D_Status x \<noteq> StatusCertificateIssued
     then fail (Opaque (''domain must be in certificate_issued status to activate, current status: '' @ DomainStatus_String (D_Status x)))
     else attempt (on_db (dr_Update R (x\<lparr>D_Status := StatusActive, D_IsActive := True, D_ErrorMessage := []\<rparr>)))
       (\<lambda>err. fail (Wrapf ''failed to activate domain'' err)) (\<lambda>_. ret ()))"
  by (rule ext) (auto simp: ActivateDomain_def attempt_def on_db_def read_db_def fail_def ret_def split: sum.splits prod.splits)

lemma on_db_Legacy:
  "on_db (GenerateChallengeForLegacyDomain R rnd i) =
     attempt (read_db (dr_GetByID R i)) (\<lambda>err. fail (Wrapf ''failed to get domain'' err)) (\<lambda>x.
     if D_DNSChallenge x \<noteq> [] then ret ()
     else case generateChallengeToken rnd of
       Inl err \<Rightarrow> fail (Wrapf ''failed to generate challenge token'' err)
     | Inr t \<Rightarrow> attempt (on_db (dr_Update R (x\<lparr>D_DNSChallenge := t, D_Status := StatusPendingDNS\<rparr>)))
         (\<lambda>err. fail (Wrapf ''failed to update domain with challenge token'' err)) (\<lambda>_. ret ()))"
  by (rule ext) (auto simp: GenerateChallengeForLegacyDomain_def attempt_def on_db_def read_db_def fail_def ret_def
      split: sum.splits prod.splits)

lemma hoare_attempt_UpdateStatus [vcg]:
  assumes "DomainStatus_IsValid st" "st \<notin> {StatusCertificateIssued, StatusActive}"
    "\<And>e. hoare (follows d0 i S b c) (h e) Q" "\<And>u. hoare (follows d0 i {st} b c) (k u) Q"
  shows "hoare (follows d0 i S b c) (attempt (on_db (UpdateStatus R i st msg)) h k) Q"
proof (rule hoare_attempt)
  show "hoare (follows d0 i S b c) (on_db (UpdateStatus R i st msg)) (\<lambda>r. if is_ok r then follows d0 i {st} b c else follows d0 i S b c)"
    unfolding on_db_UpdateStatus [OF assms(1)] using assms(2)
    by (intro vcg) (auto simp: has_certificate_status_def elim!: follows_mono)
qed (simp_all add: assms)

lemma hoare_attempt_Activate [vcg]:
  assumes "\<And>e. hoare (follows d0 i S b c) (h e) Q" "\<And>u. hoare (follows d0 i {StatusActive} True c) (k u) Q"
  shows "hoare (follows d0 i S b c) (attempt (on_db (ActivateDomain R i)) h k) Q"
proof (rule hoare_attempt)
  show "hoare (follows d0 i S b c) (on_db (ActivateDomain R i)) (\<lambda>r. if is_ok r then follows d0 i {StatusActive} True c else follows d0 i S b c)"
    unfolding on_db_ActivateDomain by (intro vcg) (auto simp: has_certificate_status_def elim!: follows_mono)
qed (simp_all add: assms)

lemma hoare_attempt_Legacy [vcg]:
  assumes "\<And>e. hoare (follows d0 i S b c) (h e) Q" "\<And>u. hoare (follows d0 i (insert StatusPendingDNS S) b c) (k u) Q"
  shows "hoare (follows d0 i S b c) (attempt (on_db (GenerateChallengeForLegacyDomain R rnd i)) h k) Q"
proof (rule hoare_attempt)
  have "hoare (follows d0 i S b c) (on_db (GenerateChallengeForLegacyDomain R rnd i))
    (\<lambda>r. if is_ok r then follows d0 i (insert StatusPendingDNS S) b c else follows d0 i S b c)"
    unfolding on_db_Legacy by (intro vcg) (auto simp: has_certificate_status_def elim!: follows_mono)
  then show "hoare (follows d0 i S b c) (on_db (GenerateChallengeForLegacyDomain R rnd i))
    (\<lambda>r. if is_ok r then follows d0 i (insert StatusPendingDNS S) b c else follows d0 i S b c)" .
qed (simp_all add: assms)

end

section \<open>The handlers refine the specification\<close>

definition refines :: "action \<Rightarrow> db \<Rightarrow> db \<Rightarrow> bool" where
  "refines a d0 d \<longleftrightarrow> server_ok d \<and> (\<forall>j x y. domain_row d0 j = Some x \<longrightarrow> domain_row d j = Some y \<longrightarrow> lifecycle a (setup_of x) (setup_of y))"

lemma find_filter_other: "(\<And>x. Q x \<Longrightarrow> P x) \<Longrightarrow> find Q (filter P xs) = find Q xs"
  by (induction xs) auto

lemma refines_refl: "server_ok d \<Longrightarrow> refines a d d"
  by (auto simp: refines_def intro: unchanged)

lemma follows_refines:
  assumes "follows d0 i S b c d" "domain_row d0 i = Some x" "\<And>s. s \<in> S \<Longrightarrow> lifecycle a (setup_of x) (s, b)"
  shows "refines a d0 d"
proof -
  have "lifecycle a (setup_of x') (setup_of y)" if "domain_row d0 j = Some x'" "domain_row d j = Some y" for j x' y
    using assms that by (cases "j = i") (auto simp: follows_def setup_of_def intro: unchanged)
  then show ?thesis using assms(1) by (auto simp: refines_def follows_def)
qed

lemma hoare_answer [vcg]:
  "domain_row d0 i = Some x \<Longrightarrow> (\<And>s. s \<in> S \<Longrightarrow> lifecycle a (setup_of x) (s, b)) \<Longrightarrow>
   hoare (follows d0 i S b c) (answer r) (\<lambda>_. refines a d0)"
  by (rule hoare_return) (rule follows_refines)

lemma hoare_observe [vcg]:
  assumes "domain_row d0 i = Some x" "\<And>s. s \<in> S \<Longrightarrow> lifecycle a (setup_of x) (s, b)"
  shows "hoare (follows d0 i S b c) (\<lambda>w. (r w, w)) (\<lambda>_. refines a d0)"
    "hoare (follows d0 i S b c) (\<lambda>w. answer (r' w) w) (\<lambda>_. refines a d0)"
  by (rule hoareI; auto simp: answer_def intro: follows_refines assms)+

lemma hoare_case_world: "hoare P m Q \<Longrightarrow> (\<And>x. hoare P (k x) Q) \<Longrightarrow> hoare P (\<lambda>w. case g w of None \<Rightarrow> m w | Some x \<Rightarrow> k x w) Q"
  unfolding hoare_def by (auto split: option.splits)

definition fresh :: "db \<Rightarrow> db \<Rightarrow> bool" where
  "fresh d0 d \<longleftrightarrow> d = d0 \<and> server_ok d0"

lemma hoare_fresh [vcg]: "hoare (fresh d0) (answer r) (\<lambda>_. refines a d0)"
  by (rule hoare_return) (auto simp: fresh_def intro: refines_refl)

lemma hoare_path_id [vcg]: "(\<And>i. hoare (fresh d0) (k i) (\<lambda>_. refines a d0)) \<Longrightarrow> hoare (fresh d0) (path_id s k) (\<lambda>_. refines a d0)"
  by (auto simp: path_id_def hoare_fresh split: option.splits)

locale domain_api = domain_repo "h_repo h" for h :: "('a, 'c) DomainHandler" +
  assumes manager_repo: "h_certManager h = Some M \<Longrightarrow> cert_manager M \<and> cm_domainRepo M = h_repo h"
    and domains_repo: "h_domainManager h = Some (repo, cfg) \<Longrightarrow> repo = h_repo h"
begin

lemma hoare_get_domain [vcg]:
  assumes "\<And>x. domain_row d0 i = Some x \<Longrightarrow> D_ID x = i \<Longrightarrow>
      hoare (follows d0 i {D_Status x} (D_IsActive x) (has_certificate_status x)) (k x) (\<lambda>_. refines a d0)"
  shows "hoare (fresh d0) (get_domain (h_repo h) i k) (\<lambda>_. refines a d0)"
  unfolding get_domain_def
proof (rule hoare_attempt [OF hoare_read], goal_cases)
  case (1 e)
  then show ?case by (rule hoare_return) (auto simp: fresh_def intro: refines_refl)
next
  case (2 x)
  show ?case
  proof (rule hoareI)
    fix w r w' assume p: "fresh d0 (w_db w) \<and> dr_GetByID (h_repo h) i (w_db w) = Inr x" and k: "k x w = (r, w')"
    then have d: "w_db w = d0" "server_ok d0" "dr_GetByID (h_repo h) i d0 = Inr x" by (auto simp: fresh_def)
    note x = Get_row [OF d(3) server_okD(1) [OF d(2)]] GetByID_found [OF d(3)]
    have "follows d0 i {D_Status x} (D_IsActive x) (has_certificate_status x) d0"
      using d(2) x by (auto simp: follows_def server_ok_def certified_def)
    with hoareD [OF assms, of x w r w'] x d(1) k show "refines a d0 (w_db w')" by simp
  qed
qed

lemma api_UpdateStatus [vcg]:
  "h_domainManager h = Some (repo, cfg) \<Longrightarrow> DomainStatus_IsValid st \<Longrightarrow> st \<notin> {StatusCertificateIssued, StatusActive} \<Longrightarrow>
   (\<And>e. hoare (follows d0 i S b c) (g e) Q) \<Longrightarrow> (\<And>u. hoare (follows d0 i {st} b c) (k u) Q) \<Longrightarrow>
   hoare (follows d0 i S b c) (attempt (on_db (UpdateStatus repo i st msg)) g k) Q"
  using hoare_attempt_UpdateStatus domains_repo by blast

lemma api_Activate [vcg]:
  "h_domainManager h = Some (repo, cfg) \<Longrightarrow>
   (\<And>e. hoare (follows d0 i S b c) (g e) Q) \<Longrightarrow> (\<And>u. hoare (follows d0 i {StatusActive} True c) (k u) Q) \<Longrightarrow>
   hoare (follows d0 i S b c) (attempt (on_db (ActivateDomain repo i)) g k) Q"
  using hoare_attempt_Activate domains_repo by blast

lemma api_Legacy [vcg]:
  "h_domainManager h = Some (repo, cfg) \<Longrightarrow>
   (\<And>e. hoare (follows d0 i S b c) (g e) Q) \<Longrightarrow> (\<And>u. hoare (follows d0 i (insert StatusPendingDNS S) b c) (k u) Q) \<Longrightarrow>
   hoare (follows d0 i S b c) (attempt (on_db (GenerateChallengeForLegacyDomain repo rnd i)) g k) Q"
  using hoare_attempt_Legacy domains_repo by blast

lemma manager_laws: "h_certManager h = Some M \<Longrightarrow> cert_manager M"
  using manager_repo by blast

lemmas api_manager [vcg] =
  cert_manager.hoare_attempt_Request [OF manager_laws] cert_manager.hoare_attempt_Verify [OF manager_laws]
  cert_manager.hoare_attempt_Status [OF manager_laws] cert_manager.hoare_attempt_Submit [OF manager_laws]

lemmas refine_simps = has_certificate_status_def setup_of_def checkable_def is_legacy_def

lemma refines_Update: "hoare (fresh d0) (domain_h_Update h s body) (\<lambda>_. refines Administer d0)"
  unfolding domain_h_Update_def Let_def
  by (intro vcg; assumption?) (auto simp: refine_simps intro: lifecycle.intros split: option.splits if_splits)

lemma refines_VerifyDNS: "hoare (fresh d0) (domain_h_VerifyDNS h rnd ctx net s) (\<lambda>_. refines CheckDNS d0)"
  unfolding domain_h_VerifyDNS_def Let_def
  by (intro vcg; assumption?) (auto simp: refine_simps intro: lifecycle.intros)

lemma refines_Request: "hoare (fresh d0) (domain_h_RequestACMEChallenge h s) (\<lambda>_. refines RequestChallenge d0)"
  unfolding domain_h_RequestACMEChallenge_def
  by (intro vcg; assumption?) (auto simp: refine_simps intro: lifecycle.intros)

lemma refines_VerifyACME: "hoare (fresh d0) (domain_h_VerifyACMEDNS h s) (\<lambda>_. refines CheckChallenge d0)"
  unfolding domain_h_VerifyACMEDNS_def
  by (intro vcg; assumption?) (auto simp: refine_simps intro: lifecycle.intros)

lemma refines_Status: "hoare (fresh d0) (domain_h_GetACMEStatus h s) (\<lambda>_. refines PollChallenge d0)"
  unfolding domain_h_GetACMEStatus_def
  by (intro vcg; assumption?) (auto simp: refine_simps intro: lifecycle.intros split: if_splits)

lemma refines_Generate: "hoare (fresh d0) (domain_h_GenerateCertificate h s) (\<lambda>_. refines Generate d0)"
  unfolding domain_h_GenerateCertificate_def Let_def
  by (intro vcg; assumption?) (auto simp: refine_simps intro: lifecycle.intros)

lemma retry_step_target: "retry_step resetTo x = Inr (st, msg) \<Longrightarrow>
    DomainStatus_IsValid st \<and> st \<notin> {StatusCertificateIssued, StatusActive} \<and> (st = D_Status x \<or> st \<in> retry_targets (D_Status x))"
  by (auto simp: retry_step_def split: DomainStatus.splits if_splits)

lemma refines_Retry: "hoare (fresh d0) (domain_h_Retry h s resetTo) (\<lambda>_. refines RetrySetup d0)"
  unfolding domain_h_Retry_def
  by (intro vcg; assumption?) (auto simp: refine_simps dest!: retry_step_target intro: lifecycle.intros)

lemma refines_submit_answers:
  assumes x: "domain_row d0 i = Some x" "D_Status x = StatusACMEChallengeReady" and M: "h_certManager h = Some M"
  shows "hoare (follows d0 i {StatusACMEChallengeReady} (D_IsActive x) c) (submit_answers h M i) (\<lambda>_. refines SubmitChallenge d0)"
proof -
  have l: "lifecycle SubmitChallenge (setup_of x) (s, D_IsActive x)"
    if "s \<in> {StatusACMEChallengeReady, StatusPendingCertificate, StatusFailed, StatusCertificateIssued}" for s
    using that x(2) by (auto simp: setup_of_def intro: lifecycle.intros)
  have a: "lifecycle SubmitChallenge (setup_of x) (StatusActive, True)" using x(2) by (simp add: setup_of_def activated)
  show ?thesis
  proof (cases "h_domainManager h")
    case None
    then show ?thesis unfolding submit_answers_def Let_def
      by (simp only: option.case, intro vcg hoare_case_world) (auto simp: M x(1) intro: l)
  next
    case (Some p)
    then obtain repo cfg where "h_domainManager h = Some (repo, cfg)" by (cases p) auto
    then show ?thesis unfolding submit_answers_def Let_def
      by (simp only: option.case prod.case, intro vcg hoare_case_world) (auto simp: M x(1) intro: l a)
  qed
qed

lemma refines_Submit: "hoare (fresh d0) (domain_h_SubmitACMEChallenge h s) (\<lambda>_. refines SubmitChallenge d0)"
proof (rule hoareI)
  fix w r w' assume "fresh d0 (w_db w)" and r: "domain_h_SubmitACMEChallenge h s w = (r, w')"
  then have d: "w_db w = d0" "server_ok d0" by (simp_all add: fresh_def)
  show "refines SubmitChallenge d0 (w_db w')"
  proof (cases "w' = w")
    case True
    then show ?thesis using d by (simp add: refines_refl)
  next
    case False
    with r obtain M i x where x: "h_certManager h = Some M" "dr_GetByID (h_repo h) i (w_db w) = Inr x"
      "D_Status x = StatusACMEChallengeReady" "submit_answers h M i w = (r, w')"
      by (auto simp: domain_h_SubmitACMEChallenge_def split: option.splits sum.splits if_splits)
    have row: "domain_row d0 i = Some x" using Get_row x(2) d by (auto simp: server_ok_def)
    from follows_start [OF d(2) row] x(3) d(1)
    have "follows d0 i {StatusACMEChallengeReady} (D_IsActive x) False (w_db w)" by simp
    from hoareD [OF refines_submit_answers [OF row x(3,1)] this x(4)] show ?thesis .
  qed
qed

lemma refines_read: "hoare (fresh d0) (attempt (read_db f) (\<lambda>e. answer (g e)) (\<lambda>x. answer (k x))) (\<lambda>_. refines a d0)"
  by (rule hoareI) (auto simp: attempt_def read_db_def answer_def fresh_def refines_refl split: sum.splits)

lemma refines_readers:
  "hoare (fresh d0) (domain_h_List h q) (\<lambda>_. refines a d0)"
  "hoare (fresh d0) (domain_h_Get h s) (\<lambda>_. refines a d0)"
  "hoare (fresh d0) (domain_h_GetStatus h s) (\<lambda>_. refines a d0)"
  "hoare (fresh d0) (domain_h_GetDNSGuide h s) (\<lambda>_. refines a d0)"
  unfolding domain_h_List_def domain_h_Get_def domain_h_GetStatus_def domain_h_GetDNSGuide_def
  by (intro vcg refines_read; (assumption | auto simp: setup_of_def intro: unchanged)?)+

lemma refines_Export: "hoare (fresh d0) (domain_h_GetDNSExport h s q) (\<lambda>_. refines a d0)"
proof (rule hoareI)
  fix w r w' assume "fresh d0 (w_db w)" "domain_h_GetDNSExport h s q w = (r, w')"
  then show "refines a d0 (w_db w')"
    by (auto simp: domain_h_GetDNSExport_def Let_def path_id_def get_domain_def attempt_def read_db_def answer_def fresh_def refines_refl
        split: option.splits sum.splits if_splits prod.splits)
qed

lemma refines_new:
  assumes "created_Domain x y" "D_Status x \<in> {RawStatus [], StatusPendingDNS}" "d' = put_domains (t_domains d @ [y]) d" "server_ok d" "db_ok d'"
  shows "refines Administer d d'"
proof -
  have "\<not> has_certificate_status y" using created_Domain_fields [OF assms(1)] assms(2) by (auto simp: has_certificate_status_def)
  with server_ok_new_domain assms have "server_ok d'" by blast
  moreover have "domain_row d' j = Some z" if "domain_row d j = Some z" for j z
    using that unfolding assms(3) domain_row_def by (auto simp: find_append)
  ultimately show ?thesis by (auto simp: refines_def intro: unchanged)
qed

lemma refines_dr_Create:
  assumes "dr_Create (h_repo h) x d = (r, d')" "D_Status x \<in> {RawStatus [], StatusPendingDNS}" "server_ok d"
  shows "refines Administer d d'"
proof (cases r)
  case (Inl e)
  with Create_err assms(1) have "d' = d" by blast
  with assms(3) show ?thesis by (simp add: refines_refl)
next
  case (Inr y)
  with Create_ok assms(1) have c: "created_Domain x y" "d' = put_domains (t_domains d @ [y]) d" "db_ok d \<longrightarrow> db_ok d'" by blast+
  with refines_new [OF c(1) assms(2) c(2) assms(3)] assms(3) show ?thesis by (simp add: server_ok_def)
qed

lemma refines_CreateDomain:
  assumes "CreateDomain (h_repo h) rnd n d = (r, d')" "server_ok d" shows "refines Administer d d'"
proof (cases "d' = d")
  case True
  with assms show ?thesis by (simp add: refines_refl)
next
  case False
  with assms(1) obtain x r' where "dr_Create (h_repo h) x d = (r', d')" "D_Status x = StatusPendingDNS"
    by (auto simp: CreateDomain_def Let_def split: if_splits sum.splits prod.splits)
  with refines_dr_Create assms(2) show ?thesis by blast
qed

lemma refines_Create: "hoare (fresh d0) (domain_h_Create h rnd body) (\<lambda>_. refines Administer d0)"
proof (rule hoareI)
  fix w r w' assume "fresh d0 (w_db w)" and r: "domain_h_Create h rnd body w = (r, w')"
  then have d: "w_db w = d0" "server_ok d0" by (simp_all add: fresh_def)
  show "refines Administer d0 (w_db w')"
  proof (cases "w_db w' = w_db w")
    case True
    with d show ?thesis by (simp add: refines_refl)
  next
    case False
    with r obtain req where req: "body = Some req" "CD_Name req \<noteq> []"
      by (auto simp: domain_h_Create_def answer_def split: option.splits if_splits)
    show ?thesis
    proof (cases "h_domainManager h")
      case (Some p)
      with r req domains_repo [of "fst p" "snd p"] obtain r' where "CreateDomain (h_repo h) rnd (CD_Name req) d0 = (r', w_db w')"
        using d by (cases p) (auto simp: domain_h_Create_def Let_def attempt_def on_db_def answer_def split: prod.splits sum.splits)
      from refines_CreateDomain [OF this d(2)] show ?thesis .
    next
      case None
      with r req obtain x r' where "dr_Create (h_repo h) x d0 = (r', w_db w')" "D_Status x = RawStatus []"
        using d by (auto simp: domain_h_Create_def Let_def attempt_def on_db_def answer_def zero_Domain_def
            split: prod.splits sum.splits option.splits)
      with refines_dr_Create d(2) show ?thesis by blast
    qed
  qed
qed

lemma refines_purge: "server_ok d \<Longrightarrow> refines Administer d (purge_domains (\<lambda>x. D_ID x = i) d)"
proof -
  assume ok: "server_ok d"
  have "domain_row (purge_domains (\<lambda>x. D_ID x = i) d) j = (if j = i then None else domain_row d j)" for j
    unfolding domain_row_def purge_domains_def purge_certs_def Let_def
    by (auto simp: find_None_iff intro: find_filter_other)
  with server_ok_purge_domains [OF ok] show ?thesis by (auto simp: refines_def intro: unchanged)
qed

lemma refines_Delete: "hoare (fresh d0) (domain_h_Delete h s) (\<lambda>_. refines Administer d0)"
proof -
  have "hoare (fresh d0) (attempt (on_db (dr_Delete (h_repo h) i)) (\<lambda>e. answer (g e)) (\<lambda>u. answer (k u))) (\<lambda>_. refines Administer d0)" for i g k
    by (rule hoareI, erule attemptE)
      (auto simp: on_db_eq answer_def fresh_def dest!: Delete_err Delete_ok intro: refines_refl refines_purge)
  then show ?thesis unfolding domain_h_Delete_def by (intro vcg)
qed

end

section \<open>All requests\<close>

text \<open>
  A request to the routes below \<^verbatim>\<open>/api/domains\<close> (\<^verbatim>\<open>internal/api/router.go\<close>), with its path, query and body
  parameters and what it meets outside: random bytes, the context and the resolver.
\<close>

datatype domain_request =
    PostDomain "goerror + bytes" "CreateDomainRequest option"
  | GetDomains string
  | GetDomain string
  | PutDomain string "UpdateDomainRequest option"
  | DeleteDomain string
  | GetDnsGuide string
  | GetDnsExport string string
  | PostVerifyDns "goerror + bytes" ctx "nat \<Rightarrow> DNSResolver" string
  | PostGenerateCert string
  | GetDomainStatus string
  | PostRetry string string
  | PostRequestAcmeChallenge string
  | PostVerifyAcmeDns string
  | PostSubmitAcmeChallenge string
  | GetAcmeStatus string

definition responds :: "('w \<Rightarrow> 'd response \<times> 'w) \<Rightarrow> 'w \<Rightarrow> 'd outcome \<times> 'w" where
  "responds m w = (case m w of (r, w') \<Rightarrow> (Responds r, w'))"

fun serve_domain :: "('a, 'c) DomainHandler \<Rightarrow> domain_request \<Rightarrow> ('a, 'c) world \<Rightarrow> domain_data outcome \<times> ('a, 'c) world" where
  "serve_domain h (PostDomain rnd body) = responds (domain_h_Create h rnd body)"
| "serve_domain h (GetDomains q) = responds (domain_h_List h q)"
| "serve_domain h (GetDomain i) = responds (domain_h_Get h i)"
| "serve_domain h (PutDomain i body) = responds (domain_h_Update h i body)"
| "serve_domain h (DeleteDomain i) = responds (domain_h_Delete h i)"
| "serve_domain h (GetDnsGuide i) = responds (domain_h_GetDNSGuide h i)"
| "serve_domain h (GetDnsExport i q) = responds (domain_h_GetDNSExport h i q)"
| "serve_domain h (PostVerifyDns rnd ctx net i) = responds (domain_h_VerifyDNS h rnd ctx net i)"
| "serve_domain h (PostGenerateCert i) = responds (domain_h_GenerateCertificate h i)"
| "serve_domain h (GetDomainStatus i) = responds (domain_h_GetStatus h i)"
| "serve_domain h (PostRetry i resetTo) = responds (domain_h_Retry h i resetTo)"
| "serve_domain h (PostRequestAcmeChallenge i) = responds (domain_h_RequestACMEChallenge h i)"
| "serve_domain h (PostVerifyAcmeDns i) = responds (domain_h_VerifyACMEDNS h i)"
| "serve_domain h (PostSubmitAcmeChallenge i) = domain_h_SubmitACMEChallenge h i"
| "serve_domain h (GetAcmeStatus i) = responds (domain_h_GetACMEStatus h i)"

fun action_of :: "domain_request \<Rightarrow> action" where
  "action_of (PostVerifyDns rnd ctx net i) = CheckDNS"
| "action_of (PostGenerateCert i) = Generate"
| "action_of (PostRetry i resetTo) = RetrySetup"
| "action_of (PostRequestAcmeChallenge i) = RequestChallenge"
| "action_of (PostVerifyAcmeDns i) = CheckChallenge"
| "action_of (PostSubmitAcmeChallenge i) = SubmitChallenge"
| "action_of (GetAcmeStatus i) = PollChallenge"
| "action_of _ = Administer"

lemma hoare_responds: "hoare P m (\<lambda>_. Q) \<Longrightarrow> hoare P (responds m) (\<lambda>_. Q)"
  by (auto simp: hoare_def responds_def split: prod.splits)

context domain_api
begin

lemmas refines_handlers = refines_Create refines_readers refines_Update refines_Delete refines_Export refines_VerifyDNS
  refines_Generate refines_Retry refines_Request refines_VerifyACME refines_Status refines_Submit

lemma serve_refines_action: "hoare (fresh d0) (serve_domain h req) (\<lambda>_. refines (action_of req) d0)"
  by (cases req) (simp_all add: hoare_responds refines_handlers)

end

section \<open>The application\<close>

text \<open>
  The handler as \<^verbatim>\<open>cmd/server/main.go\<close> and \<^verbatim>\<open>NewRouter\<close> build it; there is no certificate manager when the
  ACME client could not be created.
\<close>

definition app_handler :: "gorm \<Rightarrow> string \<Rightarrow> ('a, 'c) outside \<Rightarrow> int \<Rightarrow> string \<Rightarrow> string \<Rightarrow> bool \<Rightarrow> ('a, 'c) DomainHandler" where
  "app_handler G certStoragePath ext renewalDays smtpHostname serverIP acme =
     NewDomainHandlerWithServices (NewDomainRepository G)
       (Some (NewDomainRepository G, \<lparr>dm_SMTPHostname = smtpHostname, dm_ServerIP = serverIP\<rparr>))
       (Some \<lparr>dv_SMTPHostname = smtpHostname, dv_ServerIP = serverIP, dv_MaxRetries = 3\<rparr>) (Some Export)
       (if acme then Some (app_manager G certStoragePath ext renewalDays) else None)"

lemma app_handler_laws:
  assumes "gorm_db G" "path \<noteq> []" "CHR 0x00 \<notin> set path"
  shows "domain_api (app_handler G path ext days host ip acme)"
  using gorm_db.domain_repo_laws [OF assms(1)] app_manager_laws [OF assms, of ext days]
  by (simp add: domain_api_def domain_api_axioms_def app_handler_def NewDomainHandlerWithServices_def)

lemma app_handler_parts [simp]:
  "h_repo (app_handler G p ext days host ip acme) = NewDomainRepository G"
  "h_certManager (app_handler G p ext days host ip True) = Some (app_manager G p ext days)"
  "h_domainManager (app_handler G p ext days host ip acme) = Some (NewDomainRepository G, \<lparr>dm_SMTPHostname = host, dm_ServerIP = ip\<rparr>)"
  by (simp_all add: app_handler_def NewDomainHandlerWithServices_def)

interpretation mem_api: domain_api "app_handler (mem_gorm t) ''./certs'' ext days host ip acme"
  by (rule app_handler_laws [OF mem.gorm_db_axioms]) simp_all

lemma retry_targets_uncertified: "StatusCertificateIssued \<notin> retry_targets s" "StatusActive \<notin> retry_targets s"
  by (cases s; simp)+

lemma lifecycle_certifies:
  "lifecycle a (s, b) (s', b') \<Longrightarrow> s' \<in> {StatusCertificateIssued, StatusActive} \<Longrightarrow> s \<notin> {StatusCertificateIssued, StatusActive} \<Longrightarrow>
   a = SubmitChallenge \<and> s = StatusACMEChallengeReady"
  by (erule lifecycle_cases) (auto simp: retry_targets_uncertified)

text \<open>
  C2. The domain API refines the life-cycle specification: a request of any kind, successful or not,
  keeps the database invariant (unique keys, references to existing rows, a certificate row behind every
  \<^verbatim>\<open>certificate_issued\<close> or \<^verbatim>\<open>active\<close> domain) and moves the status and the activity of every surviving domain along a
  transition the specification has for that kind of request, or not at all.
\<close>

theorem domain_api_refines_lifecycle:
  assumes G: "gorm_db G" and p: "path \<noteq> []" "CHR 0x00 \<notin> set path" and ok: "server_ok (w_db w)"
    and r: "serve_domain (app_handler G path ext days host ip acme) req w = (out, w')"
  shows "server_ok (w_db w') \<and> (\<forall>j x y. domain_row (w_db w) j = Some x \<and> domain_row (w_db w') j = Some y \<longrightarrow>
    lifecycle (action_of req) (D_Status x, D_IsActive x) (D_Status y, D_IsActive y))"
proof -
  have "fresh (w_db w) (w_db w)" using ok by (simp add: fresh_def)
  from hoareD [OF domain_api.serve_refines_action [OF app_handler_laws [OF G p]] this r]
  show ?thesis by (auto simp: refines_def setup_of_def)
qed


text \<open>
  C36. \<^verbatim>\<open>POST /api/domains/:id/generate-cert\<close> cannot succeed: the handler insists on the status
  \<^verbatim>\<open>dns_verified\<close>, the service it calls on \<^verbatim>\<open>acme_challenge_ready\<close>. Whatever the state, the answer is an error and
  neither the database, the disk, the ACME server nor the served certificates change.
\<close>

theorem generate_cert_never_succeeds:
  "let (r, w') = domain_h_GenerateCertificate h idStr w in
     resp_status r \<in> {400, 404, 500} \<and> w_db w' = w_db w \<and> w_os w' = w_os w \<and> w_acme w' = w_acme w \<and> w_store w' = w_store w"
proof -
  have g: "(\<exists>e. r = Inl e) \<and> w_db w' = w_db w \<and> w_os w' = w_os w \<and> w_acme w' = w_acme w \<and> w_store w' = w_store w"
    if "D_Status x = StatusDNSVerified" "GenerateCertificate M (Some x) w = (r, w')" for M x r w'
    using GenerateCertificate_refuses [of x w M] that by (cases r) (auto simp: ready_def)
  show ?thesis
    unfolding domain_h_GenerateCertificate_def path_id_def get_domain_def attempt_def read_db_def answer_def Let_def
    by (auto simp: BadRequest_def BadRequestWithData_def NotFound_def InternalError_def
      split: option.splits prod.splits sum.splits if_splits dest: g [rotated])
qed

lemma ACME_status_error: "resp_status (RespACMEError e) \<noteq> 200"
  by (simp add: RespACMEError_def getHTTPStatusForACME_def)

lemma submit_answers_ok:
  assumes "submit_answers h M i w = (Responds resp, w')" "resp_status resp = 200" "h_domainManager h = Some (repo, cfg)"
  obtains x w1 where "SubmitACMEChallenge M i w = (Inr (), w1)" "dr_GetByID (h_repo h) i (w_db w1) = Inr x"
    "D_Status x = StatusCertificateIssued \<Longrightarrow> ActivateDomain repo i (w_db w1) = (Inr (), w_db w')"
  using assms that
  by (auto simp: submit_answers_def Let_def reload_def ACME_status_error attempt_def on_db_def InternalError_def
      split: sum.splits prod.splits option.splits if_splits)

text \<open>
  C12. When a submission request answers 200, the domain was \<^verbatim>\<open>acme_challenge_ready\<close> with verified DNS before, is active and
  receives mail afterwards, and has a certificate row.
\<close>

theorem submission_activates:
  assumes G: "gorm_db G" and p: "path \<noteq> []" "CHR 0x00 \<notin> set path" and ok: "server_ok (w_db w)"
    and r: "domain_h_SubmitACMEChallenge (app_handler G path ext days host ip acme) idStr w = (Responds resp, w')"
    and s: "resp_status resp = 200"
  shows "\<exists>i x y c. ParseUint idStr 32 = Some i \<and> domain_row (w_db w) i = Some x \<and> D_Status x = StatusACMEChallengeReady
    \<and> D_ACMEDNSVerified x \<and> domain_row (w_db w') i = Some y \<and> D_Status y = StatusActive \<and> D_IsActive y \<and> D_Name y = D_Name x
    \<and> c \<in> set (t_certs (w_db w')) \<and> C_DomainID c = i"
proof -
  let ?M = "app_manager G path ext days" and ?h = "app_handler G path ext days host ip acme"
  note M = app_manager_laws [OF G p, of ext days] and D = gorm_db.domain_repo_laws [OF G]
  from r s obtain i where i: "ParseUint idStr 32 = Some i" and sa: "submit_answers ?h ?M i w = (Responds resp, w')"
    by (auto simp: domain_h_SubmitACMEChallenge_def app_handler_def NewDomainHandlerWithServices_def ACME_status_error
        BadRequest_def NotFound_def InternalError_def split: option.splits sum.splits if_splits)
  obtain z w1 where z: "SubmitACMEChallenge ?M i w = (Inr (), w1)" "dr_GetByID (NewDomainRepository G) i (w_db w1) = Inr z"
    "D_Status z = StatusCertificateIssued \<Longrightarrow> ActivateDomain (NewDomainRepository G) i (w_db w1) = (Inr (), w_db w')"
    using submit_answers_ok [OF sa s app_handler_parts(3)] by (metis app_handler_parts(1))
  obtain x y c where x: "domain_row (w_db w) i = Some x" "ready x" and y: "domain_row (w_db w1) i = Some y"
      "saved_Domain (x\<lparr>D_Status := StatusCertificateIssued, D_ErrorMessage := [], D_UpdatedAt := D_UpdatedAt y\<rparr>) y"
    and c: "c \<in> set (t_certs (w_db w1))" "C_DomainID c = i"
    by (rule cert_manager.Submit_ok [OF M z(1) server_okD(1) [OF ok]]) (rule that; assumption)
  have "follows (w_db w) i {D_Status x} (D_IsActive x) False (w_db w)" using follows_start [OF ok x(1)] .
  from hoareD [OF cert_manager.hoare_Submit [OF M] this z(1)] have ok1: "db_ok (w_db w1)" by (simp add: follows_def server_ok_def)
  have "z = y" using domain_repo.Get_row [OF D z(2) ok1] y(1) by simp
  with saved_Domain_fields [OF y(2)] z(3) have a: "ActivateDomain (NewDomainRepository G) i (w_db w1) = (Inr (), w_db w')" by simp
  from domain_repo.ActivateDomain_ok [OF D a ok1] y(1) obtain y' where y': "row_replaced (w_db w1) i y' (w_db w')"
    "saved_Domain (y\<lparr>D_Status := StatusActive, D_IsActive := True, D_ErrorMessage := []\<rparr>) y'" by auto
  have f: "D_Status y' = StatusActive" "D_IsActive y'" "D_Name y' = D_Name x" "D_ACMEDNSVerified x" "D_Status x = StatusACMEChallengeReady"
    "domain_row (w_db w') i = Some y'" "c \<in> set (t_certs (w_db w'))"
    using saved_Domain_fields [OF y(2)] saved_Domain_fields [OF y'(2)] x(2) y'(1) c by (simp_all add: ready_def row_replaced_def)
  with i x(1) c(2) show ?thesis by blast
qed

text \<open>
  C40. An active domain can lose its status: the challenge columns survive the issue of a certificate, and
  \<^verbatim>\<open>POST /api/domains/:id/verify-acme-dns\<close> asks for a stored challenge only. While the TXT record is still published
  and the challenge has not expired, that request moves an active domain back to \<^verbatim>\<open>acme_challenge_ready\<close> (it
  stays switched on for mail).
\<close>

theorem verify_demotes_active_domain:
  assumes G: "gorm_db G" and p: "path \<noteq> []" "CHR 0x00 \<notin> set path" and ok: "db_ok (w_db w)"
    and i: "ParseUint idStr 32 = Some i" and x: "dr_GetByID (NewDomainRepository G) i (w_db w) = Inr x" "D_Status x = StatusActive"
    and ch: "has_challenge x" "\<not> challenge_late x (w_clock w (w_tick w))"
      "txt_published (out_LookupTXT ext) (''_acme-challenge.'' @ D_Name x) (D_ACMEChallengeValue x)"
    and r: "domain_h_VerifyACMEDNS (app_handler G path ext days host ip True) idStr w = (resp, w')" "resp_status resp = 200"
  shows "\<exists>y. domain_row (w_db w') i = Some y \<and> D_Status y = StatusACMEChallengeReady \<and> D_IsActive y = D_IsActive x"
proof -
  note M = app_manager_laws [OF G p, of ext days]
  from r i x ch(1) obtain res where v: "VerifyACMEDNS (app_manager G path ext days) i w = (Inr res, w')"
    by (auto simp: domain_h_VerifyACMEDNS_def path_id_def get_domain_def attempt_def read_db_def answer_def has_challenge_def
        ACME_status_error InternalError_def split: sum.splits prod.splits option.splits)
  have "AV_Verified res"
    by (rule cert_manager.Verify_complete [OF M v]) (use x ch in \<open>simp_all add: verifiable_def\<close>)
  from cert_manager.Verify_verified [OF M v this ok] domain_repo.Get_row [OF gorm_db.domain_repo_laws [OF G] x(1) ok]
  obtain y where y: "row_replaced (w_db w) i y (w_db w')" "saved_Domain (x\<lparr>D_ACMEDNSVerified := True, D_Status := StatusACMEChallengeReady\<rparr>) y"
    by auto
  then show ?thesis using saved_Domain_fields [OF y(2)] by (auto simp: row_replaced_def)
qed

section \<open>Concrete runs\<close>

abbreviation demo_api :: "(nat, bytes) DomainHandler" where
  "demo_api \<equiv> app_handler (mem_gorm 0) ''/c'' demo_out 0 ''h'' ''1.2.3.4'' True"

lemma demo_server_ok: "server_ok (w_db (demo_world StatusACMEChallengeReady))" "server_ok (w_db (demo_world StatusPendingCertificate))"
  by (simp_all add: server_ok_def db_ok_def refs_ok_def certified_def has_certificate_status_def demo_world_def demo_row_def empty_db_def)

lemma demo_get: "dr_GetByID (NewDomainRepository (mem_gorm 0)) 1 (w_db (demo_world st)) = Inr (demo_row st)"
  by (simp add: NewDomainRepository_def domain_GetByID_def mem_gorm_def mem_table_def demo_world_def demo_row_def)

lemma demo_submission:
  "domain_h_SubmitACMEChallenge demo_api ''1'' (demo_world StatusACMEChallengeReady)
     = submit_answers demo_api demo_mgr 1 (demo_world StatusACMEChallengeReady)"
  using demo_get [of StatusACMEChallengeReady] by (simp add: domain_h_SubmitACMEChallenge_def ParseUint_one demo_row_def)

lemma demo_submission_ok:
  "(case submit_answers demo_api demo_mgr 1 (demo_world StatusACMEChallengeReady) of (out, w') \<Rightarrow>
     (case out of Responds r \<Rightarrow> resp_status r | NilDereference \<Rightarrow> 0) = 200 \<and> map_option D_Status (domain_row (w_db w') 1) = Some StatusActive)"
  by code_simp

theorem submission_activates_witness:
  "\<exists>resp w' y. domain_h_SubmitACMEChallenge demo_api ''1'' (demo_world StatusACMEChallengeReady) = (Responds resp, w')
    \<and> domain_row (w_db w') 1 = Some y \<and> D_Status y = StatusActive"
proof -
  obtain out w' where o: "submit_answers demo_api demo_mgr 1 (demo_world StatusACMEChallengeReady) = (out, w')" by fastforce
  from demo_submission_ok obtain resp where r: "out = Responds resp" "resp_status resp = 200"
    unfolding o by (cases out) auto
  note run = demo_submission [unfolded o r(1)]
  from submission_activates [OF mem.gorm_db_axioms demo_path(1,2) demo_server_ok(1) run r(2)] ParseUint_one run
  show ?thesis by auto
qed


theorem domain_api_refines_lifecycle_witness:
  "\<exists>out w' y. serve_domain demo_api (PostRetry ''1'' []) (demo_world StatusPendingCertificate) = (out, w')
    \<and> domain_row (w_db w') 1 = Some y \<and> lifecycle RetrySetup (StatusPendingCertificate, False) (D_Status y, D_IsActive y)"
proof -
  let ?w = "demo_world StatusPendingCertificate" and ?x = "demo_row StatusPendingCertificate"
  obtain out w' where r: "serve_domain demo_api (PostRetry ''1'' []) ?w = (out, w')" by fastforce
  have "w_db w' = snd (UpdateStatus (NewDomainRepository (mem_gorm 0)) 1 StatusDNSVerified [] (w_db ?w))"
    using r demo_get [of StatusPendingCertificate]
    by (auto simp: responds_def domain_h_Retry_def path_id_def ParseUint_one get_domain_def attempt_def read_db_def retry_step_def
        demo_row_def on_db_def answer_def split: prod.splits sum.splits)
  moreover have "map_option D_ID (domain_row (snd (UpdateStatus (NewDomainRepository (mem_gorm 0)) 1 StatusDNSVerified [] (w_db ?w))) 1) = Some 1"
    by code_simp
  ultimately obtain y where y: "domain_row (w_db w') 1 = Some y" by auto
  have x: "domain_row (w_db ?w) 1 = Some ?x" "D_Status ?x = StatusPendingCertificate" "D_IsActive ?x = False"
    by (simp_all add: demo_row_def domain_row_def demo_world_def zero_Domain_def)
  from domain_api_refines_lifecycle [OF mem.gorm_db_axioms demo_path(1,2) demo_server_ok(2) r] x y
  have "lifecycle RetrySetup (StatusPendingCertificate, False) (D_Status y, D_IsActive y)" by (metis action_of.simps(3))
  with r y show ?thesis by blast
qed

theorem verify_demotes_active_domain_witness:
  "\<exists>resp w' y. domain_h_VerifyACMEDNS demo_api ''1'' (demo_world StatusActive) = (resp, w')
    \<and> domain_row (w_db w') 1 = Some y \<and> D_Status y = StatusACMEChallengeReady"
proof -
  let ?w = "demo_world StatusActive" and ?x = "demo_row StatusActive"
  obtain resp w' where r: "domain_h_VerifyACMEDNS demo_api ''1'' ?w = (resp, w')" by fastforce
  have v: "is_ok (fst (VerifyACMEDNS demo_mgr 1 ?w))" by code_simp
  have c: "has_challenge ?x" "\<not> challenge_late ?x (w_clock ?w (w_tick ?w))"
    "txt_published (out_LookupTXT demo_out) (''_acme-challenge.'' @ D_Name ?x) (D_ACMEChallengeValue ?x)" by code_simp+
  have s: "resp_status resp = 200"
    using r v demo_get [of StatusActive] c(1)
    by (auto simp: domain_h_VerifyACMEDNS_def path_id_def ParseUint_one get_domain_def attempt_def read_db_def has_challenge_def
        answer_def Success_def is_ok_iff split: prod.splits sum.splits)
  have x: "D_Status ?x = StatusActive" by (simp add: demo_row_def)
  from verify_demotes_active_domain [OF mem.gorm_db_axioms demo_path(1,2) demo_world_ok ParseUint_one demo_get x c r s] r
  show ?thesis by blast
qed

end
