(* ===== verification/SmtpParser.thy ===== *)
theory SmtpParser
  imports OsFiles
begin

text \<open>
  \<^verbatim>\<open>internal/smtp/parser.go\<close>: from a MIME envelope to the parsed e-mail. The MIME parser
  \<^verbatim>\<open>enmime\<close> is a parameter (\<open>ReadEnvelope\<close>); the header, snippet and HTML scanners of
  the program are modelled, their regular expressions as the scanners they denote. The
  case-insensitive patterns are modelled on ASCII letters.
\<close>

section \<open>Data\<close>

record mime_part =
  FileName :: string
  ContentType :: string
  Content :: bytes

record envelope =
  GetHeader :: "string \<Rightarrow> string"
  Text :: string
  HTML :: string
  Attachments :: "mime_part list"
  Inlines :: "mime_part list"

record ParsedAttachment =
  PA_Filename :: string
  PA_ContentType :: string
  PA_Content :: nat
  PA_Size :: int

record ParsedEmail =
  PE_SenderEmail :: string
  PE_SenderName :: string
  PE_Subject :: string
  PE_Snippet :: string
  PE_BodyText :: string
  PE_BodyHTML :: string
  PE_Attachments :: "ParsedAttachment list"

section \<open>The From header\<close>

text \<open>The class \<^verbatim>\<open>\s\<close> of Go's regular expressions.\<close>

definition re_space :: "char \<Rightarrow> bool" where
  "re_space c = (ord c \<in> {9, 10, 12, 13, 32})"

text \<open>
  The submatches of the pattern of \<^verbatim>\<open>parseFromHeader\<close>: an optional quote, a run without
  quotes and \<^verbatim>\<open><\<close>, an optional quote with white space after it, and an address with an
  inner \<^verbatim>\<open>@\<close> between angle brackets up to the end. The run is maximal, since what may follow
  it starts with a character it excludes.
\<close>

definition re_From :: "string \<Rightarrow> (string \<times> string) option" where
  "re_From s =
     (let s1 = (if HasPrefix s [CHR 0x22] then tl s else s);
          name = takeWhile (\<lambda>c. c \<noteq> CHR 0x22 \<and> c \<noteq> CHR ''<'') s1;
          s2 = drop (length name) s1;
          s3 = (if HasPrefix s2 [CHR 0x22] then dropWhile re_space (tl s2) else s2) in
      if \<not> (HasPrefix s3 ''<'' \<and> HasSuffix s3 ''>'') then None
      else
        let email = butlast (tl s3) in
        if CHR ''<'' \<notin> set email \<and> CHR ''>'' \<notin> set email \<and> CHR ''@'' \<in> set (butlast (tl email))
        then Some (name, email) else None)"

definition parseFromHeader :: "string \<Rightarrow> string \<times> string" where
  "parseFromHeader hdr =
     (let frm = TrimSpace hdr in
      if frm = [] then ([], [])
      else case (if Contains frm ''<'' \<and> Contains frm ''>'' then re_From frm else None) of
        Some (m1, m2) \<Rightarrow> (TrimChar CHR 0x22 (TrimSpace m1), TrimSpace m2)
      | None \<Rightarrow> ([], frm))"

section \<open>HTML to text\<close>

text \<open>
  \<^verbatim>\<open>ReplaceAllString\<close> for a pattern given by the length of its match at the head of a string
  (no pattern here matches the empty string).
\<close>

function ReplaceMatches :: "(string \<Rightarrow> nat option) \<Rightarrow> string \<Rightarrow> string \<Rightarrow> string" where
  "ReplaceMatches re repl [] = []"
| "ReplaceMatches re repl (c # cs) =
     (case re (c # cs) of
        None \<Rightarrow> c # ReplaceMatches re repl cs
      | Some n \<Rightarrow> repl @ ReplaceMatches re repl (drop (n - 1) cs))"
  by pat_completeness auto
termination
  by (relation "measure (\<lambda>(re, repl, s). length s)") auto

text \<open>Position after the first occurrence of a text (letters compared without case).\<close>

fun skip_past :: "string \<Rightarrow> string \<Rightarrow> nat option" where
  "skip_past t [] = (if t = [] then Some 0 else None)"
| "skip_past t (c # cs) =
     (if HasPrefix (ToLower (c # cs)) t then Some (length t) else map_option Suc (skip_past t cs))"

text \<open>\<^verbatim>\<open>(?i)<name[^>]*>[\s\S]*?</name>\<close> for \<^verbatim>\<open>script\<close> and \<^verbatim>\<open>style\<close>.\<close>

definition re_element :: "string \<Rightarrow> string \<Rightarrow> nat option" where
  "re_element name s =
     (let opn = ''<'' @ name in
      if \<not> HasPrefix (ToLower s) opn then None
      else case skip_past ''>'' (drop (length opn) s) of
        None \<Rightarrow> None
      | Some n \<Rightarrow>
          map_option (\<lambda>m. length opn + n + m)
            (skip_past (''</'' @ name @ ''>'') (drop (length opn + n) s)))"

text \<open>\<^verbatim>\<open><[^>]*>\<close>.\<close>

definition re_tag :: "string \<Rightarrow> nat option" where
  "re_tag s = (if HasPrefix s ''<'' then map_option Suc (skip_past ''>'' (tl s)) else None)"

definition decode_entities :: "string \<Rightarrow> string" where
  "decode_entities html =
     (let html = ReplaceAll html ''&nbsp;'' '' '';
          html = ReplaceAll html ''&amp;'' ''&'';
          html = ReplaceAll html ''&lt;'' ''<'';
          html = ReplaceAll html ''&gt;'' ''>'';
          html = ReplaceAll html ''&quot;'' [CHR 0x22];
          html = ReplaceAll html ''&#39;'' sq in html)"

definition stripHTMLTags :: "string \<Rightarrow> string" where
  "stripHTMLTags html =
     (let html = ReplaceMatches (re_element ''script'') [] html;
          html = ReplaceMatches (re_element ''style'') [] html;
          html = ReplaceMatches re_tag '' '' html in
      decode_entities html)"

definition generateSnippet :: "string \<Rightarrow> string \<Rightarrow> string" where
  "generateSnippet bodyText bodyHTML =
     (let text = (if bodyText \<noteq> [] then bodyText
                  else if bodyHTML \<noteq> [] then stripHTMLTags bodyHTML else []);
          text = Join (Fields text) '' '';
          text = TrimSpace text in
      if length text > 255 then take 252 text @ ''...'' else text)"

section \<open>ParseEmail\<close>

definition parsed_attachment :: "mime_part \<Rightarrow> osenv \<Rightarrow> ParsedAttachment \<times> osenv" where
  "parsed_attachment att w =
     (let (r, w') = bytes_NewReader (Content att) w in
      (\<lparr>PA_Filename = FileName att, PA_ContentType = ContentType att, PA_Content = r,
        PA_Size = int (length (Content att))\<rparr>, w'))"

fun parse_attachments :: "mime_part list \<Rightarrow> osenv \<Rightarrow> ParsedAttachment list \<times> osenv" where
  "parse_attachments [] w = ([], w)"
| "parse_attachments (a # as) w =
     (let (p, w1) = parsed_attachment a w; (ps, w2) = parse_attachments as w1 in (p # ps, w2))"

definition ParseEmail ::
    "(bytes \<Rightarrow> goerror + envelope) \<Rightarrow> bytes \<Rightarrow> osenv \<Rightarrow> (goerror + ParsedEmail) \<times> osenv" where
  "ParseEmail ReadEnvelope r w =
     (case ReadEnvelope r of
        Inl err \<Rightarrow> (Inl err, w)
      | Inr env \<Rightarrow>
          let (senderName, senderEmail) = parseFromHeader (GetHeader env ''From'');
              snippet = generateSnippet (Text env) (HTML env);
              (atts, w') = parse_attachments
                 (Attachments env @ filter (\<lambda>att. FileName att \<noteq> []) (Inlines env)) w in
          (Inr \<lparr>PE_SenderEmail = senderEmail, PE_SenderName = senderName,
             PE_Subject = GetHeader env ''Subject'', PE_Snippet = snippet, PE_BodyText = Text env,
             PE_BodyHTML = HTML env, PE_Attachments = atts\<rparr>, w'))"

section \<open>Snippets\<close>

text \<open>
  A snippet has at most 255 bytes and no leading blank, and when nothing had to be cut it is
  exactly the words of the body (of the text part, or else of the HTML part without its markup)
  joined by single blanks.
\<close>

theorem generateSnippet_spec:
  "length (generateSnippet t h) \<le> 255
   \<and> takeWhile is_space (generateSnippet t h) = []
   \<and> (let ws = Fields (if t \<noteq> [] then t else if h \<noteq> [] then stripHTMLTags h else []) in
      generateSnippet t h =
        (if length (Join ws '' '') \<le> 255 then Join ws '' '' else take 252 (Join ws '' '') @ ''...''))"
proof -
  define ws where "ws = Fields (if t \<noteq> [] then t else if h \<noteq> [] then stripHTMLTags h else [])"
  have eq: "generateSnippet t h =
      (if length (Join ws '' '') \<le> 255 then Join ws '' '' else take 252 (Join ws '' '') @ ''...'')"
    by (simp add: generateSnippet_def ws_def TrimSpace_Join_Fields Let_def)
  have "\<not> is_space (hd (Join ws '' ''))" if "Join ws '' '' \<noteq> []"
    using TrimSpace_ends(1) [of "Join ws '' ''"] that unfolding ws_def TrimSpace_Join_Fields by blast
  moreover have "hd (take 252 (Join ws '' '') @ ''...'') = hd (Join ws '' '')" if "\<not> length (Join ws '' '') \<le> 255"
    using that by (cases "Join ws '' ''") auto
  ultimately have "generateSnippet t h = [] \<or> \<not> is_space (hd (generateSnippet t h))"
    unfolding eq by (cases "length (Join ws '' '') \<le> 255"; cases "Join ws '' '' = []") simp_all
  then have "takeWhile is_space (generateSnippet t h) = []" by (cases "generateSnippet t h") auto
  moreover have "length (generateSnippet t h) \<le> 255" unfolding eq by simp
  ultimately show ?thesis using eq unfolding ws_def Let_def by blast
qed

section \<open>Markup\<close>

text \<open>A complete tag, opening or closing, somewhere in a text.\<close>

definition has_tag :: "string \<Rightarrow> bool" where
  "has_tag s \<longleftrightarrow> (\<exists>u v w. s = u @ ''<'' @ v @ ''>'' @ w)"

lemma has_tag_Cons: "has_tag (c # s) \<longleftrightarrow> (c = CHR ''<'' \<and> CHR ''>'' \<in> set s) \<or> has_tag s"
  by (auto simp: has_tag_def Cons_eq_append_conv in_set_conv_decomp) blast+

lemma skip_past_gt_None: "skip_past ''>'' s = None \<longleftrightarrow> CHR ''>'' \<notin> set s"
proof (induction s)
  case (Cons c s)
  have "lower_char c = CHR ''>'' \<longleftrightarrow> c = CHR ''>''"
    by (rule lower_char_eq_iff) (simp_all add: is_lower_def is_upper_def)
  with Cons show ?case by auto
qed simp

lemma set_ReplaceMatches: "set (ReplaceMatches re repl s) \<subseteq> set s \<union> set repl"
proof (induction re repl s rule: ReplaceMatches.induct)
  case (2 re repl c cs)
  show ?case
  proof (cases "re (c # cs)")
    case None
    with 2 show ?thesis by auto
  next
    case (Some n)
    have "set (drop (n - 1) cs) \<subseteq> set cs" by (rule set_drop_subset)
    with 2(2) [OF Some] Some show ?thesis by (auto dest: in_set_dropD)
  qed
qed simp

lemma tags_gone: "\<not> has_tag (ReplaceMatches re_tag '' '' s)"
proof (induction re_tag "'' ''" s rule: ReplaceMatches.induct)
  case 1
  then show ?case by (simp add: has_tag_def)
next
  case (2 c cs)
  show ?case
  proof (cases "re_tag (c # cs)")
    case None
    then have "c = CHR ''<'' \<Longrightarrow> CHR ''>'' \<notin> set cs"
      by (auto simp: re_tag_def skip_past_gt_None)
    moreover have "set (ReplaceMatches re_tag '' '' cs) \<subseteq> set cs \<union> {CHR '' ''}"
      using set_ReplaceMatches [of re_tag "'' ''" cs] by simp
    ultimately show ?thesis using 2(1) [OF None] None by (auto simp: has_tag_Cons)
  next
    case (Some n)
    with 2(2) [OF Some] show ?thesis by (simp add: has_tag_Cons)
  qed
qed

lemma decode_no_entities: "CHR ''&'' \<notin> set s \<Longrightarrow> decode_entities s = s"
proof -
  assume amp: "CHR ''&'' \<notin> set s"
  then have "\<not> Contains s (CHR ''&'' # t)" for t by (auto simp: Contains_iff)
  then show ?thesis by (simp add: decode_entities_def ReplaceAll_absent)
qed

text \<open>
  Markup is stripped: in the text made from an HTML body without character references no
  complete tag is left.
\<close>

theorem stripHTMLTags_no_tags:
  assumes "CHR ''&'' \<notin> set html"
  shows "\<not> has_tag (stripHTMLTags html)"
proof -
  let ?s = "ReplaceMatches (re_element ''style'') [] (ReplaceMatches (re_element ''script'') [] html)"
  have sub: "set (ReplaceMatches re [] s) \<subseteq> set s" for re s
    using set_ReplaceMatches [of re "[]" s] by simp
  have "set ?s \<subseteq> set html" using sub subset_trans by blast
  with assms set_ReplaceMatches [of re_tag "'' ''" ?s]
  have "CHR ''&'' \<notin> set (ReplaceMatches re_tag '' '' ?s)" by auto
  then show ?thesis
    unfolding stripHTMLTags_def Let_def by (simp add: decode_no_entities tags_gone)
qed

theorem stripHTMLTags_no_tags_witness:
  "\<not> has_tag (stripHTMLTags ''<b>Hi<p>'') \<and> stripHTMLTags ''<b>Hi<p>'' = '' Hi ''"
proof -
  have "stripHTMLTags ''<b>Hi<p>'' = '' Hi ''" by code_simp
  then show ?thesis using stripHTMLTags_no_tags [of "''<b>Hi<p>''"] by simp
qed

text \<open>
  The entity pass runs after the tag pass, so escaped markup comes back as markup: text that
  shows a tag in a browser ends up as that tag in the snippet source.
\<close>

theorem stripHTMLTags_restores_escaped_tags:
  "has_tag (stripHTMLTags ''&lt;b&gt;'') \<and> stripHTMLTags ''&amp;lt;'' = ''<''"
proof -
  have "stripHTMLTags ''&lt;b&gt;'' = ''<b>''" "stripHTMLTags ''&amp;lt;'' = ''<''" by code_simp+
  moreover have "has_tag ''<b>''" unfolding has_tag_def
    by (rule exI [of _ "[]"], rule exI [of _ "''b''"], rule exI [of _ "[]"]) simp
  ultimately show ?thesis by simp
qed

section \<open>The From header of a parsed message\<close>

lemma TrimSpace_snoc_blank:
  assumes "s \<noteq> []" "TrimSpace s = s"
  shows "TrimSpace (s @ '' '') = s"
proof -
  have "\<not> is_space (hd s)" "\<not> is_space (last s)" using TrimSpace_ends [of s] assms by simp_all
  note ends = this
  have "dropWhile is_space (s @ '' '') = s @ '' ''" using ends(1) assms(1) by (cases s) simp_all
  moreover have "dropWhile is_space (rev s) = rev s"
    using ends(2) assms(1) by (cases s rule: rev_cases) simp_all
  ultimately show ?thesis by (simp add: TrimSpace_def TrimLeftSpace_def TrimRightSpace_def is_space_def)
qed

lemma TrimChar_absent:
  assumes "c \<notin> set s"
  shows "TrimChar c s = s"
proof -
  have "dropWhile (\<lambda>x. x = c) t = t" if "c \<notin> set t" for t using that by (cases t) auto
  from this [OF assms] this [of "rev s"] assms show ?thesis by (simp add: TrimChar_def)
qed

lemma re_From_plain:
  assumes "CHR 0x22 \<notin> set name" "CHR ''<'' \<notin> set name" "name \<noteq> []"
    and "CHR ''<'' \<notin> set e" "CHR ''>'' \<notin> set e" "CHR ''@'' \<in> set (butlast (tl e))"
  shows "re_From (name @ '' <'' @ e @ ''>'') = Some (name @ '' '', e)"
    "re_From ([CHR 0x22] @ name @ [CHR 0x22] @ '' <'' @ e @ ''>'') = Some (name, e)"
proof -
  have brk: "HasSuffix (CHR ''<'' # e @ ''>'') ''>''"
    using HasSuffix_append [of "''<'' @ e" "''>''"] by simp
  have a: "takeWhile (\<lambda>c. c \<noteq> CHR 0x22 \<and> c \<noteq> CHR ''<'') (name @ '' <'' @ e @ ''>'') = name @ '' ''"
    "takeWhile (\<lambda>c. c \<noteq> CHR 0x22 \<and> c \<noteq> CHR ''<'') (name @ [CHR 0x22] @ '' <'' @ e @ ''>'') = name"
    using assms(1,2) by (auto simp: takeWhile_append)
  have b: "\<not> HasPrefix (name @ '' <'' @ e @ ''>'') [CHR 0x22]"
    using assms(1,3) by (cases name) auto
  show "re_From (name @ '' <'' @ e @ ''>'') = Some (name @ '' '', e)"
    unfolding re_From_def Let_def using a(1) b brk assms(4-6) by (simp add: butlast_append)
  show "re_From ([CHR 0x22] @ name @ [CHR 0x22] @ '' <'' @ e @ ''>'') = Some (name, e)"
    unfolding re_From_def Let_def using a(2) brk assms(4-6) by (simp add: butlast_append re_space_def)
qed

text \<open>
  \<^verbatim>\<open>parseFromHeader\<close> reads back a well-formed header: a display name without quotes and
  angle brackets, quoted or not, before an address in angle brackets.
\<close>

theorem parseFromHeader_roundtrip:
  assumes name: "CHR 0x22 \<notin> set name" "CHR ''<'' \<notin> set name" "name \<noteq> []" "TrimSpace name = name"
    and email: "CHR ''<'' \<notin> set (u @ v)" "CHR ''>'' \<notin> set (u @ v)" "u \<noteq> []" "v \<noteq> []"
      "TrimSpace (u @ ''@'' @ v) = u @ ''@'' @ v"
  shows "parseFromHeader (name @ '' <'' @ (u @ ''@'' @ v) @ ''>'') = (name, u @ ''@'' @ v)
    \<and> parseFromHeader ([CHR 0x22] @ name @ [CHR 0x22] @ '' <'' @ (u @ ''@'' @ v) @ ''>'') = (name, u @ ''@'' @ v)"
proof -
  define e where "e = u @ ''@'' @ v"
  have inner: "CHR ''@'' \<in> set (butlast (tl e))"
    using email(3,4) by (cases u) (auto simp: e_def butlast_append)
  have e: "CHR ''<'' \<notin> set e" "CHR ''>'' \<notin> set e" "TrimSpace e = e"
    using email by (auto simp: e_def)
  note re = re_From_plain [OF name(1-3) e(1,2) inner]
  have t1: "TrimSpace (name @ '' <'' @ e @ ''>'') = name @ '' <'' @ e @ ''>''"
    using TrimSpace_ends [of name] name(3,4) by (intro TrimSpace_ident) (auto simp: is_space_def)
  have t2: "TrimSpace ([CHR 0x22] @ name @ [CHR 0x22] @ '' <'' @ e @ ''>'')
      = [CHR 0x22] @ name @ [CHR 0x22] @ '' <'' @ e @ ''>''"
    by (intro TrimSpace_ident) (auto simp: is_space_def)
  note trim = TrimSpace_snoc_blank [OF name(3,4)] TrimChar_absent [OF name(1)]
  have "parseFromHeader (name @ '' <'' @ e @ ''>'') = (name, e)"
    unfolding parseFromHeader_def Let_def t1 re(1) using trim e(3) by simp
  moreover have "parseFromHeader ([CHR 0x22] @ name @ [CHR 0x22] @ '' <'' @ e @ ''>'') = (name, e)"
    unfolding parseFromHeader_def Let_def t2 re(2) using trim name(4) e(3) by simp
  ultimately show ?thesis unfolding e_def by blast
qed

theorem parseFromHeader_roundtrip_witness:
  "parseFromHeader ''Ann Lee <ann@x.io>'' = (''Ann Lee'', ''ann@x.io'')
   \<and> parseFromHeader ([CHR 0x22] @ ''Ann Lee'' @ [CHR 0x22] @ '' <ann@x.io>'') = (''Ann Lee'', ''ann@x.io'')"
proof -
  have "TrimSpace ''Ann Lee'' = ''Ann Lee''" "TrimSpace (''ann'' @ ''@'' @ ''x.io'') = ''ann'' @ ''@'' @ ''x.io''"
    by code_simp+
  from parseFromHeader_roundtrip [OF _ _ _ this(1) _ _ _ _ this(2)] show ?thesis by simp
qed

end
