(* ===== verification/WsHub.thy ===== *)
theory WsHub
  imports AppErrors
begin

text \<open>
  \<^verbatim>\<open>internal/websocket\<close>: the hub that fans new-message notifications out to the web-socket
  clients, the clients, and the origin check of the upgrader. The goroutines (hub loop, read and
  write pump of every client, SMTP sessions that broadcast) are the step relation \<open>ws_step\<close>; a
  send on a closed channel or a second close, which panic in Go, set \<open>s_panic\<close>. JSON
  encoding is a parameter.
\<close>

section \<open>hub.go: messages and state\<close>

record NewMessagePayload =
  NM_ID :: uint
  NM_SenderEmail :: string
  NM_SenderName :: string
  NM_Subject :: string
  NM_ReceivedAt :: time

record WSMessage =
  WS_Type :: string
  WS_MailboxID :: uint
  WS_Message :: "NewMessagePayload option"
  WS_Error :: string

record json =
  json_Marshal :: "WSMessage \<Rightarrow> goerror + bytes"
  json_Unmarshal :: "bytes \<Rightarrow> goerror + WSMessage"

type_synonym client = nat

record Hub =
  clients :: "client list"
  subscriptions :: "uint \<Rightarrow> client list option"

definition NewHub :: Hub where
  "NewHub = \<lparr>clients = [], subscriptions = (\<lambda>m. None)\<rparr>"

text \<open>The bodies of the cases of \<^verbatim>\<open>Run\<close>.\<close>

definition hub_register :: "client \<Rightarrow> Hub \<Rightarrow> Hub" where
  "hub_register c h = h\<lparr>clients := List.insert c (clients h)\<rparr>"

definition drop_subscriber :: "client \<Rightarrow> client list option \<Rightarrow> client list option" where
  "drop_subscriber c s =
     (case s of None \<Rightarrow> None
      | Some subscribers \<Rightarrow> (case removeAll c subscribers of [] \<Rightarrow> None | cs \<Rightarrow> Some cs))"

definition hub_unregister :: "client \<Rightarrow> Hub \<Rightarrow> Hub" where
  "hub_unregister c h =
     h\<lparr>clients := removeAll c (clients h), subscriptions := (\<lambda>m. drop_subscriber c (subscriptions h m))\<rparr>"

definition hub_subscribe :: "client \<Rightarrow> uint \<Rightarrow> Hub \<Rightarrow> Hub" where
  "hub_subscribe c mailboxID h =
     (let old = (case subscriptions h mailboxID of None \<Rightarrow> [] | Some cs \<Rightarrow> cs) in
      h\<lparr>subscriptions := (subscriptions h)(mailboxID := Some (List.insert c old))\<rparr>)"

definition hub_unsubscribe :: "client \<Rightarrow> uint \<Rightarrow> Hub \<Rightarrow> Hub" where
  "hub_unsubscribe c mailboxID h =
     h\<lparr>subscriptions := (subscriptions h)(mailboxID := drop_subscriber c (subscriptions h mailboxID))\<rparr>"

definition hub_subscribers :: "uint \<Rightarrow> Hub \<Rightarrow> client list" where
  "hub_subscribers mailboxID h = (case subscriptions h mailboxID of None \<Rightarrow> [] | Some cs \<Rightarrow> cs)"

text \<open>\<^verbatim>\<open>BroadcastNewMessage\<close> up to the send on the broadcast channel.\<close>

definition broadcast_data :: "json \<Rightarrow> uint \<Rightarrow> NewMessagePayload \<Rightarrow> (uint \<times> bytes) option" where
  "broadcast_data J mailboxID payload =
     (case json_Marshal J \<lparr>WS_Type = ''new_message'', WS_MailboxID = mailboxID,
         WS_Message = Some payload, WS_Error = []\<rparr> of
        Inl err \<Rightarrow> None
      | Inr data \<Rightarrow> Some (mailboxID, data))"

section \<open>client.go\<close>

text \<open>A buffered Go channel; \<open>None\<close> is a panic.\<close>

record chan =
  ch_buf :: "bytes list"
  ch_closed :: bool

definition sendCap :: nat where "sendCap = 256"

definition broadcastCap :: nat where "broadcastCap = 256"

text \<open>\<^verbatim>\<open>select { case c.send <- data: default: }\<close>\<close>

definition try_send :: "bytes \<Rightarrow> chan \<Rightarrow> chan option" where
  "try_send data ch =
     (if ch_closed ch then None
      else Some (if length (ch_buf ch) < sendCap then ch\<lparr>ch_buf := ch_buf ch @ [data]\<rparr> else ch))"

definition close_chan :: "chan \<Rightarrow> chan option" where
  "close_chan ch = (if ch_closed ch then None else Some (ch\<lparr>ch_closed := True\<rparr>))"

text \<open>What the read pump does with one frame: talk to the hub, or answer with an error.\<close>

datatype client_action = DoSubscribe uint | DoUnsubscribe uint | DoError string

definition handleMessage :: "json \<Rightarrow> bytes \<Rightarrow> client_action" where
  "handleMessage J data =
     (case json_Unmarshal J data of
        Inl err \<Rightarrow> DoError ''invalid message format''
      | Inr msg \<Rightarrow>
          if WS_Type msg = ''subscribe'' then
            if WS_MailboxID msg = 0 then DoError ''mailbox_id is required''
            else DoSubscribe (WS_MailboxID msg)
          else if WS_Type msg = ''unsubscribe'' then
            if WS_MailboxID msg = 0 then DoError ''mailbox_id is required''
            else DoUnsubscribe (WS_MailboxID msg)
          else DoError ''unknown message type'')"

definition sendError :: "json \<Rightarrow> string \<Rightarrow> chan \<Rightarrow> chan option" where
  "sendError J errMsg ch =
     (case json_Marshal J \<lparr>WS_Type = ''error'', WS_MailboxID = 0, WS_Message = None, WS_Error = errMsg\<rparr> of
        Inl err \<Rightarrow> Some ch
      | Inr data \<Rightarrow> try_send data ch)"

section \<open>origin.go\<close>

text \<open>\<^verbatim>\<open>NewSecureUpgrader\<close>: the allowed origins from the environment, and the check.\<close>

definition ws_allowedOrigins :: "string \<Rightarrow> string list" where
  "ws_allowedOrigins env =
     (let filtered = filter (\<lambda>origin. origin \<noteq> []) (map TrimSpace (Split CHR '','' env)) in
      if filtered = [] then [''http://localhost:3000''] else filtered)"

definition ws_CheckOrigin :: "string \<Rightarrow> string \<Rightarrow> bool" where
  "ws_CheckOrigin env origin = (origin = [] \<or> list_ex (\<lambda>allowed. allowed = origin) (ws_allowedOrigins env))"

section \<open>The goroutines\<close>

text \<open>
  A client is created by the \<^verbatim>\<open>/ws\<close> handler, registers (a rendezvous with the hub loop),
  reads frames, and unregisters once, when its read loop ends. The hub loop is idle in its
  \<^verbatim>\<open>select\<close> or in the middle of the delivery loop of a broadcast.
\<close>

datatype client_pc = Absent | Handshake | Reading | Leaving | Gone

datatype loop_pc = Idle | Delivering bytes "client list"

record ws =
  s_hub :: Hub
  s_loop :: loop_pc
  s_queue :: "(uint \<times> bytes) list"
  s_chan :: "client \<Rightarrow> chan"
  s_pc :: "client \<Rightarrow> client_pc"
  s_out :: "client \<Rightarrow> bytes list"
  s_panic :: bool

definition set_chan :: "client \<Rightarrow> chan option \<Rightarrow> ws \<Rightarrow> ws" where
  "set_chan c r s = (case r of None \<Rightarrow> s\<lparr>s_panic := True\<rparr> | Some ch \<Rightarrow> s\<lparr>s_chan := (s_chan s)(c := ch)\<rparr>)"

definition set_pc :: "client \<Rightarrow> client_pc \<Rightarrow> ws \<Rightarrow> ws" where
  "set_pc c p s = s\<lparr>s_pc := (s_pc s)(c := p)\<rparr>"

definition ws_init :: ws where
  "ws_init = \<lparr>s_hub = NewHub, s_loop = Idle, s_queue = [], s_chan = (\<lambda>c. \<lparr>ch_buf = [], ch_closed = False\<rparr>),
     s_pc = (\<lambda>c. Absent), s_out = (\<lambda>c. []), s_panic = False\<rparr>"

text \<open>The \<^verbatim>\<open>unregister\<close> case closes the channel only for a registered client.\<close>

definition do_unregister :: "client \<Rightarrow> ws \<Rightarrow> ws" where
  "do_unregister c s =
     (if c \<in> set (clients (s_hub s))
      then set_chan c (close_chan (s_chan s c)) (s\<lparr>s_hub := hub_unregister c (s_hub s)\<rparr>)
      else s)"

definition client_act :: "json \<Rightarrow> client \<Rightarrow> client_action \<Rightarrow> ws \<Rightarrow> ws" where
  "client_act J c a s =
     (case a of
        DoSubscribe m \<Rightarrow> s\<lparr>s_hub := hub_subscribe c m (s_hub s)\<rparr>
      | DoUnsubscribe m \<Rightarrow> s\<lparr>s_hub := hub_unsubscribe c m (s_hub s)\<rparr>
      | DoError e \<Rightarrow> set_chan c (sendError J e (s_chan s c)) s)"

text \<open>
  A frame that talks to the hub needs the hub loop in its \<^verbatim>\<open>select\<close>; an error answer does not.
  The write pump takes the head of the channel at any time, or stops; \<open>publish\<close> is a
  session's blocking send on the broadcast channel.
\<close>

inductive ws_step :: "json \<Rightarrow> ws \<Rightarrow> ws \<Rightarrow> bool" for J where
  connect: "ws_step J s (set_pc c Handshake s)"
    if "s_pc s c = Absent"
| register: "ws_step J s (set_pc c Reading (s\<lparr>s_hub := hub_register c (s_hub s)\<rparr>))"
    if "s_pc s c = Handshake" "s_loop s = Idle"
| frame: "ws_step J s (client_act J c a s)"
    if "s_pc s c = Reading" "handleMessage J data = a" "s_loop s = Idle \<or> (\<exists>e. a = DoError e)"
| read_error: "ws_step J s (set_pc c Leaving s)"
    if "s_pc s c = Reading"
| unregister: "ws_step J s (set_pc c Gone (do_unregister c s))"
    if "s_pc s c = Leaving" "s_loop s = Idle"
| publish: "ws_step J s (s\<lparr>s_queue := s_queue s @ [(m, data)]\<rparr>)"
    if "broadcast_data J m payload = Some (m, data)" "length (s_queue s) < broadcastCap"
| receive: "ws_step J s (s\<lparr>s_queue := q, s_loop := Delivering data (hub_subscribers m (s_hub s))\<rparr>)"
    if "s_loop s = Idle" "s_queue s = (m, data) # q"
| deliver: "ws_step J s (set_chan c (try_send data (s_chan s c)) (s\<lparr>s_loop := Delivering data (removeAll c cs)\<rparr>))"
    if "s_loop s = Delivering data cs" "c \<in> set cs"
| delivered: "ws_step J s (s\<lparr>s_loop := Idle\<rparr>)"
    if "s_loop s = Delivering data []"
| written: "ws_step J s (s\<lparr>s_chan := (s_chan s)(c := (s_chan s c)\<lparr>ch_buf := rest\<rparr>),
      s_out := (s_out s)(c := s_out s c @ [data])\<rparr>)"
    if "ch_buf (s_chan s c) = data # rest"

inductive ws_reach :: "json \<Rightarrow> ws \<Rightarrow> bool" for J where
  init: "ws_reach J ws_init"
| step: "ws_reach J s \<Longrightarrow> ws_step J s s' \<Longrightarrow> ws_reach J s'"

section \<open>Invariant\<close>

text \<open>
  Registered clients are exactly the ones between registration and unregistration, and those are
  the ones with an open channel; subscribers are registered; no subscription set is empty; the
  buffers respect their capacity; nothing has panicked.
\<close>

definition hub_ok :: "Hub \<Rightarrow> bool" where
  "hub_ok h \<longleftrightarrow> distinct (clients h) \<and> (\<forall>m cs. subscriptions h m = Some cs \<longrightarrow>
     cs \<noteq> [] \<and> distinct cs \<and> set cs \<subseteq> set (clients h))"

definition ws_inv :: "ws \<Rightarrow> bool" where
  "ws_inv s \<longleftrightarrow> hub_ok (s_hub s) \<and> \<not> s_panic s
    \<and> (\<forall>c. c \<in> set (clients (s_hub s)) \<longleftrightarrow> s_pc s c \<in> {Reading, Leaving})
    \<and> (\<forall>c. ch_closed (s_chan s c) \<longleftrightarrow> s_pc s c = Gone)
    \<and> (\<forall>c. length (ch_buf (s_chan s c)) \<le> sendCap) \<and> length (s_queue s) \<le> broadcastCap
    \<and> (\<forall>data cs. s_loop s = Delivering data cs \<longrightarrow> set cs \<subseteq> set (clients (s_hub s)))"

lemma drop_subscriber_Some:
  "drop_subscriber c s = Some cs \<longleftrightarrow> (\<exists>xs. s = Some xs \<and> cs = removeAll c xs \<and> cs \<noteq> [])"
  by (auto simp: drop_subscriber_def split: option.splits list.splits)

lemma hub_okI:
  assumes "distinct (clients h)"
    and "\<And>m cs. subscriptions h m = Some cs \<Longrightarrow> cs \<noteq> [] \<and> distinct cs \<and> set cs \<subseteq> set (clients h)"
  shows "hub_ok h"
  using assms by (simp add: hub_ok_def)

lemma hub_okD:
  assumes "hub_ok h"
  shows "distinct (clients h)"
    "subscriptions h m = Some cs \<Longrightarrow> cs \<noteq> [] \<and> distinct cs \<and> set cs \<subseteq> set (clients h)"
  using assms by (auto simp: hub_ok_def)

lemma hub_ok_register [inv_intros]: "hub_ok h \<Longrightarrow> hub_ok (hub_register c h)"
  by (rule hub_okI; drule hub_okD; auto simp: hub_register_def dest: hub_okD(2))

lemma dropped_ok:
  assumes "drop_subscriber c s = Some cs" "\<And>xs. s = Some xs \<Longrightarrow> distinct xs \<and> set xs \<subseteq> A"
  shows "cs \<noteq> [] \<and> distinct cs \<and> set cs \<subseteq> A - {c}"
  using assms by (auto simp: drop_subscriber_Some distinct_removeAll)

lemma hub_ok_unregister [inv_intros]:
  assumes "hub_ok h"
  shows "hub_ok (hub_unregister c h)"
proof (rule hub_okI)
  fix m cs
  assume "subscriptions (hub_unregister c h) m = Some cs"
  then have "drop_subscriber c (subscriptions h m) = Some cs" by (simp add: hub_unregister_def)
  from dropped_ok [OF this, of "set (clients h)"] hub_okD(2) [OF assms]
  show "cs \<noteq> [] \<and> distinct cs \<and> set cs \<subseteq> set (clients (hub_unregister c h))"
    by (simp add: hub_unregister_def)
qed (use hub_okD(1) [OF assms] in \<open>simp add: hub_unregister_def distinct_removeAll\<close>)

lemma hub_ok_unsubscribe [inv_intros]:
  assumes "hub_ok h"
  shows "hub_ok (hub_unsubscribe c m h)"
proof (rule hub_okI)
  fix n cs
  assume "subscriptions (hub_unsubscribe c m h) n = Some cs"
  then consider "n \<noteq> m" "subscriptions h n = Some cs" | "drop_subscriber c (subscriptions h m) = Some cs"
    by (auto simp: hub_unsubscribe_def split: if_splits)
  then show "cs \<noteq> [] \<and> distinct cs \<and> set cs \<subseteq> set (clients (hub_unsubscribe c m h))"
  proof cases
    case 1
    with hub_okD(2) [OF assms] show ?thesis by (simp add: hub_unsubscribe_def)
  next
    case 2
    from dropped_ok [OF this, of "set (clients h)"] hub_okD(2) [OF assms]
    show ?thesis by (auto simp: hub_unsubscribe_def)
  qed
qed (use hub_okD(1) [OF assms] in \<open>simp add: hub_unsubscribe_def\<close>)

lemma hub_ok_subscribe [inv_intros]:
  assumes "hub_ok h" "c \<in> set (clients h)"
  shows "hub_ok (hub_subscribe c m h)"
proof (rule hub_okI)
  fix n cs
  assume n: "subscriptions (hub_subscribe c m h) n = Some cs"
  show "cs \<noteq> [] \<and> distinct cs \<and> set cs \<subseteq> set (clients (hub_subscribe c m h))"
  proof (cases "n = m")
    case True
    with n have cs: "cs = List.insert c (case subscriptions h m of None \<Rightarrow> [] | Some xs \<Rightarrow> xs)"
      by (simp add: hub_subscribe_def Let_def)
    show ?thesis
      using hub_okD(2) [OF assms(1), of m] assms(2)
      unfolding cs by (cases "subscriptions h m") (auto simp: hub_subscribe_def Let_def List.insert_def)
  next
    case False
    with n hub_okD(2) [OF assms(1)] show ?thesis by (simp add: hub_subscribe_def Let_def)
  qed
qed (use hub_okD(1) [OF assms(1)] in \<open>simp add: hub_subscribe_def Let_def\<close>)

lemma hub_clients [simp]:
  "set (clients (hub_register c h)) = insert c (set (clients h))"
  "set (clients (hub_unregister c h)) = set (clients h) - {c}"
  "clients (hub_subscribe c m h) = clients h"
  "clients (hub_unsubscribe c m h) = clients h"
  by (auto simp: hub_register_def hub_unregister_def hub_subscribe_def hub_unsubscribe_def Let_def)

lemma try_send_Some:
  "\<not> ch_closed ch \<Longrightarrow> \<exists>ch'. try_send data ch = Some ch' \<and> \<not> ch_closed ch'
     \<and> (length (ch_buf ch) \<le> sendCap \<longrightarrow> length (ch_buf ch') \<le> sendCap)"
  by (auto simp: try_send_def)

lemma sendError_Some:
  "\<not> ch_closed ch \<Longrightarrow> \<exists>ch'. sendError J e ch = Some ch' \<and> \<not> ch_closed ch'
     \<and> (length (ch_buf ch) \<le> sendCap \<longrightarrow> length (ch_buf ch') \<le> sendCap)"
  using try_send_Some [of ch] by (auto simp: sendError_def split: sum.splits)

lemma ws_invD:
  assumes "ws_inv s"
  shows "hub_ok (s_hub s)" "\<not> s_panic s" "c \<in> set (clients (s_hub s)) \<longleftrightarrow> s_pc s c \<in> {Reading, Leaving}"
    "ch_closed (s_chan s c) \<longleftrightarrow> s_pc s c = Gone" "length (ch_buf (s_chan s c)) \<le> sendCap"
    "length (s_queue s) \<le> broadcastCap"
    "s_loop s = Delivering data cs \<Longrightarrow> set cs \<subseteq> set (clients (s_hub s))"
  using assms unfolding ws_inv_def by blast+

text \<open>A send to the open channel of a registered client keeps the invariant.\<close>

lemma ws_inv_send:
  assumes inv: "ws_inv s" and c: "s_pc s c \<noteq> Gone"
    and ch: "\<exists>ch'. r = Some ch' \<and> \<not> ch_closed ch' \<and> (length (ch_buf (s_chan s c)) \<le> sendCap \<longrightarrow> length (ch_buf ch') \<le> sendCap)"
  shows "ws_inv (set_chan c r s)"
proof -
  from ch obtain ch' where r: "r = Some ch'" "\<not> ch_closed ch'" "length (ch_buf ch') \<le> sendCap"
    using ws_invD(5) [OF inv] by blast
  show ?thesis
    using inv c r(2,3) unfolding r(1) set_chan_def ws_inv_def by simp
qed

lemma ws_inv_act:
  assumes inv: "ws_inv s" and c: "s_pc s c = Reading" and a: "s_loop s = Idle \<or> (\<exists>e. a = DoError e)"
  shows "ws_inv (client_act J c a s)"
proof (cases a)
  case (DoSubscribe m)
  have "c \<in> set (clients (s_hub s))" using ws_invD(3) [OF inv, of c] c by simp
  with hub_ok_subscribe [OF ws_invD(1) [OF inv]] DoSubscribe inv show ?thesis
    by (simp add: client_act_def ws_inv_def)
next
  case (DoUnsubscribe m)
  with hub_ok_unsubscribe [OF ws_invD(1) [OF inv]] inv show ?thesis
    by (simp add: client_act_def ws_inv_def)
next
  case (DoError e)
  have "\<not> ch_closed (s_chan s c)" using ws_invD(4) [OF inv, of c] c by simp
  from ws_inv_send [OF inv _ sendError_Some [OF this]] c show ?thesis
    by (simp add: client_act_def DoError)
qed

lemma ws_inv_register:
  assumes inv: "ws_inv s" and c: "s_pc s c = Handshake" and l: "s_loop s = Idle"
  shows "ws_inv (set_pc c Reading (s\<lparr>s_hub := hub_register c (s_hub s)\<rparr>))"
  using inv c l hub_ok_register [OF ws_invD(1) [OF inv]]
  unfolding ws_inv_def set_pc_def by auto

lemma ws_inv_unregister:
  assumes inv: "ws_inv s" and c: "s_pc s c = Leaving" and l: "s_loop s = Idle"
  shows "ws_inv (set_pc c Gone (do_unregister c s))"
proof -
  have "c \<in> set (clients (s_hub s))" "\<not> ch_closed (s_chan s c)"
    using ws_invD(3,4) [OF inv, of c] c by simp_all
  then have "set_pc c Gone (do_unregister c s) =
      s\<lparr>s_hub := hub_unregister c (s_hub s), s_chan := (s_chan s)(c := (s_chan s c)\<lparr>ch_closed := True\<rparr>),
        s_pc := (s_pc s)(c := Gone)\<rparr>"
    by (simp add: do_unregister_def close_chan_def set_chan_def set_pc_def)
  then show ?thesis
    using inv l hub_ok_unregister [OF ws_invD(1) [OF inv]] unfolding ws_inv_def by auto
qed

lemma ws_inv_deliver:
  assumes inv: "ws_inv s" and l: "s_loop s = Delivering data cs" and c: "c \<in> set cs"
  shows "ws_inv (set_chan c (try_send data (s_chan s c)) (s\<lparr>s_loop := Delivering data (removeAll c cs)\<rparr>))"
proof -
  have "s_pc s c \<in> {Reading, Leaving}" using ws_invD(3,7) [OF inv] l c by blast
  then have pc: "s_pc s c \<noteq> Gone" "\<not> ch_closed (s_chan s c)" using ws_invD(4) [OF inv, of c] by auto
  have "ws_inv (s\<lparr>s_loop := Delivering data (removeAll c cs)\<rparr>)"
    using inv ws_invD(7) [OF inv l] unfolding ws_inv_def by auto
  from ws_inv_send [OF this, of c] pc try_send_Some show ?thesis by simp
qed

lemma hub_subscribers_clients: "hub_ok h \<Longrightarrow> set (hub_subscribers m h) \<subseteq> set (clients h)"
  by (cases "subscriptions h m") (auto simp: hub_subscribers_def dest: hub_okD(2))

lemma ws_step_inv: "ws_step J s s' \<Longrightarrow> ws_inv s \<Longrightarrow> ws_inv s'"
proof (induction rule: ws_step.induct)
  case (receive s m data q)
  then show ?case
    using hub_subscribers_clients [OF ws_invD(1) [OF receive.prems], of m] ws_invD(6) [OF receive.prems]
    unfolding ws_inv_def by simp
next
  case (written s c data rest)
  then show ?case
    using ws_invD(5) [OF written.prems, of c] unfolding ws_inv_def by simp
next
  case (unregister s c)
  then show ?case by (intro ws_inv_unregister)
next
  case (connect s c)
  then show ?case by (auto simp: ws_inv_def set_pc_def)
next
  case (read_error s c)
  then show ?case by (auto simp: ws_inv_def set_pc_def)
next
  case (publish m payload data s)
  then show ?case by (simp add: ws_inv_def)
next
  case (delivered s data)
  then show ?case by (simp add: ws_inv_def)
qed (simp_all add: ws_inv_act ws_inv_register ws_inv_deliver)

lemma ws_reach_inv: "ws_reach J s \<Longrightarrow> ws_inv s"
proof (induction rule: ws_reach.induct)
  case init
  then show ?case by (simp add: ws_inv_def ws_init_def NewHub_def hub_ok_def)
next
  case (step s s')
  then show ?case by (blast intro: ws_step_inv)
qed


text \<open>
  C7. The web-socket hub never panics: in no interleaving of connections, frames, disconnects,
  write pumps and broadcasts does a goroutine send on a closed client channel or close one twice,
  every subscriber is a registered client, and the buffers stay within their capacity.
\<close>

theorem ws_never_panics:
  assumes "ws_reach J s"
  shows "\<not> s_panic s
    \<and> (\<forall>m c. c \<in> set (hub_subscribers m (s_hub s)) \<longrightarrow> s_pc s c \<in> {Reading, Leaving} \<and> \<not> ch_closed (s_chan s c))
    \<and> (\<forall>c. length (ch_buf (s_chan s c)) \<le> 256) \<and> length (s_queue s) \<le> 256"
proof -
  have inv: "ws_inv s" by (rule ws_reach_inv [OF assms])
  have "s_pc s c \<in> {Reading, Leaving} \<and> \<not> ch_closed (s_chan s c)"
    if "c \<in> set (hub_subscribers m (s_hub s))" for m c
    using that hub_subscribers_clients [OF ws_invD(1) [OF inv], of m] ws_invD(3,4) [OF inv, of c] by auto
  with ws_invD(2,5,6) [OF inv] show ?thesis by (simp add: sendCap_def broadcastCap_def)
qed

section \<open>Delivery\<close>

text \<open>
  The delivery loop of one broadcast run by itself, over the clients it visits in any order.
\<close>

fun deliver_all :: "bytes \<Rightarrow> client list \<Rightarrow> (client \<Rightarrow> chan) \<Rightarrow> (client \<Rightarrow> chan) option" where
  "deliver_all data [] chs = Some chs"
| "deliver_all data (c # cs) chs =
     (case try_send data (chs c) of None \<Rightarrow> None | Some ch \<Rightarrow> deliver_all data cs (chs(c := ch)))"

lemma deliver_all_spec:
  assumes "distinct cs" "\<And>c. c \<in> set cs \<Longrightarrow> \<not> ch_closed (chs c)"
  shows "deliver_all data cs chs = Some (\<lambda>c.
     if c \<in> set cs \<and> length (ch_buf (chs c)) < sendCap then (chs c)\<lparr>ch_buf := ch_buf (chs c) @ [data]\<rparr>
     else chs c)"
  using assms
proof (induction cs arbitrary: chs)
  case (Cons c cs)
  let ?ch = "if length (ch_buf (chs c)) < sendCap then (chs c)\<lparr>ch_buf := ch_buf (chs c) @ [data]\<rparr> else chs c"
  have "try_send data (chs c) = Some ?ch" using Cons.prems(2) by (simp add: try_send_def)
  moreover have "deliver_all data cs (chs(c := ?ch)) = Some (\<lambda>x.
     if x \<in> set cs \<and> length (ch_buf ((chs(c := ?ch)) x)) < sendCap
     then ((chs(c := ?ch)) x)\<lparr>ch_buf := ch_buf ((chs(c := ?ch)) x) @ [data]\<rparr> else (chs(c := ?ch)) x)"
    using Cons.prems by (intro Cons.IH) auto
  ultimately show ?case using Cons.prems(1) by (auto simp: fun_eq_iff)
qed simp

lemma deliver_steps:
  "deliver_all data cs (s_chan s) = Some chs \<Longrightarrow> s_loop s = Delivering data cs \<Longrightarrow> distinct cs \<Longrightarrow>
   (ws_step J)\<^sup>*\<^sup>* s (s\<lparr>s_chan := chs, s_loop := Idle\<rparr>)"
proof (induction cs arbitrary: s)
  case Nil
  then show ?case using ws_step.delivered [of s data J] by auto
next
  case (Cons c cs)
  then obtain ch where ch: "try_send data (s_chan s c) = Some ch"
    "deliver_all data cs ((s_chan s)(c := ch)) = Some chs" by (auto split: option.splits)
  let ?t = "s\<lparr>s_loop := Delivering data cs, s_chan := (s_chan s)(c := ch)\<rparr>"
  have "removeAll c (c # cs) = cs" using Cons.prems(3) by simp
  then have "ws_step J s ?t"
    using ws_step.deliver [of s data "c # cs" c J] Cons.prems(2) ch(1) by (simp add: set_chan_def)
  moreover have "(ws_step J)\<^sup>*\<^sup>* ?t (?t\<lparr>s_chan := chs, s_loop := Idle\<rparr>)"
    by (rule Cons.IH) (use ch(2) Cons.prems(3) in \<open>simp_all add: fun_upd_def\<close>)
  ultimately show ?case by (simp add: converse_rtranclp_into_rtranclp)
qed

text \<open>
  A published notification reaches its mailbox's subscribers: from every reachable state with
  an idle loop and a queued broadcast, the loop can finish it alone, and then every subscriber of
  that mailbox whose buffer had room has the data exactly once more, at the end; every other
  client's channel is as before.
\<close>

theorem broadcast_delivers:
  assumes r: "ws_reach J s" and s: "s_loop s = Idle" "s_queue s = (m, data) # q"
  shows "\<exists>s'. (ws_step J)\<^sup>*\<^sup>* s s' \<and> s_loop s' = Idle \<and> s_queue s' = q \<and> s_hub s' = s_hub s
    \<and> (\<forall>c. s_chan s' c =
        (if c \<in> set (hub_subscribers m (s_hub s)) \<and> length (ch_buf (s_chan s c)) < 256
         then (s_chan s c)\<lparr>ch_buf := ch_buf (s_chan s c) @ [data]\<rparr> else s_chan s c))"
proof -
  let ?cs = "hub_subscribers m (s_hub s)"
  let ?s1 = "s\<lparr>s_queue := q, s_loop := Delivering data ?cs\<rparr>"
  have inv: "ws_inv s" by (rule ws_reach_inv [OF r])
  have d: "distinct ?cs" using hub_okD(2) [OF ws_invD(1) [OF inv]]
    by (cases "subscriptions (s_hub s) m") (auto simp: hub_subscribers_def)
  have "\<not> ch_closed (s_chan s c)" if "c \<in> set ?cs" for c
    using that hub_subscribers_clients [OF ws_invD(1) [OF inv], of m] ws_invD(3,4) [OF inv, of c] by auto
  from deliver_all_spec [OF d this] have all: "deliver_all data ?cs (s_chan ?s1) = Some (\<lambda>c.
     if c \<in> set ?cs \<and> length (ch_buf (s_chan s c)) < sendCap
     then (s_chan s c)\<lparr>ch_buf := ch_buf (s_chan s c) @ [data]\<rparr> else s_chan s c)" by simp
  have "ws_step J s ?s1" by (rule ws_step.receive [OF s])
  with deliver_steps [OF all _ d] have "(ws_step J)\<^sup>*\<^sup>* s (?s1\<lparr>s_chan := (\<lambda>c.
     if c \<in> set ?cs \<and> length (ch_buf (s_chan s c)) < sendCap
     then (s_chan s c)\<lparr>ch_buf := ch_buf (s_chan s c) @ [data]\<rparr> else s_chan s c), s_loop := Idle\<rparr>)"
    by (simp add: converse_rtranclp_into_rtranclp)
  then show ?thesis by (intro exI conjI) (assumption, auto simp: sendCap_def)
qed

section \<open>Concrete runs\<close>

text \<open>A codec that renders a message as its mailbox number and reads every frame as a subscription.\<close>

definition demo_json :: json where
  "demo_json = \<lparr>json_Marshal = (\<lambda>m. Inr (show_nat (WS_MailboxID m))),
     json_Unmarshal = (\<lambda>b. Inr \<lparr>WS_Type = ''subscribe'', WS_MailboxID = length b, WS_Message = None, WS_Error = []\<rparr>)\<rparr>"

definition demo_payload :: NewMessagePayload where
  "demo_payload = \<lparr>NM_ID = 1, NM_SenderEmail = [], NM_SenderName = [], NM_Subject = [], NM_ReceivedAt = 0\<rparr>"

definition demo_ws :: ws where
  "demo_ws = (let s = set_pc 7 Handshake ws_init;
     s = set_pc 7 Reading (s\<lparr>s_hub := hub_register 7 (s_hub s)\<rparr>);
     s = client_act demo_json 7 (DoSubscribe 3) s in
     s\<lparr>s_queue := [(3, ''3'')]\<rparr>)"

lemma demo_ws_reach: "ws_reach demo_json demo_ws"
proof -
  let ?s1 = "set_pc 7 Handshake ws_init"
  let ?s2 = "set_pc 7 Reading (?s1\<lparr>s_hub := hub_register 7 (s_hub ?s1)\<rparr>)"
  let ?s3 = "client_act demo_json 7 (DoSubscribe 3) ?s2"
  have h: "handleMessage demo_json ''abc'' = DoSubscribe 3"
    by (simp add: handleMessage_def demo_json_def)
  have b: "broadcast_data demo_json 3 demo_payload = Some (3, ''3'')" by code_simp
  have "ws_step demo_json ws_init ?s1" by (rule ws_step.connect) (simp add: ws_init_def)
  with ws_reach.init have "ws_reach demo_json ?s1" by (rule ws_reach.step)
  moreover have "ws_step demo_json ?s1 ?s2"
    by (rule ws_step.register) (simp_all add: ws_init_def set_pc_def)
  ultimately have "ws_reach demo_json ?s2" by (rule ws_reach.step)
  moreover have "ws_step demo_json ?s2 ?s3"
    by (rule ws_step.frame [OF _ h]) (simp_all add: ws_init_def set_pc_def)
  ultimately have "ws_reach demo_json ?s3" by (rule ws_reach.step)
  moreover have "ws_step demo_json ?s3 (?s3\<lparr>s_queue := s_queue ?s3 @ [(3, ''3'')]\<rparr>)"
    by (rule ws_step.publish [OF b]) (simp add: ws_init_def set_pc_def client_act_def broadcastCap_def)
  ultimately have "ws_reach demo_json (?s3\<lparr>s_queue := s_queue ?s3 @ [(3, ''3'')]\<rparr>)" by (rule ws_reach.step)
  moreover have "s_queue ?s3 = []" by (simp add: ws_init_def set_pc_def client_act_def)
  ultimately show ?thesis by (simp add: demo_ws_def Let_def)
qed

theorem ws_never_panics_witness:
  "\<not> s_panic demo_ws \<and> (7 \<in> set (hub_subscribers 3 (s_hub demo_ws)) \<and> s_pc demo_ws 7 = Reading)"
proof -
  have "7 \<in> set (hub_subscribers 3 (s_hub demo_ws))" "s_pc demo_ws 7 = Reading" by code_simp+
  then show ?thesis using ws_never_panics [OF demo_ws_reach] by simp
qed

theorem broadcast_delivers_witness:
  "\<exists>s'. (ws_step demo_json)\<^sup>*\<^sup>* demo_ws s' \<and> ch_buf (s_chan s' 7) = [''3''] \<and> ch_buf (s_chan s' 8) = []"
proof -
  have "s_loop demo_ws = Idle" "s_queue demo_ws = [(3, ''3'')]"
    "7 \<in> set (hub_subscribers 3 (s_hub demo_ws))" "8 \<notin> set (hub_subscribers 3 (s_hub demo_ws))"
    "ch_buf (s_chan demo_ws 7) = []" "ch_buf (s_chan demo_ws 8) = []" by code_simp+
  then show ?thesis using broadcast_delivers [OF demo_ws_reach, of 3 "''3''" "[]"] by auto
qed

end
