(* ===== verification/SmtpSession.thy ===== *)
theory SmtpSession
  imports Repository SmtpParser WsHub "HOL-Library.Sublist"
begin

text \<open>
  \<^verbatim>\<open>internal/smtp/session.go\<close>: the SMTP session, from \<^verbatim>\<open>MAIL FROM\<close> to the storage of
  a message for every recipient. A session calls the repositories and the file storage of its
  backend; the world it changes is the database, the operating system and the list of
  \<^verbatim>\<open>BroadcastNewMessage\<close> calls it has made.
\<close>

section \<open>State\<close>

record Backend =
  b_domainRepo :: DomainRepository
  b_mailboxRepo :: MailboxRepository
  b_messageRepo :: MessageRepository
  b_fileStorage :: FileStorage
  b_wsHub :: bool
  b_autoProvision :: bool
  b_ReadEnvelope :: "bytes \<Rightarrow> goerror + envelope"

record Session =
  se_from :: string
  se_recipients :: "string list"

record world =
  w_db :: db
  w_os :: osenv
  w_sent :: "(uint \<times> NewMessagePayload) list"

record SMTPError =
  SE_Code :: int
  SE_EnhancedCode :: "int \<times> int \<times> int"
  SE_Message :: string

definition NewSession :: Session where
  "NewSession = \<lparr>se_from = [], se_recipients = []\<rparr>"

section \<open>Addresses\<close>

definition parseEmailAddress :: "string \<Rightarrow> goerror + string \<times> string" where
  "parseEmailAddress address =
     (let address = TrimPrefix address ''<'';
          address = TrimSuffix address ''>'';
          address = TrimSpace address;
          parts = Split CHR ''@'' address in
      if length parts \<noteq> 2 then Inl (Opaque (''invalid email address: '' @ address))
      else
        let localPart = ToLower (parts ! 0); domain = ToLower (parts ! 1) in
        if localPart = [] \<or> domain = [] then Inl (Opaque (''invalid email address: '' @ address))
        else Inr (localPart, domain))"

section \<open>Commands\<close>

definition Mail :: "string \<Rightarrow> Session \<Rightarrow> Session" where
  "Mail sender s = s\<lparr>se_from := sender\<rparr>"

definition Reset :: "Session \<Rightarrow> Session" where
  "Reset s = s\<lparr>se_from := [], se_recipients := []\<rparr>"

definition err550 :: "string \<Rightarrow> SMTPError" where
  "err550 m = \<lparr>SE_Code = 550, SE_EnhancedCode = (5, 1, 1), SE_Message = m\<rparr>"

definition err451 :: SMTPError where
  "err451 = \<lparr>SE_Code = 451, SE_EnhancedCode = (4, 3, 0), SE_Message = ''Temporary error''\<rparr>"

definition Rcpt :: "Backend \<Rightarrow> string \<Rightarrow> db \<Rightarrow> Session \<Rightarrow> (SMTPError + unit) \<times> Session" where
  "Rcpt b to d s =
     (case parseEmailAddress to of
        Inl err \<Rightarrow> (Inl (err550 ''Invalid recipient address''), s)
      | Inr (localPart, domainName) \<Rightarrow>
         (case dr_GetByName (b_domainRepo b) domainName d of
            Inl err \<Rightarrow>
              if errors_Is err RepoErrNotFound then (Inl (err550 ''Domain not found''), s)
              else (Inl err451, s)
          | Inr domain \<Rightarrow>
              if \<not> D_IsActive domain then (Inl (err550 ''Domain is not active''), s)
              else if \<not> b_autoProvision b then
                (case mr_GetByAddress (b_mailboxRepo b) to d of
                   Inl err \<Rightarrow>
                     if errors_Is err RepoErrNotFound then (Inl (err550 ''Mailbox not found''), s)
                     else (Inl err451, s)
                 | Inr _ \<Rightarrow> (Inr (), s\<lparr>se_recipients := se_recipients s @ [to]\<rparr>))
              else (Inr (), s\<lparr>se_recipients := se_recipients s @ [to]\<rparr>)))"

text \<open>The attachment loop: a file that cannot be saved is skipped.\<close>

fun save_attachments :: "FileStorage \<Rightarrow> ParsedAttachment list \<Rightarrow> osenv \<Rightarrow> Attachment list \<times> osenv" where
  "save_attachments fs [] w = ([], w)"
| "save_attachments fs (att # atts) w =
     (case fs_Save fs (PA_Filename att) (PA_Content att) w of
        (Inl err, w1) \<Rightarrow> save_attachments fs atts w1
      | (Inr filePath, w1) \<Rightarrow>
          let (as, w2) = save_attachments fs atts w1 in
          (\<lparr>A_ID = 0, A_MessageID = 0, A_Filename = PA_Filename att, A_ContentType = PA_ContentType att,
            A_FilePath = filePath, A_SizeBytes = PA_Size att\<rparr> # as, w2))"

definition new_message :: "Mailbox \<Rightarrow> ParsedEmail \<Rightarrow> Message" where
  "new_message mailbox email =
     \<lparr>Msg_ID = 0, Msg_MailboxID = M_ID mailbox, Msg_SenderEmail = PE_SenderEmail email,
      Msg_SenderName = PE_SenderName email, Msg_Subject = PE_Subject email, Msg_Snippet = PE_Snippet email,
      Msg_BodyText = PE_BodyText email, Msg_BodyHTML = PE_BodyHTML email, Msg_IsRead = False,
      Msg_ReceivedAt = 0\<rparr>"

definition processEmail :: "Backend \<Rightarrow> string \<Rightarrow> ParsedEmail \<Rightarrow> world \<Rightarrow> (goerror + unit) \<times> world" where
  "processEmail b recipient email w =
     (case parseEmailAddress recipient of
        Inl err \<Rightarrow> (Inl err, w)
      | Inr (localPart, domainName) \<Rightarrow>
         (case dr_GetByName (b_domainRepo b) domainName (w_db w) of
            Inl err \<Rightarrow> (Inl (Wrapf ''failed to get domain'' err), w)
          | Inr domain \<Rightarrow>
             (case mr_GetOrCreate (b_mailboxRepo b) localPart (D_ID domain) (D_Name domain) (w_db w) of
                (Inl err, d1) \<Rightarrow> (Inl (Wrapf ''failed to get/create mailbox'' err), w\<lparr>w_db := d1\<rparr>)
              | (Inr (mailbox, created), d1) \<Rightarrow>
                 (let (attachments, o1) = save_attachments (b_fileStorage b) (PE_Attachments email) (w_os w) in
                  case ms_CreateWithAttachments (b_messageRepo b) (new_message mailbox email) attachments d1 of
                    (Inl err, d2) \<Rightarrow> (Inl (Wrapf ''failed to create message'' err), w\<lparr>w_db := d2, w_os := o1\<rparr>)
                  | (Inr (message, as), d2) \<Rightarrow>
                      (Inr (), w\<lparr>w_db := d2, w_os := o1,
                         w_sent := (if b_wsHub b then w_sent w @ [(M_ID mailbox,
                           \<lparr>NM_ID = Msg_ID message, NM_SenderEmail = Msg_SenderEmail message,
                            NM_SenderName = Msg_SenderName message, NM_Subject = Msg_Subject message,
                            NM_ReceivedAt = Msg_ReceivedAt message\<rparr>)] else w_sent w)\<rparr>)))))"

fun process_all :: "Backend \<Rightarrow> string list \<Rightarrow> ParsedEmail \<Rightarrow> world \<Rightarrow> world" where
  "process_all b [] email w = w"
| "process_all b (r # rs) email w = process_all b rs email (snd (processEmail b r email w))"

definition Data :: "Backend \<Rightarrow> bytes \<Rightarrow> Session \<Rightarrow> world \<Rightarrow> (SMTPError + unit) \<times> world" where
  "Data b r s w =
     (if length (se_recipients s) = 0
      then (Inl \<lparr>SE_Code = 503, SE_EnhancedCode = (5, 5, 1), SE_Message = ''No recipients specified''\<rparr>, w)
      else case ParseEmail (b_ReadEnvelope b) r (w_os w) of
        (Inl err, o1) \<Rightarrow>
          (Inl \<lparr>SE_Code = 550, SE_EnhancedCode = (5, 6, 0), SE_Message = ''Failed to parse email''\<rparr>, w\<lparr>w_os := o1\<rparr>)
      | (Inr parsed, o1) \<Rightarrow>
          let parsedEmail = (if PE_SenderEmail parsed = [] then parsed\<lparr>PE_SenderEmail := se_from s\<rparr> else parsed) in
          (Inr (), process_all b (se_recipients s) parsedEmail (w\<lparr>w_os := o1\<rparr>)))"

section \<open>Addresses: exactness\<close>

definition address_core :: "string \<Rightarrow> string" where
  "address_core a = TrimSpace (TrimSuffix (TrimPrefix a ''<'') ''>'')"

text \<open>
  \<^verbatim>\<open>parseEmailAddress\<close> accepts exactly the addresses with one \<^verbatim>\<open>@\<close> and something
  on both sides, after removing one pair of angle brackets and outer white space, and returns both
  sides in lower case.
\<close>

theorem parseEmailAddress_iff:
  "parseEmailAddress a = Inr (l, d) \<longleftrightarrow>
     (\<exists>u v. address_core a = u @ ''@'' @ v \<and> CHR ''@'' \<notin> set u \<and> CHR ''@'' \<notin> set v
        \<and> u \<noteq> [] \<and> v \<noteq> [] \<and> l = ToLower u \<and> d = ToLower v)"
proof -
  have "parseEmailAddress a = Inr (l, d) \<longleftrightarrow>
    (\<exists>u v. Split CHR ''@'' (address_core a) = [u, v] \<and> u \<noteq> [] \<and> v \<noteq> [] \<and> l = ToLower u \<and> d = ToLower v)"
    by (auto simp: parseEmailAddress_def address_core_def Let_def length_Suc_conv numeral_2_eq_2
        split: if_splits)
  then show ?thesis by (simp add: Split_two)
qed

lemma at_lower [simp]: "CHR ''@'' \<in> set (ToLower s) \<longleftrightarrow> CHR ''@'' \<in> set s"
  by (rule mem_ToLower_iff) (simp_all add: is_lower_def is_upper_def)


text \<open>What one recipient's processing leaves behind.\<close>

definition delivered_to :: "string \<Rightarrow> ParsedEmail \<Rightarrow> db \<Rightarrow> Message \<Rightarrow> bool" where
  "delivered_to r email d m \<longleftrightarrow> (\<exists>mb \<in> set (t_mailboxes d). \<exists>l dn.
     parseEmailAddress r = Inr (l, dn) \<and> M_FullAddress mb = l @ ''@'' @ dn \<and> Msg_MailboxID m = M_ID mb
     \<and> Msg_Subject m = PE_Subject email \<and> Msg_BodyText m = PE_BodyText email
     \<and> Msg_BodyHTML m = PE_BodyHTML email \<and> Msg_SenderEmail m = PE_SenderEmail email)"

lemma delivered_to_mono:
  "delivered_to r email d m \<Longrightarrow> set (t_mailboxes d) \<subseteq> set (t_mailboxes d') \<Longrightarrow> delivered_to r email d' m"
  unfolding delivered_to_def by blast

lemma save_attachments_length: "save_attachments fs atts w = (as, w') \<Longrightarrow> length as \<le> length atts"
proof (induction atts arbitrary: w as w')
  case (Cons att atts)
  obtain x w1 where x: "fs_Save fs (PA_Filename att) (PA_Content att) w = (x, w1)" by fastforce
  obtain bs w2 where bs: "save_attachments fs atts w1 = (bs, w2)" by fastforce
  from Cons.IH [OF bs] Cons.prems x bs show ?case by (cases x) auto
qed simp

context file_storage
begin

text \<open>
  The readers of a parsed message are shared by all recipients: the first pass over the attachments
  consumes them.
\<close>

lemma save_attachments_all:
  assumes "ok (length atts + n) w" "save_attachments FS atts w = (as, w')"
    "length as = length atts" "distinct (map PA_Content atts)"
  shows "ok n w' \<and> (\<forall>k < length atts. content w' (A_FilePath (as ! k)) = Some (os_readers w (PA_Content (atts ! k)))
        \<and> A_SizeBytes (as ! k) = PA_Size (atts ! k))
    \<and> (\<forall>p c. content w p = Some c \<longrightarrow> content w' p = Some c)
    \<and> (\<forall>r. os_readers w' r = (if r \<in> PA_Content ` set atts then [] else os_readers w r))"
  using assms
proof (induction atts arbitrary: w as w')
  case (Cons att atts)
  obtain x w1 where x: "fs_Save FS (PA_Filename att) (PA_Content att) w = (x, w1)" by fastforce
  obtain bs w2 where bs: "save_attachments FS atts w1 = (bs, w2)" by fastforce
  from save_attachments_length [OF bs] obtain p where p: "x = Inr p" using Cons.prems(2,3) x bs by (cases x) fastforce+
  have as: "as = \<lparr>A_ID = 0, A_MessageID = 0, A_Filename = PA_Filename att, A_ContentType = PA_ContentType att,
            A_FilePath = p, A_SizeBytes = PA_Size att\<rparr> # bs" "w' = w2"
    using Cons.prems(2) x bs p by auto
  have ok1: "ok (Suc (length atts + n)) w" using Cons.prems(1) by simp
  note sv = Save_new [OF ok1 x [unfolded p]] and kp = Save_keeps [OF ok1 x]
  have IH: "ok n w2 \<and> (\<forall>k < length atts. content w2 (A_FilePath (bs ! k)) = Some (os_readers w1 (PA_Content (atts ! k)))
        \<and> A_SizeBytes (bs ! k) = PA_Size (atts ! k))
    \<and> (\<forall>p c. content w1 p = Some c \<longrightarrow> content w2 p = Some c)
    \<and> (\<forall>r. os_readers w2 r = (if r \<in> PA_Content ` set atts then [] else os_readers w1 r))"
    by (rule Cons.IH [OF _ bs]) (use Cons.prems(3,4) sv as(1) in auto)
  have other: "k < length atts \<Longrightarrow> os_readers w1 (PA_Content (atts ! k)) = os_readers w (PA_Content (atts ! k))" for k
  proof -
    assume "k < length atts"
    then have "PA_Content (atts ! k) \<in> PA_Content ` set atts" by simp
    with Cons.prems(4) have "PA_Content (atts ! k) \<noteq> PA_Content att" by auto
    with sv show ?thesis by simp
  qed
  show ?case
    unfolding as using IH sv kp other by (auto simp: nth_Cons split: nat.splits)
qed simp

end

section \<open>The session over the contracts of its collaborators\<close>

locale smtp_session =
  dr: domain_repo "b_domainRepo b" +
  mr: mailbox_repo "b_mailboxRepo b" +
  ms: message_repo "b_messageRepo b" +
  fs: file_storage "b_fileStorage b" ok content
  for b :: Backend and ok :: "nat \<Rightarrow> osenv \<Rightarrow> bool" and content :: "osenv \<Rightarrow> string \<Rightarrow> bytes option"
begin

lemma Rcpt_accepted:
  assumes "Rcpt b to d s = (Inr (), s')"
  shows "s' = s\<lparr>se_recipients := se_recipients s @ [to]\<rparr>
    \<and> (\<exists>l dn x. parseEmailAddress to = Inr (l, dn) \<and> x \<in> set (t_domains d) \<and> D_Name x = dn \<and> D_IsActive x)
    \<and> (b_autoProvision b \<or> (\<exists>m \<in> set (t_mailboxes d). M_FullAddress m = to))"
  using assms by (auto simp: Rcpt_def split: sum.splits if_splits
      dest!: dr.GetByName_found mr.GetByAddress_found)

lemma Rcpt_rejected:
  assumes "Rcpt b to d s = (Inl e, s')"
  shows "s' = s" "SE_Code e = 550 \<or> SE_Code e = 451"
    "SE_Message e = ''Domain not found'' \<Longrightarrow>
       \<exists>l dn. parseEmailAddress to = Inr (l, dn) \<and> (\<forall>x \<in> set (t_domains d). D_Name x \<noteq> dn)"
    "SE_Message e = ''Mailbox not found'' \<Longrightarrow> \<forall>m \<in> set (t_mailboxes d). M_FullAddress m \<noteq> to"
  using assms dr.GetByName_missing mr.GetByAddress_missing
  by (fastforce simp: Rcpt_def err550_def err451_def split: sum.splits if_splits)+

lemma GetOrCreate_mailboxes:
  assumes "mr_GetOrCreate (b_mailboxRepo b) l i dn d = (Inr (mb, c), d')"
  shows "mb \<in> set (t_mailboxes d') \<and> M_FullAddress mb = l @ ''@'' @ dn
    \<and> (\<exists>new. d' = put_mailboxes (t_mailboxes d @ new) d)"
proof (cases c)
  case True
  with mr.GetOrCreate_new [of l i dn d mb d'] assms show ?thesis by auto
next
  case False
  with mr.GetOrCreate_old [of l i dn d mb d'] assms
  have "d' = d \<and> mb \<in> set (t_mailboxes d) \<and> M_FullAddress mb = l @ ''@'' @ dn" by simp
  then show ?thesis by (intro conjI exI [of _ "[]"]) auto
qed

lemma processEmail_ok:
  assumes "processEmail b r email w = (Inr (), w')"
  shows "\<exists>m p. t_messages (w_db w') = t_messages (w_db w) @ [m] \<and> delivered_to r email (w_db w') m
    \<and> set (t_mailboxes (w_db w)) \<subseteq> set (t_mailboxes (w_db w'))
    \<and> w_sent w' = (if b_wsHub b then w_sent w @ [(Msg_MailboxID m, p)] else w_sent w) \<and> NM_ID p = Msg_ID m"
proof -
  obtain l dn where a: "parseEmailAddress r = Inr (l, dn)"
    using assms by (auto simp: processEmail_def split: sum.splits)
  obtain x where x: "dr_GetByName (b_domainRepo b) dn (w_db w) = Inr x"
    using assms a by (auto simp: processEmail_def split: sum.splits)
  obtain mb c d1 where g: "mr_GetOrCreate (b_mailboxRepo b) l (D_ID x) (D_Name x) (w_db w) = (Inr (mb, c), d1)"
    using assms a x by (auto simp: processEmail_def split: sum.splits prod.splits)
  obtain as o1 where at: "save_attachments (b_fileStorage b) (PE_Attachments email) (w_os w) = (as, o1)" by fastforce
  obtain m as' d2 where c: "ms_CreateWithAttachments (b_messageRepo b) (new_message mb email) as d1 = (Inr (m, as'), d2)"
    using assms a x g at by (auto simp: processEmail_def split: sum.splits prod.splits)
  have dn: "D_Name x = dn" using dr.GetByName_found [OF x] by simp
  note gm = GetOrCreate_mailboxes [OF g] and cm = ms.CreateWithAttachments_ok [OF c]
  from gm obtain new where new: "d1 = put_mailboxes (t_mailboxes (w_db w) @ new) (w_db w)" by blast
  have w': "w_db w' = d2" "w_sent w' = (if b_wsHub b then w_sent w @ [(M_ID mb,
      \<lparr>NM_ID = Msg_ID m, NM_SenderEmail = Msg_SenderEmail m, NM_SenderName = Msg_SenderName m,
       NM_Subject = Msg_Subject m, NM_ReceivedAt = Msg_ReceivedAt m\<rparr>)] else w_sent w)"
    using assms a x g at c by (auto simp: processEmail_def)
  have f: "Msg_MailboxID m = M_ID mb" "Msg_Subject m = PE_Subject email" "Msg_BodyText m = PE_BodyText email"
    "Msg_BodyHTML m = PE_BodyHTML email" "Msg_SenderEmail m = PE_SenderEmail email"
    using cm created_Message_fields by (auto simp: new_message_def)
  have "delivered_to r email (w_db w') m"
    unfolding delivered_to_def using a gm dn f cm w'(1) by auto
  then show ?thesis using cm new w' f(1)
    by (intro exI [of _ m] exI [of _ "\<lparr>NM_ID = Msg_ID m, NM_SenderEmail = Msg_SenderEmail m,
      NM_SenderName = Msg_SenderName m, NM_Subject = Msg_Subject m, NM_ReceivedAt = Msg_ReceivedAt m\<rparr>"]) simp
qed

lemma processEmail_err:
  assumes "processEmail b r email w = (Inl e, w')"
  shows "t_messages (w_db w') = t_messages (w_db w) \<and> t_attachments (w_db w') = t_attachments (w_db w)
    \<and> set (t_mailboxes (w_db w)) \<subseteq> set (t_mailboxes (w_db w')) \<and> w_sent w' = w_sent w"
  using assms
  by (auto simp: processEmail_def split: sum.splits prod.splits
      dest!: mr.GetOrCreate_err ms.CreateWithAttachments_err GetOrCreate_mailboxes)

lemma process_all_delivers:
  "\<exists>sel. t_messages (w_db (process_all b rs email w)) = t_messages (w_db w) @ map snd sel
    \<and> subseq (map fst sel) rs \<and> set (t_mailboxes (w_db w)) \<subseteq> set (t_mailboxes (w_db (process_all b rs email w)))
    \<and> (\<forall>(r, m) \<in> set sel. delivered_to r email (w_db (process_all b rs email w)) m)
    \<and> (b_wsHub b \<longrightarrow> map (\<lambda>(mb, p). (mb, NM_ID p)) (w_sent (process_all b rs email w))
         = map (\<lambda>(mb, p). (mb, NM_ID p)) (w_sent w) @ map (\<lambda>(r, m). (Msg_MailboxID m, Msg_ID m)) sel)"
proof (induction rs arbitrary: w)
  case Nil
  show ?case by (rule exI [of _ "[]"]) simp
next
  case (Cons r rs)
  obtain x w1 where p: "processEmail b r email w = (x, w1)" by fastforce
  obtain sel where sel: "t_messages (w_db (process_all b rs email w1)) = t_messages (w_db w1) @ map snd sel"
    "subseq (map fst sel) rs" "set (t_mailboxes (w_db w1)) \<subseteq> set (t_mailboxes (w_db (process_all b rs email w1)))"
    "\<forall>(r, m) \<in> set sel. delivered_to r email (w_db (process_all b rs email w1)) m"
    "b_wsHub b \<longrightarrow> map (\<lambda>(mb, p). (mb, NM_ID p)) (w_sent (process_all b rs email w1))
         = map (\<lambda>(mb, p). (mb, NM_ID p)) (w_sent w1) @ map (\<lambda>(r, m). (Msg_MailboxID m, Msg_ID m)) sel"
    using Cons.IH [of w1] by blast
  show ?case
  proof (cases x)
    case (Inl e)
    note q = processEmail_err [OF p [unfolded Inl]]
    show ?thesis using p q sel by (intro exI [of _ sel]) auto
  next
    case (Inr y)
    obtain m pl where q: "t_messages (w_db w1) = t_messages (w_db w) @ [m]" "delivered_to r email (w_db w1) m"
      "set (t_mailboxes (w_db w)) \<subseteq> set (t_mailboxes (w_db w1))"
      "w_sent w1 = (if b_wsHub b then w_sent w @ [(Msg_MailboxID m, pl)] else w_sent w)" "NM_ID pl = Msg_ID m"
      using processEmail_ok [of r email w w1] p Inr by auto
    show ?thesis using p q sel delivered_to_mono [OF q(2) sel(3)] by (intro exI [of _ "(r, m) # sel"]) auto
  qed
qed

end

section \<open>The session of the server\<close>

text \<open>The backend that \<^verbatim>\<open>cmd/server/main.go\<close> assembles.\<close>

definition server_backend :: "gorm \<Rightarrow> string \<Rightarrow> bool \<Rightarrow> bool \<Rightarrow> (bytes \<Rightarrow> goerror + envelope) \<Rightarrow> Backend" where
  "server_backend G base hub auto rd =
     \<lparr>b_domainRepo = NewDomainRepository G, b_mailboxRepo = NewMailboxRepository G,
      b_messageRepo = NewMessageRepository G, b_fileStorage = localStorage base, b_wsHub = hub,
      b_autoProvision = auto, b_ReadEnvelope = rd\<rparr>"

context gorm_db
begin

lemma session_laws: "smtp_session (server_backend G base hub auto rd) (storage_ok base) (stored base)"
  by (simp add: smtp_session_def server_backend_def domain_repo_laws mailbox_repo_laws message_repo_laws
      disk.file_storage_axioms)

end

sublocale gorm_db \<subseteq> session: smtp_session "server_backend G base hub auto rd" "storage_ok base" "stored base"
  by (rule session_laws)

interpretation mem_session: smtp_session "server_backend (mem_gorm t) base hub auto rd" "storage_ok base" "stored base"
  by (rule mem.session_laws)

text \<open>
  C3. \<^verbatim>\<open>RCPT TO\<close>: a recipient is accepted only with a well-formed address in the name of an
  active domain, and, without auto-provisioning, an existing mailbox; it is then the last
  recipient. A rejection is a 550 or a 451 and leaves the session unchanged.
\<close>

theorem Rcpt_guard:
  assumes "gorm_db G" "Rcpt (server_backend G base hub auto rd) to d s = (r, s')"
  shows "case r of
      Inr _ \<Rightarrow> s' = s\<lparr>se_recipients := se_recipients s @ [to]\<rparr>
        \<and> (\<exists>l dn x. parseEmailAddress to = Inr (l, dn) \<and> x \<in> set (t_domains d) \<and> D_Name x = dn \<and> D_IsActive x)
        \<and> (auto \<or> (\<exists>m \<in> set (t_mailboxes d). M_FullAddress m = to))
    | Inl e \<Rightarrow> s' = s \<and> (SE_Code e = 550 \<or> SE_Code e = 451)"
proof -
  note l = gorm_db.session_laws [OF assms(1), of base hub auto rd]
  show ?thesis
  proof (cases r)
    case (Inl e)
    with smtp_session.Rcpt_rejected(1,2) [OF l assms(2) [unfolded Inl]] show ?thesis by simp
  next
    case (Inr u)
    have "Rcpt (server_backend G base hub auto rd) to d s = (Inr (), s')" using assms(2) Inr by simp
    from smtp_session.Rcpt_accepted [OF l this] Inr show ?thesis by (simp add: server_backend_def)
  qed
qed

definition demo_db :: db where
  "demo_db = empty_db\<lparr>t_domains := [zero_Domain\<lparr>D_ID := 1, D_Name := ''x.io'', D_IsActive := True,
     D_Status := StatusActive\<rparr>]\<rparr>"

text \<open>A MIME parser that takes every message for a plain text.\<close>

definition demo_env :: "bytes \<Rightarrow> goerror + envelope" where
  "demo_env b = Inr \<lparr>GetHeader = (\<lambda>h. if h = ''From'' then ''a@y.io'' else ''hi''), Text = b, HTML = [],
     Attachments = [], Inlines = []\<rparr>"

definition demo_backend :: Backend where
  "demo_backend = server_backend (mem_gorm 5) ''data'' True True demo_env"

theorem Rcpt_guard_witness:
  "Rcpt demo_backend ''<Bob@X.io>'' demo_db NewSession
     = (Inr (), NewSession\<lparr>se_recipients := [''<Bob@X.io>'']\<rparr>)
   \<and> (\<exists>l dn x. parseEmailAddress ''<Bob@X.io>'' = Inr (l, dn) \<and> x \<in> set (t_domains demo_db) \<and> D_Name x = dn \<and> D_IsActive x)"
proof -
  have r: "Rcpt (server_backend (mem_gorm 5) ''data'' True True demo_env) ''<Bob@X.io>'' demo_db NewSession
     = (Inr (), NewSession\<lparr>se_recipients := [''<Bob@X.io>'']\<rparr>)" by code_simp
  from Rcpt_guard [OF mem.gorm_db_axioms r] r show ?thesis by (simp add: demo_backend_def)
qed


definition demo_world :: world where
  "demo_world = \<lparr>w_db = demo_db, w_os = demo_os, w_sent = []\<rparr>"

definition demo_session :: Session where
  "demo_session = \<lparr>se_from = ''a@y.io'', se_recipients = [''b@x.io'', ''e@x.io'']\<rparr>"


text \<open>
  C34. The attachment readers of a parsed e-mail are shared by its recipients. For the first
  recipient every attachment is stored with its content; for the second, \<^verbatim>\<open>io.Copy\<close> finds
  the readers at their end, so the files are empty although the rows record the full size.
\<close>

theorem second_recipient_gets_empty_attachments:
  assumes ok: "storage_ok base (2 * length atts) w" and d: "distinct (map PA_Content atts)"
    and one: "save_attachments (localStorage base) atts w = (as1, w1)" "length as1 = length atts"
    and two: "save_attachments (localStorage base) atts w1 = (as2, w2)" "length as2 = length atts"
  shows "\<forall>k < length atts.
      stored base w2 (A_FilePath (as1 ! k)) = Some (os_readers w (PA_Content (atts ! k)))
    \<and> stored base w2 (A_FilePath (as2 ! k)) = Some []
    \<and> A_SizeBytes (as2 ! k) = PA_Size (atts ! k)"
proof -
  have ok2: "storage_ok base (length atts + length atts) w" using ok by (simp add: mult_2)
  note a = disk.save_attachments_all [OF ok2, unfolded FileStorage.simps, OF one d]
  then have ok1: "storage_ok base (length atts + 0) w1" by simp
  note b = disk.save_attachments_all [OF ok1 two d]
  have "os_readers w1 (PA_Content (atts ! k)) = []" if "k < length atts" for k
    using a that by simp
  with a b show ?thesis by simp
qed

lemma demo_os_ok2: "storage_ok ''d'' 2 demo_os"
proof -
  have "IsAbs (os_wd demo_os)" "fkey demo_os ''d'' \<noteq> []" "uuid_ok (os_uuid demo_os 0)" "uuid_ok (os_uuid demo_os 1)"
    "os_uuid demo_os 0 \<noteq> os_uuid demo_os 1" by code_simp+
  then show ?thesis by (auto simp: storage_ok_def demo_os_def less_Suc_eq numeral_2_eq_2)
qed

theorem second_recipient_gets_empty_attachments_witness:
  "\<exists>as1 w1 as2 w2 att. save_attachments (localStorage ''d'') [att] demo_os = (as1, w1)
     \<and> save_attachments (localStorage ''d'') [att] w1 = (as2, w2)
     \<and> stored ''d'' w2 (A_FilePath (as1 ! 0)) = Some ''hello'' \<and> stored ''d'' w2 (A_FilePath (as2 ! 0)) = Some []
     \<and> A_SizeBytes (as2 ! 0) = 5"
proof -
  define att where "att = \<lparr>PA_Filename = [], PA_ContentType = [], PA_Content = 0, PA_Size = 5\<rparr>"
  let ?r1 = "save_attachments (localStorage ''d'') [att] demo_os"
  let ?r2 = "save_attachments (localStorage ''d'') [att] (snd ?r1)"
  have l: "length (fst ?r1) = 1" "length (fst ?r2) = 1" unfolding att_def by code_simp+
  obtain as1 w1 as2 w2 where r: "?r1 = (as1, w1)" "save_attachments (localStorage ''d'') [att] w1 = (as2, w2)"
    "length as1 = 1" "length as2 = 1" using l by (metis prod.collapse)
  have "storage_ok ''d'' (2 * length [att]) demo_os" using demo_os_ok2 by (simp only: list.size One_nat_def mult_2)
    (simp add: numeral_2_eq_2)
  from second_recipient_gets_empty_attachments [OF this _ r(1) _ r(2)] r(3,4)
  have "stored ''d'' w2 (A_FilePath (as1 ! 0)) = Some (os_readers demo_os 0)
    \<and> stored ''d'' w2 (A_FilePath (as2 ! 0)) = Some [] \<and> A_SizeBytes (as2 ! 0) = 5"
    by (simp add: att_def)
  moreover have "os_readers demo_os 0 = ''hello''" by (simp add: demo_os_def)
  ultimately show ?thesis using r(1,2) by metis
qed

definition unknown_domain :: "db \<Rightarrow> string \<Rightarrow> bool" where
  "unknown_domain d p \<longleftrightarrow> (case parseEmailAddress p of
     Inl e \<Rightarrow> True | Inr (l, dn) \<Rightarrow> dn \<notin> set (map D_Name (t_domains d)))"

context smtp_session
begin

lemma process_all_unknown:
  "\<forall>p \<in> set rs. unknown_domain (w_db w) p \<Longrightarrow> process_all b rs email w = w"
proof (induction rs)
  case (Cons p rs)
  have "snd (processEmail b p email w) = w"
  proof (cases "parseEmailAddress p")
    case (Inr ldn)
    obtain l dn where ldn: "ldn = (l, dn)" by fastforce
    have "dr_GetByName (b_domainRepo b) dn (w_db w) \<noteq> Inr x" for x
      using dr.GetByName_found [of dn "w_db w" x] Cons.prems Inr ldn by (auto simp: unknown_domain_def)
    then obtain e where "dr_GetByName (b_domainRepo b) dn (w_db w) = Inl e"
      by (cases "dr_GetByName (b_domainRepo b) dn (w_db w)") auto
    with Inr ldn show ?thesis by (simp add: processEmail_def)
  qed (simp add: processEmail_def)
  with Cons show ?case by simp
qed simp

end

text \<open>
  C35. \<^verbatim>\<open>DATA\<close> acknowledges every message that parses, also one that was stored for nobody: if
  the recipients' domains were deleted after \<^verbatim>\<open>RCPT TO\<close>, the reply is still a success and the
  database is unchanged.
\<close>

theorem Data_acknowledges_lost_mail:
  assumes "gorm_db G" "se_recipients s \<noteq> []" "rd r = Inr env"
  shows "fst (Data (server_backend G base hub auto rd) r s w) = Inr ()
    \<and> ((\<forall>p \<in> set (se_recipients s). unknown_domain (w_db w) p) \<longrightarrow>
         w_db (snd (Data (server_backend G base hub auto rd) r s w)) = w_db w)"
proof -
  let ?b = "server_backend G base hub auto rd"
  have rd: "b_ReadEnvelope ?b r = Inr env" using assms(3) by (simp add: server_backend_def)
  have "\<exists>e o1. ParseEmail (b_ReadEnvelope ?b) r (w_os w) = (Inr e, o1)"
    unfolding ParseEmail_def rd by (simp add: Let_def split: prod.splits)
  then obtain e o1 where p: "ParseEmail (b_ReadEnvelope ?b) r (w_os w) = (Inr e, o1)" by blast
  obtain e' where D: "Data ?b r s w = (Inr (), process_all ?b (se_recipients s) e' (w\<lparr>w_os := o1\<rparr>))"
    unfolding Data_def p using assms(2) by (simp add: Let_def)
  note un = smtp_session.process_all_unknown [OF gorm_db.session_laws [OF assms(1), of base hub auto rd],
      of "se_recipients s" "w\<lparr>w_os := o1\<rparr>" e']
  show ?thesis unfolding D using un by auto
qed

theorem Data_acknowledges_lost_mail_witness:
  "fst (Data demo_backend ''h'' demo_session (demo_world\<lparr>w_db := empty_db\<rparr>)) = Inr ()
   \<and> w_db (snd (Data demo_backend ''h'' demo_session (demo_world\<lparr>w_db := empty_db\<rparr>))) = empty_db"
proof -
  have "se_recipients demo_session \<noteq> []" by (simp add: demo_session_def)
  moreover have "\<exists>env. demo_env ''h'' = Inr env" by (simp add: demo_env_def)
  moreover have "unknown_domain empty_db p" for p
    by (auto simp: unknown_domain_def empty_db_def split: sum.splits)
  ultimately show ?thesis
    using Data_acknowledges_lost_mail [OF mem.gorm_db_axioms, of demo_session demo_env "''h''" _ 5 "''data''" True True "demo_world\<lparr>w_db := empty_db\<rparr>"]
    unfolding demo_backend_def by fastforce
qed

end
