(* ===== verification/MailHandlers.thy ===== *)
theory MailHandlers
  imports SmtpSession
begin

text \<open>
  \<^verbatim>\<open>internal/api/handlers\<close>: the HTTP handlers for mailboxes, messages and attachments. A request body is
  the result of \<^verbatim>\<open>c.Bind\<close> (\<open>None\<close> when it fails), path and query parameters are strings. Random local
  parts come from the argument \<open>rnd\<close>, the numbers \<^verbatim>\<open>rand.Int\<close> returns.
\<close>

section \<open>mailbox_handler.go\<close>

datatype api_data =
    MailboxData Mailbox
  | MailboxesData "MailboxWithUnreadCount list"
  | MessageData Message "Attachment list"
  | MessagesData "MessageListItem list"
  | AttachmentData Attachment
  | AttachmentsData "Attachment list"

record CreateMailboxRequest =
  CM_LocalPart :: string
  CM_DomainID :: uint

type_synonym CreateRandomMailboxRequest = uint

definition address_of :: "string \<Rightarrow> Domain \<Rightarrow> string" where
  "address_of localPart domain = localPart @ ''@'' @ D_Name domain"

definition new_mailbox :: "string \<Rightarrow> uint \<Rightarrow> Domain \<Rightarrow> Mailbox" where
  "new_mailbox localPart domainID domain =
     zero_Mailbox\<lparr>M_LocalPart := localPart, M_DomainID := domainID, M_FullAddress := address_of localPart domain\<rparr>"

definition mailbox_h_Create ::
  "MailboxRepository \<Rightarrow> DomainRepository \<Rightarrow> CreateMailboxRequest option \<Rightarrow> db \<Rightarrow> api_data response \<times> db" where
  "mailbox_h_Create mailboxRepo domainRepo body d =
     (case body of
        None \<Rightarrow> (BadRequest ''invalid request body'', d)
      | Some req \<Rightarrow>
          if CM_LocalPart req = [] then (BadRequest ''local_part is required'', d)
          else if CM_DomainID req = 0 then (BadRequest ''domain_id is required'', d)
          else case dr_GetByID domainRepo (CM_DomainID req) d of
            Inl err \<Rightarrow> (if errors_Is err RepoErrNotFound then NotFound ''domain not found''
                       else InternalError ''failed to get domain'', d)
          | Inr domain \<Rightarrow>
              if \<not> D_IsActive domain then (BadRequest ''domain is not active'', d)
              else case mr_Create mailboxRepo (new_mailbox (CM_LocalPart req) (CM_DomainID req) domain) d of
                (Inl err, d') \<Rightarrow> (if errors_Is err RepoErrDuplicateEntry then Conflict ''mailbox already exists''
                                 else InternalError ''failed to create mailbox'', d')
              | (Inr mailbox, d') \<Rightarrow> (Created (MailboxData mailbox), d'))"

definition charset :: string where
  "charset = ''abcdefghijklmnopqrstuvwxyz0123456789''"

definition generateRandomString :: "(nat \<Rightarrow> nat) \<Rightarrow> nat \<Rightarrow> string" where
  "generateRandomString rnd n = map (\<lambda>i. charset ! (rnd i mod length charset)) [0..<n]"

definition mailbox_h_CreateRandom ::
  "MailboxRepository \<Rightarrow> DomainRepository \<Rightarrow> (nat \<Rightarrow> nat) \<Rightarrow> (nat \<Rightarrow> nat) \<Rightarrow> CreateRandomMailboxRequest option \<Rightarrow> db \<Rightarrow>
    api_data response \<times> db" where
  "mailbox_h_CreateRandom mailboxRepo domainRepo rnd1 rnd2 body d =
     (case body of
        None \<Rightarrow> (BadRequest ''invalid request body'', d)
      | Some domainID \<Rightarrow>
          if domainID = 0 then (BadRequest ''domain_id is required'', d)
          else case dr_GetByID domainRepo domainID d of
            Inl err \<Rightarrow> (if errors_Is err RepoErrNotFound then NotFound ''domain not found''
                       else InternalError ''failed to get domain'', d)
          | Inr domain \<Rightarrow>
              if \<not> D_IsActive domain then (BadRequest ''domain is not active'', d)
              else case mr_Create mailboxRepo (new_mailbox (generateRandomString rnd1 8) domainID domain) d of
                (Inr mailbox, d') \<Rightarrow> (Created (MailboxData mailbox), d')
              | (Inl err, d') \<Rightarrow>
                  if errors_Is err RepoErrDuplicateEntry then
                    case mr_Create mailboxRepo (new_mailbox (generateRandomString rnd2 8) domainID domain) d' of
                      (Inl err2, d'') \<Rightarrow> (InternalError ''failed to create mailbox'', d'')
                    | (Inr mailbox, d'') \<Rightarrow> (Created (MailboxData mailbox), d'')
                  else (InternalError ''failed to create mailbox'', d'))"

text \<open>The paging parameters of \<^verbatim>\<open>MailboxHandler.List\<close> and \<^verbatim>\<open>MessageHandler.List\<close>.\<close>

definition page_limit :: "string \<Rightarrow> int" where
  "page_limit l = (if l \<noteq> [] then case Atoi l of Some parsed \<Rightarrow> if parsed > 0 then parsed else 20 | None \<Rightarrow> 20 else 20)"

definition page_offset :: "string \<Rightarrow> int" where
  "page_offset q = (if q \<noteq> [] then case Atoi q of Some parsed \<Rightarrow> if parsed \<ge> 0 then parsed else 0 | None \<Rightarrow> 0 else 0)"

definition mailbox_h_List :: "MailboxRepository \<Rightarrow> string \<Rightarrow> string \<Rightarrow> string \<Rightarrow> db \<Rightarrow> api_data response" where
  "mailbox_h_List mailboxRepo domainIDStr l q d =
     (if domainIDStr = [] then BadRequest ''domain_id is required''
      else case ParseUint domainIDStr 32 of
        None \<Rightarrow> BadRequest ''invalid domain_id''
      | Some domainID \<Rightarrow>
         (let limit = page_limit l; offset = page_offset q in
          case mr_ListByDomain mailboxRepo domainID limit offset d of
            Inl err \<Rightarrow> InternalError ''failed to list mailboxes''
          | Inr (mailboxes, n) \<Rightarrow> Paginated (MailboxesData mailboxes) n limit offset))"

definition mailbox_h_Get :: "MailboxRepository \<Rightarrow> string \<Rightarrow> time \<Rightarrow> db \<Rightarrow> api_data response \<times> db" where
  "mailbox_h_Get mailboxRepo idStr now d =
     (case ParseUint idStr 32 of
        None \<Rightarrow> (BadRequest ''invalid mailbox ID'', d)
      | Some i \<Rightarrow>
         (case mr_GetByID mailboxRepo i d of
            Inl err \<Rightarrow> (if errors_Is err RepoErrNotFound then NotFound ''mailbox not found''
                       else InternalError ''failed to get mailbox'', d)
          | Inr mailbox \<Rightarrow> (Success (MailboxData mailbox), snd (mr_UpdateLastAccessed mailboxRepo i now d))))"

definition mailbox_h_Delete :: "MailboxRepository \<Rightarrow> string \<Rightarrow> db \<Rightarrow> api_data response \<times> db" where
  "mailbox_h_Delete mailboxRepo idStr d =
     (case ParseUint idStr 32 of
        None \<Rightarrow> (BadRequest ''invalid mailbox ID'', d)
      | Some i \<Rightarrow>
         (case mr_Delete mailboxRepo i d of
            (Inl err, d') \<Rightarrow> (if errors_Is err RepoErrNotFound then NotFound ''mailbox not found''
                             else InternalError ''failed to delete mailbox'', d')
          | (Inr _, d') \<Rightarrow> (NoContent, d')))"

section \<open>message_handler.go\<close>

definition message_h_List :: "MessageRepository \<Rightarrow> MailboxRepository \<Rightarrow> string \<Rightarrow> string \<Rightarrow> string \<Rightarrow> db \<Rightarrow> api_data response" where
  "message_h_List messageRepo mailboxRepo mailboxIDStr l q d =
     (case ParseUint mailboxIDStr 32 of
        None \<Rightarrow> BadRequest ''invalid mailbox ID''
      | Some mailboxID \<Rightarrow>
         (case mr_GetByID mailboxRepo mailboxID d of
            Inl err \<Rightarrow> if errors_Is err RepoErrNotFound then NotFound ''mailbox not found''
                      else InternalError ''failed to get mailbox''
          | Inr _ \<Rightarrow>
             (let limit = page_limit l; offset = page_offset q in
              case ms_ListByMailbox messageRepo mailboxID limit offset d of
                Inl err \<Rightarrow> InternalError ''failed to list messages''
              | Inr (messages, n) \<Rightarrow> Paginated (MessagesData messages) n limit offset)))"

definition message_h_Get :: "MessageRepository \<Rightarrow> string \<Rightarrow> db \<Rightarrow> api_data response \<times> db" where
  "message_h_Get messageRepo idStr d =
     (case ParseUint idStr 32 of
        None \<Rightarrow> (BadRequest ''invalid message ID'', d)
      | Some i \<Rightarrow>
         (case ms_GetByID messageRepo i d of
            Inl err \<Rightarrow> (if errors_Is err RepoErrNotFound then NotFound ''message not found''
                       else InternalError ''failed to get message'', d)
          | Inr (message, attachments) \<Rightarrow>
              if \<not> Msg_IsRead message
              then (Success (MessageData (message\<lparr>Msg_IsRead := True\<rparr>) attachments), snd (ms_MarkAsRead messageRepo i d))
              else (Success (MessageData message attachments), d)))"

definition message_h_MarkAsRead :: "MessageRepository \<Rightarrow> string \<Rightarrow> db \<Rightarrow> api_data response \<times> db" where
  "message_h_MarkAsRead messageRepo idStr d =
     (case ParseUint idStr 32 of
        None \<Rightarrow> (BadRequest ''invalid message ID'', d)
      | Some i \<Rightarrow>
         (case ms_MarkAsRead messageRepo i d of
            (Inl err, d') \<Rightarrow> (if errors_Is err RepoErrNotFound then NotFound ''message not found''
                             else InternalError ''failed to mark message as read'', d')
          | (Inr _, d') \<Rightarrow> (SuccessWithMessage None ''message marked as read'', d')))"

definition message_h_Delete :: "MessageRepository \<Rightarrow> string \<Rightarrow> db \<Rightarrow> api_data response \<times> db" where
  "message_h_Delete messageRepo idStr d =
     (case ParseUint idStr 32 of
        None \<Rightarrow> (BadRequest ''invalid message ID'', d)
      | Some i \<Rightarrow>
         (case ms_Delete messageRepo i d of
            (Inl err, d') \<Rightarrow> (if errors_Is err RepoErrNotFound then NotFound ''message not found''
                             else InternalError ''failed to delete message'', d')
          | (Inr _, d') \<Rightarrow> (NoContent, d')))"

section \<open>attachment_handler.go\<close>

definition attachment_h_List :: "AttachmentRepository \<Rightarrow> MessageRepository \<Rightarrow> string \<Rightarrow> db \<Rightarrow> api_data response" where
  "attachment_h_List attachmentRepo messageRepo messageIDStr d =
     (case ParseUint messageIDStr 32 of
        None \<Rightarrow> BadRequest ''invalid message ID''
      | Some messageID \<Rightarrow>
         (case ms_GetByID messageRepo messageID d of
            Inl err \<Rightarrow> if errors_Is err RepoErrNotFound then NotFound ''message not found''
                      else InternalError ''failed to get message''
          | Inr _ \<Rightarrow>
             (case ar_ListByMessage attachmentRepo messageID d of
                Inl err \<Rightarrow> InternalError ''failed to list attachments''
              | Inr attachments \<Rightarrow> Success (AttachmentsData attachments))))"

definition attachment_h_Get :: "AttachmentRepository \<Rightarrow> string \<Rightarrow> db \<Rightarrow> api_data response" where
  "attachment_h_Get attachmentRepo idStr d =
     (case ParseUint idStr 32 of
        None \<Rightarrow> BadRequest ''invalid attachment ID''
      | Some i \<Rightarrow>
         (case ar_GetByID attachmentRepo i d of
            Inl err \<Rightarrow> if errors_Is err RepoErrNotFound then NotFound ''attachment not found''
                      else InternalError ''failed to get attachment''
          | Inr attachment \<Rightarrow> Success (AttachmentData attachment)))"

text \<open>A download is the headers that are set and the bytes that are streamed.\<close>

record file_download =
  FD_ContentType :: string
  FD_ContentDisposition :: string
  FD_ContentLength :: "int option"
  FD_Body :: bytes

definition attachment_h_Download ::
  "AttachmentRepository \<Rightarrow> FileStorage \<Rightarrow> string \<Rightarrow> db \<Rightarrow> osenv \<Rightarrow> api_data response + file_download" where
  "attachment_h_Download attachmentRepo fileStorage idStr d w =
     (case ParseUint idStr 32 of
        None \<Rightarrow> Inl (BadRequest ''invalid attachment ID'')
      | Some i \<Rightarrow>
         (case ar_GetByID attachmentRepo i d of
            Inl err \<Rightarrow> Inl (if errors_Is err RepoErrNotFound then NotFound ''attachment not found''
                      else InternalError ''failed to get attachment'')
          | Inr attachment \<Rightarrow>
             (case fs_Get fileStorage (A_FilePath attachment) w of
                Inl err \<Rightarrow> Inl (InternalError ''failed to retrieve file'')
              | Inr OpenDir \<Rightarrow> Inl (InternalError ''failed to send file'')
              | Inr (OpenFile b) \<Rightarrow>
                  Inr \<lparr>FD_ContentType = A_ContentType attachment,
                    FD_ContentDisposition = ''attachment; filename='' @ [CHR 0x22] @ A_Filename attachment @ [CHR 0x22],
                    FD_ContentLength = (if A_SizeBytes attachment > 0 then Some (A_SizeBytes attachment) else None),
                    FD_Body = b\<rparr>)))"

section \<open>Mailboxes created over the API\<close>

lemma mailbox_h_Create_ok:
  assumes "mailbox_h_Create R D body d = (resp, d')" "resp_status resp = 201"
  shows "\<exists>req x mb. body = Some req \<and> dr_GetByID D (CM_DomainID req) d = Inr x \<and> D_IsActive x \<and> CM_LocalPart req \<noteq> []
    \<and> mr_Create R (new_mailbox (CM_LocalPart req) (CM_DomainID req) x) d = (Inr mb, d') \<and> resp = Created (MailboxData mb)"
  using assms
  by (auto simp: mailbox_h_Create_def BadRequest_def NotFound_def InternalError_def Conflict_def
      split: option.splits if_splits sum.splits prod.splits)

context gorm_db
begin

lemma mailbox_Create_row:
  "mr_Create (NewMailboxRepository G) x d = (Inr x', d') \<Longrightarrow>
   created_Mailbox x x' \<and> d' = put_mailboxes (t_mailboxes d @ [x']) d \<and> M_ID x' \<notin> M_ID ` set (t_mailboxes d) \<and> (db_ok d \<longrightarrow> db_ok d')"
  using mailbox_Create_cases(1) mbox.Create_ok mbox.Create_keys by (fastforce simp: NewMailboxRepository_def)

lemma mailbox_Create_fails: "mr_Create (NewMailboxRepository G) x d = (Inl e, d') \<Longrightarrow> d' = d"
  using mailbox_Create_cases(2) by (simp add: NewMailboxRepository_def)

lemma mailbox_h_Create_effect:
  assumes "mailbox_h_Create (NewMailboxRepository G) (NewDomainRepository G) body d = (resp, d')"
  shows "if resp_status resp = 201
    then \<exists>req x mb. body = Some req \<and> resp = Created (MailboxData mb) \<and> x \<in> set (t_domains d) \<and> D_ID x = CM_DomainID req \<and> D_IsActive x
      \<and> d' = put_mailboxes (t_mailboxes d @ [mb]) d \<and> M_ID mb \<notin> M_ID ` set (t_mailboxes d)
      \<and> M_DomainID mb = D_ID x \<and> M_LocalPart mb = CM_LocalPart req \<and> M_LocalPart mb \<noteq> []
      \<and> M_FullAddress mb = M_LocalPart mb @ ''@'' @ D_Name x
    else d' = d"
proof (cases "resp_status resp = 201")
  case True
  from mailbox_h_Create_ok [OF assms True] obtain req x mb where r: "body = Some req" "CM_LocalPart req \<noteq> []" "D_IsActive x"
    "dr_GetByID (NewDomainRepository G) (CM_DomainID req) d = Inr x" "resp = Created (MailboxData mb)"
    and c: "mr_Create (NewMailboxRepository G) (new_mailbox (CM_LocalPart req) (CM_DomainID req) x) d = (Inr mb, d')" by blast
  note x = domain_repo.GetByID_found [OF domain_repo_laws r(4)] and m = mailbox_Create_row [OF c]
  from m have "M_LocalPart mb = CM_LocalPart req" "M_DomainID mb = CM_DomainID req" "M_FullAddress mb = CM_LocalPart req @ ''@'' @ D_Name x"
    unfolding created_Mailbox_def new_mailbox_def zero_Mailbox_def address_of_def by (cases mb; simp)+
  then have "body = Some req \<and> resp = Created (MailboxData mb) \<and> x \<in> set (t_domains d) \<and> D_ID x = CM_DomainID req \<and> D_IsActive x
      \<and> d' = put_mailboxes (t_mailboxes d @ [mb]) d \<and> M_ID mb \<notin> M_ID ` set (t_mailboxes d)
      \<and> M_DomainID mb = D_ID x \<and> M_LocalPart mb = CM_LocalPart req \<and> M_LocalPart mb \<noteq> []
      \<and> M_FullAddress mb = M_LocalPart mb @ ''@'' @ D_Name x" using r x m by simp
  then show ?thesis unfolding if_P [OF True] by blast
next
  case False
  have "resp_status (Created y) = 201" for y :: api_data by (simp add: Created_def)
  then show ?thesis using assms False mailbox_Create_fails
    by (auto simp: mailbox_h_Create_def split: option.splits if_splits sum.splits prod.splits)
qed

end

text \<open>
  \<^verbatim>\<open>POST /api/mailboxes\<close>: a mailbox is created only in an existing active domain, as one new row with a
  fresh identifier whose address is the requested local part at that domain's name; every answer other
  than 201 leaves the database unchanged.
\<close>

theorem mailbox_create_spec:
  assumes "gorm_db G" "mailbox_h_Create (NewMailboxRepository G) (NewDomainRepository G) body d = (resp, d')"
  shows "if resp_status resp = 201
    then \<exists>req x mb. body = Some req \<and> resp = Created (MailboxData mb) \<and> x \<in> set (t_domains d) \<and> D_ID x = CM_DomainID req \<and> D_IsActive x
      \<and> d' = put_mailboxes (t_mailboxes d @ [mb]) d \<and> M_ID mb \<notin> M_ID ` set (t_mailboxes d)
      \<and> M_DomainID mb = D_ID x \<and> M_LocalPart mb = CM_LocalPart req \<and> M_LocalPart mb \<noteq> []
      \<and> M_FullAddress mb = M_LocalPart mb @ ''@'' @ D_Name x
    else d' = d"
  by (rule gorm_db.mailbox_h_Create_effect [OF assms])

theorem mailbox_create_spec_witness:
  "\<exists>mb d'. mailbox_h_Create (NewMailboxRepository (mem_gorm 5)) (NewDomainRepository (mem_gorm 5))
      (Some \<lparr>CM_LocalPart = ''Bob'', CM_DomainID = 1\<rparr>) demo_db = (Created (MailboxData mb), d')
    \<and> M_FullAddress mb = ''Bob@x.io''"
proof -
  let ?c = "mailbox_h_Create (NewMailboxRepository (mem_gorm 5)) (NewDomainRepository (mem_gorm 5))
      (Some \<lparr>CM_LocalPart = ''Bob'', CM_DomainID = 1\<rparr>) demo_db"
  have s: "resp_status (fst ?c) = 201" by code_simp
  obtain resp d' where c: "?c = (resp, d')" by fastforce
  with s have "resp_status resp = 201" by simp
  with mailbox_create_spec [OF mem.gorm_db_axioms c] c show ?thesis by (auto simp: demo_db_def)
qed

section \<open>No mail for upper-case mailboxes\<close>

context smtp_session
begin

lemma processEmail_mailbox_ids:
  assumes "processEmail b r email w = (x, w')" "distinct (map M_ID (t_mailboxes (w_db w)))"
  shows "distinct (map M_ID (t_mailboxes (w_db w')))"
proof -
  have mb: "distinct (map M_ID (t_mailboxes d1))"
    if "mr_GetOrCreate (b_mailboxRepo b) l i dn (w_db w) = (y, d1)" for l i dn y d1
  proof (cases y)
    case (Inl e)
    with that mr.GetOrCreate_err assms(2) show ?thesis by blast
  next
    case (Inr p)
    then show ?thesis using that assms(2) mr.GetOrCreate_old [of l i dn "w_db w" "fst p" d1]
        mr.GetOrCreate_new [of l i dn "w_db w" "fst p" d1]
      by (cases p; cases "snd p") auto
  qed
  have msg: "t_mailboxes d2 = t_mailboxes d1" if "ms_CreateWithAttachments (b_messageRepo b) m as d1 = (y, d2)" for m as y d1 d2
    using that by (cases y) (auto dest: ms.CreateWithAttachments_ok ms.CreateWithAttachments_err)
  show ?thesis using assms mb msg
    by (auto simp: processEmail_def split: sum.splits prod.splits)
qed

lemma process_all_mailbox_ids:
  "distinct (map M_ID (t_mailboxes (w_db w))) \<Longrightarrow> distinct (map M_ID (t_mailboxes (w_db (process_all b rs email w))))"
proof (induction rs arbitrary: w)
  case (Cons r rs)
  show ?case using Cons processEmail_mailbox_ids [of r email w "fst (processEmail b r email w)"] by simp
qed simp

end

lemma address_no_upper:
  assumes "parseEmailAddress r = Inr (l, dn)" "c \<in> set (l @ ''@'' @ dn)"
  shows "\<not> is_upper c"
proof -
  have "l = ToLower l \<and> dn = ToLower dn"
    using assms(1) by (auto simp: parseEmailAddress_def Let_def split: if_splits)
  then have "c \<in> set (ToLower l) \<or> c = CHR ''@'' \<or> c \<in> set (ToLower dn)" using assms(2) by auto
  then show ?thesis using ToLower_no_upper by (auto simp: is_upper_def)
qed



section \<open>Reading a message\<close>

context gorm_db
begin

lemma message_GetByID_found:
  "ms_GetByID (NewMessageRepository G) i d = Inr (m, as) \<Longrightarrow>
   m \<in> set (t_messages d) \<and> Msg_ID m = i \<and> set as = {a \<in> set (t_attachments d). A_MessageID a = i}"
  by (auto simp: NewMessageRepository_def message_GetByID_def split: sum.splits dest!: msg.lookup_found att.Find_rows)

lemma message_MarkAsRead_effect:
  "ms_MarkAsRead (NewMessageRepository G) i d = (r, d') \<Longrightarrow>
   d' = d \<or> d' = put_messages (map (\<lambda>x. if Msg_ID x = i then x\<lparr>Msg_IsRead := True\<rparr> else x) (t_messages d)) d"
  by (cases r) (auto simp: NewMessageRepository_def message_MarkAsRead_def rows_result_cases dest!: msg.Update_ok msg.Update_err)

end

text \<open>
  \<^verbatim>\<open>GET /api/messages/:id\<close> answers 200 only with the stored message of that number, shown as read,
  with exactly its own attachments; the only change it may make is to set the read flag of that one
  message.
\<close>

theorem message_get_marks_read:
  assumes G: "gorm_db G" and g: "message_h_Get (NewMessageRepository G) idStr d = (resp, d')" and ok: "resp_status resp = 200"
  shows "\<exists>i m as. ParseUint idStr 32 = Some i \<and> m \<in> set (t_messages d) \<and> Msg_ID m = i
    \<and> resp = Success (MessageData (m\<lparr>Msg_IsRead := True\<rparr>) as)
    \<and> set as = {a \<in> set (t_attachments d). A_MessageID a = i}
    \<and> (d' = d \<or> d' = put_messages (map (\<lambda>x. if Msg_ID x = i then x\<lparr>Msg_IsRead := True\<rparr> else x) (t_messages d)) d)"
proof -
  from g ok obtain i m as where i: "ParseUint idStr 32 = Some i" "ms_GetByID (NewMessageRepository G) i d = Inr (m, as)"
    by (auto simp: message_h_Get_def BadRequest_def NotFound_def InternalError_def split: option.splits sum.splits if_splits prod.splits)
  note m = gorm_db.message_GetByID_found [OF G i(2)]
  have d': "d' = d \<or> d' = put_messages (map (\<lambda>x. if Msg_ID x = i then x\<lparr>Msg_IsRead := True\<rparr> else x) (t_messages d)) d"
    using g i gorm_db.message_MarkAsRead_effect [OF G, of i d "fst (ms_MarkAsRead (NewMessageRepository G) i d)" d']
    by (auto simp: message_h_Get_def split: if_splits)
  have "resp = Success (MessageData (m\<lparr>Msg_IsRead := True\<rparr>) as)"
  proof (cases "Msg_IsRead m")
    case True
    then have "m\<lparr>Msg_IsRead := True\<rparr> = m" by (cases m) simp
    moreover have "resp = Success (MessageData m as)" using True g i by (simp add: message_h_Get_def)
    ultimately show ?thesis by (simp only:)
  next
    case False
    with g i show ?thesis by (auto simp: message_h_Get_def split: prod.splits)
  qed
  with i(1) m d' show ?thesis by blast
qed

definition unread_message :: Message where
  "unread_message = \<lparr>Msg_ID = 1, Msg_MailboxID = 1, Msg_SenderEmail = [], Msg_SenderName = [], Msg_Subject = ''s'', Msg_Snippet = [],
     Msg_BodyText = [], Msg_BodyHTML = [], Msg_IsRead = False, Msg_ReceivedAt = 0\<rparr>"

theorem message_get_marks_read_witness:
  "\<exists>m as d'. message_h_Get (NewMessageRepository (mem_gorm 5)) ''1'' (demo_db\<lparr>t_messages := [unread_message]\<rparr>)
     = (Success (MessageData m as), d') \<and> Msg_IsRead m"
proof -
  let ?g = "message_h_Get (NewMessageRepository (mem_gorm 5)) ''1'' (demo_db\<lparr>t_messages := [unread_message]\<rparr>)"
  have "ms_GetByID (NewMessageRepository (mem_gorm 5)) 1 (demo_db\<lparr>t_messages := [unread_message]\<rparr>) = Inr (unread_message, [])"
    by code_simp
  then have s: "resp_status (fst ?g) = 200"
    by (simp add: message_h_Get_def ParseUint_one unread_message_def Success_def)
  obtain resp d' where g: "?g = (resp, d')" by fastforce
  have "resp_status resp = 200" using s unfolding g by simp
  from message_get_marks_read [OF mem.gorm_db_axioms g this]
  have "\<exists>m as. resp = Success (MessageData (m\<lparr>Msg_IsRead := True\<rparr>) as)" by (elim exE conjE) (rule exI, rule exI, assumption)
  then obtain m as where r: "resp = Success (MessageData (m\<lparr>Msg_IsRead := True\<rparr>) as)" by (elim exE)
  have "Msg_IsRead (m\<lparr>Msg_IsRead := True\<rparr>)" by simp
  with g [unfolded r] show ?thesis by (intro exI conjI)
qed

end
