(* ===== verification/MailState.thy ===== *)
theory MailState
  imports MailHandlers ServerState
begin

text \<open>
  The routes for mailboxes, messages and attachments as one function, and the proof that they and the
  SMTP side (\<^verbatim>\<open>DATA\<close>) keep the database invariant of \<open>ServerState\<close>.
\<close>

section \<open>Requests\<close>

datatype mail_request =
    PostMailbox "CreateMailboxRequest option"
  | PostRandomMailbox "nat \<Rightarrow> nat" "nat \<Rightarrow> nat" "CreateRandomMailboxRequest option"
  | GetMailboxes string string string
  | GetMailbox string time
  | DeleteMailbox string
  | GetMessages string string string
  | GetMessage string
  | PatchMessageRead string
  | DeleteMessage string
  | GetAttachments string
  | GetAttachment string
  | GetAttachmentFile string osenv

definition unchanged_db :: "'r \<Rightarrow> db \<Rightarrow> ('r + 'f) \<times> db" where
  "unchanged_db r d = (Inl r, d)"

definition changed_db :: "'r \<times> db \<Rightarrow> ('r + 'f) \<times> db" where
  "changed_db p = (Inl (fst p), snd p)"

fun serve_mail :: "gorm \<Rightarrow> FileStorage \<Rightarrow> mail_request \<Rightarrow> db \<Rightarrow> (api_data response + file_download) \<times> db" where
  "serve_mail G fs (PostMailbox body) d = changed_db (mailbox_h_Create (NewMailboxRepository G) (NewDomainRepository G) body d)"
| "serve_mail G fs (PostRandomMailbox r1 r2 body) d =
     changed_db (mailbox_h_CreateRandom (NewMailboxRepository G) (NewDomainRepository G) r1 r2 body d)"
| "serve_mail G fs (GetMailboxes i l q) d = unchanged_db (mailbox_h_List (NewMailboxRepository G) i l q d) d"
| "serve_mail G fs (GetMailbox i now) d = changed_db (mailbox_h_Get (NewMailboxRepository G) i now d)"
| "serve_mail G fs (DeleteMailbox i) d = changed_db (mailbox_h_Delete (NewMailboxRepository G) i d)"
| "serve_mail G fs (GetMessages i l q) d = unchanged_db (message_h_List (NewMessageRepository G) (NewMailboxRepository G) i l q d) d"
| "serve_mail G fs (GetMessage i) d = changed_db (message_h_Get (NewMessageRepository G) i d)"
| "serve_mail G fs (PatchMessageRead i) d = changed_db (message_h_MarkAsRead (NewMessageRepository G) i d)"
| "serve_mail G fs (DeleteMessage i) d = changed_db (message_h_Delete (NewMessageRepository G) i d)"
| "serve_mail G fs (GetAttachments i) d =
     unchanged_db (attachment_h_List (NewAttachmentRepository G (Some fs)) (NewMessageRepository G) i d) d"
| "serve_mail G fs (GetAttachment i) d = unchanged_db (attachment_h_Get (NewAttachmentRepository G (Some fs)) i d) d"
| "serve_mail G fs (GetAttachmentFile i w) d = (attachment_h_Download (NewAttachmentRepository G (Some fs)) fs i d w, d)"

section \<open>The API keeps the invariant\<close>

context gorm_db
begin

lemma server_ok_mailbox_Create:
  assumes "mr_Create (NewMailboxRepository G) (new_mailbox l i x) d = (r, d')" "server_ok d" "i \<in> D_ID ` set (t_domains d)"
  shows "server_ok d'"
proof (cases r)
  case (Inl e)
  with mailbox_Create_fails assms show ?thesis by blast
next
  case (Inr m)
  note m = mailbox_Create_row [OF assms(1) [unfolded Inr]]
  have "M_DomainID m = i" using created_Mailbox_fields [of "new_mailbox l i x" m] m by (simp add: new_mailbox_def)
  moreover have "db_ok d'" using m server_okD(1) [OF assms(2)] by blast
  ultimately show ?thesis using server_ok_new_mailbox [of d m] m assms(2,3) by simp
qed

lemma domain_found: "dr_GetByID (NewDomainRepository G) i d = Inr x \<Longrightarrow> i \<in> D_ID ` set (t_domains d)"
  using domain_repo.GetByID_found [OF domain_repo_laws] by (metis imageI)

lemma server_ok_Create:
  assumes "mailbox_h_Create (NewMailboxRepository G) (NewDomainRepository G) body d = (r, d')" "server_ok d"
  shows "server_ok d'"
  using assms domain_found server_ok_mailbox_Create
  by (fastforce simp: mailbox_h_Create_def split: option.splits if_splits sum.splits prod.splits)

lemma server_ok_CreateRandom:
  assumes "mailbox_h_CreateRandom (NewMailboxRepository G) (NewDomainRepository G) r1 r2 body d = (r, d')" "server_ok d"
  shows "server_ok d'"
  using assms domain_found server_ok_mailbox_Create mailbox_Create_fails
  by (fastforce simp: mailbox_h_CreateRandom_def split: option.splits if_splits sum.splits prod.splits)

lemma rows_result_snd: "snd (rows_result what p) = snd p"
  by (cases "(what, p)" rule: rows_result.cases) auto

lemma server_ok_UpdateLastAccessed: "server_ok d \<Longrightarrow> server_ok (snd (mr_UpdateLastAccessed (NewMailboxRepository G) i now d))"
proof -
  assume ok: "server_ok d"
  obtain q d' where u: "g_Update (g_mailboxes G) (\<lambda>x. M_ID x = i) (\<lambda>x. x\<lparr>M_LastAccessedAt := Some now\<rparr>) d = (q, d')" by fastforce
  have "d' = d \<or> d' = put_mailboxes (map (\<lambda>x. if M_ID x = i then x\<lparr>M_LastAccessedAt := Some now\<rparr> else x) (t_mailboxes d)) d"
    using u mbox.Update_ok mbox.Update_err by (cases q) blast+
  then have "server_ok d'" using ok by (auto intro!: server_ok_mailbox_columns)
  with u show ?thesis by (simp add: NewMailboxRepository_def mailbox_UpdateLastAccessed_def rows_result_snd)
qed

lemma server_ok_MarkAsRead: "server_ok d \<Longrightarrow> server_ok (snd (ms_MarkAsRead (NewMessageRepository G) i d))"
proof -
  assume ok: "server_ok d"
  obtain q d' where u: "ms_MarkAsRead (NewMessageRepository G) i d = (q, d')" by fastforce
  from message_MarkAsRead_effect [OF u] have "server_ok d'" using ok by (auto intro!: server_ok_message_columns)
  with u show ?thesis by simp
qed

lemma server_ok_mailbox_Delete: "server_ok d \<Longrightarrow> server_ok (snd (mr_Delete (NewMailboxRepository G) i d))"
proof -
  assume ok: "server_ok d"
  obtain q d' where u: "g_Delete (g_mailboxes G) (\<lambda>x. M_ID x = i) d = (q, d')" by fastforce
  have "d' = d \<or> d' = purge_mailboxes (\<lambda>x. M_ID x = i) d" using u mbox.Delete_ok mbox.Delete_err by (cases q) blast+
  with ok u show ?thesis by (auto simp: NewMailboxRepository_def mailbox_Delete_def rows_result_snd intro: server_ok_purge)
qed

lemma server_ok_message_Delete: "server_ok d \<Longrightarrow> server_ok (snd (ms_Delete (NewMessageRepository G) i d))"
proof -
  assume ok: "server_ok d"
  obtain q d' where u: "g_Delete (g_messages G) (\<lambda>x. Msg_ID x = i) d = (q, d')" by fastforce
  have "d' = d \<or> d' = purge_messages (\<lambda>x. Msg_ID x = i) d" using u msg.Delete_ok msg.Delete_err by (cases q) blast+
  with ok u show ?thesis by (auto simp: NewMessageRepository_def message_Delete_def rows_result_snd intro: server_ok_purge)
qed

lemma serve_mail_ok:
  assumes "server_ok d"
  shows "server_ok (snd (serve_mail G fs req d))"
proof (cases req)
  case (PostMailbox body)
  then show ?thesis using server_ok_Create [OF prod.collapse [symmetric] assms, of body] by (simp add: changed_db_def)
next
  case (PostRandomMailbox r1 r2 body)
  then show ?thesis using server_ok_CreateRandom [OF prod.collapse [symmetric] assms, of r1 r2 body] by (simp add: changed_db_def)
next
  case (GetMailbox i now)
  then show ?thesis using assms server_ok_UpdateLastAccessed
    by (auto simp: changed_db_def mailbox_h_Get_def split: option.splits sum.splits)
next
  case (DeleteMailbox i)
  have "snd (mailbox_h_Delete R i d) = (case ParseUint i 32 of None \<Rightarrow> d | Some k \<Rightarrow> snd (mr_Delete R k d))" for R
    by (auto simp: mailbox_h_Delete_def split: option.splits prod.splits sum.splits)
  then show ?thesis using assms server_ok_mailbox_Delete DeleteMailbox by (simp add: changed_db_def split: option.splits)
next
  case (GetMessage i)
  then show ?thesis using assms server_ok_MarkAsRead
    by (auto simp: changed_db_def message_h_Get_def split: option.splits sum.splits if_splits)
next
  case (PatchMessageRead i)
  have "snd (message_h_MarkAsRead R i d) = (case ParseUint i 32 of None \<Rightarrow> d | Some k \<Rightarrow> snd (ms_MarkAsRead R k d))" for R
    by (auto simp: message_h_MarkAsRead_def split: option.splits prod.splits sum.splits)
  then show ?thesis using assms server_ok_MarkAsRead PatchMessageRead by (simp add: changed_db_def split: option.splits)
next
  case (DeleteMessage i)
  have "snd (message_h_Delete R i d) = (case ParseUint i 32 of None \<Rightarrow> d | Some k \<Rightarrow> snd (ms_Delete R k d))" for R
    by (auto simp: message_h_Delete_def split: option.splits prod.splits sum.splits)
  then show ?thesis using assms server_ok_message_Delete DeleteMessage by (simp add: changed_db_def split: option.splits)
qed (use assms in \<open>simp_all add: unchanged_db_def\<close>)

end

section \<open>Incoming mail keeps the invariant\<close>

context smtp_session
begin

lemma mailbox_ok:
  assumes g: "mr_GetOrCreate (b_mailboxRepo b) l i dn d = (r, d')" and ok: "server_ok d" and i: "i \<in> D_ID ` set (t_domains d)"
  shows "server_ok d' \<and> (\<forall>m c. r = Inr (m, c) \<longrightarrow> M_ID m \<in> M_ID ` set (t_mailboxes d'))"
proof (cases r)
  case (Inl e)
  with g mr.GetOrCreate_err ok show ?thesis by blast
next
  case (Inr p)
  obtain m c where p: "p = (m, c)" by fastforce
  show ?thesis
  proof (cases c)
    case True
    then have "mr_GetOrCreate (b_mailboxRepo b) l i dn d = (Inr (m, True), d')" using g Inr p by simp
    note n = mr.GetOrCreate_new [OF this]
    have "db_ok d'" using n server_okD(1) [OF ok] by blast
    with n server_ok_new_mailbox [OF ok, of m] i have "server_ok d'" by simp
    with n Inr p show ?thesis by simp
  next
    case False
    then have "mr_GetOrCreate (b_mailboxRepo b) l i dn d = (Inr (m, False), d')" using g Inr p by simp
    from mr.GetOrCreate_old [OF this] ok Inr p show ?thesis by auto
  qed
qed

lemma message_ok:
  assumes c: "ms_CreateWithAttachments (b_messageRepo b) m as d = (r, d')" and ok: "server_ok d"
    and mb: "Msg_MailboxID m \<in> M_ID ` set (t_mailboxes d)"
  shows "server_ok d'"
proof (cases r)
  case (Inl e)
  with c ms.CreateWithAttachments_err ok show ?thesis by blast
next
  case (Inr p)
  obtain m' as' where p: "p = (m', as')" by fastforce
  note n = ms.CreateWithAttachments_ok [OF c [unfolded Inr p]]
  have k: "db_ok d'" using ms.CreateWithAttachments_keys c Inr server_okD(1) [OF ok] by blast
  have "A_MessageID a' = Msg_ID m'" if "a' \<in> set as'" for a'
    using that n by (auto simp: list_all2_conv_all_nth in_set_conv_nth dest!: created_Attachment_fields)
  moreover have "Msg_MailboxID m' = Msg_MailboxID m" using n created_Message_fields by blast
  ultimately show ?thesis using server_ok_new_message [OF ok k] n mb by simp
qed

lemma processEmail_server_ok:
  assumes "processEmail b r email w = (x, w')" "server_ok (w_db w)"
  shows "server_ok (w_db w')"
proof (cases "w_db w' = w_db w")
  case True
  with assms show ?thesis by simp
next
  case False
  with assms obtain l dn x0 where a: "parseEmailAddress r = Inr (l, dn)" "dr_GetByName (b_domainRepo b) dn (w_db w) = Inr x0"
    by (auto simp: processEmail_def split: sum.splits)
  obtain q d1 where q: "mr_GetOrCreate (b_mailboxRepo b) l (D_ID x0) (D_Name x0) (w_db w) = (q, d1)" by fastforce
  have "D_ID x0 \<in> D_ID ` set (t_domains (w_db w))" using dr.GetByName_found [OF a(2)] by blast
  note d1 = mailbox_ok [OF q assms(2) this]
  show ?thesis
  proof (cases q)
    case (Inl e)
    with assms a q d1 show ?thesis by (auto simp: processEmail_def)
  next
    case (Inr p)
    obtain m c where p: "p = (m, c)" by fastforce
    obtain as o1 where at: "save_attachments (b_fileStorage b) (PE_Attachments email) (w_os w) = (as, o1)" by fastforce
    obtain y d2 where y: "ms_CreateWithAttachments (b_messageRepo b) (new_message m email) as d1 = (y, d2)" by fastforce
    have "server_ok d2"
      by (rule message_ok [OF y]) (use d1 Inr p in \<open>auto simp: new_message_def\<close>)
    moreover have "w_db w' = d2" using assms(1) a q Inr p at y by (auto simp: processEmail_def split: sum.splits)
    ultimately show ?thesis by simp
  qed
qed

lemma process_all_server_ok: "server_ok (w_db w) \<Longrightarrow> server_ok (w_db (process_all b rs email w))"
proof (induction rs arbitrary: w)
  case (Cons r rs)
  have "server_ok (w_db (snd (processEmail b r email w)))"
    using processEmail_server_ok [of r email w "fst (processEmail b r email w)"] Cons.prems by simp
  from Cons.IH [OF this] show ?case by simp
qed simp

lemma Data_server_ok:
  assumes "Data b rdr s w = (x, w')" "server_ok (w_db w)"
  shows "server_ok (w_db w')"
  using assms process_all_server_ok
  by (auto simp: Data_def Let_def split: if_splits sum.splits prod.splits)

end

end
