(* ===== verification/Middleware.thy ===== *)
theory Middleware
  imports AppErrors
begin

text \<open>
  \<^verbatim>\<open>internal/api/middleware\<close> and the route table of \<^verbatim>\<open>internal/api/router.go\<close>: API-key authentication, the origins
  allowed by CORS, the response headers, the rate limiter per client address, and which of them stand before which
  handler. A handler is a function on a state \<open>'w\<close>. The limiter of \<^verbatim>\<open>golang.org/x/time/rate\<close> is a parameter: its fresh
  state and \<^verbatim>\<open>Allow\<close>, a function of the time of the call.
\<close>

section \<open>auth.go\<close>

record http_request =
  rq_method :: string
  rq_route :: string
  rq_XAPIKey :: string
  rq_Authorization :: string
  rq_ip :: string
  rq_https :: bool

datatype 'r reply = Reply 'r | HTTPError nat string string

type_synonym ('r, 'w) http_handler = "'w \<Rightarrow> 'r reply \<times> 'w"

definition bearer_token :: "http_request \<Rightarrow> string" where
  "bearer_token rq =
     (let token = rq_XAPIKey rq in
      if token = [] then
        if rq_Authorization rq \<noteq> [] then TrimSpace (TrimPrefix (rq_Authorization rq) ''Bearer '') else token
      else token)"

definition APIKeyAuth :: "string \<Rightarrow> http_request \<Rightarrow> ('r, 'w) http_handler \<Rightarrow> ('r, 'w) http_handler" where
  "APIKeyAuth validAPIKey rq next_handler w =
     (if HasPrefix (rq_route rq) ''/health'' \<or> HasPrefix (rq_route rq) ''/ready'' then next_handler w
      else if validAPIKey = [] then next_handler w
      else
        let token = bearer_token rq in
        if token = [] then (HTTPError 401 ''missing API key'' ''UNAUTHORIZED'', w)
        else if token \<noteq> validAPIKey then (HTTPError 401 ''invalid API key'' ''UNAUTHORIZED'', w)
        else next_handler w)"

section \<open>cors.go\<close>

definition SecureCORS_origins :: "(string \<Rightarrow> string) \<Rightarrow> string list" where
  "SecureCORS_origins env =
     (let allowedOrigins = (if env ''ALLOWED_ORIGINS'' = [] then ''http://localhost:3000'' else env ''ALLOWED_ORIGINS'');
          origins = map TrimSpace (Split CHR '','' allowedOrigins) in
      if env ''APP_ENV'' = ''production'' then
        let filteredOrigins = filter (\<lambda>origin. origin \<noteq> ''*'') origins in
        if length filteredOrigins = 0 then [''http://localhost:3000''] else filteredOrigins
      else origins)"

section \<open>security\_headers.go\<close>

definition SecureHeaders :: "bool \<Rightarrow> (string \<times> string) list" where
  "SecureHeaders https =
     [(''X-Frame-Options'', ''DENY''),
      (''X-Content-Type-Options'', ''nosniff''),
      (''X-XSS-Protection'', ''1; mode=block''),
      (''Content-Security-Policy'',
         ''default-src '' @ sq @ ''self'' @ sq @ ''; script-src '' @ sq @ ''self'' @ sq @ ''; style-src '' @ sq @ ''self'' @ sq @ '' ''
         @ sq @ ''unsafe-inline'' @ sq @ ''; img-src '' @ sq @ ''self'' @ sq @ '' data:; font-src '' @ sq @ ''self'' @ sq
         @ ''; connect-src '' @ sq @ ''self'' @ sq @ ''; frame-ancestors '' @ sq @ ''none'' @ sq)]
     @ (if https then [(''Strict-Transport-Security'', ''max-age=31536000; includeSubDomains'')] else [])
     @ [(''Referrer-Policy'', ''strict-origin-when-cross-origin''),
        (''Permissions-Policy'', ''geolocation=(), microphone=(), camera=()'')]"

section \<open>ratelimit.go\<close>

record 'l IPRateLimiter =
  limiters :: "string \<rightharpoonup> 'l"
  newLimiter :: 'l

definition NewIPRateLimiter :: "'l \<Rightarrow> 'l IPRateLimiter" where
  "NewIPRateLimiter fresh = \<lparr>limiters = Map.empty, newLimiter = fresh\<rparr>"

text \<open>\<^verbatim>\<open>GetLimiter\<close> stores a fresh limiter for a new address and returns it.\<close>

definition GetLimiter :: "string \<Rightarrow> 'l IPRateLimiter \<Rightarrow> 'l \<times> 'l IPRateLimiter" where
  "GetLimiter ip i =
     (case limiters i ip of
        None \<Rightarrow> (newLimiter i, i\<lparr>limiters := (limiters i)(ip \<mapsto> newLimiter i)\<rparr>)
      | Some l \<Rightarrow> (l, i))"

definition CleanupOldEntries :: "'l IPRateLimiter \<Rightarrow> 'l IPRateLimiter" where
  "CleanupOldEntries i = i\<lparr>limiters := Map.empty\<rparr>"

definition rate_Allow :: "(time \<Rightarrow> 'l \<Rightarrow> bool \<times> 'l) \<Rightarrow> string \<Rightarrow> time \<Rightarrow> 'l IPRateLimiter \<Rightarrow> bool \<times> 'l IPRateLimiter" where
  "rate_Allow Allow ip now i =
     (case GetLimiter ip i of (l, i1) \<Rightarrow>
      case Allow now l of (ok, l') \<Rightarrow> (ok, i1\<lparr>limiters := (limiters i1)(ip \<mapsto> l')\<rparr>))"

definition RateLimiter ::
  "(time \<Rightarrow> 'l \<Rightarrow> bool \<times> 'l) \<Rightarrow> http_request \<Rightarrow> time \<Rightarrow> ('r, 'w) http_handler \<Rightarrow> ('r, 'w \<times> 'l IPRateLimiter) http_handler" where
  "RateLimiter Allow rq now next_handler = (\<lambda>(w, i).
     case rate_Allow Allow (rq_ip rq) now i of (ok, i') \<Rightarrow>
       if \<not> ok then (HTTPError 429 ''rate limit exceeded'' ''RATE_LIMITED'', (w, i'))
       else (case next_handler w of (r, w') \<Rightarrow> (r, (w', i'))))"

text \<open>
  \<^verbatim>\<open>RateLimiterWithConfig\<close>, which the router takes when \<^verbatim>\<open>main\<close> gives it a positive rate, is the same handler on a limiter with the given rate
  and burst, but nothing ever calls \<^verbatim>\<open>CleanupOldEntries\<close> on it.
\<close>

definition RateLimiterWithConfig ::
  "(time \<Rightarrow> 'l \<Rightarrow> bool \<times> 'l) \<Rightarrow> http_request \<Rightarrow> time \<Rightarrow> ('r, 'w) http_handler \<Rightarrow> ('r, 'w \<times> 'l IPRateLimiter) http_handler" where
  "RateLimiterWithConfig Allow rq now next_handler = (\<lambda>(w, i).
     case rate_Allow Allow (rq_ip rq) now i of (ok, i') \<Rightarrow>
       if \<not> ok then (HTTPError 429 ''rate limit exceeded'' ''RATE_LIMITED'', (w, i'))
       else (case next_handler w of (r, w') \<Rightarrow> (r, (w', i'))))"

lemma RateLimiterWithConfig_same: "RateLimiterWithConfig Allow rq now h = RateLimiter Allow rq now h"
  by (simp add: RateLimiterWithConfig_def RateLimiter_def)

text \<open>Without the cleanup the map of addresses only grows.\<close>

lemma RateLimiterWithConfig_grows:
  "RateLimiterWithConfig Allow rq now h (w, i) = (r, (w', i')) \<Longrightarrow> dom (limiters i') = insert (rq_ip rq) (dom (limiters i))"
  by (auto simp: RateLimiterWithConfig_def rate_Allow_def GetLimiter_def split: prod.splits if_splits option.splits)

text \<open>The defaults and overrides of the limiter that is configured by the environment.\<close>

definition RateLimiter_burst :: "(string \<Rightarrow> string) \<Rightarrow> int" where
  "RateLimiter_burst env =
     (if env ''RATE_LIMIT_BURST'' \<noteq> [] then case Atoi (env ''RATE_LIMIT_BURST'') of Some v \<Rightarrow> v | None \<Rightarrow> 20 else 20)"

section \<open>router.go\<close>

text \<open>The routes in the order they are registered: method, path, and whether the \<^verbatim>\<open>/api\<close> group (with its key check) holds them.\<close>

definition routes :: "(string \<times> string \<times> bool) list" where
  "routes =
    [(''GET'', ''/health'', False), (''GET'', ''/ready'', False),
     (''POST'', ''/api/domains'', True), (''GET'', ''/api/domains'', True),
     (''GET'', ''/api/domains/:id'', True), (''PUT'', ''/api/domains/:id'', True), (''DELETE'', ''/api/domains/:id'', True),
     (''GET'', ''/api/domains/:id/dns-guide'', True), (''GET'', ''/api/domains/:id/dns-export'', True),
     (''POST'', ''/api/domains/:id/verify-dns'', True), (''POST'', ''/api/domains/:id/generate-cert'', True),
     (''GET'', ''/api/domains/:id/status'', True), (''POST'', ''/api/domains/:id/retry'', True),
     (''POST'', ''/api/domains/:id/request-acme-challenge'', True), (''POST'', ''/api/domains/:id/verify-acme-dns'', True),
     (''POST'', ''/api/domains/:id/submit-acme-challenge'', True), (''GET'', ''/api/domains/:id/acme-status'', True),
     (''POST'', ''/api/mailboxes'', True), (''POST'', ''/api/mailboxes/random'', True), (''GET'', ''/api/mailboxes'', True),
     (''GET'', ''/api/mailboxes/:id'', True), (''DELETE'', ''/api/mailboxes/:id'', True),
     (''GET'', ''/api/mailboxes/:mailbox_id/messages'', True),
     (''GET'', ''/api/messages/:id'', True), (''PATCH'', ''/api/messages/:id/read'', True), (''DELETE'', ''/api/messages/:id'', True),
     (''GET'', ''/api/messages/:message_id/attachments'', True),
     (''GET'', ''/api/attachments/:id'', True), (''GET'', ''/api/attachments/:id/download'', True),
     (''GET'', ''/api/acme/logs'', True), (''GET'', ''/api/acme/logs/:domain'', True),
     (''GET'', ''/acme/logs'', False), (''GET'', ''/acme/logs/:domain'', False)]"

definition grouped :: "http_request \<Rightarrow> bool" where
  "grouped rq \<longleftrightarrow> (rq_method rq, rq_route rq, True) \<in> set routes"

text \<open>What \<^verbatim>\<open>NewRouter\<close> puts before the handler of a route: the rate limiter, and the key check on the group.\<close>

definition serve_route ::
  "string \<Rightarrow> (time \<Rightarrow> 'l \<Rightarrow> bool \<times> 'l) \<Rightarrow> time \<Rightarrow> http_request \<Rightarrow> ('r, 'w) http_handler \<Rightarrow> ('r, 'w \<times> 'l IPRateLimiter) http_handler" where
  "serve_route apiKey Allow now rq handler =
     RateLimiter Allow rq now (if grouped rq then APIKeyAuth apiKey rq handler else handler)"

text \<open>
  The key the check compares with: \<^verbatim>\<open>NewRouter\<close> overwrites the environment variable when the configuration enables
  authentication and has a key, and \<^verbatim>\<open>APIKeyAuth\<close> then reads the variable. In the same way the configured origins
  replace \<^verbatim>\<open>ALLOWED_ORIGINS\<close>.
\<close>

definition router_env :: "string \<Rightarrow> bool \<Rightarrow> string list \<Rightarrow> (string \<Rightarrow> string) \<Rightarrow> string \<Rightarrow> string" where
  "router_env apiKey enableAuth allowedOrigins env =
     (let env1 = (if length allowedOrigins > 0 then env(''ALLOWED_ORIGINS'' := Join allowedOrigins '','') else env) in
      if enableAuth \<and> apiKey \<noteq> [] then env1(''API_KEY'' := apiKey) else env1)"

section \<open>Who reaches a handler\<close>

lemma grouped_not_health:
  "grouped rq \<Longrightarrow> \<not> HasPrefix (rq_route rq) ''/health'' \<and> \<not> HasPrefix (rq_route rq) ''/ready''"
  by (auto simp: grouped_def routes_def)

lemma APIKeyAuth_grouped:
  assumes "grouped rq" "apiKey \<noteq> []"
  shows "APIKeyAuth apiKey rq h w =
           (if bearer_token rq = apiKey then h w
            else (HTTPError 401 (if bearer_token rq = [] then ''missing API key'' else ''invalid API key'') ''UNAUTHORIZED'', w))"
  using assms grouped_not_health [OF assms(1)] by (auto simp: APIKeyAuth_def Let_def)

lemma APIKeyAuth_unset [simp]: "APIKeyAuth [] rq h w = h w"
  by (simp add: APIKeyAuth_def)

text \<open>
  With a key configured, the handler of a route in the \<^verbatim>\<open>/api\<close> group runs exactly when the request carries that
  key and the rate limiter lets the client's address through; otherwise the answer is 429 or 401 and the application state
  is untouched. The limiter counts the request in every case, also one with a wrong key.
\<close>

theorem api_group_needs_key:
  assumes "grouped rq" and "apiKey \<noteq> []"
  shows "serve_route (router_env apiKey True origins env ''API_KEY'') Allow now rq handler (w, i) =
           (case rate_Allow Allow (rq_ip rq) now i of (allowed, i') \<Rightarrow>
              if \<not> allowed then (HTTPError 429 ''rate limit exceeded'' ''RATE_LIMITED'', (w, i'))
              else if bearer_token rq = apiKey then (case handler w of (r, w') \<Rightarrow> (r, (w', i')))
              else (HTTPError 401 (if bearer_token rq = [] then ''missing API key'' else ''invalid API key'') ''UNAUTHORIZED'',
                    (w, i')))"
  using assms by (auto simp: serve_route_def RateLimiter_def router_env_def APIKeyAuth_grouped split: prod.splits)

theorem api_group_needs_key_witness:
  "\<exists>rq. grouped rq \<and> rq_route rq = ''/api/domains/:id'' \<and>
     serve_route (router_env ''k'' True [] (\<lambda>_. []) ''API_KEY'') (\<lambda>_ n. (0 < n, n - 1)) 0 rq (\<lambda>w. (Reply (), w + 1))
       ((7::nat), NewIPRateLimiter (2::nat)) =
     (HTTPError 401 ''invalid API key'' ''UNAUTHORIZED'', (7, \<lparr>limiters = [''10.0.0.1'' \<mapsto> 1], newLimiter = 2\<rparr>))"
proof -
  define rq where "rq = \<lparr>rq_method = ''DELETE'', rq_route = ''/api/domains/:id'', rq_XAPIKey = [],
                         rq_Authorization = ''Bearer x'', rq_ip = ''10.0.0.1'', rq_https = True\<rparr>"
  have g: "grouped rq" by (simp add: grouped_def routes_def rq_def)
  have k: "''k'' \<noteq> []" by simp
  have t: "bearer_token rq = ''x''" unfolding rq_def by code_simp
  have r: "rate_Allow (\<lambda>_ n. (0 < n, n - 1)) (rq_ip rq) 0 (NewIPRateLimiter (2::nat)) =
             (True, \<lparr>limiters = [''10.0.0.1'' \<mapsto> 1], newLimiter = 2\<rparr>)"
    by (simp add: rate_Allow_def GetLimiter_def NewIPRateLimiter_def rq_def)
  have "serve_route (router_env ''k'' True [] (\<lambda>_. []) ''API_KEY'') (\<lambda>_ n. (0 < n, n - 1)) 0 rq (\<lambda>w. (Reply (), w + 1))
       ((7::nat), NewIPRateLimiter (2::nat)) =
     (HTTPError 401 ''invalid API key'' ''UNAUTHORIZED'', (7, \<lparr>limiters = [''10.0.0.1'' \<mapsto> 1], newLimiter = 2\<rparr>))"
    unfolding api_group_needs_key [OF g k] r t by simp
  then show ?thesis using g by (intro exI [of _ rq]) (simp add: rq_def)
qed

section \<open>The limiter's clients do not affect one another\<close>

text \<open>
  A history of the limiter: requests by an address at a time, and the cleanup of the background ticker. \<open>decisions\<close> runs
  the shared map; \<open>own_decisions\<close> is the specification, one limiter that only ever sees the requests of its own address
  and starts afresh after a cleanup.
\<close>

datatype limiter_event = Hit string time | Tick

fun decisions :: "(time \<Rightarrow> 'l \<Rightarrow> bool \<times> 'l) \<Rightarrow> limiter_event list \<Rightarrow> 'l IPRateLimiter \<Rightarrow> (string \<times> bool) list" where
  "decisions Allow [] i = []"
| "decisions Allow (Hit ip t # es) i = (case rate_Allow Allow ip t i of (ok, i') \<Rightarrow> (ip, ok) # decisions Allow es i')"
| "decisions Allow (Tick # es) i = decisions Allow es (CleanupOldEntries i)"

fun own_decisions :: "(time \<Rightarrow> 'l \<Rightarrow> bool \<times> 'l) \<Rightarrow> 'l \<Rightarrow> string \<Rightarrow> limiter_event list \<Rightarrow> 'l \<Rightarrow> bool list" where
  "own_decisions Allow fresh ip [] l = []"
| "own_decisions Allow fresh ip (Hit ip' t # es) l =
     (if ip' = ip then case Allow t l of (ok, l') \<Rightarrow> ok # own_decisions Allow fresh ip es l'
      else own_decisions Allow fresh ip es l)"
| "own_decisions Allow fresh ip (Tick # es) l = own_decisions Allow fresh ip es fresh"

definition budget :: "string \<Rightarrow> 'l IPRateLimiter \<Rightarrow> 'l" where
  "budget ip i = (case limiters i ip of None \<Rightarrow> newLimiter i | Some l \<Rightarrow> l)"

lemma budget_NewIPRateLimiter [simp]: "budget ip (NewIPRateLimiter l) = l"
  by (simp add: budget_def NewIPRateLimiter_def)

lemma newLimiter_NewIPRateLimiter [simp]: "newLimiter (NewIPRateLimiter l) = l"
  by (simp add: NewIPRateLimiter_def)

lemma budget_Cleanup [simp]: "budget ip (CleanupOldEntries i) = newLimiter i"
  by (simp add: budget_def CleanupOldEntries_def)

lemma newLimiter_Cleanup [simp]: "newLimiter (CleanupOldEntries i) = newLimiter i"
  by (simp add: CleanupOldEntries_def)

lemma rate_Allow_budget:
  assumes "rate_Allow Allow ip t i = (ok, i')"
  shows "newLimiter i' = newLimiter i" and "Allow t (budget ip i) = (ok, budget ip i')"
    and "ip' \<noteq> ip \<Longrightarrow> budget ip' i' = budget ip' i"
  using assms by (auto simp: rate_Allow_def GetLimiter_def budget_def split: option.splits prod.splits)

lemma decisions_own:
  "map snd (filter (\<lambda>d. fst d = ip) (decisions Allow es i)) = own_decisions Allow (newLimiter i) ip es (budget ip i)"
proof (induction es arbitrary: i)
  case (Cons e es)
  show ?case
  proof (cases e)
    case (Hit ip' t)
    obtain ok i' where r: "rate_Allow Allow ip' t i = (ok, i')" by fastforce
    show ?thesis
      using r Cons.IH [of i'] rate_Allow_budget [OF r] by (cases "ip' = ip") (auto simp: Hit)
  qed (simp add: Cons.IH)
qed simp

text \<open>
  C30. The decisions the shared limiter takes for one address are the decisions of a limiter that sees only that address's
  requests: however the other clients behave, they neither use up nor refill its budget. The periodic cleanup, which
  empties the whole map, gives every address a fresh limiter.
\<close>

theorem rate_limiter_isolates_clients:
  "map snd (filter (\<lambda>d. fst d = ip) (decisions Allow es (NewIPRateLimiter fresh))) = own_decisions Allow fresh ip es fresh"
  by (simp add: decisions_own)

section \<open>Origins\<close>

text \<open>
  In production the wildcard origin is never passed on, whatever the environment says, and the list is not empty (an empty
  list is the wildcard for echo).
\<close>

lemma production_origins:
  "env ''APP_ENV'' = ''production'' \<Longrightarrow> ''*'' \<notin> set (SecureCORS_origins env) \<and> SecureCORS_origins env \<noteq> []"
  by (auto simp: SecureCORS_origins_def Let_def)

end
