(* ===== verification/Database.thy ===== *)
theory Database
  imports AppErrors
begin

text \<open>
  \<^verbatim>\<open>internal/database/database.go\<close>: opening the database, the limits of its connection pool, migration, closing. The pool is the
  part of \<^verbatim>\<open>database/sql\<close> the code sets; what \<^verbatim>\<open>gorm\<close> does (\<open>open\<close>, \<open>auto_migrate\<close>) and the result of closing the connections
  are parameters. A \<^verbatim>\<open>*gorm.DB\<close> is its handle together with what \<^verbatim>\<open>db.DB()\<close> returns for it.
\<close>

section \<open>The connection pool of database/sql\<close>

record sql_DB =
  sq_maxIdleCount :: int
  sq_maxOpen :: int
  sq_maxLifetime :: duration
  sq_maxIdleTime :: duration
  sq_closed :: bool

text \<open>The limit in force: zero means the default of two, a negative number none.\<close>

definition maxIdleConns :: "sql_DB \<Rightarrow> int" where
  "maxIdleConns p = (if sq_maxIdleCount p = 0 then 2 else if sq_maxIdleCount p < 0 then 0 else sq_maxIdleCount p)"

definition SetMaxIdleConns :: "int \<Rightarrow> sql_DB \<Rightarrow> sql_DB" where
  "SetMaxIdleConns n p =
     (let p = p\<lparr>sq_maxIdleCount := (if n > 0 then n else -1)\<rparr> in
      if sq_maxOpen p > 0 \<and> maxIdleConns p > sq_maxOpen p then p\<lparr>sq_maxIdleCount := sq_maxOpen p\<rparr> else p)"

definition SetMaxOpenConns :: "int \<Rightarrow> sql_DB \<Rightarrow> sql_DB" where
  "SetMaxOpenConns n p =
     (let p = p\<lparr>sq_maxOpen := (if n < 0 then 0 else n)\<rparr> in
      if sq_maxOpen p > 0 \<and> maxIdleConns p > sq_maxOpen p then SetMaxIdleConns n p else p)"

definition SetConnMaxLifetime :: "duration \<Rightarrow> sql_DB \<Rightarrow> sql_DB" where
  "SetConnMaxLifetime d p = p\<lparr>sq_maxLifetime := (if d < 0 then 0 else d)\<rparr>"

definition SetConnMaxIdleTime :: "duration \<Rightarrow> sql_DB \<Rightarrow> sql_DB" where
  "SetConnMaxIdleTime d p = p\<lparr>sq_maxIdleTime := (if d < 0 then 0 else d)\<rparr>"

record 'h gorm_DB =
  gd_handle :: 'h
  gd_DB :: "goerror + sql_DB"

section \<open>database.go\<close>

abbreviation DefaultMaxIdleConns :: int where "DefaultMaxIdleConns \<equiv> 10"
abbreviation DefaultMaxOpenConns :: int where "DefaultMaxOpenConns \<equiv> 100"
abbreviation DefaultConnMaxLifetime :: duration where "DefaultConnMaxLifetime \<equiv> hour"
abbreviation DefaultConnMaxIdleTime :: duration where "DefaultConnMaxIdleTime \<equiv> 10 * minute"

definition validateSSLMode :: "string \<Rightarrow> goerror option" where
  "validateSSLMode databaseURL =
     (if Contains databaseURL ''sslmode=disable'' then Some (Opaque ''SSL mode cannot be disabled in production'') else None)"

definition configureConnectionPool :: "'h gorm_DB \<Rightarrow> goerror + 'h gorm_DB" where
  "configureConnectionPool db =
     (case gd_DB db of
        Inl err \<Rightarrow> Inl (Wrapf ''failed to get underlying sql.DB'' err)
      | Inr sqlDB \<Rightarrow>
         (let sqlDB = SetMaxIdleConns DefaultMaxIdleConns sqlDB;
              sqlDB = SetMaxOpenConns DefaultMaxOpenConns sqlDB;
              sqlDB = SetConnMaxLifetime DefaultConnMaxLifetime sqlDB;
              sqlDB = SetConnMaxIdleTime DefaultConnMaxIdleTime sqlDB in
          Inr (db\<lparr>gd_DB := Inr sqlDB\<rparr>)))"

definition Connect :: "(string \<Rightarrow> goerror + 'h gorm_DB) \<Rightarrow> (string \<Rightarrow> string) \<Rightarrow> string \<Rightarrow> goerror + 'h gorm_DB" where
  "Connect open env databaseURL =
     (case (if env ''APP_ENV'' = ''production'' then validateSSLMode databaseURL else None) of
        Some err \<Rightarrow> Inl err
      | None \<Rightarrow>
         (case open databaseURL of
            Inl err \<Rightarrow> Inl (Wrapf ''failed to connect to database'' err)
          | Inr db \<Rightarrow> configureConnectionPool db))"

definition ConnectWithConfig ::
  "(string \<Rightarrow> goerror + 'h gorm_DB) \<Rightarrow> (string \<Rightarrow> string) \<Rightarrow> string \<Rightarrow> int \<Rightarrow> int \<Rightarrow> duration \<Rightarrow> duration
     \<Rightarrow> goerror + 'h gorm_DB" where
  "ConnectWithConfig open env databaseURL maxIdle maxOpen connMaxLifetime connMaxIdleTime =
     (case (if env ''APP_ENV'' = ''production'' then validateSSLMode databaseURL else None) of
        Some err \<Rightarrow> Inl err
      | None \<Rightarrow>
         (case open databaseURL of
            Inl err \<Rightarrow> Inl (Wrapf ''failed to connect to database'' err)
          | Inr db \<Rightarrow>
             (case gd_DB db of
                Inl err \<Rightarrow> Inl (Wrapf ''failed to get underlying sql.DB'' err)
              | Inr sqlDB \<Rightarrow>
                 (let sqlDB = SetMaxIdleConns maxIdle sqlDB;
                      sqlDB = SetMaxOpenConns maxOpen sqlDB;
                      sqlDB = SetConnMaxLifetime connMaxLifetime sqlDB;
                      sqlDB = SetConnMaxIdleTime connMaxIdleTime sqlDB in
                  Inr (db\<lparr>gd_DB := Inr sqlDB\<rparr>)))))"

text \<open>The tables in the order in which they are migrated, each after the tables it refers to.\<close>

datatype table = DomainTable | DomainCertificateTable | MailboxTable | MessageTable | AttachmentTable

definition Migrate :: "(table list \<Rightarrow> 'h \<Rightarrow> goerror + 'h) \<Rightarrow> 'h gorm_DB \<Rightarrow> goerror + 'h gorm_DB" where
  "Migrate auto_migrate db =
     (case auto_migrate [DomainTable, DomainCertificateTable, MailboxTable, MessageTable, AttachmentTable] (gd_handle db) of
        Inl err \<Rightarrow> Inl (Wrapf ''failed to run migrations'' err)
      | Inr h \<Rightarrow> Inr (db\<lparr>gd_handle := h\<rparr>))"

text \<open>\<open>closing\<close> is the error of closing the open connections; a pool that is closed already stays so without error.\<close>

definition Close :: "goerror option \<Rightarrow> 'h gorm_DB \<Rightarrow> goerror option \<times> 'h gorm_DB" where
  "Close closing db =
     (case gd_DB db of
        Inl err \<Rightarrow> (Some (Wrapf ''failed to get underlying sql.DB'' err), db)
      | Inr sqlDB \<Rightarrow>
          if sq_closed sqlDB then (None, db) else (closing, db\<lparr>gd_DB := Inr (sqlDB\<lparr>sq_closed := True\<rparr>)\<rparr>))"

section \<open>Properties\<close>

lemma pool_bounds:
  assumes "0 < n"
  shows "maxIdleConns (SetMaxOpenConns n p) \<le> sq_maxOpen (SetMaxOpenConns n p)" "sq_maxOpen (SetMaxOpenConns n p) = n"
  using assms by (auto simp: SetMaxOpenConns_def SetMaxIdleConns_def maxIdleConns_def Let_def)

lemma pool_times:
  "sq_maxOpen (SetConnMaxLifetime t p) = sq_maxOpen p" "maxIdleConns (SetConnMaxLifetime t p) = maxIdleConns p"
  "sq_maxOpen (SetConnMaxIdleTime t p) = sq_maxOpen p" "maxIdleConns (SetConnMaxIdleTime t p) = maxIdleConns p"
  "sq_maxLifetime (SetConnMaxIdleTime u (SetConnMaxLifetime t p)) = max 0 t" "sq_maxIdleTime (SetConnMaxIdleTime u p) = max 0 u"
  by (simp_all add: SetConnMaxLifetime_def SetConnMaxIdleTime_def maxIdleConns_def)

text \<open>
  A connection of the program is always limited: from \<^verbatim>\<open>Connect\<close>, to a hundred open connections; from \<^verbatim>\<open>ConnectWithConfig\<close>, to the given
  positive number; there are never more idle than open connections, and the life times are not negative. With
  \<^verbatim>\<open>APP_ENV=production\<close> a URL that switches SSL off is refused before the database is contacted.
\<close>

lemma pool_is_limited:
  assumes "Connect open env url = Inr db \<and> n = 100 \<or> ConnectWithConfig open env url i n l t = Inr db \<and> 0 < n"
  shows "\<exists>p. gd_DB db = Inr p \<and> sq_maxOpen p = n \<and> maxIdleConns p \<le> n \<and> 0 \<le> sq_maxLifetime p \<and> 0 \<le> sq_maxIdleTime p"
  using assms pool_bounds [of n "SetMaxIdleConns i q" for q] pool_bounds [of 100 "SetMaxIdleConns 10 q" for q]
  by (auto simp: Connect_def ConnectWithConfig_def configureConnectionPool_def Let_def pool_times split: option.splits sum.splits if_splits)

lemma production_refuses_plain:
  assumes "env ''APP_ENV'' = ''production''" "Contains url ''sslmode=disable''"
  shows "Connect open env url = Inl (Opaque ''SSL mode cannot be disabled in production'')"
    "ConnectWithConfig open env url i n l t = Inl (Opaque ''SSL mode cannot be disabled in production'')"
  using assms by (simp_all add: Connect_def ConnectWithConfig_def validateSSLMode_def)

lemma Close_twice: "Close e (snd (Close e db)) = (fst (Close None db), snd (Close e db))"
  by (cases "gd_DB db") (auto simp: Close_def)

end
