(* ===== verification/Config.thy ===== *)
theory Config
  imports Middleware Database Complex_Main
begin

text \<open>
  \<^verbatim>\<open>internal/config/config.go\<close>, and how
  \<^verbatim>\<open>cmd/server/main.go\<close> hands the configuration to the router. The environment is a function from variable
  names to values (the empty string when unset, as \<^verbatim>\<open>os.Getenv\<close> gives it). \<^verbatim>\<open>strconv.ParseFloat\<close> is a parameter; a
  finite \<^verbatim>\<open>float64\<close> is the rational it denotes. The text of a \<^verbatim>\<open>strconv\<close> error is not kept.
\<close>

type_synonym environment = "string \<Rightarrow> string"

record Config =
  C_DatabaseURL :: string
  C_APIPort :: int
  C_SMTPPort :: int
  C_AutoProvisioningEnabled :: bool
  C_AttachmentStoragePath :: string
  C_LogLevel :: string
  C_APIKey :: string
  C_AllowedOrigins :: string
  C_AppEnv :: string
  C_RateLimitRequests :: rat
  C_RateLimitBurst :: int
  C_SMTPHostname :: string
  C_ServerIP :: string
  C_ACMEDirectoryURL :: string
  C_ACMEEmail :: string
  C_ACMEStaging :: bool
  C_CertStoragePath :: string
  C_CertRenewalDays :: int
  C_CertRenewalCheckInterval :: string

section \<open>Load\<close>

text \<open>The three shapes of a setting: a text with a default, and a number or a flag whose text must parse.\<close>

definition env_or :: "environment \<Rightarrow> string \<Rightarrow> string \<Rightarrow> string" where
  "env_or env key dflt = (if env key = [] then dflt else env key)"

definition env_int :: "environment \<Rightarrow> string \<Rightarrow> int \<Rightarrow> goerror + int" where
  "env_int env key dflt =
     (if env key = [] then Inr dflt
      else case Atoi (env key) of None \<Rightarrow> Inl (Opaque (key @ '' must be a valid integer'')) | Some v \<Rightarrow> Inr v)"

definition env_bool :: "environment \<Rightarrow> string \<Rightarrow> bool \<Rightarrow> goerror + bool" where
  "env_bool env key dflt =
     (if env key = [] then Inr dflt
      else case ParseBool (env key) of None \<Rightarrow> Inl (Opaque (key @ '' must be a valid boolean'')) | Some v \<Rightarrow> Inr v)"

text \<open>
  \<^verbatim>\<open>RATE_LIMIT_REQUESTS\<close> and \<^verbatim>\<open>RATE_LIMIT_BURST\<close> fall into neither: a text that does not parse leaves the field at
  its zero value.
\<close>

definition load_rate :: "(string \<Rightarrow> rat option) \<Rightarrow> environment \<Rightarrow> rat" where
  "load_rate ParseFloat env =
     (let rps = env ''RATE_LIMIT_REQUESTS'' in
      if rps \<noteq> [] then case ParseFloat rps of Some v \<Rightarrow> v | None \<Rightarrow> 0 else 10)"

definition load_burst :: "environment \<Rightarrow> int" where
  "load_burst env =
     (let burst = env ''RATE_LIMIT_BURST'' in
      if burst \<noteq> [] then case Atoi burst of Some v \<Rightarrow> v | None \<Rightarrow> 0 else 20)"

definition Load :: "(string \<Rightarrow> rat option) \<Rightarrow> environment \<Rightarrow> goerror + Config" where
  "Load ParseFloat env =
     (if env ''DATABASE_URL'' = [] then Inl (Opaque ''DATABASE_URL is required but not set'')
      else case env_int env ''API_PORT'' 8080 of Inl e \<Rightarrow> Inl e
      | Inr apiPort \<Rightarrow>
     (case env_int env ''SMTP_PORT'' 2525 of Inl e \<Rightarrow> Inl e
      | Inr smtpPort \<Rightarrow>
     (case env_bool env ''AUTO_PROVISIONING_ENABLED'' True of Inl e \<Rightarrow> Inl e
      | Inr autoProvisioning \<Rightarrow>
     (case env_bool env ''ACME_STAGING'' True of Inl e \<Rightarrow> Inl e
      | Inr acmeStaging \<Rightarrow>
     (case env_int env ''CERT_RENEWAL_DAYS'' 30 of Inl e \<Rightarrow> Inl e
      | Inr certRenewalDays \<Rightarrow>
        Inr \<lparr>C_DatabaseURL = env ''DATABASE_URL'',
             C_APIPort = apiPort,
             C_SMTPPort = smtpPort,
             C_AutoProvisioningEnabled = autoProvisioning,
             C_AttachmentStoragePath = env_or env ''ATTACHMENT_STORAGE_PATH'' ''./attachments'',
             C_LogLevel = env_or env ''LOG_LEVEL'' ''info'',
             C_APIKey = env ''API_KEY'',
             C_AllowedOrigins = env ''ALLOWED_ORIGINS'',
             C_AppEnv = env_or env ''APP_ENV'' ''development'',
             C_RateLimitRequests = load_rate ParseFloat env,
             C_RateLimitBurst = load_burst env,
             C_SMTPHostname = env_or env ''SMTP_HOSTNAME'' ''mail.infinimail.local'',
             C_ServerIP = env_or env ''SERVER_IP'' ''127.0.0.1'',
             C_ACMEDirectoryURL =
               env_or env ''ACME_DIRECTORY_URL'' ''https://acme-staging-v02.api.letsencrypt.org/directory'',
             C_ACMEEmail = env ''ACME_EMAIL'',
             C_ACMEStaging = acmeStaging,
             C_CertStoragePath = env_or env ''CERT_STORAGE_PATH'' ''./certs'',
             C_CertRenewalDays = certRenewalDays,
             C_CertRenewalCheckInterval = env_or env ''CERT_RENEWAL_CHECK_INTERVAL'' ''24h''\<rparr>)))))"

section \<open>Validation\<close>

definition Validate :: "Config \<Rightarrow> goerror option" where
  "Validate c =
     (if C_DatabaseURL c = [] then Some (Opaque ''DatabaseURL cannot be empty'')
      else if C_APIPort c \<le> 0 \<or> C_APIPort c > 65535 then Some (Opaque ''APIPort must be between 1 and 65535'')
      else if C_SMTPPort c \<le> 0 \<or> C_SMTPPort c > 65535 then Some (Opaque ''SMTPPort must be between 1 and 65535'')
      else if C_AttachmentStoragePath c = [] then Some (Opaque ''AttachmentStoragePath cannot be empty'')
      else None)"

definition ValidateProduction :: "Config \<Rightarrow> goerror option" where
  "ValidateProduction c =
     (if C_APIKey c = [] then Some (Opaque ''API_KEY is required in production'')
      else if C_AllowedOrigins c = [] then Some (Opaque ''ALLOWED_ORIGINS is required in production'')
      else if Contains (C_AllowedOrigins c) ''*'' then Some (Opaque ''wildcard (*) origins are not allowed in production'')
      else if Contains (C_DatabaseURL c) ''sslmode=disable'' then Some (Opaque ''sslmode=disable is not allowed in production'')
      else if C_ACMEStaging c then Some (Opaque ''ACME_STAGING must be false in production for real certificates'')
      else if C_ACMEEmail c = []
      then Some (Opaque ''ACME_EMAIL is required in production for certificate expiry notifications'')
      else if Contains (C_ACMEDirectoryURL c) ''staging''
      then Some (Opaque ''ACME_DIRECTORY_URL should use production endpoint in production environment'')
      else None)"

definition LoadWithValidation :: "(string \<Rightarrow> rat option) \<Rightarrow> environment \<Rightarrow> goerror + Config" where
  "LoadWithValidation ParseFloat env =
     (case Load ParseFloat env of
        Inl err \<Rightarrow> Inl err
      | Inr cfg \<Rightarrow>
         (case Validate cfg of
            Some err \<Rightarrow> Inl err
          | None \<Rightarrow>
              if C_AppEnv cfg = ''production''
              then (case ValidateProduction cfg of Some err \<Rightarrow> Inl err | None \<Rightarrow> Inr cfg)
              else Inr cfg))"

section \<open>From the configuration to the router\<close>

text \<open>
  What \<^verbatim>\<open>main\<close> passes to \<^verbatim>\<open>NewRouter\<close>: the key, the origins split at commas, the rate cut to an \<^verbatim>\<open>int\<close>
  (towards zero), and the burst.
\<close>

record RouterConfig =
  R_APIKey :: string
  R_AllowedOrigins :: "string list"
  R_RateLimit :: int
  R_RateBurst :: int
  R_EnableAuth :: bool

definition truncate_rat :: "rat \<Rightarrow> int" where
  "truncate_rat r = (if r < 0 then - \<lfloor>- r\<rfloor> else \<lfloor>r\<rfloor>)"

definition main_router_config :: "environment \<Rightarrow> Config \<Rightarrow> RouterConfig" where
  "main_router_config env cfg =
     \<lparr>R_APIKey = C_APIKey cfg,
      R_AllowedOrigins = (if env ''ALLOWED_ORIGINS'' \<noteq> [] then Split CHR '','' (env ''ALLOWED_ORIGINS'') else []),
      R_RateLimit = truncate_rat (C_RateLimitRequests cfg),
      R_RateBurst = C_RateLimitBurst cfg,
      R_EnableAuth = (C_APIKey cfg \<noteq> [])\<rparr>"

text \<open>
  The limiter \<^verbatim>\<open>NewRouter\<close> installs: the configured one when the rate is positive, else the one of the environment,
  with its own defaults. \<open>mk\<close> is \<^verbatim>\<open>rate.NewLimiter\<close>.
\<close>

definition RateLimiter_rps :: "(string \<Rightarrow> rat option) \<Rightarrow> environment \<Rightarrow> rat" where
  "RateLimiter_rps ParseFloat env =
     (let rps = env ''RATE_LIMIT_REQUESTS'' in
      if rps \<noteq> [] then case ParseFloat rps of Some v \<Rightarrow> v | None \<Rightarrow> 10 else 10)"

definition router_limiter ::
  "(string \<Rightarrow> rat option) \<Rightarrow> (rat \<Rightarrow> int \<Rightarrow> 'l) \<Rightarrow> environment \<Rightarrow> RouterConfig \<Rightarrow> 'l IPRateLimiter" where
  "router_limiter ParseFloat mk env cfg =
     NewIPRateLimiter
       (if R_RateLimit cfg > 0 then mk (of_int (R_RateLimit cfg)) (R_RateBurst cfg)
        else mk (RateLimiter_rps ParseFloat env) (RateLimiter_burst env))"

text \<open>The key check and the origins that result.\<close>

definition router_environment :: "environment \<Rightarrow> RouterConfig \<Rightarrow> environment" where
  "router_environment env cfg = router_env (R_APIKey cfg) (R_EnableAuth cfg) (R_AllowedOrigins cfg) env"

section \<open>Properties\<close>

lemma Load_cases:
  assumes "Load pf env = Inr cfg"
  obtains apiPort smtpPort autoProvisioning acmeStaging certRenewalDays where
    "env ''DATABASE_URL'' \<noteq> []" "env_int env ''API_PORT'' 8080 = Inr apiPort" "env_int env ''SMTP_PORT'' 2525 = Inr smtpPort"
    "env_bool env ''AUTO_PROVISIONING_ENABLED'' True = Inr autoProvisioning" "env_bool env ''ACME_STAGING'' True = Inr acmeStaging"
    "env_int env ''CERT_RENEWAL_DAYS'' 30 = Inr certRenewalDays"
  using assms
  by (cases "env_int env ''API_PORT'' 8080"; cases "env_int env ''SMTP_PORT'' 2525";
      cases "env_bool env ''AUTO_PROVISIONING_ENABLED'' True"; cases "env_bool env ''ACME_STAGING'' True";
      cases "env_int env ''CERT_RENEWAL_DAYS'' 30"; cases "env ''DATABASE_URL'' = []")
     (simp_all only: Load_def sum.case if_True if_False simp_thms sum.distinct)

lemma Load_fields:
  assumes "Load pf env = Inr cfg"
  shows "C_DatabaseURL cfg = env ''DATABASE_URL''" "C_DatabaseURL cfg \<noteq> []" "C_AttachmentStoragePath cfg \<noteq> []"
    "C_APIKey cfg = env ''API_KEY''" "C_AllowedOrigins cfg = env ''ALLOWED_ORIGINS''" "C_RateLimitBurst cfg = load_burst env"
    "C_RateLimitRequests cfg = load_rate pf env" "C_AppEnv cfg = env_or env ''APP_ENV'' ''development''"
proof -
  obtain a s p g d where
    c: "env ''DATABASE_URL'' \<noteq> []" "env_int env ''API_PORT'' 8080 = Inr a" "env_int env ''SMTP_PORT'' 2525 = Inr s"
    "env_bool env ''AUTO_PROVISIONING_ENABLED'' True = Inr p" "env_bool env ''ACME_STAGING'' True = Inr g"
    "env_int env ''CERT_RENEWAL_DAYS'' 30 = Inr d"
    by (rule Load_cases [OF assms])
  note eq = assms [symmetric, unfolded Load_def c(2-6) sum.case, unfolded if_not_P [OF c(1)] sum.inject]
  show "C_DatabaseURL cfg = env ''DATABASE_URL''" "C_APIKey cfg = env ''API_KEY''" "C_AllowedOrigins cfg = env ''ALLOWED_ORIGINS''"
    "C_RateLimitBurst cfg = load_burst env" "C_RateLimitRequests cfg = load_rate pf env"
    "C_AppEnv cfg = env_or env ''APP_ENV'' ''development''"
    unfolding eq by simp_all
  show "C_DatabaseURL cfg \<noteq> []" "C_AttachmentStoragePath cfg \<noteq> []"
    unfolding eq using c(1) by (simp_all add: env_or_def)
qed

lemma Validate_None:
  "Validate c = None \<longleftrightarrow>
     C_DatabaseURL c \<noteq> [] \<and> C_APIPort c \<in> {1..65535} \<and> C_SMTPPort c \<in> {1..65535} \<and> C_AttachmentStoragePath c \<noteq> []"
  by (auto simp: Validate_def)

lemma ValidateProduction_None:
  "ValidateProduction c = None \<longleftrightarrow>
     C_APIKey c \<noteq> [] \<and> C_AllowedOrigins c \<noteq> [] \<and> \<not> Contains (C_AllowedOrigins c) ''*'' \<and>
     \<not> Contains (C_DatabaseURL c) ''sslmode=disable'' \<and> \<not> C_ACMEStaging c \<and> C_ACMEEmail c \<noteq> [] \<and>
     \<not> Contains (C_ACMEDirectoryURL c) ''staging''"
  by (auto simp: ValidateProduction_def)

lemma Contains_singleton: "Contains s [c] \<longleftrightarrow> c \<in> set s"
  by (induction s) (auto simp: HasPrefix_def)

lemma LoadWithValidation_Inr:
  "LoadWithValidation pf env = Inr cfg \<longleftrightarrow>
     Load pf env = Inr cfg \<and> Validate cfg = None \<and> (C_AppEnv cfg = ''production'' \<longrightarrow> ValidateProduction cfg = None)"
  by (auto simp: LoadWithValidation_def split: sum.splits option.splits)

lemma env_or_production: "env_or env ''APP_ENV'' ''development'' = ''production'' \<longleftrightarrow> env ''APP_ENV'' = ''production''"
  by (auto simp: env_or_def)

lemma router_environment_key:
  assumes "Load pf env = Inr cfg"
  shows "router_environment env (main_router_config env cfg) ''API_KEY'' = C_APIKey cfg"
  using Load_fields(4) [OF assms] by (simp add: router_environment_def router_env_def main_router_config_def Let_def)

lemma router_environment_origins:
  "router_environment env (main_router_config env cfg) ''ALLOWED_ORIGINS'' = env ''ALLOWED_ORIGINS''"
  by (auto simp: router_environment_def router_env_def main_router_config_def Let_def Join_Split)

lemma router_environment_app_env [simp]:
  "router_environment env (main_router_config env cfg) ''APP_ENV'' = env ''APP_ENV''"
  by (simp add: router_environment_def router_env_def main_router_config_def Let_def)

lemma SecureCORS_origins_chars:
  assumes "w \<in> set (SecureCORS_origins env)" "env ''ALLOWED_ORIGINS'' \<noteq> []" "x \<in> set w"
  shows "x \<in> set (env ''ALLOWED_ORIGINS'') \<union> set ''http://localhost:3000''"
proof -
  have "x \<in> set (env ''ALLOWED_ORIGINS'')" if "v \<in> set (Split CHR '','' (env ''ALLOWED_ORIGINS''))" "x \<in> set (TrimSpace v)" for v
    using that Split_chars [OF that(1)] set_TrimSpace [of v] by blast
  then show ?thesis
    using assms by (auto simp: SecureCORS_origins_def Let_def split: if_splits)
qed

text \<open>A limiter that always refuses and never changes makes the shared limiter refuse everything.\<close>

lemma decisions_stuck:
  assumes "\<And>t. Allow t z = (False, z)" "newLimiter i = z" "\<And>ip. budget ip i = z"
  shows "list_all (\<lambda>d. snd d = False) (decisions Allow es i)"
  using assms(2,3)
proof (induction es arbitrary: i)
  case (Cons e es)
  show ?case
  proof (cases e)
    case (Hit ip t)
    obtain ok i' where r: "rate_Allow Allow ip t i = (ok, i')" by fastforce
    note b = rate_Allow_budget [OF r]
    have ok: "ok = False" "budget ip i' = z" using b(2) Cons.prems(2) assms(1) by simp_all
    have "budget ip' i' = z" for ip' using b(3) [of ip'] ok(2) Cons.prems(2) by (cases "ip' = ip") simp_all
    then show ?thesis using Cons.IH [of i'] b(1) Cons.prems(1) ok(1) by (simp add: Hit r)
  next
    case Tick
    show ?thesis using Cons.IH [of "CleanupOldEntries i"] Cons.prems by (simp add: Tick)
  qed
qed simp

text \<open>
  C29. A configuration that \<^verbatim>\<open>LoadWithValidation\<close> accepts in production closes the API: the key check the router
  builds from it compares with a key that is not empty, so a request without that key is answered 401 or 429 and changes no
  application state; no allowed origin contains a wildcard; both ports are valid; and the database connection is not refused
  for its SSL mode.
\<close>

theorem validated_production_is_closed:
  assumes "LoadWithValidation ParseFloat env = Inr cfg" and "env ''APP_ENV'' = ''production''"
    and "env' = router_environment env (main_router_config env cfg)"
  shows "env' ''API_KEY'' \<noteq> [] \<and>
         (grouped rq \<and> bearer_token rq \<noteq> env' ''API_KEY'' \<longrightarrow>
           (\<exists>status msg code. fst (serve_route (env' ''API_KEY'') Allow now rq handler (w, i)) = HTTPError status msg code
              \<and> status \<in> {401, 429}) \<and>
           fst (snd (serve_route (env' ''API_KEY'') Allow now rq handler (w, i))) = w) \<and>
         list_all (\<lambda>origin. CHR ''*'' \<notin> set origin) (SecureCORS_origins env') \<and>
         C_APIPort cfg \<in> {1..65535} \<and> C_SMTPPort cfg \<in> {1..65535} \<and>
         validateSSLMode (C_DatabaseURL cfg) = None"
proof -
  have L: "Load ParseFloat env = Inr cfg" and v: "Validate cfg = None" and p: "ValidateProduction cfg = None"
    using assms(1,2) Load_fields(8) [of ParseFloat env cfg] by (simp_all add: LoadWithValidation_Inr env_or_production)
  note K = router_environment_key [OF L, folded assms(3)]
  have key: "env' ''API_KEY'' \<noteq> []" using p by (simp add: K ValidateProduction_None)
  have closed: "(\<exists>status msg code. fst (serve_route (env' ''API_KEY'') Allow now rq handler (w, i)) = HTTPError status msg code
              \<and> status \<in> {401, 429}) \<and>
           fst (snd (serve_route (env' ''API_KEY'') Allow now rq handler (w, i))) = w"
    if "grouped rq" "bearer_token rq \<noteq> env' ''API_KEY''"
    using that key by (auto simp: serve_route_def RateLimiter_def APIKeyAuth_grouped split: prod.splits)
  have o: "env' ''ALLOWED_ORIGINS'' = C_AllowedOrigins cfg"
    using Load_fields(5) [OF L] by (simp add: assms(3) router_environment_origins)
  have "CHR ''*'' \<notin> set origin" if "origin \<in> set (SecureCORS_origins env')" for origin
    using SecureCORS_origins_chars [OF that, of "CHR ''*''"] p by (auto simp: o ValidateProduction_None Contains_singleton)
  then show ?thesis
    using key closed v p by (auto simp: Validate_None ValidateProduction_None validateSSLMode_def list_all_iff)
qed

definition production_env :: environment where
  "production_env = (\<lambda>_. [])(''DATABASE_URL'' := ''postgres://db'', ''APP_ENV'' := ''production'', ''API_KEY'' := ''s3cret'',
     ''ALLOWED_ORIGINS'' := ''https://a.example'', ''ACME_STAGING'' := ''false'', ''ACME_EMAIL'' := ''ops@a.example'',
     ''ACME_DIRECTORY_URL'' := ''https://acme.example/dir'')"

theorem validated_production_is_closed_witness:
  "\<exists>cfg. LoadWithValidation (\<lambda>_. None) production_env = Inr cfg \<and> production_env ''APP_ENV'' = ''production'' \<and>
     router_environment production_env (main_router_config production_env cfg) ''API_KEY'' \<noteq> [] \<and> C_SMTPPort cfg = 2525"
proof -
  have "case LoadWithValidation (\<lambda>_. None) production_env of Inl _ \<Rightarrow> False | Inr c \<Rightarrow> C_SMTPPort c = 2525" by code_simp
  then obtain cfg where c: "LoadWithValidation (\<lambda>_. None) production_env = Inr cfg" "C_SMTPPort cfg = 2525"
    by (auto split: sum.splits)
  have p: "production_env ''APP_ENV'' = ''production''" by code_simp
  show ?thesis
    by (intro exI [of _ cfg] conjI c p) (rule validated_production_is_closed [OF c(1) p refl, THEN conjunct1])
qed


text \<open>
  A burst setting that is not a number does not fall back to the default: \<^verbatim>\<open>Load\<close> leaves the field at zero and, since
  the rate is set, the router takes the configured limiter with a burst of zero. As \<^verbatim>\<open>golang.org/x/time/rate\<close> documents,
  such a limiter allows no event, so that every request of every client is refused.
\<close>

theorem malformed_burst_blocks_everyone:
  assumes "Load ParseFloat env = Inr cfg"
    and "env ''RATE_LIMIT_BURST'' \<noteq> []" "Atoi (env ''RATE_LIMIT_BURST'') = None" "C_RateLimitRequests cfg \<ge> 1"
    and zero_burst: "\<And>r t. Allow t (mk r 0) = (False, mk r 0)"
  shows "list_all (\<lambda>d. snd d = False) (decisions Allow es (router_limiter ParseFloat mk env (main_router_config env cfg)))"
proof -
  let ?r = "of_int (truncate_rat (C_RateLimitRequests cfg)) :: rat"
  have "truncate_rat (C_RateLimitRequests cfg) > 0"
    using assms(4) by (auto simp: truncate_rat_def)
  then have l: "router_limiter ParseFloat mk env (main_router_config env cfg) = NewIPRateLimiter (mk ?r 0)"
    using assms(2,3) Load_fields(6) [OF assms(1)]
    by (simp add: router_limiter_def main_router_config_def load_burst_def Let_def)
  show ?thesis unfolding l by (rule decisions_stuck [of Allow "mk ?r 0"]) (simp_all add: zero_burst)
qed

theorem malformed_burst_blocks_everyone_witness:
  "\<exists>env cfg. Load (\<lambda>_. None) env = Inr cfg \<and> env ''RATE_LIMIT_BURST'' = ''20/s'' \<and>
     list_all (\<lambda>d. snd d = False)
       (decisions (\<lambda>t l. if snd l = 0 then (False, l) else (True, l)) [Hit ''10.0.0.1'' 0, Tick, Hit ''10.0.0.2'' 1]
         (router_limiter (\<lambda>_. None) Pair env (main_router_config env cfg)))"
proof -
  define env :: environment where "env = (\<lambda>_. [])(''DATABASE_URL'' := ''postgres://db'', ''RATE_LIMIT_BURST'' := ''20/s'')"
  have L0: "is_ok (Load (\<lambda>_. None) env)" by (simp add: Load_def env_def env_int_def env_bool_def env_or_def)
  then obtain cfg where L: "Load (\<lambda>_. None) env = Inr cfg" unfolding is_ok_iff by blast
  have b: "env ''RATE_LIMIT_BURST'' = ''20/s''" by (simp add: env_def)
  have a: "Atoi ''20/s'' = None" by code_simp
  have r: "C_RateLimitRequests cfg \<ge> 1" unfolding Load_fields(7) [OF L] by (simp add: load_rate_def env_def)
  show ?thesis
    by (intro exI [of _ env] exI [of _ cfg] conjI L b, rule malformed_burst_blocks_everyone [OF L _ _ r]) (simp_all add: b a)
qed

end
