(* ===== verification/SmtpServer.thy ===== *)
theory SmtpServer
  imports CertStore
begin

text \<open>
  \<^verbatim>\<open>internal/smtp/backend.go\<close>: the limits of the SMTP server, its configuration from the environment, and the
  certificate a TLS client gets. The server object of \<^verbatim>\<open>go-smtp\<close> is the record of the fields the code sets. The certificate
  function of the store is a closure over the store; it gets the store's state at the time of the handshake.
  \<^verbatim>\<open>time.ParseDuration\<close> is a parameter, and so is the check of a key pair (\<open>x509pair\<close>).
\<close>

section \<open>Limits and configuration\<close>

abbreviation DefaultMaxMessageSize :: int where "DefaultMaxMessageSize \<equiv> 25 * 1024 * 1024"
abbreviation DefaultMaxRecipients :: int where "DefaultMaxRecipients \<equiv> 100"
abbreviation DefaultReadTimeout :: duration where "DefaultReadTimeout \<equiv> 60 * second"
abbreviation DefaultWriteTimeout :: duration where "DefaultWriteTimeout \<equiv> 60 * second"
abbreviation DefaultMaxLineLength :: int where "DefaultMaxLineLength \<equiv> 2000"

text \<open>A TLS configuration is either one fixed certificate or the server's own selection by name.\<close>

datatype 'c tls_config = StaticTLS 'c | SelectByName

type_synonym ('st, 'c) cert_func = "'st \<Rightarrow> string \<Rightarrow> goerror + 'c"

record ('st, 'c) ServerConfig =
  SC_Addr :: string
  SC_Domain :: string
  SC_MaxMessageSize :: int
  SC_MaxRecipients :: int
  SC_ReadTimeout :: duration
  SC_WriteTimeout :: duration
  SC_AllowInsecure :: bool
  SC_TLSConfig :: "'c tls_config option"
  SC_GetCertificate :: "('st, 'c) cert_func option"
  SC_DefaultCertFile :: string
  SC_DefaultKeyFile :: string

record ('st, 'c) SecureSMTPServer =
  SV_Addr :: string
  SV_Domain :: string
  SV_MaxMessageBytes :: int
  SV_MaxRecipients :: int
  SV_ReadTimeout :: duration
  SV_WriteTimeout :: duration
  SV_AllowInsecureAuth :: bool
  SV_MaxLineLength :: int
  SV_TLSConfig :: "'c tls_config"
  SV_getCertificate :: "('st, 'c) cert_func option"
  SV_defaultCert :: "'c option"

definition load_pair :: "(bytes \<Rightarrow> bytes \<Rightarrow> goerror + 'c) \<Rightarrow> string \<Rightarrow> string \<Rightarrow> osenv \<Rightarrow> 'c option" where
  "load_pair x509pair certFile keyFile w =
     (if certFile \<noteq> [] \<and> keyFile \<noteq> []
      then (case tls_LoadX509KeyPair x509pair certFile keyFile w of Inr cert \<Rightarrow> Some cert | Inl _ \<Rightarrow> None)
      else None)"

definition NewSecureServer ::
  "(bytes \<Rightarrow> bytes \<Rightarrow> goerror + 'c) \<Rightarrow> ('st, 'c) ServerConfig \<Rightarrow> osenv \<Rightarrow> ('st, 'c) SecureSMTPServer" where
  "NewSecureServer x509pair cfg w =
     \<lparr>SV_Addr = SC_Addr cfg,
      SV_Domain = SC_Domain cfg,
      SV_MaxMessageBytes = (if SC_MaxMessageSize cfg > 0 then SC_MaxMessageSize cfg else DefaultMaxMessageSize),
      SV_MaxRecipients = (if SC_MaxRecipients cfg > 0 then SC_MaxRecipients cfg else DefaultMaxRecipients),
      SV_ReadTimeout = (if SC_ReadTimeout cfg > 0 then SC_ReadTimeout cfg else DefaultReadTimeout),
      SV_WriteTimeout = (if SC_WriteTimeout cfg > 0 then SC_WriteTimeout cfg else DefaultWriteTimeout),
      SV_AllowInsecureAuth = SC_AllowInsecure cfg,
      SV_MaxLineLength = DefaultMaxLineLength,
      SV_TLSConfig = (case SC_TLSConfig cfg of Some t \<Rightarrow> t | None \<Rightarrow> SelectByName),
      SV_getCertificate = SC_GetCertificate cfg,
      SV_defaultCert = load_pair x509pair (SC_DefaultCertFile cfg) (SC_DefaultKeyFile cfg) w\<rparr>"

definition getEnvOrDefault :: "(string \<Rightarrow> string) \<Rightarrow> string \<Rightarrow> string \<Rightarrow> string" where
  "getEnvOrDefault env key dflt = (let value = env key in if value \<noteq> [] then value else dflt)"

definition getEnvBool :: "(string \<Rightarrow> string) \<Rightarrow> string \<Rightarrow> bool \<Rightarrow> bool" where
  "getEnvBool env key dflt =
     (let value = env key in
      if value \<noteq> [] then case ParseBool value of Some b \<Rightarrow> b | None \<Rightarrow> dflt else dflt)"

text \<open>A setting that is unset or does not parse leaves the field at its zero value.\<close>

definition env_limit :: "(string \<Rightarrow> int option) \<Rightarrow> (string \<Rightarrow> string) \<Rightarrow> string \<Rightarrow> int" where
  "env_limit parse env key = (if env key \<noteq> [] then case parse (env key) of Some v \<Rightarrow> v | None \<Rightarrow> 0 else 0)"

definition LoadServerConfigFromEnv ::
  "(string \<Rightarrow> duration option) \<Rightarrow> (bytes \<Rightarrow> bytes \<Rightarrow> goerror + 'c) \<Rightarrow> (string \<Rightarrow> string) \<Rightarrow> osenv \<Rightarrow> ('st, 'c) ServerConfig" where
  "LoadServerConfigFromEnv ParseDuration x509pair env w =
     \<lparr>SC_Addr = getEnvOrDefault env ''SMTP_ADDR'' '':2525'',
      SC_Domain = getEnvOrDefault env ''SMTP_DOMAIN'' ''localhost'',
      SC_MaxMessageSize = env_limit Atoi env ''SMTP_MAX_MESSAGE_SIZE'',
      SC_MaxRecipients = env_limit Atoi env ''SMTP_MAX_RECIPIENTS'',
      SC_ReadTimeout = env_limit ParseDuration env ''SMTP_READ_TIMEOUT'',
      SC_WriteTimeout = env_limit ParseDuration env ''SMTP_WRITE_TIMEOUT'',
      SC_AllowInsecure = getEnvBool env ''SMTP_ALLOW_INSECURE'' False,
      SC_TLSConfig = map_option StaticTLS (load_pair x509pair (env ''SMTP_TLS_CERT'') (env ''SMTP_TLS_KEY'') w),
      SC_GetCertificate = None,
      SC_DefaultCertFile = env ''SMTP_TLS_CERT'',
      SC_DefaultKeyFile = env ''SMTP_TLS_KEY''\<rparr>"

section \<open>Certificates\<close>

definition getCertificateWithFallback :: "('st, 'c) SecureSMTPServer \<Rightarrow> 'st \<Rightarrow> string \<Rightarrow> 'c option" where
  "getCertificateWithFallback s st serverName =
     (case SV_getCertificate s of
        None \<Rightarrow> SV_defaultCert s
      | Some get \<Rightarrow> (case get st serverName of Inr cert \<Rightarrow> Some cert | Inl _ \<Rightarrow> SV_defaultCert s))"

definition SetGetCertificateFunc :: "('st, 'c) cert_func option \<Rightarrow> ('st, 'c) SecureSMTPServer \<Rightarrow> ('st, 'c) SecureSMTPServer" where
  "SetGetCertificateFunc fn s = s\<lparr>SV_getCertificate := fn\<rparr>"

definition server_SetDefaultCertificate :: "'c option \<Rightarrow> ('st, 'c) SecureSMTPServer \<Rightarrow> ('st, 'c) SecureSMTPServer" where
  "server_SetDefaultCertificate cert s = s\<lparr>SV_defaultCert := cert\<rparr>"

definition LoadDefaultCertificate ::
  "(bytes \<Rightarrow> bytes \<Rightarrow> goerror + 'c) \<Rightarrow> string \<Rightarrow> string \<Rightarrow> osenv \<Rightarrow> ('st, 'c) SecureSMTPServer
     \<Rightarrow> (goerror + unit) \<times> ('st, 'c) SecureSMTPServer" where
  "LoadDefaultCertificate x509pair certFile keyFile w s =
     (case tls_LoadX509KeyPair x509pair certFile keyFile w of
        Inl err \<Rightarrow> (Inl err, s)
      | Inr cert \<Rightarrow> (Inr (), server_SetDefaultCertificate (Some cert) s))"

definition ReloadCertificates :: "('w \<Rightarrow> (goerror + unit) \<times> 'w) option \<Rightarrow> 'w \<Rightarrow> (goerror + unit) \<times> 'w" where
  "ReloadCertificates reloadFunc w = (case reloadFunc of None \<Rightarrow> (Inr (), w) | Some f \<Rightarrow> f w)"

text \<open>
  The choice of \<^verbatim>\<open>crypto/tls\<close>: the only certificate of a static configuration, whatever name the client asks for;
  otherwise the server's function, and no certificate ends the handshake.
\<close>

definition handshake :: "('st, 'c) SecureSMTPServer \<Rightarrow> 'st \<Rightarrow> string \<Rightarrow> goerror + 'c" where
  "handshake s st serverName =
     (case SV_TLSConfig s of
        StaticTLS cert \<Rightarrow> Inr cert
      | SelectByName \<Rightarrow>
         (case getCertificateWithFallback s st serverName of
            Some cert \<Rightarrow> Inr cert
          | None \<Rightarrow> Inl (Opaque ''tls: no certificates configured'')))"

text \<open>
  The server \<^verbatim>\<open>main\<close> starts: the configuration is read (with the files as in \<open>w1\<close>), its address and, when the
  certificate store could be created, its certificate function are set, and the server is built (files as in \<open>w2\<close>).
\<close>

definition main_smtp_server ::
  "(string \<Rightarrow> duration option) \<Rightarrow> (bytes \<Rightarrow> bytes \<Rightarrow> goerror + 'c) \<Rightarrow> (string \<Rightarrow> string) \<Rightarrow> int \<Rightarrow> bool \<Rightarrow> osenv \<Rightarrow> osenv
     \<Rightarrow> ('c certificateStore, 'c) SecureSMTPServer" where
  "main_smtp_server ParseDuration x509pair env port hasStore w1 w2 =
     (let smtpConfig = LoadServerConfigFromEnv ParseDuration x509pair env w1;
          smtpConfig = smtpConfig\<lparr>SC_Addr := '':'' @ show_int port\<rparr>;
          smtpConfig = (if hasStore then smtpConfig\<lparr>SC_GetCertificate := Some GetCertificateFunc\<rparr> else smtpConfig) in
      NewSecureServer x509pair smtpConfig w2)"

section \<open>Properties\<close>

text \<open>
  Whatever the environment holds, the server has a positive limit on the size of a message, on the recipients of a
  transaction, on the time of a read and of a write and on the length of a line: a setting is used when it parses to a positive
  number and is replaced by the default otherwise. Authentication without TLS is only allowed when the environment asks for it.
\<close>

theorem smtp_limits_always_set:
  "SV_MaxMessageBytes (main_smtp_server pd x509pair env port st w1 w2) > 0 \<and>
   SV_MaxRecipients (main_smtp_server pd x509pair env port st w1 w2) > 0 \<and>
   SV_ReadTimeout (main_smtp_server pd x509pair env port st w1 w2) > 0 \<and>
   SV_WriteTimeout (main_smtp_server pd x509pair env port st w1 w2) > 0 \<and>
   SV_MaxLineLength (main_smtp_server pd x509pair env port st w1 w2) = 2000 \<and>
   SV_MaxMessageBytes (main_smtp_server pd x509pair env port st w1 w2) =
     (case Atoi (env ''SMTP_MAX_MESSAGE_SIZE'') of Some v \<Rightarrow> if v > 0 then v else 26214400 | None \<Rightarrow> 26214400) \<and>
   SV_MaxRecipients (main_smtp_server pd x509pair env port st w1 w2) =
     (case Atoi (env ''SMTP_MAX_RECIPIENTS'') of Some v \<Rightarrow> if v > 0 then v else 100 | None \<Rightarrow> 100) \<and>
   (SV_AllowInsecureAuth (main_smtp_server pd x509pair env port st w1 w2) \<longleftrightarrow> ParseBool (env ''SMTP_ALLOW_INSECURE'') = Some True)"
proof -
  let ?S = "main_smtp_server pd x509pair env port st w1 w2"
  have e: "env_limit Atoi env k = (case Atoi (env k) of Some v \<Rightarrow> v | None \<Rightarrow> 0)" for k
    by (simp add: env_limit_def Atoi_def split: option.split)
  have b: "getEnvBool env k False \<longleftrightarrow> ParseBool (env k) = Some True" for k
    by (auto simp: getEnvBool_def ParseBool_def Let_def split: option.split)
  have f: "SV_MaxMessageBytes ?S = (if env_limit Atoi env ''SMTP_MAX_MESSAGE_SIZE'' > 0 then env_limit Atoi env ''SMTP_MAX_MESSAGE_SIZE'' else 26214400)"
    "SV_MaxRecipients ?S = (if env_limit Atoi env ''SMTP_MAX_RECIPIENTS'' > 0 then env_limit Atoi env ''SMTP_MAX_RECIPIENTS'' else 100)"
    "SV_ReadTimeout ?S > 0" "SV_WriteTimeout ?S > 0" "SV_MaxLineLength ?S = 2000"
    "SV_AllowInsecureAuth ?S = getEnvBool env ''SMTP_ALLOW_INSECURE'' False"
    by (simp_all add: main_smtp_server_def NewSecureServer_def LoadServerConfigFromEnv_def Let_def)
  show ?thesis unfolding f(1,2,6) e b using f(3,4,5) by (simp split: option.split)
qed

text \<open>The configuration that decides a handshake, without the limits.\<close>

lemma main_smtp_fields:
  "SV_TLSConfig (main_smtp_server pd x509pair env port hasStore w1 w2) =
     (case load_pair x509pair (env ''SMTP_TLS_CERT'') (env ''SMTP_TLS_KEY'') w1 of Some c \<Rightarrow> StaticTLS c | None \<Rightarrow> SelectByName)"
  "SV_getCertificate (main_smtp_server pd x509pair env port hasStore w1 w2) = (if hasStore then Some GetCertificateFunc else None)"
  "SV_defaultCert (main_smtp_server pd x509pair env port hasStore w1 w2) =
     load_pair x509pair (env ''SMTP_TLS_CERT'') (env ''SMTP_TLS_KEY'') w2"
  by (simp_all add: main_smtp_server_def NewSecureServer_def LoadServerConfigFromEnv_def Let_def split: option.split)

lemma handshake_main:
  "handshake (main_smtp_server pd x509pair env port hasStore w1 w2) st n =
     (case load_pair x509pair (env ''SMTP_TLS_CERT'') (env ''SMTP_TLS_KEY'') w1 of
        Some cert \<Rightarrow> Inr cert
      | None \<Rightarrow>
         (case (if hasStore then GetCertificateFunc st n else Inl (Opaque [])) of
            Inr cert \<Rightarrow> Inr cert
          | Inl _ \<Rightarrow>
             (case load_pair x509pair (env ''SMTP_TLS_CERT'') (env ''SMTP_TLS_KEY'') w2 of
                Some cert \<Rightarrow> Inr cert
              | None \<Rightarrow> Inl (Opaque ''tls: no certificates configured''))))"
  by (cases "load_pair x509pair (env ''SMTP_TLS_CERT'') (env ''SMTP_TLS_KEY'') w1"; cases "GetCertificateFunc st n"; cases hasStore)
     (simp_all add: handshake_def getCertificateWithFallback_def main_smtp_fields)

text \<open>
  C19. Without a fixed certificate in the environment, a certificate that has been saved and hot-loaded is what the running
  SMTP server presents to a client that names the domain or its mail host, with no restart; with a fixed certificate in the
  environment that one is presented to every client and the store is never asked.
\<close>

theorem smtp_presents_issued_certificate:
  assumes "basePath \<noteq> []" "CHR 0x00 \<notin> set basePath" "CHR 0x00 \<notin> set n" "no_read_faults w"
    and "cs_SaveCertificate (certStorage x509 basePath) n (Some bundle) now w = (Inr sc, w')"
    and "x509pair (B_Certificate bundle) (B_PrivateKey bundle) = Inr c"
    and "server = main_smtp_server pd x509pair env port True w1 w2"
  shows "\<exists>st'. LoadAndAddCertificate x509pair (certStorage x509 basePath) n w' st = (Inr (), st') \<and>
     (if load_pair x509pair (env ''SMTP_TLS_CERT'') (env ''SMTP_TLS_KEY'') w1 = None
      then handshake server st' n = Inr c \<and> handshake server st' (''mail.'' @ n) = Inr c
      else \<forall>m. handshake server st' m = Inr (the (load_pair x509pair (env ''SMTP_TLS_CERT'') (env ''SMTP_TLS_KEY'') w1)))"
proof -
  have ne: "n \<noteq> []" using cert_files.saved_meta [OF certStorage_laws [OF assms(1,2), of x509] assms(5)] by simp
  obtain st' where r: "LoadAndAddCertificate x509pair (certStorage x509 basePath) n w' st = (Inr (), st')"
    and m: "map_of (st_certificates st') = (map_of (st_certificates st))(n \<mapsto> c, ''mail.'' @ n \<mapsto> c)"
    using LoadAndAdd_ok [OF cert_files.saved_loads [where x509pair = x509pair, OF certStorage_laws [OF assms(1,2), of x509]
      assms(5,3,4,6)]] by blast
  have "GetCertificateFunc st' n = Inr c" "GetCertificateFunc st' (''mail.'' @ n) = Inr c"
    using m ne by (simp_all add: select_own)
  with r show ?thesis by (intro exI [of _ st']) (auto simp: assms(7) handshake_main)
qed

theorem smtp_presents_issued_certificate_witness:
  "\<exists>w' st' sc. cs_SaveCertificate (certStorage (\<lambda>c. None) ''/c'') ''a.b'' (Some demo_bundle) 5 demo_certos = (Inr sc, w') \<and>
     LoadAndAddCertificate demo_pair (certStorage (\<lambda>c. None) ''/c'') ''a.b'' w' demo_store = (Inr (), st') \<and>
     handshake (main_smtp_server (\<lambda>_. None) demo_pair (\<lambda>_. []) 2525 True w' w') st' ''mail.a.b'' = Inr ''CK''"
proof -
  obtain sc w' where s: "cs_SaveCertificate (certStorage (\<lambda>c. None) ''/c'') ''a.b'' (Some demo_bundle) 5 demo_certos = (Inr sc, w')"
    using demo_saved by blast
  have f: "no_read_faults demo_certos" by (simp add: no_read_faults_def demo_certos_def)
  have p: "demo_pair (B_Certificate demo_bundle) (B_PrivateKey demo_bundle) = Inr ''CK''"
    by (simp add: demo_pair_def demo_bundle_def)
  have e: "''/c'' \<noteq> []" "CHR 0x00 \<notin> set ''/c''" "CHR 0x00 \<notin> set ''a.b''" by simp_all
  note t = smtp_presents_issued_certificate [OF e f s, where x509pair = demo_pair, OF p refl,
    of demo_store "\<lambda>_. []" w' "\<lambda>_. None" 2525 w']
  then show ?thesis using s by (auto simp: load_pair_def)
qed

end
