(* ===== verification/AcmeClient.thy ===== *)
theory AcmeClient
  imports CertManager
begin

text \<open>
  \<^verbatim>\<open>internal/services/acme_client.go\<close>: the account, orders and challenges the program keeps while a certificate is
  requested. The protocol client \<^verbatim>\<open>golang.org/x/crypto/acme\<close>, the ACME server behind it, key generation and the X.509 and
  PEM encodings are the operations of \<open>acme_api\<close>, with a state \<open>'s\<close> of their own. An index out of range (a panic) is an error
  value with the text of the runtime error. \<^verbatim>\<open>log.Printf\<close> is left out; the entries for the setup log are kept.
\<close>

section \<open>What the protocol client exchanges\<close>

datatype authz_status =
    AuthzValid | AuthzInvalid | AuthzPending | AuthzProcessing | AuthzDeactivated | AuthzExpired | AuthzRevoked | AuthzOther string

fun authz_status_text :: "authz_status \<Rightarrow> string" where
  "authz_status_text AuthzValid = ''valid''"
| "authz_status_text AuthzInvalid = ''invalid''"
| "authz_status_text AuthzPending = ''pending''"
| "authz_status_text AuthzProcessing = ''processing''"
| "authz_status_text AuthzDeactivated = ''deactivated''"
| "authz_status_text AuthzExpired = ''expired''"
| "authz_status_text AuthzRevoked = ''revoked''"
| "authz_status_text (AuthzOther t) = t"

text \<open>An error of the protocol (\<^verbatim>\<open>*acme.Error\<close>) or any other one.\<close>

datatype acme_error = ProtocolError int string string | OtherError goerror

fun acme_goerror :: "acme_error \<Rightarrow> goerror" where
  "acme_goerror (ProtocolError status detail typ) = Opaque (show_int status @ '' '' @ typ @ '': '' @ detail)"
| "acme_goerror (OtherError e) = e"

record acme_Challenge =
  H_Type :: string
  H_Token :: string
  H_Status :: authz_status
  H_Error :: "acme_error option"

record acme_Authorization =
  Z_Status :: authz_status
  Z_Challenges :: "acme_Challenge list"

record acme_Order =
  O_URI :: string
  O_Status :: string
  O_AuthzURLs :: "string list"
  O_FinalizeURL :: string

record 's acme_api =
  api_Register :: "string list \<Rightarrow> 's \<Rightarrow> (acme_error + unit) \<times> 's"
  api_GetReg :: "'s \<Rightarrow> (goerror + unit) \<times> 's"
  api_AuthorizeOrder :: "string \<Rightarrow> 's \<Rightarrow> (goerror + acme_Order) \<times> 's"
  api_GetAuthorization :: "string \<Rightarrow> 's \<Rightarrow> (goerror + acme_Authorization) \<times> 's"
  api_Accept :: "acme_Challenge \<Rightarrow> 's \<Rightarrow> (goerror + unit) \<times> 's"
  api_WaitOrder :: "string \<Rightarrow> 's \<Rightarrow> (goerror + acme_Order) \<times> 's"
  api_DNS01ChallengeRecord :: "string \<Rightarrow> goerror + string"
  api_CreateOrderCert :: "string \<Rightarrow> bytes \<Rightarrow> 's \<Rightarrow> (goerror + bytes list) \<times> 's"
  api_PollWait :: "'s \<Rightarrow> (goerror + unit) \<times> 's"
  api_GenerateKey :: "'s \<Rightarrow> (goerror + bytes) \<times> 's"
  api_CreateCertificateRequest :: "string \<Rightarrow> string list \<Rightarrow> bytes \<Rightarrow> 's \<Rightarrow> (goerror + bytes) \<times> 's"
  api_MarshalECPrivateKey :: "bytes \<Rightarrow> goerror + bytes"
  api_NotAfter :: "bytes \<Rightarrow> time option"
  api_PEM :: "string \<Rightarrow> bytes \<Rightarrow> bytes"

section \<open>The client\<close>

record ACMEClientConfig =
  AF_DirectoryURL :: string
  AF_Email :: string
  AF_Staging :: bool

datatype client_log =
    ClientInfo string string
  | ClientError string string goerror
  | ClientDebug string string
  | ClientWarning string string

record 's acmeClient =
  cl_config :: ACMEClientConfig
  cl_directoryURL :: string
  cl_accountKey :: bytes
  cl_account :: bool
  cl_activeOrders :: "string \<rightharpoonup> acme_Order"
  cl_activeChallenges :: "string \<rightharpoonup> acme_Challenge"
  cl_remote :: 's
  cl_log :: "(string \<times> client_log) list"

definition NewACMEClientWithKey :: "ACMEClientConfig \<Rightarrow> bytes \<Rightarrow> 's \<Rightarrow> 's acmeClient" where
  "NewACMEClientWithKey config accountKey r =
     \<lparr>cl_config = config,
      cl_directoryURL = (if AF_DirectoryURL config = [] then
          if AF_Staging config then ''https://acme-staging-v02.api.letsencrypt.org/directory''
          else ''https://acme-v02.api.letsencrypt.org/directory''
        else AF_DirectoryURL config),
      cl_accountKey = accountKey, cl_account = False, cl_activeOrders = Map.empty, cl_activeChallenges = Map.empty,
      cl_remote = r, cl_log = []\<rparr>"

definition NewACMEClient :: "'s acme_api \<Rightarrow> ACMEClientConfig \<Rightarrow> 's \<Rightarrow> goerror + 's acmeClient" where
  "NewACMEClient api config r =
     (case api_GenerateKey api r of
        (Inl err, r') \<Rightarrow> Inl (Wrapf ''failed to generate account key'' err)
      | (Inr accountKey, r') \<Rightarrow> Inr (NewACMEClientWithKey config accountKey r'))"

definition on_remote :: "('s \<Rightarrow> 'r \<times> 's) \<Rightarrow> 's acmeClient \<Rightarrow> 'r \<times> 's acmeClient" where
  "on_remote f c = (case f (cl_remote c) of (r, s') \<Rightarrow> (r, c\<lparr>cl_remote := s'\<rparr>))"

definition noted :: "string \<Rightarrow> client_log \<Rightarrow> ('s acmeClient \<Rightarrow> 'r) \<Rightarrow> 's acmeClient \<Rightarrow> 'r" where
  "noted domain ev k c = k (c\<lparr>cl_log := cl_log c @ [(domain, ev)]\<rparr>)"

definition RegisterAccount :: "'s acme_api \<Rightarrow> 's acmeClient \<Rightarrow> (goerror + unit) \<times> 's acmeClient" where
  "RegisterAccount api c =
     (let contact = (if AF_Email (cl_config c) \<noteq> [] then [''mailto:'' @ AF_Email (cl_config c)] else []);
          registered = (\<lambda>_ c. (Inr (), c\<lparr>cl_account := True\<rparr>)) in
      attempt (on_remote (api_Register api contact))
        (\<lambda>err. case err of
            ProtocolError status _ _ \<Rightarrow>
              if status = 409 then
                attempt (on_remote (api_GetReg api)) (\<lambda>e. fail (Wrapf ''failed to retrieve existing account'' e)) registered
              else fail (Wrapf ''failed to register account'' (acme_goerror err))
          | OtherError _ \<Rightarrow> fail (Wrapf ''failed to register account'' (acme_goerror err)))
        registered c)"

definition ensure_account ::
  "'s acme_api \<Rightarrow> ('s acmeClient \<Rightarrow> (goerror + 'x) \<times> 's acmeClient) \<Rightarrow> 's acmeClient \<Rightarrow> (goerror + 'x) \<times> 's acmeClient" where
  "ensure_account api k c =
     (if \<not> cl_account c then
        attempt (RegisterAccount api) (\<lambda>err. fail (Wrapf ''failed to register account'' err)) (\<lambda>_. k) c
      else k c)"

definition GetDNSChallenge ::
  "'s acme_api \<Rightarrow> string \<Rightarrow> 's acmeClient \<Rightarrow> (goerror + DNSChallengeInfo) \<times> 's acmeClient" where
  "GetDNSChallenge api domain =
     ensure_account api
       (attempt (on_remote (api_AuthorizeOrder api domain)) (\<lambda>err. fail (Wrapf ''failed to create order'' err)) (\<lambda>order c.
        let c = c\<lparr>cl_activeOrders := (cl_activeOrders c)(domain \<mapsto> order)\<rparr> in
        case O_AuthzURLs order of
          [] \<Rightarrow> fail (Opaque ''no authorization URLs in order'') c
        | url # _ \<Rightarrow>
            attempt (on_remote (api_GetAuthorization api url)) (\<lambda>err. fail (Wrapf ''failed to get authorization'' err)) (\<lambda>authz c.
            case find (\<lambda>ch. H_Type ch = ''dns-01'') (Z_Challenges authz) of
              None \<Rightarrow> fail (Opaque (''DNS-01 challenge not available for domain '' @ domain)) c
            | Some dnsChallenge \<Rightarrow>
                let c = c\<lparr>cl_activeChallenges := (cl_activeChallenges c)(domain \<mapsto> dnsChallenge)\<rparr> in
                case api_DNS01ChallengeRecord api (H_Token dnsChallenge) of
                  Inl err \<Rightarrow> fail (Wrapf ''failed to compute DNS challenge record'' err) c
                | Inr txtRecord \<Rightarrow>
                    ret \<lparr>DC_Domain = domain, DC_Token = H_Token dnsChallenge, DC_KeyAuth = txtRecord, DC_TXTRecord = txtRecord\<rparr> c) c))"

definition challenge_failure :: "acme_Challenge \<Rightarrow> string list" where
  "challenge_failure ch =
     (case (H_Status ch, H_Error ch) of
        (AuthzInvalid, Some (ProtocolError status detail typ)) \<Rightarrow>
          [''Challenge '' @ H_Type ch @ '' failed: '' @ detail @ '' (type: '' @ typ @ '')'' @
           (if status \<noteq> 0 then '' (HTTP '' @ show_int status @ '')'' else [])]
      | (AuthzInvalid, Some (OtherError e)) \<Rightarrow> [''Challenge '' @ H_Type ch @ '' failed: '' @ Error_text e]
      | _ \<Rightarrow> [])"

definition getAuthorizationErrorDetails :: "acme_Authorization \<Rightarrow> string" where
  "getAuthorizationErrorDetails authz =
     (let details = concat (map challenge_failure (Z_Challenges authz)) in
      if details = [] then ''Authorization failed with no specific error details'' else Join details ''; '')"

abbreviation maxAttempts :: nat where "maxAttempts \<equiv> 60"

text \<open>
  The polling loop with the attempts still allowed. \<open>api_PollWait\<close> is the \<^verbatim>\<open>select\<close> between the end of the context, an
  error, and the five seconds of the interval. An unknown status polls again at once.
\<close>

fun poll_authorization ::
  "'s acme_api \<Rightarrow> string \<Rightarrow> acme_Order \<Rightarrow> string \<Rightarrow> nat \<Rightarrow> 's acmeClient \<Rightarrow> (goerror + unit) \<times> 's acmeClient" where
  "poll_authorization api domain order authzURL 0 c =
     (let errMsg = ''timeout: authorization did not complete within '' @ show_nat maxAttempts @ '' attempts'' in
      noted domain (ClientError ''authz_max_attempts'' errMsg (Opaque errMsg)) (fail (Opaque errMsg)) c)"
| "poll_authorization api domain order authzURL (Suc n) c =
     attempt (on_remote (api_GetAuthorization api authzURL))
       (\<lambda>err. noted domain (ClientError ''authz_poll_error'' ''Error getting authorization status'' err)
          (fail (Wrapf ''failed to get authorization status'' err)))
       (\<lambda>authz.
        let status = Z_Status authz; text = authz_status_text status in
        noted domain (ClientDebug ''authz_poll'' (''Authorization status: '' @ text @ '' (attempt '' @ show_nat (maxAttempts - n)
            @ ''/'' @ show_nat maxAttempts @ '')''))
        (case status of
           AuthzValid \<Rightarrow>
             noted domain (ClientInfo ''authz_valid'' ''Authorization validated successfully by Let's Encrypt'')
             (attempt (on_remote (api_WaitOrder api (O_URI order)))
               (\<lambda>err. noted domain (ClientError ''order_wait_failed'' ''Failed waiting for order after authorization'' err)
                  (fail (Wrapf ''failed waiting for order after authorization'' err)))
               (\<lambda>_. noted domain (ClientInfo ''order_ready'' ''Order is ready for certificate finalization'') (ret ())))
         | AuthzInvalid \<Rightarrow>
             let errDetails = getAuthorizationErrorDetails authz in
             noted domain (ClientError ''authz_invalid'' ''Authorization failed'' (Opaque errDetails))
             (fail (Opaque (''ACME authorization failed: '' @ errDetails)))
         | AuthzOther t \<Rightarrow>
             noted domain (ClientWarning ''authz_unknown_status'' (''Unknown authorization status: '' @ t))
             (poll_authorization api domain order authzURL n)
         | _ \<Rightarrow>
             if status = AuthzPending \<or> status = AuthzProcessing then
               attempt (on_remote (api_PollWait api))
                 (\<lambda>err. noted domain (ClientError ''authz_timeout'' ''Timeout waiting for authorization'' err)
                    (fail (Wrapf ''timeout waiting for authorization'' err)))
                 (\<lambda>_. poll_authorization api domain order authzURL n)
             else
               let errMsg = ''authorization is '' @ text @ '', cannot proceed'' in
               noted domain (ClientError ''authz_invalid_status'' errMsg (Opaque errMsg)) (fail (Opaque errMsg)))) c"

definition CompleteDNSChallenge :: "'s acme_api \<Rightarrow> string \<Rightarrow> 's acmeClient \<Rightarrow> (goerror + unit) \<times> 's acmeClient" where
  "CompleteDNSChallenge api domain c =
     (case cl_activeChallenges c domain of
        None \<Rightarrow> fail (Opaque (''no active challenge found for domain '' @ domain)) c
      | Some challenge \<Rightarrow>
     (case cl_activeOrders c domain of
        None \<Rightarrow> fail (Opaque (''no active order found for domain '' @ domain)) c
      | Some order \<Rightarrow>
        noted domain (ClientInfo ''challenge_start'' ''Starting DNS-01 challenge submission (DNS already verified by user)'')
        (noted domain (ClientInfo ''challenge_accept'' ''Accepting challenge with Let's Encrypt'')
        (attempt (on_remote (api_Accept api challenge))
          (\<lambda>err. noted domain (ClientError ''challenge_accept_failed'' ''Failed to accept challenge'' err)
             (fail (Wrapf ''failed to accept challenge'' err)))
          (\<lambda>_. noted domain (ClientInfo ''challenge_accepted'' ''Challenge accepted, waiting for Let's Encrypt validation'')
             (case O_AuthzURLs order of
                [] \<Rightarrow> fail (Opaque ''runtime error: index out of range [0] with length 0'')
              | authzURL # _ \<Rightarrow> poll_authorization api domain order authzURL maxAttempts)))) c))"

text \<open>\<^verbatim>\<open>verifyDNSTXTRecord\<close> asks three public resolvers; it keeps every value, also a repeated one.\<close>

definition verifyDNSTXTRecord :: "(string \<Rightarrow> string \<Rightarrow> goerror + string list) \<Rightarrow> string \<Rightarrow> string \<Rightarrow> bool \<times> string list" where
  "verifyDNSTXTRecord lookup domain expectedValue =
     (let answers = concat (map (\<lambda>server. case lookup server (''_acme-challenge.'' @ domain) of Inl _ \<Rightarrow> [] | Inr txt \<Rightarrow> txt)
        [''8.8.8.8:53'', ''1.1.1.1:53'', ''208.67.222.222:53'']) in
      (list_ex (\<lambda>txt. TrimSpace txt = TrimSpace expectedValue) answers, answers))"

definition createCSR :: "'s acme_api \<Rightarrow> bytes \<Rightarrow> string list \<Rightarrow> 's \<Rightarrow> (goerror + bytes) \<times> 's" where
  "createCSR api key domains r =
     (case domains of
        [] \<Rightarrow> (Inl (Opaque ''at least one domain is required''), r)
      | commonName # _ \<Rightarrow> api_CreateCertificateRequest api commonName domains key r)"

definition RequestCertificate ::
  "'s acme_api \<Rightarrow> string list \<Rightarrow> 's acmeClient \<Rightarrow> (goerror + CertificateBundle) \<times> 's acmeClient" where
  "RequestCertificate api domains =
     (case domains of
        [] \<Rightarrow> fail (Opaque ''at least one domain is required'')
      | primaryDomain # _ \<Rightarrow>
        ensure_account api (\<lambda>c.
        case cl_activeOrders c primaryDomain of
          None \<Rightarrow> fail (Opaque (''no active order found for domain '' @ primaryDomain @ '', call GetDNSChallenge first'')) c
        | Some order \<Rightarrow>
          attempt (on_remote (api_WaitOrder api (O_URI order))) (\<lambda>err. fail (Wrapf ''failed waiting for order'' err)) (\<lambda>order.
          if O_Status order \<noteq> ''ready'' then fail (Opaque (''order is not ready, status: '' @ O_Status order))
          else
          attempt (on_remote (api_GenerateKey api)) (\<lambda>err. fail (Wrapf ''failed to generate certificate key'' err)) (\<lambda>certKey.
          attempt (on_remote (createCSR api certKey domains)) (\<lambda>err. fail (Wrapf ''failed to create CSR'' err)) (\<lambda>csr.
          attempt (on_remote (api_CreateOrderCert api (O_FinalizeURL order) csr)) (\<lambda>err. fail (Wrapf ''failed to finalize order'' err))
          (\<lambda>derCerts c.
          let expiresAt = (case derCerts of [] \<Rightarrow> 0 | der # _ \<Rightarrow> (case api_NotAfter api der of Some t \<Rightarrow> t | None \<Rightarrow> 0));
              certPEM = (case derCerts of [] \<Rightarrow> [] | der # _ \<Rightarrow> api_PEM api ''CERTIFICATE'' der);
              chainPEM = concat (map (api_PEM api ''CERTIFICATE'') (tl derCerts)) in
          case api_MarshalECPrivateKey api certKey of
            Inl err \<Rightarrow> fail (Wrapf ''failed to marshal private key'' err) c
          | Inr keyDER \<Rightarrow>
              ret \<lparr>B_Certificate = certPEM, B_PrivateKey = api_PEM api ''EC PRIVATE KEY'' keyDER, B_Chain = chainPEM,
                   B_ExpiresAt = expiresAt\<rparr>
                (c\<lparr>cl_activeOrders := (cl_activeOrders c)(primaryDomain := None),
                   cl_activeChallenges := (cl_activeChallenges c)(primaryDomain := None)\<rparr>))))) c))"

text \<open>The client as the certificate manager sees it.\<close>

definition acme_client :: "'s acme_api \<Rightarrow> 's acmeClient ACMEClient" where
  "acme_client api =
     \<lparr>ac_GetDNSChallenge = GetDNSChallenge api, ac_CompleteDNSChallenge = CompleteDNSChallenge api,
      ac_RequestCertificate = RequestCertificate api\<rparr>"

section \<open>What a completed challenge means\<close>

lemmas acme_run = attempt_def fail_def ret_def on_remote_def noted_def Let_def

text \<open>The server's state after some polls of an authorization that were all answered and not final.\<close>

inductive polled :: "'s acme_api \<Rightarrow> string \<Rightarrow> nat \<Rightarrow> 's \<Rightarrow> 's \<Rightarrow> bool" for api url where
  polled_0: "polled api url 0 r r"
| polled_wait: "polled api url n r2 r3 \<Longrightarrow> api_GetAuthorization api url r = (Inr z, r1) \<Longrightarrow>
    Z_Status z \<in> {AuthzPending, AuthzProcessing} \<Longrightarrow> api_PollWait api r1 = (Inr (), r2) \<Longrightarrow> polled api url (Suc n) r r3"
| polled_other: "polled api url n r1 r3 \<Longrightarrow> api_GetAuthorization api url r = (Inr z, r1) \<Longrightarrow>
    Z_Status z = AuthzOther t \<Longrightarrow> polled api url (Suc n) r r3"

text \<open>The fields a poll never touches.\<close>

definition same_client :: "'s acmeClient \<Rightarrow> 's acmeClient \<Rightarrow> bool" where
  "same_client c c' \<longleftrightarrow> cl_config c' = cl_config c \<and> cl_account c' = cl_account c \<and>
     cl_activeOrders c' = cl_activeOrders c \<and> cl_activeChallenges c' = cl_activeChallenges c"

lemma poll_authorization_ok:
  "poll_authorization api d order url n c = (Inr u, c') \<Longrightarrow>
     \<exists>k r1 r2 z ord. k < n \<and> polled api url k (cl_remote c) r1 \<and> api_GetAuthorization api url r1 = (Inr z, r2) \<and>
       Z_Status z = AuthzValid \<and> api_WaitOrder api (O_URI order) r2 = (Inr ord, cl_remote c') \<and> same_client c c'"
proof (induction n arbitrary: c)
  case (Suc n)
  obtain res ra where g: "api_GetAuthorization api url (cl_remote c) = (res, ra)" by fastforce
  show ?case
  proof (cases res)
    case (Inl e)
    with Suc.prems g show ?thesis by (simp add: acme_run)
  next
    case (Inr z)
    note g = g [unfolded Inr]
    have next_poll: ?thesis if "poll_authorization api d order url n c1 = (Inr u, c')" "same_client c c1"
      "\<And>k r1. polled api url k (cl_remote c1) r1 \<Longrightarrow> polled api url (Suc k) (cl_remote c) r1" for c1
    proof -
      from Suc.IH [OF that(1)] obtain k r1 r2 z ord where
        "k < n" "polled api url k (cl_remote c1) r1" "api_GetAuthorization api url r1 = (Inr z, r2)"
        "Z_Status z = AuthzValid" "api_WaitOrder api (O_URI order) r2 = (Inr ord, cl_remote c')" "same_client c1 c'" by blast
      moreover from this that(2) have "same_client c c'" by (simp add: same_client_def)
      ultimately show ?thesis using that(3) [of k r1] Suc_mono [of k n] by blast
    qed
    show ?thesis
    proof (cases "Z_Status z")
      case AuthzValid
      with Suc.prems g have "\<exists>ord. api_WaitOrder api (O_URI order) ra = (Inr ord, cl_remote c') \<and> same_client c c'"
        by (auto simp: acme_run same_client_def split: prod.splits sum.splits)
      then show ?thesis using g AuthzValid polled_0 [of api url "cl_remote c"] by blast
    next
      case AuthzPending
      then obtain r2 c1 where w: "api_PollWait api ra = (Inr (), r2)" "poll_authorization api d order url n c1 = (Inr u, c')"
        "same_client c c1" "cl_remote c1 = r2"
        using Suc.prems g by (auto simp: acme_run same_client_def split: prod.splits sum.splits)
      show ?thesis by (rule next_poll [OF w(2,3)]) (use g w(1,4) AuthzPending in \<open>auto intro: polled_wait\<close>)
    next
      case AuthzProcessing
      then obtain r2 c1 where w: "api_PollWait api ra = (Inr (), r2)" "poll_authorization api d order url n c1 = (Inr u, c')"
        "same_client c c1" "cl_remote c1 = r2"
        using Suc.prems g by (auto simp: acme_run same_client_def split: prod.splits sum.splits)
      show ?thesis by (rule next_poll [OF w(2,3)]) (use g w(1,4) AuthzProcessing in \<open>auto intro: polled_wait\<close>)
    next
      case (AuthzOther t)
      then obtain c1 where w: "poll_authorization api d order url n c1 = (Inr u, c')" "same_client c c1" "cl_remote c1 = ra"
        using Suc.prems g by (auto simp: acme_run same_client_def)
      show ?thesis by (rule next_poll [OF w(1,2)]) (use g w(3) AuthzOther in \<open>auto intro: polled_other\<close>)
    qed (use Suc.prems g in \<open>simp_all add: acme_run\<close>)
  qed
qed (simp add: acme_run)

lemma CompleteDNSChallenge_ok:
  assumes "CompleteDNSChallenge api d c = (Inr u, c')"
  obtains ch order url urls r0 k r1 r2 z ord where "cl_activeChallenges c d = Some ch" "cl_activeOrders c d = Some order"
    "O_AuthzURLs order = url # urls" "api_Accept api ch (cl_remote c) = (Inr (), r0)" "k < 60" "polled api url k r0 r1"
    "api_GetAuthorization api url r1 = (Inr z, r2)" "Z_Status z = AuthzValid"
    "api_WaitOrder api (O_URI order) r2 = (Inr ord, cl_remote c')" "same_client c c'"
proof -
  obtain ch order where co: "cl_activeChallenges c d = Some ch" "cl_activeOrders c d = Some order"
    using assms by (auto simp: CompleteDNSChallenge_def fail_def split: option.splits)
  obtain res r0 where a: "api_Accept api ch (cl_remote c) = (res, r0)" by fastforce
  have res: "res = Inr ()" using assms co a by (cases res) (auto simp: CompleteDNSChallenge_def acme_run)
  obtain url urls where u: "O_AuthzURLs order = url # urls"
    using assms co a res by (cases "O_AuthzURLs order") (auto simp: CompleteDNSChallenge_def acme_run)
  obtain c1 where c1: "poll_authorization api d order url maxAttempts c1 = (Inr u, c')" "same_client c c1" "cl_remote c1 = r0"
    using assms co a res u by (simp add: CompleteDNSChallenge_def acme_run same_client_def del: poll_authorization.simps)
  from poll_authorization_ok [OF c1(1)] c1(2,3) co a res u show ?thesis by (auto simp: same_client_def intro!: that)
qed

lemma RequestCertificate_ok:
  assumes "RequestCertificate api (d # ds) c = (Inr b, c')" "cl_account c"
  obtains order ord r1 key r2 csr r3 ders keyDER r4 where "cl_activeOrders c d = Some order"
    "api_WaitOrder api (O_URI order) (cl_remote c) = (Inr ord, r1)" "O_Status ord = ''ready''"
    "api_GenerateKey api r1 = (Inr key, r2)" "api_CreateCertificateRequest api d (d # ds) key r2 = (Inr csr, r3)"
    "api_CreateOrderCert api (O_FinalizeURL ord) csr r3 = (Inr ders, r4)" "api_MarshalECPrivateKey api key = Inr keyDER"
    "B_PrivateKey b = api_PEM api ''EC PRIVATE KEY'' keyDER"
    "B_Certificate b @ B_Chain b = concat (map (api_PEM api ''CERTIFICATE'') ders)"
    "cl_activeOrders c' = (cl_activeOrders c)(d := None)" "cl_activeChallenges c' = (cl_activeChallenges c)(d := None)"
  using assms
  by (auto simp: RequestCertificate_def ensure_account_def acme_run createCSR_def
      split: option.splits if_splits prod.splits sum.splits list.splits intro!: that)

section \<open>The invariant of the client\<close>

text \<open>A stored challenge comes with an order, and nothing is stored before the account is registered.\<close>

definition client_inv :: "'s acmeClient \<Rightarrow> bool" where
  "client_inv c \<longleftrightarrow> dom (cl_activeChallenges c) \<subseteq> dom (cl_activeOrders c) \<and> (dom (cl_activeOrders c) \<noteq> {} \<longrightarrow> cl_account c)"

lemma client_inv_New: "client_inv (NewACMEClientWithKey config key r)"
  by (simp add: client_inv_def NewACMEClientWithKey_def)

lemma client_inv_same: "same_client c c' \<Longrightarrow> client_inv c \<Longrightarrow> client_inv c'"
  by (simp add: client_inv_def same_client_def)

lemma RegisterAccount_same:
  "RegisterAccount api c = (res, c') \<Longrightarrow> cl_activeOrders c' = cl_activeOrders c \<and> cl_activeChallenges c' = cl_activeChallenges c
     \<and> (cl_account c \<longrightarrow> cl_account c') \<and> (is_ok res \<longrightarrow> cl_account c')"
  by (auto simp: RegisterAccount_def acme_run is_ok_def split: prod.splits sum.splits acme_error.splits if_splits)

lemma client_inv_ensure:
  assumes "client_inv c" and "\<And>c1. client_inv c1 \<Longrightarrow> cl_account c1 \<Longrightarrow> client_inv (snd (k c1))"
  shows "client_inv (snd (ensure_account api k c))"
proof (cases "cl_account c")
  case True
  then show ?thesis using assms by (simp add: ensure_account_def)
next
  case False
  obtain res c1 where r: "RegisterAccount api c = (res, c1)" by fastforce
  have "client_inv c1" using RegisterAccount_same [OF r] assms(1) by (auto simp: client_inv_def)
  with assms(2) [of c1] RegisterAccount_same [OF r] show ?thesis
    by (cases res) (auto simp: ensure_account_def False attempt_def fail_def r)
qed

lemma client_inv_GetDNSChallenge:
  assumes "client_inv c"
  shows "client_inv (snd (GetDNSChallenge api d c))"
  unfolding GetDNSChallenge_def
  by (rule client_inv_ensure [OF assms])
     (auto simp: acme_run client_inv_def split: prod.splits sum.splits list.splits option.splits)

text \<open>Talking to the server and noting events leave orders, challenges and account alone.\<close>

definition keeps :: "('s acmeClient \<Rightarrow> 'r \<times> 's acmeClient) \<Rightarrow> bool" where
  "keeps m \<longleftrightarrow> (\<forall>c. same_client c (snd (m c)))"

lemma keeps_rules [inv_intros]:
  "keeps (fail e)" "keeps (ret x)" "keeps k \<Longrightarrow> keeps (noted d ev k)"
  "(\<And>e. keeps (h e)) \<Longrightarrow> (\<And>x. keeps (g x)) \<Longrightarrow> keeps (attempt (on_remote f) h g)"
  by (fastforce simp: keeps_def same_client_def acme_run split: prod.splits sum.splits)+

lemma keeps_poll: "keeps (poll_authorization api d order url n)"
proof (induction n)
  case 0
  have "poll_authorization api d order url 0 = noted d (ClientError ''authz_max_attempts''
      (''timeout: authorization did not complete within '' @ show_nat maxAttempts @ '' attempts'')
      (Opaque (''timeout: authorization did not complete within '' @ show_nat maxAttempts @ '' attempts'')))
      (fail (Opaque (''timeout: authorization did not complete within '' @ show_nat maxAttempts @ '' attempts'')))"
    by (rule ext) (simp only: poll_authorization.simps Let_def)
  then show ?case by (simp only: keeps_rules)
next
  case (Suc n)
  show ?case
    unfolding keeps_def poll_authorization.simps
    by (rule allI, rule keeps_def [THEN iffD1, rule_format])
       (auto simp only: Let_def split: authz_status.split if_split intro!: keeps_rules Suc)
qed

lemma CompleteDNSChallenge_same: "same_client c (snd (CompleteDNSChallenge api d c))"
proof -
  have "keeps (case O_AuthzURLs order of [] \<Rightarrow> fail e | u # us \<Rightarrow> poll_authorization api d order u n)" for order e n
    by (cases "O_AuthzURLs order") (simp_all add: keeps_rules keeps_poll del: poll_authorization.simps)
  note k = this
  show ?thesis
    unfolding CompleteDNSChallenge_def
    by (auto simp only: split: option.split intro!: keeps_rules k keeps_def [THEN iffD1, rule_format])
qed

lemma client_inv_CompleteDNSChallenge: "client_inv c \<Longrightarrow> client_inv (snd (CompleteDNSChallenge api d c))"
  using client_inv_same [OF CompleteDNSChallenge_same] .

text \<open>
  C9. A certificate comes only from a validated challenge. When completing the challenge of a domain and then requesting its
  certificate both succeed, the stored challenge was accepted, the authorization of the stored order was seen as valid within
  sixty polls, the order was ready, the request was signed with a fresh key for exactly that name, and the bundle holds this key
  and all certificates the server returned, in order. The order and challenge of the domain are then forgotten; those of every
  other domain are kept.
\<close>

theorem acme_issuance_sound:
  assumes "client_inv c" and "CompleteDNSChallenge api d c = (Inr (), c1)" and "RequestCertificate api [d] c1 = (Inr b, c2)"
  shows "\<exists>ch order url urls r0 k r1 r2 z key keyDER csr r3 r4 ders r5 ord q1.
     cl_activeChallenges c d = Some ch \<and> cl_activeOrders c d = Some order \<and> O_AuthzURLs order = url # urls \<and>
     api_Accept api ch (cl_remote c) = (Inr (), r0) \<and> k < 60 \<and> polled api url k r0 r1 \<and>
     api_GetAuthorization api url r1 = (Inr z, r2) \<and> Z_Status z = AuthzValid \<and>
     api_WaitOrder api (O_URI order) (cl_remote c1) = (Inr ord, q1) \<and> O_Status ord = ''ready'' \<and>
     api_CreateCertificateRequest api d [d] key r3 = (Inr csr, r4) \<and>
     api_CreateOrderCert api (O_FinalizeURL ord) csr r4 = (Inr ders, r5) \<and>
     api_MarshalECPrivateKey api key = Inr keyDER \<and> B_PrivateKey b = api_PEM api ''EC PRIVATE KEY'' keyDER \<and>
     B_Certificate b @ B_Chain b = concat (map (api_PEM api ''CERTIFICATE'') ders) \<and>
     cl_activeOrders c2 = (cl_activeOrders c)(d := None) \<and> cl_activeChallenges c2 = (cl_activeChallenges c)(d := None)"
proof -
  obtain ch order url urls r0 k r1 r2 z ord0 where C: "cl_activeChallenges c d = Some ch" "cl_activeOrders c d = Some order"
    "O_AuthzURLs order = url # urls" "api_Accept api ch (cl_remote c) = (Inr (), r0)" "k < 60" "polled api url k r0 r1"
    "api_GetAuthorization api url r1 = (Inr z, r2)" "Z_Status z = AuthzValid"
    and same: "same_client c c1" by (rule CompleteDNSChallenge_ok [OF assms(2)])
  have "cl_account c1" using assms(1) C(2) same by (auto simp: client_inv_def same_client_def)
  then obtain order' ord q1 key q2 csr q3 ders keyDER q4 where R0: "cl_activeOrders c1 d = Some order'" "api_WaitOrder api (O_URI order') (cl_remote c1) = (Inr ord, q1)"
    and R: "O_Status ord = ''ready''"
    "api_CreateCertificateRequest api d [d] key q2 = (Inr csr, q3)"
    "api_CreateOrderCert api (O_FinalizeURL ord) csr q3 = (Inr ders, q4)" "api_MarshalECPrivateKey api key = Inr keyDER"
    "B_PrivateKey b = api_PEM api ''EC PRIVATE KEY'' keyDER" "B_Certificate b @ B_Chain b = concat (map (api_PEM api ''CERTIFICATE'') ders)"
    "cl_activeOrders c2 = (cl_activeOrders c1)(d := None)" "cl_activeChallenges c2 = (cl_activeChallenges c1)(d := None)"
    by (rule RequestCertificate_ok [OF assms(3)]) (rule that; assumption)
  from same have e: "cl_activeOrders c1 = cl_activeOrders c" "cl_activeChallenges c1 = cl_activeChallenges c"
    by (simp_all add: same_client_def)
  have "order' = order" using R0(1) C(2) by (simp add: e)
  then show ?thesis using C R0(2) R(1-6) R(7,8) [unfolded e] by blast
qed

definition demo_order :: "string \<Rightarrow> acme_Order" where
  "demo_order st = \<lparr>O_URI = ''u'', O_Status = st, O_AuthzURLs = [''z''], O_FinalizeURL = ''f''\<rparr>"

definition demo_api :: "nat acme_api" where
  "demo_api = \<lparr>api_Register = (\<lambda>_ n. (Inr (), n)), api_GetReg = (\<lambda>n. (Inr (), n)),
     api_AuthorizeOrder = (\<lambda>_ n. (Inr (demo_order ''pending''), n)),
     api_GetAuthorization = (\<lambda>_ n. (Inr \<lparr>Z_Status = (if n < 2 then AuthzPending else AuthzValid),
       Z_Challenges = [\<lparr>H_Type = ''dns-01'', H_Token = ''t'', H_Status = AuthzPending, H_Error = None\<rparr>]\<rparr>, n)),
     api_Accept = (\<lambda>_ n. (Inr (), n)), api_WaitOrder = (\<lambda>_ n. (Inr (demo_order ''ready''), n)),
     api_DNS01ChallengeRecord = (\<lambda>t. Inr (t @ ''!'')), api_CreateOrderCert = (\<lambda>_ _ n. (Inr [''L'', ''I''], n)),
     api_PollWait = (\<lambda>n. (Inr (), Suc n)), api_GenerateKey = (\<lambda>n. (Inr ''K'', n)),
     api_CreateCertificateRequest = (\<lambda>_ _ _ n. (Inr ''csr'', n)), api_MarshalECPrivateKey = Inr, api_NotAfter = (\<lambda>_. Some 9),
     api_PEM = (\<lambda>_ b. b)\<rparr>"

definition demo_client :: "nat acmeClient" where
  "demo_client = snd (GetDNSChallenge demo_api ''a.b''
     (NewACMEClientWithKey \<lparr>AF_DirectoryURL = [], AF_Email = [], AF_Staging = True\<rparr> ''A'' 0))"

theorem acme_issuance_sound_witness:
  "\<exists>c1 b c2. CompleteDNSChallenge demo_api ''a.b'' demo_client = (Inr (), c1) \<and> RequestCertificate demo_api [''a.b''] c1 = (Inr b, c2) \<and>
     B_Certificate b @ B_Chain b = ''LI'' \<and> cl_activeOrders c2 ''a.b'' = None"
proof -
  have inv: "client_inv demo_client"
    unfolding demo_client_def by (intro client_inv_GetDNSChallenge client_inv_New)
  have "is_ok (fst (CompleteDNSChallenge demo_api ''a.b'' demo_client))" by code_simp
  then obtain c1 where c: "CompleteDNSChallenge demo_api ''a.b'' demo_client = (Inr (), c1)" by (auto simp: is_ok_iff prod_eq_iff)
  have "is_ok (fst (RequestCertificate demo_api [''a.b''] (snd (CompleteDNSChallenge demo_api ''a.b'' demo_client))))" by code_simp
  then obtain b c2 where r: "RequestCertificate demo_api [''a.b''] c1 = (Inr b, c2)" unfolding c by (auto simp: is_ok_iff prod_eq_iff)
  from acme_issuance_sound [OF inv c r]
  have "cl_activeOrders c2 ''a.b'' = None" "B_Certificate b @ B_Chain b = ''LI''" by (auto simp: demo_api_def)
  then show ?thesis using c r by blast
qed

section \<open>A restart\<close>

text \<open>
  C39. Orders and challenges live only in the memory of the client. After a restart no domain can finish the flow it had begun:
  submitting the challenge of a domain that is ready fails without a word to the ACME server, and for such a domain no new
  challenge can be requested either, since that needs the status \<^verbatim>\<open>dns_verified\<close>. The way out is the failed submission
  followed by a retry.
\<close>

theorem restart_breaks_pending_challenges:
  assumes "NewACMEClient api config r = Inr c" "w_acme w = c" "cm_acmeClient M = acme_client api"
    and "dr_GetByID (cm_domainRepo M) i (w_db w) = Inr x" "D_Status x = StatusACMEChallengeReady"
  shows "\<not> is_ok (fst (SubmitACMEChallenge M i w)) \<and> w_acme (snd (SubmitACMEChallenge M i w)) = c \<and>
         \<not> is_ok (fst (RequestACMEChallenge M i w)) \<and> snd (RequestACMEChallenge M i w) = w"
proof -
  have "cl_activeChallenges c = Map.empty"
    using assms(1) by (auto simp: NewACMEClient_def NewACMEClientWithKey_def split: prod.splits sum.splits)
  then have n: "ac_CompleteDNSChallenge (acme_client api) d c = (Inl (Opaque (''no active challenge found for domain '' @ d)), c)" for d
    by (simp add: acme_client_def CompleteDNSChallenge_def fail_def)
  have "\<not> is_ok (fst (SubmitACMEChallenge M i w)) \<and> w_acme (snd (SubmitACMEChallenge M i w)) = c"
    using assms(2-5)
    by (auto simp: SubmitACMEChallenge_def attempt_def read_db_def on_db_def on_acme_def exec_def logged_def fail_def n Let_def
        split: prod.splits sum.splits)
  moreover have "\<not> is_ok (fst (RequestACMEChallenge M i w)) \<and> snd (RequestACMEChallenge M i w) = w"
    using assms(4,5) by (auto simp: RequestACMEChallenge_def attempt_def read_db_def fail_def)
  ultimately show ?thesis by simp
qed

definition demo_client_mgr :: "(nat acmeClient, bytes) certificateManagerService" where
  "demo_client_mgr = app_manager (mem_gorm 0) ''/c''
     \<lparr>out_acme = acme_client demo_api, out_x509 = (\<lambda>c. None), out_x509pair = demo_pair, out_LookupTXT = out_LookupTXT demo_out,
      out_fmt_time = (\<lambda>t. [])\<rparr> 0"

definition demo_client_world :: "nat acmeClient \<Rightarrow> (nat acmeClient, bytes) world" where
  "demo_client_world c = \<lparr>w_db = w_db (demo_world StatusACMEChallengeReady), w_os = demo_certos, w_acme = c, w_store = Some demo_store,
     w_log = [], w_clock = (\<lambda>n. int n), w_tick = 0\<rparr>"

theorem restart_breaks_pending_challenges_witness:
  "is_ok (fst (SubmitACMEChallenge demo_client_mgr 1 (demo_client_world demo_client))) \<and>
   (\<exists>c. NewACMEClient demo_api \<lparr>AF_DirectoryURL = [], AF_Email = [], AF_Staging = True\<rparr> 0 = Inr c \<and>
      \<not> is_ok (fst (SubmitACMEChallenge demo_client_mgr 1 (demo_client_world c))))"
proof -
  have before: "is_ok (fst (SubmitACMEChallenge demo_client_mgr 1 (demo_client_world demo_client)))" by code_simp
  obtain c where c: "NewACMEClient demo_api \<lparr>AF_DirectoryURL = [], AF_Email = [], AF_Staging = True\<rparr> 0 = Inr c"
    by (simp add: NewACMEClient_def demo_api_def)
  have m: "cm_acmeClient demo_client_mgr = acme_client demo_api"
    by (simp add: demo_client_mgr_def app_manager_def NewCertificateManagerService_def)
  have x: "dr_GetByID (cm_domainRepo demo_client_mgr) 1 (w_db (demo_client_world d)) = Inr (demo_row StatusACMEChallengeReady)" for d
  proof -
    have "dr_GetByID (cm_domainRepo demo_client_mgr) 1 (w_db (demo_world StatusACMEChallengeReady)) =
        Inr (demo_row StatusACMEChallengeReady)" by code_simp
    then show ?thesis by (simp add: demo_client_world_def)
  qed
  have a: "w_acme (demo_client_world c) = c" "D_Status (demo_row StatusACMEChallengeReady) = StatusACMEChallengeReady"
    by (simp_all add: demo_client_world_def demo_row_def)
  show ?thesis using before c restart_breaks_pending_challenges [OF c a(1) m x a(2)] by blast
qed

end
