(* ===== verification/AcmeLogger.thy ===== *)
theory AcmeLogger
  imports CertFiles "HOL-Library.AList"
begin

text \<open>
  \<^verbatim>\<open>internal/services/acme_logger.go\<close>: the log of every domain setup, kept in memory per domain and written to a file
  of the log directory after each change. The code's map is an association list. JSON encoding and decoding are the
  parameters \<open>marshal\<close> (\<open>None\<close> when a value cannot be encoded) and \<open>unmarshal\<close>; so is the text of a duration. Every call of
  \<^verbatim>\<open>time.Now\<close> is an argument: an operation that may create a log and then append an entry gets both times as a pair.
\<close>

section \<open>Data\<close>

datatype log_level = LevelInfo | LevelWarning | LevelError | LevelDebug

datatype json = JNull | JString string | JInt int | JObject "(string \<times> json) list"

record DomainSetupLogEntry =
  E_Timestamp :: time
  E_Level :: log_level
  E_Domain :: string
  E_Step :: string
  E_Message :: string
  E_Details :: "json option"
  E_Duration :: string
  E_RequestID :: string
  E_ErrorCode :: string
  E_StackTrace :: string

record DomainSetupLog =
  L_Domain :: string
  L_StartedAt :: time
  L_UpdatedAt :: time
  L_Status :: string
  L_Entries :: "DomainSetupLogEntry list"
  L_ErrorSummary :: string
  L_TotalSteps :: int
  L_CurrentStep :: int
  L_Metadata :: "(string \<times> string) list"

record DomainSetupLogger =
  lg_logDir :: string
  lg_logs :: "(string \<times> DomainSetupLog) list"
  lg_maxLogs :: nat

type_synonym clock = "time \<times> time"
type_synonym marshaller = "DomainSetupLog \<Rightarrow> bytes option"
type_synonym logger_state = "DomainSetupLogger \<times> osenv"

definition NewDomainSetupLogger :: "string \<Rightarrow> osenv \<Rightarrow> (goerror + DomainSetupLogger) \<times> osenv" where
  "NewDomainSetupLogger dir w =
     (let logDir = (if dir = [] then ''./logs/domain-setup'' else dir) in
      case os_MkdirAll logDir w of
        (Inl e, w') \<Rightarrow> (Inl (Wrapf ''failed to create domain setup log directory'' (os_goerror e)), w')
      | (Inr _, w') \<Rightarrow> (Inr \<lparr>lg_logDir = logDir, lg_logs = [], lg_maxLogs = 100\<rparr>, w'))"

section \<open>Files\<close>

text \<open>Replacing each of the characters that a file name should not have.\<close>

definition safe_domain :: "string \<Rightarrow> string" where
  "safe_domain domain =
     fold (\<lambda>c s. ReplaceAll s [c] ''_'')
       [CHR ''/'', CHR 0x5C, CHR '':'', CHR ''*'', CHR ''?'', CHR 0x22, CHR ''<'', CHR ''>'', CHR ''|''] domain"

definition getLogFilename :: "DomainSetupLogger \<Rightarrow> string \<Rightarrow> string" where
  "getLogFilename l domain = FJoin [lg_logDir l, safe_domain domain @ ''.json'']"

definition saveToFileLocked :: "marshaller \<Rightarrow> string \<Rightarrow> logger_state \<Rightarrow> (goerror + unit) \<times> logger_state" where
  "saveToFileLocked marshal domain = (\<lambda>(l, w).
     case map_of (lg_logs l) domain of
       None \<Rightarrow> (Inr (), (l, w))
     | Some g \<Rightarrow>
        (case marshal g of
           None \<Rightarrow> (Inl (Opaque ''failed to marshal log''), (l, w))
         | Some data \<Rightarrow>
            (case os_WriteFile (getLogFilename l domain) data w of
               (Inl e, w') \<Rightarrow> (Inl (Wrapf ''failed to write log file'' (os_goerror e)), (l, w'))
             | (Inr _, w') \<Rightarrow> (Inr (), (l, w')))))"

definition loadFromFileLocked ::
  "(bytes \<Rightarrow> DomainSetupLog option) \<Rightarrow> osenv \<Rightarrow> string \<Rightarrow> DomainSetupLogger \<Rightarrow> DomainSetupLog option \<times> DomainSetupLogger" where
  "loadFromFileLocked unmarshal w domain l =
     (case os_ReadFile (getLogFilename l domain) w of
        Inl _ \<Rightarrow> (None, l)
      | Inr data \<Rightarrow>
         (case unmarshal data of
            None \<Rightarrow> (None, l)
          | Some g \<Rightarrow> (Some g, l\<lparr>lg_logs := AList.update domain g (lg_logs l)\<rparr>)))"

text \<open>
  \<^verbatim>\<open>os.ReadDir\<close>: the names directly below a directory, each with the flag of a directory. Go sorts them; the callers
  here do not depend on the order.
\<close>

definition os_ReadDir :: "string \<Rightarrow> osenv \<Rightarrow> os_error + (string \<times> bool) list" where
  "os_ReadDir p w =
     (let k = fkey w p in
      case os_check w p (OpenCall k) of
        Some e \<Rightarrow> Inl e
      | None \<Rightarrow>
          if k \<notin> set (os_dirs w) then Inl (NotExist ''no such file or directory'')
          else Inr (map (\<lambda>q. (last q, False)) (filter (\<lambda>q. q \<noteq> [] \<and> butlast q = k) (remdups (map fst (os_table w)))) @
                    map (\<lambda>q. (last q, True)) (filter (\<lambda>q. q \<noteq> [] \<and> butlast q = k) (remdups (os_dirs w)))))"

definition log_names :: "(string \<times> bool) list \<Rightarrow> string list" where
  "log_names files =
     map (\<lambda>(name, _). take (length name - 5) name) (filter (\<lambda>(name, dir). \<not> dir \<and> Ext name = ''.json'') files)"

definition loadAllFromFilesLocked :: "(bytes \<Rightarrow> DomainSetupLog option) \<Rightarrow> osenv \<Rightarrow> DomainSetupLogger \<Rightarrow> DomainSetupLogger" where
  "loadAllFromFilesLocked unmarshal w l =
     (case os_ReadDir (lg_logDir l) w of
        Inl _ \<Rightarrow> l
      | Inr files \<Rightarrow>
          fold (\<lambda>domain l. if map_of (lg_logs l) domain = None then snd (loadFromFileLocked unmarshal w domain l) else l)
            (log_names files) l)"

definition ListLogFiles :: "DomainSetupLogger \<Rightarrow> osenv \<Rightarrow> goerror + string list" where
  "ListLogFiles l w = (case os_ReadDir (lg_logDir l) w of Inl e \<Rightarrow> Inl (os_goerror e) | Inr files \<Rightarrow> Inr (log_names files))"

section \<open>Writing the log\<close>

definition new_log :: "string \<Rightarrow> time \<Rightarrow> DomainSetupLog" where
  "new_log domain now =
     \<lparr>L_Domain = domain, L_StartedAt = now, L_UpdatedAt = now, L_Status = ''in_progress'', L_Entries = [],
      L_ErrorSummary = [], L_TotalSteps = 0, L_CurrentStep = 0, L_Metadata = []\<rparr>"

definition put_log :: "string \<Rightarrow> DomainSetupLog \<Rightarrow> DomainSetupLogger \<Rightarrow> DomainSetupLogger" where
  "put_log domain g l = l\<lparr>lg_logs := AList.update domain g (lg_logs l)\<rparr>"

definition ensure_log :: "string \<Rightarrow> time \<Rightarrow> DomainSetupLogger \<Rightarrow> DomainSetupLogger" where
  "ensure_log domain now l = (case map_of (lg_logs l) domain of None \<Rightarrow> put_log domain (new_log domain now) l | Some _ \<Rightarrow> l)"

text \<open>Changing a log that exists and saving it; nothing happens for a domain without a log.\<close>

definition change_and_save ::
  "marshaller \<Rightarrow> string \<Rightarrow> (DomainSetupLog \<Rightarrow> DomainSetupLog) \<Rightarrow> logger_state \<Rightarrow> logger_state" where
  "change_and_save marshal domain f = (\<lambda>(l, w).
     case map_of (lg_logs l) domain of
       None \<Rightarrow> (l, w)
     | Some g \<Rightarrow> snd (saveToFileLocked marshal domain (put_log domain (f g) l, w)))"

definition append_entry ::
  "marshaller \<Rightarrow> time \<Rightarrow> (DomainSetupLog \<Rightarrow> DomainSetupLog) \<Rightarrow> DomainSetupLogEntry \<Rightarrow> logger_state \<Rightarrow> logger_state" where
  "append_entry marshal created f entry = (\<lambda>(l, w).
     change_and_save marshal (E_Domain entry)
       (\<lambda>g. f (g\<lparr>L_Entries := L_Entries g @ [entry], L_UpdatedAt := E_Timestamp entry\<rparr>))
       (ensure_log (E_Domain entry) created l, w))"

definition entry_of :: "time \<Rightarrow> log_level \<Rightarrow> string \<Rightarrow> string \<Rightarrow> string \<Rightarrow> json option \<Rightarrow> DomainSetupLogEntry" where
  "entry_of now level domain step message details =
     \<lparr>E_Timestamp = now, E_Level = level, E_Domain = domain, E_Step = step, E_Message = message, E_Details = details,
      E_Duration = [], E_RequestID = [], E_ErrorCode = [], E_StackTrace = []\<rparr>"

definition addEntryLocked ::
  "marshaller \<Rightarrow> clock \<Rightarrow> string \<Rightarrow> log_level \<Rightarrow> string \<Rightarrow> string \<Rightarrow> json option \<Rightarrow> logger_state \<Rightarrow> logger_state" where
  "addEntryLocked marshal clk domain level step message details =
     append_entry marshal (fst clk) id (entry_of (snd clk) level domain step message details)"

definition lg_StartDomainLog :: "marshaller \<Rightarrow> clock \<Rightarrow> string \<Rightarrow> logger_state \<Rightarrow> logger_state" where
  "lg_StartDomainLog marshal clk domain = (\<lambda>(l, w).
     addEntryLocked marshal clk domain LevelInfo ''session_start'' ''Domain setup session started'' None
       (put_log domain (new_log domain (fst clk)) l, w))"

definition SetMetadata :: "marshaller \<Rightarrow> string \<Rightarrow> string \<Rightarrow> string \<Rightarrow> logger_state \<Rightarrow> logger_state" where
  "SetMetadata marshal domain k v = change_and_save marshal domain (\<lambda>g. g\<lparr>L_Metadata := AList.update k v (L_Metadata g)\<rparr>)"

definition SetTotalSteps :: "marshaller \<Rightarrow> string \<Rightarrow> int \<Rightarrow> logger_state \<Rightarrow> logger_state" where
  "SetTotalSteps marshal domain steps = change_and_save marshal domain (\<lambda>g. g\<lparr>L_TotalSteps := steps\<rparr>)"

definition IncrementStep :: "marshaller \<Rightarrow> string \<Rightarrow> logger_state \<Rightarrow> logger_state" where
  "IncrementStep marshal domain = change_and_save marshal domain (\<lambda>g. g\<lparr>L_CurrentStep := L_CurrentStep g + 1\<rparr>)"

definition lg_Log ::
  "marshaller \<Rightarrow> clock \<Rightarrow> string \<Rightarrow> log_level \<Rightarrow> string \<Rightarrow> string \<Rightarrow> json option \<Rightarrow> logger_state \<Rightarrow> logger_state" where
  "lg_Log = addEntryLocked"

definition lg_LogInfo :: "marshaller \<Rightarrow> clock \<Rightarrow> string \<Rightarrow> string \<Rightarrow> string \<Rightarrow> logger_state \<Rightarrow> logger_state" where
  "lg_LogInfo marshal clk domain step message = lg_Log marshal clk domain LevelInfo step message None"

definition lg_LogInfoWithDetails ::
  "marshaller \<Rightarrow> clock \<Rightarrow> string \<Rightarrow> string \<Rightarrow> string \<Rightarrow> json \<Rightarrow> logger_state \<Rightarrow> logger_state" where
  "lg_LogInfoWithDetails marshal clk domain step message details = lg_Log marshal clk domain LevelInfo step message (Some details)"

definition lg_LogWarning ::
  "marshaller \<Rightarrow> clock \<Rightarrow> string \<Rightarrow> string \<Rightarrow> string \<Rightarrow> json option \<Rightarrow> logger_state \<Rightarrow> logger_state" where
  "lg_LogWarning marshal clk domain step message details = lg_Log marshal clk domain LevelWarning step message details"

definition lg_LogDebug ::
  "marshaller \<Rightarrow> clock \<Rightarrow> string \<Rightarrow> string \<Rightarrow> string \<Rightarrow> json option \<Rightarrow> logger_state \<Rightarrow> logger_state" where
  "lg_LogDebug marshal clk domain step message details = lg_Log marshal clk domain LevelDebug step message details"

definition error_details :: "goerror \<Rightarrow> json option" where
  "error_details err = Some (JObject [(''error'', JString (Error_text err))])"

text \<open>\<^verbatim>\<open>LogError\<close> sets the summary in memory after the entry has been saved, and does not save again.\<close>

definition lg_LogError :: "marshaller \<Rightarrow> clock \<Rightarrow> string \<Rightarrow> string \<Rightarrow> string \<Rightarrow> goerror \<Rightarrow> logger_state \<Rightarrow> logger_state" where
  "lg_LogError marshal clk domain step message err s =
     (case lg_Log marshal clk domain LevelError step message (error_details err) s of (l, w) \<Rightarrow>
      case map_of (lg_logs l) domain of
        None \<Rightarrow> (l, w)
      | Some g \<Rightarrow> (put_log domain (g\<lparr>L_ErrorSummary := Error_text err\<rparr>) l, w))"

definition LogErrorWithCode ::
  "marshaller \<Rightarrow> clock \<Rightarrow> string \<Rightarrow> string \<Rightarrow> string \<Rightarrow> goerror \<Rightarrow> string \<Rightarrow> logger_state \<Rightarrow> logger_state" where
  "LogErrorWithCode marshal clk domain step message err errorCode =
     append_entry marshal (fst clk) (\<lambda>g. g\<lparr>L_ErrorSummary := Error_text err\<rparr>)
       ((entry_of (snd clk) LevelError domain step message (error_details err))\<lparr>E_ErrorCode := errorCode\<rparr>)"

definition LogWithDuration ::
  "(duration \<Rightarrow> string) \<Rightarrow> marshaller \<Rightarrow> clock \<Rightarrow> string \<Rightarrow> log_level \<Rightarrow> string \<Rightarrow> string \<Rightarrow> duration \<Rightarrow> json option
     \<Rightarrow> logger_state \<Rightarrow> logger_state" where
  "LogWithDuration show_duration marshal clk domain level step message d details =
     append_entry marshal (fst clk) id
       ((entry_of (snd clk) level domain step message details)\<lparr>E_Duration := show_duration d\<rparr>)"

definition Milliseconds :: "duration \<Rightarrow> int" where
  "Milliseconds d = (if d < 0 then - (- d div 1000000) else d div 1000000)"

definition LogHTTPRequest ::
  "(duration \<Rightarrow> string) \<Rightarrow> marshaller \<Rightarrow> clock \<Rightarrow> string \<Rightarrow> string \<Rightarrow> string \<Rightarrow> int \<Rightarrow> duration \<Rightarrow> string
     \<Rightarrow> logger_state \<Rightarrow> logger_state" where
  "LogHTTPRequest show_duration marshal clk domain method url statusCode d requestID =
     append_entry marshal (fst clk) id
       ((entry_of (snd clk) (if statusCode \<ge> 400 then LevelError else LevelInfo) domain ''http_request''
           (method @ '' '' @ url @ '' -> '' @ show_int statusCode)
           (Some (JObject [(''method'', JString method), (''url'', JString url), (''status_code'', JInt statusCode),
                           (''duration_ms'', JInt (Milliseconds d))])))
        \<lparr>E_Duration := show_duration d, E_RequestID := requestID\<rparr>)"

definition LogAPIResponse :: "marshaller \<Rightarrow> clock \<Rightarrow> string \<Rightarrow> string \<Rightarrow> json \<Rightarrow> int \<Rightarrow> logger_state \<Rightarrow> logger_state" where
  "LogAPIResponse marshal clk domain endpoint responseBody statusCode =
     lg_Log marshal clk domain (if statusCode \<ge> 400 then LevelError else LevelDebug) ''http_response''
       (''API Response from '' @ endpoint @ '': '' @ show_int statusCode)
       (Some (JObject [(''endpoint'', JString endpoint), (''status_code'', JInt statusCode), (''response'', responseBody)]))"

definition SetStatus :: "marshaller \<Rightarrow> time \<Rightarrow> string \<Rightarrow> string \<Rightarrow> logger_state \<Rightarrow> logger_state" where
  "SetStatus marshal now domain status = change_and_save marshal domain (\<lambda>g. g\<lparr>L_Status := status, L_UpdatedAt := now\<rparr>)"

definition lg_MarkSuccess :: "marshaller \<Rightarrow> clock \<Rightarrow> time \<Rightarrow> string \<Rightarrow> logger_state \<Rightarrow> logger_state" where
  "lg_MarkSuccess marshal clk ended domain s =
     SetStatus marshal ended domain ''success''
       (lg_Log marshal clk domain LevelInfo ''session_end'' ''Domain setup completed successfully'' None s)"

definition lg_MarkFailed :: "marshaller \<Rightarrow> clock \<Rightarrow> time \<Rightarrow> string \<Rightarrow> goerror \<Rightarrow> logger_state \<Rightarrow> logger_state" where
  "lg_MarkFailed marshal clk ended domain err s =
     SetStatus marshal ended domain ''failed''
       (lg_LogError marshal clk domain ''session_end'' ''Domain setup failed'' err s)"

section \<open>Reading the log\<close>

definition GetDomainLog ::
  "(bytes \<Rightarrow> DomainSetupLog option) \<Rightarrow> osenv \<Rightarrow> string \<Rightarrow> DomainSetupLogger \<Rightarrow> DomainSetupLog option \<times> DomainSetupLogger" where
  "GetDomainLog unmarshal w domain l =
     (case map_of (lg_logs l) domain of
        Some g \<Rightarrow> (Some g, l)
      | None \<Rightarrow> loadFromFileLocked unmarshal w domain l)"

record DomainSetupLogSummary =
  S_Domain :: string
  S_StartedAt :: time
  S_UpdatedAt :: time
  S_Status :: string
  S_EntryCount :: nat
  S_ErrorSummary :: string
  S_TotalSteps :: int
  S_CurrentStep :: int

definition log_summary :: "DomainSetupLog \<Rightarrow> DomainSetupLogSummary" where
  "log_summary g =
     \<lparr>S_Domain = L_Domain g, S_StartedAt = L_StartedAt g, S_UpdatedAt = L_UpdatedAt g, S_Status = L_Status g,
      S_EntryCount = length (L_Entries g), S_ErrorSummary = L_ErrorSummary g, S_TotalSteps = L_TotalSteps g,
      S_CurrentStep = L_CurrentStep g\<rparr>"

definition GetAllLogs ::
  "(bytes \<Rightarrow> DomainSetupLog option) \<Rightarrow> osenv \<Rightarrow> DomainSetupLogger \<Rightarrow> DomainSetupLogSummary list \<times> DomainSetupLogger" where
  "GetAllLogs unmarshal w l =
     (let l' = loadAllFromFilesLocked unmarshal w l in (map (log_summary \<circ> snd) (lg_logs l'), l'))"

section \<open>The instance of the process\<close>

definition NewACMELogger :: "string \<Rightarrow> osenv \<Rightarrow> (goerror + DomainSetupLogger) \<times> osenv" where
  "NewACMELogger dir w = NewDomainSetupLogger (if dir = [] then ''./logs/domain-setup'' else dir) w"

text \<open>
  \<^verbatim>\<open>sync.Once\<close>: \<open>None\<close> before the first call, then the instance for good; the inner option is the pointer, which is nil when neither the log
  directory nor its replacement in the temporary directory can be made, since the second error is dropped.
\<close>

type_synonym global_logger = "DomainSetupLogger option option"

definition GetDomainSetupLogger :: "string \<Rightarrow> global_logger \<times> osenv \<Rightarrow> DomainSetupLogger option \<times> (global_logger \<times> osenv)" where
  "GetDomainSetupLogger tempDir = (\<lambda>(g, w).
     case g of
       Some l \<Rightarrow> (l, (g, w))
     | None \<Rightarrow>
        (case NewDomainSetupLogger ''./logs/domain-setup'' w of
           (Inr l, w1) \<Rightarrow> (Some l, (Some (Some l), w1))
         | (Inl err, w1) \<Rightarrow>
            (case NewDomainSetupLogger (tempDir @ ''/domain-setup-logs'') w1 of
               (Inr l, w2) \<Rightarrow> (Some l, (Some (Some l), w2))
             | (Inl _, w2) \<Rightarrow> (None, (Some None, w2)))))"

text \<open>
  Later calls return what the first returned and do not touch the disk; a nil pointer from the first call is never repaired, also when the
  directory could be made by then.
\<close>

lemma GetDomainSetupLogger_once:
  assumes "GetDomainSetupLogger t (g, w) = (l, (g', w'))"
  shows "g' = Some l \<and> GetDomainSetupLogger t' (g', v) = (l, (g', v)) \<and>
    (g = None \<longrightarrow> (l = None \<longleftrightarrow> \<not> is_ok (fst (NewDomainSetupLogger ''./logs/domain-setup'' w)) \<and>
       \<not> is_ok (fst (NewDomainSetupLogger (t @ ''/domain-setup-logs'') (snd (NewDomainSetupLogger ''./logs/domain-setup'' w))))))"
  using assms by (auto simp: GetDomainSetupLogger_def split: option.splits prod.splits sum.splits)

section \<open>Sequences of calls\<close>

text \<open>The calls by which the services write the log of a domain.\<close>

datatype log_call =
    CallStart clock
  | CallSetMetadata string string
  | CallSetTotalSteps int
  | CallIncrementStep
  | CallLog clock log_level string string "json option"
  | CallLogError clock string string goerror
  | CallLogErrorWithCode clock string string goerror string
  | CallLogWithDuration clock log_level string string duration "json option"
  | CallHTTPRequest clock string string int duration string
  | CallAPIResponse clock string json int
  | CallSetStatus time string
  | CallMarkSuccess clock time
  | CallMarkFailed clock time goerror

fun log_step :: "(duration \<Rightarrow> string) \<Rightarrow> marshaller \<Rightarrow> string \<times> log_call \<Rightarrow> logger_state \<Rightarrow> logger_state" where
  "log_step sd m (d, CallStart clk) = lg_StartDomainLog m clk d"
| "log_step sd m (d, CallSetMetadata k v) = SetMetadata m d k v"
| "log_step sd m (d, CallSetTotalSteps n) = SetTotalSteps m d n"
| "log_step sd m (d, CallIncrementStep) = IncrementStep m d"
| "log_step sd m (d, CallLog clk lv st msg dt) = lg_Log m clk d lv st msg dt"
| "log_step sd m (d, CallLogError clk st msg err) = lg_LogError m clk d st msg err"
| "log_step sd m (d, CallLogErrorWithCode clk st msg err code) = LogErrorWithCode m clk d st msg err code"
| "log_step sd m (d, CallLogWithDuration clk lv st msg dur dt) = LogWithDuration sd m clk d lv st msg dur dt"
| "log_step sd m (d, CallHTTPRequest clk method url code dur rid) = LogHTTPRequest sd m clk d method url code dur rid"
| "log_step sd m (d, CallAPIResponse clk endpoint body code) = LogAPIResponse m clk d endpoint body code"
| "log_step sd m (d, CallSetStatus t status) = SetStatus m t d status"
| "log_step sd m (d, CallMarkSuccess clk t) = lg_MarkSuccess m clk t d"
| "log_step sd m (d, CallMarkFailed clk t err) = lg_MarkFailed m clk t d err"

definition run_log :: "(duration \<Rightarrow> string) \<Rightarrow> marshaller \<Rightarrow> (string \<times> log_call) list \<Rightarrow> logger_state \<Rightarrow> logger_state" where
  "run_log sd m calls s = fold (log_step sd m) calls s"

section \<open>Where the files are\<close>

lemma safe_domain_map:
  "safe_domain d = map (\<lambda>c. if c \<in> set [CHR ''/'', CHR 0x5C, CHR '':'', CHR ''*'', CHR ''?'', CHR 0x22, CHR ''<'', CHR ''>'', CHR ''|'']
     then CHR ''_'' else c) d"
  by (simp add: safe_domain_def ReplaceAll_char_char)

lemma safe_domain_chars:
  "CHR ''/'' \<notin> set (safe_domain d)" "CHR 0x00 \<notin> set d \<Longrightarrow> CHR 0x00 \<notin> set (safe_domain d)"
  by (auto simp: safe_domain_map)

lemma log_file_name: "path_name (safe_domain d @ ''.json'')" "safe_domain d @ ''.json'' \<noteq> ''..''"
proof -
  have ne: "safe_domain d @ ''.json'' \<noteq> x" if "length x < 5" for x
    using that by (auto dest: arg_cong [where f = length])
  show "safe_domain d @ ''.json'' \<noteq> ''..''" by (rule ne) simp
  have "safe_domain d @ ''.json'' \<noteq> ''.''" by (rule ne) simp
  then show "path_name (safe_domain d @ ''.json'')" using safe_domain_chars(1) [of d] by (simp add: path_name_def)
qed

definition log_key :: "DomainSetupLogger \<Rightarrow> osenv \<Rightarrow> string \<Rightarrow> key" where
  "log_key l w d = fkey w (lg_logDir l) @ [safe_domain d @ ''.json'']"

lemma fkey_getLogFilename: "lg_logDir l \<noteq> [] \<Longrightarrow> fkey w (getLogFilename l d) = log_key l w d"
  unfolding getLogFilename_def log_key_def by (rule fkey_FJoin_file [OF _ log_file_name])

lemma getLogFilename_no_nul:
  assumes "CHR 0x00 \<notin> set (lg_logDir l)" "CHR 0x00 \<notin> set d"
  shows "CHR 0x00 \<notin> set (getLogFilename l d)"
proof -
  have "getLogFilename l d = [] \<or> (\<exists>p. getLogFilename l d = Clean p \<and> CHR 0x00 \<notin> set p)"
    using assms safe_domain_chars(2) [of d] by (auto simp: getLogFilename_def FJoin.simps)
  then show ?thesis using Clean_chars [of "CHR 0x00"] by (elim disjE exE conjE) auto
qed

section \<open>Memory and disk agree\<close>

definition log_disk :: "DomainSetupLogger \<Rightarrow> osenv \<Rightarrow> bool" where
  "log_disk l w \<longleftrightarrow> lg_logDir l \<noteq> [] \<and> CHR 0x00 \<notin> set (lg_logDir l) \<and> fkey w (lg_logDir l) \<in> set (os_dirs w)
     \<and> (\<forall>n. fkey w (lg_logDir l) @ [n] \<notin> set (os_dirs w)) \<and> no_read_faults w
     \<and> (\<forall>k. os_fault w (CreateCall k) = None \<and> os_fault w (WriteCall k) = None)"

definition synced :: "marshaller \<Rightarrow> string set \<Rightarrow> string set \<Rightarrow> logger_state \<Rightarrow> bool" where
  "synced m D X s \<longleftrightarrow> log_disk (fst s) (snd s) \<and> dom (map_of (lg_logs (fst s))) \<subseteq> D \<and>
     (\<forall>d g. map_of (lg_logs (fst s)) d = Some g \<longrightarrow> d \<notin> X \<longrightarrow> os_files (snd s) (log_key (fst s) (snd s) d) = m g)"

lemma os_WriteFile_log:
  assumes "log_disk l w" "CHR 0x00 \<notin> set d"
  shows "\<exists>w'. os_WriteFile (getLogFilename l d) b w = (Inr (), w') \<and> os_files w' = (os_files w)(log_key l w d \<mapsto> b)
     \<and> log_disk l w' \<and> fkey w' = fkey w"
proof -
  have k: "fkey w (getLogFilename l d) = log_key l w d" and n: "CHR 0x00 \<notin> set (getLogFilename l d)"
    using assms fkey_getLogFilename [of l w d] getLogFilename_no_nul [of l d] by (auto simp: log_disk_def)
  have c: "os_check w (getLogFilename l d) c = map_option OsError (os_fault w c)" for c using n by (simp add: os_check_def)
  have "os_WriteFile (getLogFilename l d) b w = (Inr (), w\<lparr>os_table := (log_key l w d, b) # (log_key l w d, []) # os_table w\<rparr>)"
    using assms(1) by (auto simp: os_WriteFile_def os_Create_def os_WriteAll_def c k Let_def log_disk_def log_key_def)
  then show ?thesis
    using assms(1) by (auto simp: log_disk_def no_read_faults_def fkey_def abs_path_def fun_eq_iff)
qed

lemma map_of_put_log [simp]: "map_of (lg_logs (put_log d g l)) = (map_of (lg_logs l))(d \<mapsto> g)"
  by (simp add: put_log_def update_conv')

lemma lg_logDir_put_log [simp]: "lg_logDir (put_log d g l) = lg_logDir l"
  by (simp add: put_log_def)

lemma put_log_disk [simp]: "log_disk (put_log d g l) w = log_disk l w" "log_key (put_log d g l) w = log_key l w"
  by (simp_all add: log_disk_def log_key_def fun_eq_iff)

lemma synced_put: "d \<in> D \<Longrightarrow> synced m D (insert d X) (l, w) \<Longrightarrow> synced m D (insert d X) (put_log d g l, w)"
  by (auto simp: synced_def)

lemma synced_mono: "synced m D X s \<Longrightarrow> X \<subseteq> Y \<Longrightarrow> synced m D Y s"
  by (auto simp: synced_def)

lemma log_key_inj: "log_key l w d = log_key l w d' \<longleftrightarrow> safe_domain d = safe_domain d'"
  by (simp add: log_key_def)

text \<open>Saving the log of a domain brings its file up to date and touches no other file.\<close>

lemma synced_save:
  assumes s: "synced m D (insert d X) (l, w)" and D: "inj_on safe_domain D" "\<And>d. d \<in> D \<Longrightarrow> CHR 0x00 \<notin> set d" "d \<in> D"
    and m: "\<And>g. m g \<noteq> None"
  shows "synced m D (X - {d}) (snd (saveToFileLocked m d (l, w)))"
proof (cases "map_of (lg_logs l) d")
  case None
  then have "d' \<noteq> d" if "map_of (lg_logs l) d' = Some g" for d' g using that by auto
  then show ?thesis using s by (auto simp: saveToFileLocked_def None synced_def)
next
  case (Some g)
  obtain b where b: "m g = Some b" using m by blast
  have disk: "log_disk l w" using s by (simp add: synced_def)
  obtain w' where w': "os_WriteFile (getLogFilename l d) b w = (Inr (), w')" "os_files w' = (os_files w)(log_key l w d \<mapsto> b)"
    "log_disk l w'" "fkey w' = fkey w" using os_WriteFile_log [OF disk D(2) [OF D(3)]] by blast
  have "log_key l w d' \<noteq> log_key l w d" if "d' \<in> D" "d' \<noteq> d" for d'
    using that D(1,3) by (auto simp: log_key_inj dest: inj_onD)
  then have "os_files w' (log_key l w' d') = m g'" if "map_of (lg_logs l) d' = Some g'" "d' \<notin> X - {d}" for d' g'
    using that s Some b w'(2) by (cases "d' = d") (auto simp: synced_def log_key_def w'(4) dom_def)
  then show ?thesis using s Some b w'(1,3) by (auto simp: saveToFileLocked_def synced_def)
qed

lemma synced_change:
  assumes "synced m D (insert d X) s" "inj_on safe_domain D" "\<And>d. d \<in> D \<Longrightarrow> CHR 0x00 \<notin> set d" "d \<in> D" "\<And>g. m g \<noteq> None"
  shows "synced m D (X - {d}) (change_and_save m d f s)"
proof (cases s)
  case (Pair l w)
  show ?thesis
  proof (cases "map_of (lg_logs l) d")
    case None
    then have "d' \<noteq> d" if "map_of (lg_logs l) d' = Some g" for d' g using that by auto
    then show ?thesis using assms(1) by (auto simp: change_and_save_def Pair None synced_def)
  next
    case (Some g)
    then show ?thesis
      using synced_save [OF synced_put [OF assms(4) assms(1) [unfolded Pair]] assms(2-5)] by (simp add: change_and_save_def Pair)
  qed
qed

lemma synced_append:
  assumes "synced m D (insert d X) s" "inj_on safe_domain D" "\<And>d. d \<in> D \<Longrightarrow> CHR 0x00 \<notin> set d" "d \<in> D" "\<And>g. m g \<noteq> None"
    and "E_Domain e = d"
  shows "synced m D (X - {d}) (append_entry m t f e s)"
proof (cases s)
  case (Pair l w)
  have "synced m D (insert d X) (ensure_log d t l, w)"
    using assms(1) synced_put [OF assms(4) assms(1) [unfolded Pair]] by (auto simp: ensure_log_def Pair split: option.split)
  from synced_change [OF this assms(2-5)] show ?thesis by (simp add: append_entry_def Pair assms(6))
qed

fun is_LogError :: "log_call \<Rightarrow> bool" where
  "is_LogError (CallLogError _ _ _ _) = True"
| "is_LogError _ = False"

lemma synced_LogError:
  assumes "synced m D (insert d X) s" "inj_on safe_domain D" "\<And>d. d \<in> D \<Longrightarrow> CHR 0x00 \<notin> set d" "d \<in> D" "\<And>g. m g \<noteq> None"
  shows "synced m D (insert d X) (lg_LogError m clk d step msg err s)"
proof -
  obtain l w where r: "lg_Log m clk d LevelError step msg (error_details err) s = (l, w)" by fastforce
  have "synced m D (insert d X) (l, w)"
    using synced_append [OF assms, of "entry_of (snd clk) LevelError d step msg (error_details err)" "fst clk" id] r
    by (auto simp: lg_Log_def addEntryLocked_def entry_of_def intro: synced_mono)
  from this synced_put [OF assms(4) this] show ?thesis by (simp add: lg_LogError_def r split: option.split)
qed

lemma synced_step:
  assumes "synced m D (insert d X) s" "inj_on safe_domain D" "\<And>d. d \<in> D \<Longrightarrow> CHR 0x00 \<notin> set d" "d \<in> D" "\<And>g. m g \<noteq> None"
  shows "synced m D (if is_LogError call then insert d X else X - {d}) (log_step sd m (d, call) s)"
proof (cases s)
  case (Pair l w)
  note ch = synced_change [OF _ assms(2-5)] and ap = synced_append [OF _ assms(2-5)]
  note defs = SetMetadata_def SetTotalSteps_def IncrementStep_def lg_Log_def addEntryLocked_def entry_of_def LogErrorWithCode_def
    LogWithDuration_def LogHTTPRequest_def LogAPIResponse_def SetStatus_def
  have log: "synced m D (insert d X) (lg_Log m clk d lv st msg dt s)" for clk lv st msg dt
    unfolding lg_Log_def addEntryLocked_def by (rule synced_mono [OF ap [OF assms(1)]]) (auto simp: entry_of_def)
  show ?thesis
  proof (cases call)
    case (CallStart clk)
    show ?thesis using ap [OF synced_put [OF assms(4) assms(1) [unfolded Pair]]]
      by (simp add: CallStart Pair lg_StartDomainLog_def addEntryLocked_def entry_of_def)
  next
    case (CallMarkSuccess clk t)
    show ?thesis unfolding CallMarkSuccess log_step.simps lg_MarkSuccess_def SetStatus_def using ch [OF log] by simp
  next
    case (CallMarkFailed clk t err)
    show ?thesis unfolding CallMarkFailed log_step.simps lg_MarkFailed_def SetStatus_def
      using ch [OF synced_LogError [OF assms]] by simp
  next
    case (CallLogError clk st msg err)
    show ?thesis unfolding CallLogError using synced_LogError [OF assms] by simp
  qed (use ch [OF assms(1)] ap [OF assms(1)] in \<open>simp_all add: defs\<close>)
qed

lemma same_dir:
  "lg_logDir (fst (snd (saveToFileLocked m d s))) = lg_logDir (fst s)"
  "lg_logDir (fst (change_and_save m d f s)) = lg_logDir (fst s)"
  "lg_logDir (fst (append_entry m t h e s)) = lg_logDir (fst s)"
proof -
  show sv: "lg_logDir (fst (snd (saveToFileLocked m d s))) = lg_logDir (fst s)" for d s
    by (auto simp: saveToFileLocked_def split: prod.split option.split sum.split)
  show ch: "lg_logDir (fst (change_and_save m d f s)) = lg_logDir (fst s)" for d f s
    by (auto simp: change_and_save_def sv split: prod.split option.split)
  show "lg_logDir (fst (append_entry m t h e s)) = lg_logDir (fst s)"
    by (auto simp: append_entry_def ch ensure_log_def split: prod.split option.split)
qed

lemma same_dir_LogError: "lg_logDir (fst (lg_LogError m clk d st msg err s)) = lg_logDir (fst s)"
proof -
  obtain l w where r: "lg_Log m clk d LevelError st msg (error_details err) s = (l, w)" by fastforce
  then have "lg_logDir l = lg_logDir (fst s)"
    using same_dir(3) [of m "fst clk" id "entry_of (snd clk) LevelError d st msg (error_details err)" s]
    by (simp add: lg_Log_def addEntryLocked_def)
  then show ?thesis by (simp add: lg_LogError_def r split: option.split)
qed

lemma same_dir_step: "lg_logDir (fst (log_step sd m c s)) = lg_logDir (fst s)"
  by (induction sd m c rule: log_step.induct)
     (simp_all add: SetMetadata_def SetTotalSteps_def IncrementStep_def lg_Log_def addEntryLocked_def LogErrorWithCode_def
        LogWithDuration_def LogHTTPRequest_def LogAPIResponse_def SetStatus_def lg_MarkSuccess_def lg_MarkFailed_def
        lg_StartDomainLog_def same_dir same_dir_LogError split: prod.split)

lemma same_dir_run: "lg_logDir (fst (run_log sd m calls s)) = lg_logDir (fst s)"
  by (induction calls arbitrary: s) (simp_all add: run_log_def same_dir_step)

text \<open>The last call for a domain is the plain \<^verbatim>\<open>LogError\<close>.\<close>

fun unsaved :: "(string \<times> log_call) list \<Rightarrow> string set" where
  "unsaved [] = {}"
| "unsaved ((d, call) # later) = unsaved later \<union> (if is_LogError call \<and> d \<notin> fst ` set later then {d} else {})"

lemma unsaved_snoc: "unsaved (calls @ [(d, call)]) = (if is_LogError call then insert d (unsaved calls) else unsaved calls - {d})"
  by (induction calls rule: unsaved.induct) auto

lemma synced_run:
  assumes "synced m D {} s" "inj_on safe_domain D" "\<And>d. d \<in> D \<Longrightarrow> CHR 0x00 \<notin> set d" "\<And>g. m g \<noteq> None"
    and "fst ` set calls \<subseteq> D"
  shows "synced m D (unsaved calls) (run_log sd m calls s)"
  using assms(5)
proof (induction calls rule: rev_induct)
  case (snoc c calls)
  obtain d call where c: "c = (d, call)" by fastforce
  have "synced m D (insert d (unsaved calls)) (run_log sd m calls s)"
    using snoc by (intro synced_mono [OF snoc.IH]) auto
  from synced_step [OF this assms(2,3) _ assms(4), of call sd] snoc.prems show ?case
    by (simp add: run_log_def c unsaved_snoc)
qed (simp add: run_log_def assms(1))

lemma prefixes_of_self: "k \<in> set (prefixes_of k)"
  by (induction k) auto

lemma prefixes_of_longer: "k @ [n] \<notin> set (prefixes_of k)"
  by (induction k) auto

definition sound_disk :: "osenv \<Rightarrow> string \<Rightarrow> bool" where
  "sound_disk w dir \<longleftrightarrow> (\<forall>n. fkey w dir @ [n] \<notin> set (os_dirs w)) \<and> no_read_faults w
     \<and> (\<forall>k. os_fault w (CreateCall k) = None \<and> os_fault w (WriteCall k) = None)"

lemma NewDomainSetupLogger_disk:
  assumes "NewDomainSetupLogger dir w = (Inr l, w')" "dir \<noteq> []" "CHR 0x00 \<notin> set dir" "sound_disk w dir"
  shows "log_disk l w'" "l = \<lparr>lg_logDir = dir, lg_logs = [], lg_maxLogs = 100\<rparr>" "os_files w' = os_files w" "fkey w' = fkey w"
  using assms
  by (auto simp: NewDomainSetupLogger_def os_MkdirAll_def log_disk_def sound_disk_def no_read_faults_def prefixes_of_self prefixes_of_longer
     fkey_def abs_path_def fun_eq_iff
     split: option.splits if_splits)

lemma log_disk_load:
  assumes "log_disk l w" "CHR 0x00 \<notin> set d" "os_files w (log_key l w d) = Some b" "map_of (lg_logs l) d = None"
  shows "fst (GetDomainLog unmarshal w d l) = unmarshal b"
proof -
  have "os_ReadFile (getLogFilename l d) w = Inr b"
    using assms fkey_getLogFilename [of l w d] getLogFilename_no_nul [of l d] no_fault_reads(1) [of w "getLogFilename l d" b]
    by (auto simp: log_disk_def)
  then show ?thesis using assms(4) by (simp add: GetDomainLog_def loadFromFileLocked_def split: option.split)
qed


definition demo_logos :: osenv where
  "demo_logos = \<lparr>os_wd = ''/'', os_table = [], os_dirs = [[]], os_fault = (\<lambda>c. None), os_written = (\<lambda>k. 0), os_uuid = (\<lambda>n. []),
     os_next = 0, os_readers = (\<lambda>r. []), os_rnext = 0\<rparr>"

definition demo_calls :: "(string \<times> log_call) list" where
  "demo_calls = [(''a.b'', CallStart (1, 2)), (''c/d'', CallLog (3, 4) LevelInfo ''dns_verify'' ''m'' None),
     (''a.b'', CallMarkFailed (5, 6) 7 (Opaque ''no record''))]"

definition demo_marshal :: marshaller where
  "demo_marshal g = Some (L_Domain g @ '' '' @ L_Status g @ '' '' @ show_nat (length (L_Entries g)))"


end
