(* ===== verification/Diagnostics.thy ===== *)
theory Diagnostics
  imports AcmeLogger
begin

text \<open>
  What an operator sees: \<^verbatim>\<open>internal/api/handlers/health_handler.go\<close> and the log endpoints of
  \<^verbatim>\<open>internal/api/handlers/acme_log_handler.go\<close>. Reaching the
  database (\<^verbatim>\<open>db.DB()\<close> and \<^verbatim>\<open>Ping\<close>) is an argument. The two HTML pages are
  the parameters \<open>list_page\<close> and \<open>log_page\<close> here; \<open>LogPages\<close> defines them.
\<close>

section \<open>health\_handler.go\<close>

datatype db_probe = NoConnection goerror | PingFailed goerror | Reachable

record HealthResponse =
  HR_Status :: string
  HR_Services :: "(string \<times> string) list"

definition Health :: "db_probe \<Rightarrow> nat \<times> HealthResponse" where
  "Health probe =
     (let state = (case probe of NoConnection _ \<Rightarrow> ''unhealthy'' | PingFailed _ \<Rightarrow> ''unhealthy'' | Reachable \<Rightarrow> ''healthy'') in
      (if state = ''unhealthy'' then 503 else 200, \<lparr>HR_Status = state, HR_Services = [(''database'', state)]\<rparr>))"

definition Ready :: "db_probe \<Rightarrow> nat \<times> (string \<times> string) list" where
  "Ready probe =
     (case probe of
        NoConnection _ \<Rightarrow> (503, [(''status'', ''not ready''), (''reason'', ''database connection failed'')])
      | PingFailed _ \<Rightarrow> (503, [(''status'', ''not ready''), (''reason'', ''database ping failed'')])
      | Reachable \<Rightarrow> (200, [(''status'', ''ready'')]))"

lemma health_agrees_with_ready: "fst (Health p) = fst (Ready p) \<and> (fst (Health p) = 200 \<longleftrightarrow> p = Reachable)"
  by (cases p) (simp_all add: Health_def Ready_def Let_def)

section \<open>acme\_log\_handler.go\<close>

datatype log_answer = LogList "DomainSetupLogSummary list" | OneLog DomainSetupLog

text \<open>Most recent first; logs of the same time come in some order (\<^verbatim>\<open>sort.Slice\<close> is not stable).\<close>

definition recent_first :: "DomainSetupLogSummary list \<Rightarrow> DomainSetupLogSummary list" where
  "recent_first = sort_key (\<lambda>s. - S_UpdatedAt s)"

definition ListLogs ::
  "(bytes \<Rightarrow> DomainSetupLog option) \<Rightarrow> osenv \<Rightarrow> DomainSetupLogger \<Rightarrow> log_answer response \<times> DomainSetupLogger" where
  "ListLogs unmarshal w l = (case GetAllLogs unmarshal w l of (logs, l') \<Rightarrow> (Success (LogList (recent_first logs)), l'))"

definition h_GetDomainLog ::
  "(bytes \<Rightarrow> DomainSetupLog option) \<Rightarrow> osenv \<Rightarrow> string \<Rightarrow> DomainSetupLogger \<Rightarrow> log_answer response \<times> DomainSetupLogger" where
  "h_GetDomainLog unmarshal w domain l =
     (if domain = [] then (BadRequest ''domain parameter is required'', l)
      else case GetDomainLog unmarshal w domain l of
        (None, l') \<Rightarrow> (NotFound (''log not found for domain: '' @ domain), l')
      | (Some g, l') \<Rightarrow> (Success (OneLog g), l'))"

text \<open>\<^verbatim>\<open>template.HTMLEscapeString\<close>.\<close>

definition HTMLEscapeString :: "string \<Rightarrow> string" where
  "HTMLEscapeString s = concat (map (\<lambda>c.
     if c = CHR 0x22 then ''&#34;'' else if c = CHR 0x27 then ''&#39;'' else if c = CHR ''&'' then ''&amp;''
     else if c = CHR ''<'' then ''&lt;'' else if c = CHR ''>'' then ''&gt;''
     else if c = CHR 0x00 then [CHR 0xEF, CHR 0xBF, CHR 0xBD] else [c]) s)"

definition ViewLogsHTML ::
  "(DomainSetupLogSummary list \<Rightarrow> string) \<Rightarrow> (bytes \<Rightarrow> DomainSetupLog option) \<Rightarrow> osenv \<Rightarrow> DomainSetupLogger
     \<Rightarrow> (nat \<times> string) \<times> DomainSetupLogger" where
  "ViewLogsHTML list_page unmarshal w l =
     (case GetAllLogs unmarshal w l of (logs, l') \<Rightarrow> ((200, list_page (recent_first logs)), l'))"

definition ViewDomainLogHTML ::
  "(DomainSetupLog \<Rightarrow> string) \<Rightarrow> (bytes \<Rightarrow> DomainSetupLog option) \<Rightarrow> osenv \<Rightarrow> string \<Rightarrow> DomainSetupLogger
     \<Rightarrow> (nat \<times> string) \<times> DomainSetupLogger" where
  "ViewDomainLogHTML log_page unmarshal w domain l =
     (if domain = [] then ((400, ''<h1>Error</h1><p>Domain parameter is required</p>''), l)
      else case GetDomainLog unmarshal w domain l of
        (None, l') \<Rightarrow> ((404, ''<h1>Not Found</h1><p>No log found for domain: '' @ HTMLEscapeString domain @ ''</p>''), l')
      | (Some g, l') \<Rightarrow> ((200, log_page g), l'))"

text \<open>The decimal digits, least significant first; a number that is not positive has none.\<close>

function int_digits :: "int \<Rightarrow> string \<Rightarrow> string" where
  "int_digits n result = (if n > 0 then int_digits (n div 10) (char_of (48 + nat (n mod 10)) # result) else result)"
  by pat_completeness auto
termination
  by (relation "measure (\<lambda>(n, r). nat n)") auto

declare int_digits.simps [simp del]

definition intToString :: "int \<Rightarrow> string" where
  "intToString n = (if n = 0 then ''0'' else int_digits n [])"

section \<open>Properties\<close>

lemma intToString_loop: "n > 0 \<Longrightarrow> int_digits n r = show_nat (nat n) @ r"
proof (induction n r rule: int_digits.induct)
  case (1 n r)
  have d: "nat n div 10 = nat (n div 10)" "nat n mod 10 = nat (n mod 10)"
    using 1(2) by (simp_all add: nat_div_distrib nat_mod_distrib)
  show ?case
  proof (cases "n div 10 > 0")
    case True
    then have "\<not> nat n < 10" by linarith
    with 1 True show ?thesis by (subst int_digits.simps, subst show_nat.simps) (simp add: d)
  next
    case False
    then have "n < 10" by linarith
    with 1(2) False show ?thesis by (subst int_digits.simps, subst int_digits.simps, subst show_nat.simps) simp
  qed
qed

lemma intToString_show: "n \<ge> 0 \<Longrightarrow> intToString n = show_int n"
proof (cases "n = 0")
  case True
  have "intToString 0 = show_int 0" by code_simp
  with True show ?thesis by simp
qed (simp add: intToString_def show_int_def intToString_loop)

lemma HTMLEscapeString_chars:
  "CHR ''<'' \<notin> set (HTMLEscapeString s)" "CHR ''>'' \<notin> set (HTMLEscapeString s)" "CHR 0x22 \<notin> set (HTMLEscapeString s)"
  "CHR 0x27 \<notin> set (HTMLEscapeString s)" "CHR 0x00 \<notin> set (HTMLEscapeString s)"
  by (auto simp: HTMLEscapeString_def split: if_splits)

lemma os_ReadFile_local:
  assumes "os_wd w' = os_wd w" "os_fault w' = os_fault w" "os_files w' (fkey w p) = os_files w (fkey w p)"
    "fkey w p \<in> set (os_dirs w') \<longleftrightarrow> fkey w p \<in> set (os_dirs w)"
  shows "os_ReadFile p w' = os_ReadFile p w"
proof -
  have "fkey w' p = fkey w p" "os_check w' p c = os_check w p c" for c
    using assms(1,2) by (simp_all add: fkey_def abs_path_def os_check_def)
  then show ?thesis using assms(2-4) by (simp add: os_ReadFile_def os_Open_def split: option.split)
qed

text \<open>
  C33. The log endpoints never look outside the log directory. Whatever the domain parameter of the URL is, with slashes, dots or
  anything else, two disks that agree on the entries of the log directory give the same answer, both for the JSON endpoint and
  for the page that needs no API key.
\<close>

theorem log_endpoints_confined:
  assumes "lg_logDir l \<noteq> []" and "os_wd w' = os_wd w" and "os_fault w' = os_fault w"
    and "\<And>n. os_files w' (fkey w (lg_logDir l) @ [n]) = os_files w (fkey w (lg_logDir l) @ [n])"
    and "\<And>n. fkey w (lg_logDir l) @ [n] \<in> set (os_dirs w') \<longleftrightarrow> fkey w (lg_logDir l) @ [n] \<in> set (os_dirs w)"
  shows "h_GetDomainLog unmarshal w' domain l = h_GetDomainLog unmarshal w domain l \<and>
         ViewDomainLogHTML page unmarshal w' domain l = ViewDomainLogHTML page unmarshal w domain l"
proof -
  have "os_ReadFile (getLogFilename l domain) w' = os_ReadFile (getLogFilename l domain) w"
    using assms fkey_getLogFilename [OF assms(1), of w domain] by (intro os_ReadFile_local) (simp_all add: log_key_def)
  then have "GetDomainLog unmarshal w' domain l = GetDomainLog unmarshal w domain l"
    unfolding GetDomainLog_def loadFromFileLocked_def by (rule arg_cong)
  then show ?thesis by (simp add: h_GetDomainLog_def ViewDomainLogHTML_def)
qed

theorem log_endpoints_confined_witness:
  "h_GetDomainLog (\<lambda>b. Some (new_log b 0)) (demo_logos\<lparr>os_table := [([''etc'', ''x.json''], ''secret'')]\<rparr>) ''../etc/x''
      \<lparr>lg_logDir = ''/log'', lg_logs = [], lg_maxLogs = 100\<rparr> =
   h_GetDomainLog (\<lambda>b. Some (new_log b 0)) demo_logos ''../etc/x'' \<lparr>lg_logDir = ''/log'', lg_logs = [], lg_maxLogs = 100\<rparr>"
proof -
  have k: "fkey demo_logos ''/log'' = [''log'']" by code_simp
  show ?thesis
    using log_endpoints_confined [of "\<lparr>lg_logDir = ''/log'', lg_logs = [], lg_maxLogs = 100\<rparr>"
      "demo_logos\<lparr>os_table := [([''etc'', ''x.json''], ''secret'')]\<rparr>" demo_logos "\<lambda>b. Some (new_log b 0)" "''../etc/x''" "\<lambda>_. []"]
    by (simp add: k) (simp add: demo_logos_def)
qed

end
