(* ===== verification/Utf8.thy ===== *)
theory Utf8
  imports GoStrings
begin

text \<open>
  The UTF-8 functions of the Go library: how a string is read as runes (by \<^verbatim>\<open>range\<close>, by the conversion to \<^verbatim>\<open>[]rune\<close> and
  by \<^verbatim>\<open>utf8.RuneCountInString\<close>) and how runes are written back. A byte that does not start a well-formed encoding is read
  as the rune U+FFFD, alone. Over these, \<^verbatim>\<open>strings.Map\<close> and the Unicode side of \<^verbatim>\<open>strings.TrimSpace\<close>.
\<close>

type_synonym rune = nat

abbreviation RuneError :: rune where "RuneError \<equiv> 0xFFFD"

definition valid_rune :: "rune \<Rightarrow> bool" where
  "valid_rune r \<longleftrightarrow> r \<le> 0x10FFFF \<and> \<not> (0xD800 \<le> r \<and> r \<le> 0xDFFF)"

section \<open>Decoding and encoding\<close>

definition in_range :: "nat \<Rightarrow> nat \<Rightarrow> char \<Rightarrow> bool" where
  "in_range lo hi c \<longleftrightarrow> lo \<le> ord c \<and> ord c \<le> hi"

abbreviation is_cont :: "char \<Rightarrow> bool" where "is_cont \<equiv> in_range 0x80 0xBF"

text \<open>\<^verbatim>\<open>utf8.DecodeRuneInString\<close>: the first rune and its width. The ranges of the second byte are those of the library's table.\<close>

definition second_range :: "nat \<Rightarrow> nat \<times> nat" where
  "second_range b =
     (if b = 0xE0 then (0xA0, 0xBF) else if b = 0xED then (0x80, 0x9F)
      else if b = 0xF0 then (0x90, 0xBF) else if b = 0xF4 then (0x80, 0x8F) else (0x80, 0xBF))"

fun DecodeRune :: "string \<Rightarrow> rune \<times> nat" where
  "DecodeRune [] = (RuneError, 0)"
| "DecodeRune (c # cs) =
     (let b = ord c; (lo, hi) = second_range b in
      if b < 0x80 then (b, 1)
      else if b < 0xC2 \<or> 0xF4 < b then (RuneError, 1)
      else case cs of
        [] \<Rightarrow> (RuneError, 1)
      | c1 # cs1 \<Rightarrow>
          if \<not> in_range lo hi c1 then (RuneError, 1)
          else if b \<le> 0xDF then ((b - 0xC0) * 64 + (ord c1 - 0x80), 2)
          else (case cs1 of
              [] \<Rightarrow> (RuneError, 1)
            | c2 # cs2 \<Rightarrow>
                if \<not> is_cont c2 then (RuneError, 1)
                else if b \<le> 0xEF then ((b - 0xE0) * 4096 + (ord c1 - 0x80) * 64 + (ord c2 - 0x80), 3)
                else (case cs2 of
                    [] \<Rightarrow> (RuneError, 1)
                  | c3 # _ \<Rightarrow>
                      if \<not> is_cont c3 then (RuneError, 1)
                      else ((b - 0xF0) * 262144 + (ord c1 - 0x80) * 4096 + (ord c2 - 0x80) * 64 + (ord c3 - 0x80), 4))))"

declare DecodeRune.simps [simp del]

lemma DecodeRune_width: "0 < snd (DecodeRune (c # cs))"
  by (auto simp: DecodeRune.simps Let_def split: list.split prod.split)

text \<open>\<^verbatim>\<open>[]rune(s)\<close>.\<close>

function runes :: "string \<Rightarrow> rune list" where
  "runes [] = []"
| "runes (c # cs) = fst (DecodeRune (c # cs)) # runes (drop (snd (DecodeRune (c # cs))) (c # cs))"
  by pat_completeness auto
termination
  by (relation "measure length") (auto simp: DecodeRune_width)

declare runes.simps(2) [simp del]

text \<open>\<^verbatim>\<open>utf8.AppendRune\<close>: surrogates and values past the last rune are written as U+FFFD.\<close>

definition EncodeRune :: "rune \<Rightarrow> string" where
  "EncodeRune r0 =
     (let r = (if valid_rune r0 then r0 else RuneError) in
      if r < 0x80 then [char_of r]
      else if r < 0x800 then [char_of (0xC0 + r div 64), char_of (0x80 + r mod 64)]
      else if r < 0x10000 then [char_of (0xE0 + r div 4096), char_of (0x80 + r div 64 mod 64), char_of (0x80 + r mod 64)]
      else [char_of (0xF0 + r div 262144), char_of (0x80 + r div 4096 mod 64), char_of (0x80 + r div 64 mod 64), char_of (0x80 + r mod 64)])"

text \<open>\<^verbatim>\<open>string(runes)\<close>.\<close>

definition of_runes :: "rune list \<Rightarrow> string" where
  "of_runes rs = concat (map EncodeRune rs)"

definition RuneCountInString :: "string \<Rightarrow> nat" where
  "RuneCountInString s = length (runes s)"

section \<open>Mapping and trimming\<close>

text \<open>\<^verbatim>\<open>strings.Map\<close>; the mapping returns \<open>None\<close> where the Go function returns a negative rune.\<close>

definition MapRunes :: "(rune \<Rightarrow> rune option) \<Rightarrow> string \<Rightarrow> string" where
  "MapRunes f s = of_runes (List.map_filter f (runes s))"

definition unicode_IsSpace :: "rune \<Rightarrow> bool" where
  "unicode_IsSpace r \<longleftrightarrow> (9 \<le> r \<and> r \<le> 13) \<or> r = 32 \<or> r = 0x85 \<or> r = 0xA0 \<or> r = 0x1680 \<or> (0x2000 \<le> r \<and> r \<le> 0x200A) \<or>
     r = 0x2028 \<or> r = 0x2029 \<or> r = 0x202F \<or> r = 0x205F \<or> r = 0x3000"

definition TrimRunes :: "rune list \<Rightarrow> rune list" where
  "TrimRunes rs = rev (dropWhile unicode_IsSpace (rev (dropWhile unicode_IsSpace rs)))"

text \<open>\<^verbatim>\<open>strings.TrimSpace\<close> on a well-formed string, which is what \<^verbatim>\<open>strings.Map\<close> returns.\<close>

definition TrimSpaceRunes :: "string \<Rightarrow> string" where
  "TrimSpaceRunes s = of_runes (TrimRunes (runes s))"

section \<open>The two directions\<close>

lemma ord_lt [simp]: "ord c < 256"
  by simp

lemma runes_ascii: "ord c < 0x80 \<Longrightarrow> runes (c # cs) = ord c # runes cs"
  by (simp add: runes.simps(2) DecodeRune.simps Let_def split: prod.split)

lemma second_range_bounds:
  "second_range b = (lo, hi) \<Longrightarrow> 0x80 \<le> lo \<and> hi \<le> 0xBF \<and> (b = 0xE0 \<longrightarrow> lo = 0xA0) \<and> (b = 0xED \<longrightarrow> hi = 0x9F) \<and>
     (b = 0xF0 \<longrightarrow> lo = 0x90) \<and> (b = 0xF4 \<longrightarrow> hi = 0x8F)"
  by (auto simp: second_range_def split: if_splits)

text \<open>The value of a decoded sequence of two, three and four bytes.\<close>

lemma decoded_two:
  fixes b x :: nat
  assumes "0xC2 \<le> b" "b \<le> 0xDF" "x \<le> 0x3F"
  shows "0x80 \<le> (b - 0xC0) * 64 + x \<and> valid_rune ((b - 0xC0) * 64 + x)"
proof -
  have "b = 0xC0 + (b - 0xC0)" using assms(1) by simp
  then obtain t where "b = 0xC0 + t" ..
  then show ?thesis using assms by (simp add: valid_rune_def)
qed

lemma decoded_three:
  fixes b x y :: nat
  assumes "0xDF < b" "b \<le> 0xEF" "x \<le> 0x3F" "y \<le> 0x3F" "b = 0xE0 \<Longrightarrow> 0x20 \<le> x" "b = 0xED \<Longrightarrow> x \<le> 0x1F"
  shows "0x80 \<le> (b - 0xE0) * 4096 + x * 64 + y \<and> valid_rune ((b - 0xE0) * 4096 + x * 64 + y)"
proof -
  have "b = 0xE0 + (b - 0xE0)" using assms(1) by simp
  then obtain t where t: "b = 0xE0 + t" ..
  consider "t = 0" | "0 < t" "t \<le> 12" | "t = 13" | "14 \<le> t" by linarith
  then show ?thesis using assms t by cases (simp_all add: valid_rune_def)
qed

lemma decoded_four:
  fixes b x y z :: nat
  assumes "0xEF < b" "b \<le> 0xF4" "x \<le> 0x3F" "y \<le> 0x3F" "z \<le> 0x3F" "b = 0xF0 \<Longrightarrow> 0x10 \<le> x" "b = 0xF4 \<Longrightarrow> x \<le> 0x0F"
  shows "0x80 \<le> (b - 0xF0) * 262144 + x * 4096 + y * 64 + z \<and> valid_rune ((b - 0xF0) * 262144 + x * 4096 + y * 64 + z)"
proof -
  have "b = 0xF0 + (b - 0xF0)" using assms(1) by simp
  then obtain t where t: "b = 0xF0 + t" ..
  consider "t = 0" | "0 < t" "t \<le> 3" | "t = 4" using assms(2) t by fastforce
  then show ?thesis using assms t by cases (simp_all add: valid_rune_def)
qed

lemma DecodeRune_cases:
  "ord c < 0x80 \<and> DecodeRune (c # cs) = (ord c, 1) \<or> 0x80 \<le> fst (DecodeRune (c # cs)) \<and> valid_rune (fst (DecodeRune (c # cs)))"
proof -
  obtain lo hi where lh: "second_range (ord c) = (lo, hi)" by fastforce
  note sb = second_range_bounds [OF lh]
  have e: "0x80 \<le> RuneError \<and> valid_rune RuneError" by (simp add: valid_rune_def)
  have x: "ord c1 - 0x80 \<le> 0x3F" "ord c = 0xE0 \<Longrightarrow> 0x20 \<le> ord c1 - 0x80" "ord c = 0xED \<Longrightarrow> ord c1 - 0x80 \<le> 0x1F"
    "ord c = 0xF0 \<Longrightarrow> 0x10 \<le> ord c1 - 0x80" "ord c = 0xF4 \<Longrightarrow> ord c1 - 0x80 \<le> 0x0F" if "in_range lo hi c1" for c1
    using that sb by (auto simp: in_range_def)
  have y: "ord d - 0x80 \<le> 0x3F" if "is_cont d" for d using that by (auto simp: in_range_def)
  have two: "0x80 \<le> (ord c - 0xC0) * 64 + (ord c1 - 0x80) \<and> valid_rune ((ord c - 0xC0) * 64 + (ord c1 - 0x80))"
    if "\<not> ord c < 0xC2" "ord c \<le> 0xDF" "in_range lo hi c1" for c1
    by (rule decoded_two) (use that x in auto)
  have three: "0x80 \<le> (ord c - 0xE0) * 4096 + (ord c1 - 0x80) * 64 + (ord c2 - 0x80) \<and>
      valid_rune ((ord c - 0xE0) * 4096 + (ord c1 - 0x80) * 64 + (ord c2 - 0x80))"
    if "\<not> ord c \<le> 0xDF" "ord c \<le> 0xEF" "in_range lo hi c1" "is_cont c2" for c1 c2
    by (rule decoded_three) (use that x y in auto)
  have four: "0x80 \<le> (ord c - 0xF0) * 262144 + (ord c1 - 0x80) * 4096 + (ord c2 - 0x80) * 64 + (ord c3 - 0x80) \<and>
      valid_rune ((ord c - 0xF0) * 262144 + (ord c1 - 0x80) * 4096 + (ord c2 - 0x80) * 64 + (ord c3 - 0x80))"
    if "\<not> ord c \<le> 0xEF" "\<not> 0xF4 < ord c" "in_range lo hi c1" "is_cont c2" "is_cont c3" for c1 c2 c3
    by (rule decoded_four) (use that x y in auto)
  show ?thesis
    unfolding DecodeRune.simps Let_def lh prod.case using e two three four by (simp split: list.split)
qed

lemma DecodeRune_valid: "valid_rune (fst (DecodeRune s))"
proof (cases s)
  case (Cons c cs)
  with DecodeRune_cases [of c cs] show ?thesis by (auto simp: valid_rune_def)
qed (simp add: DecodeRune.simps valid_rune_def)

lemma runes_valid: "list_all valid_rune (runes s)"
  by (induction s rule: runes.induct) (auto simp: runes.simps(2) DecodeRune_valid)

lemma DecodeRune_2:
  "2 \<le> a \<Longrightarrow> a < 0x20 \<Longrightarrow> b < 64 \<Longrightarrow> DecodeRune (char_of (0xC0 + a) # char_of (0x80 + b) # t) = (a * 64 + b, 2)"
  by (simp add: DecodeRune.simps Let_def in_range_def second_range_def)

lemma DecodeRune_3:
  "a < 16 \<Longrightarrow> b < 64 \<Longrightarrow> c < 64 \<Longrightarrow> (a = 0 \<longrightarrow> 0x20 \<le> b) \<Longrightarrow> (a = 13 \<longrightarrow> b < 0x20) \<Longrightarrow>
   DecodeRune (char_of (0xE0 + a) # char_of (0x80 + b) # char_of (0x80 + c) # t) = (a * 4096 + b * 64 + c, 3)"
  by (auto simp add: DecodeRune.simps Let_def in_range_def second_range_def)

lemma DecodeRune_4:
  "a \<le> 4 \<Longrightarrow> b < 64 \<Longrightarrow> c < 64 \<Longrightarrow> d < 64 \<Longrightarrow> (a = 0 \<longrightarrow> 0x10 \<le> b) \<Longrightarrow> (a = 4 \<longrightarrow> b < 0x10) \<Longrightarrow>
   DecodeRune (char_of (0xF0 + a) # char_of (0x80 + b) # char_of (0x80 + c) # char_of (0x80 + d) # t) =
     (a * 262144 + b * 4096 + c * 64 + d, 4)"
  by (auto simp add: DecodeRune.simps Let_def in_range_def second_range_def)

lemma DecodeRune_EncodeRune:
  assumes "valid_rune r"
  shows "DecodeRune (EncodeRune r @ t) = (r, length (EncodeRune r)) \<and> EncodeRune r \<noteq> []"
proof -
  consider "r < 0x80" | "0x80 \<le> r" "r < 0x800" | "0x800 \<le> r" "r < 0x10000" | "0x10000 \<le> r" "r \<le> 0x10FFFF"
    using assms unfolding valid_rune_def by linarith
  then show ?thesis
  proof cases
    case 1
    then show ?thesis using assms by (simp add: EncodeRune_def DecodeRune.simps Let_def split: prod.split)
  next
    case 2
    then have "2 \<le> r div 64" "r div 64 < 0x20" "r mod 64 < 64" "r div 64 * 64 + r mod 64 = r" by auto
    moreover have "EncodeRune r = [char_of (0xC0 + r div 64), char_of (0x80 + r mod 64)]"
      using 2 assms by (simp add: EncodeRune_def)
    ultimately show ?thesis using DecodeRune_2 [of "r div 64" "r mod 64" t] by simp
  next
    case 3
    define q where "q = r div 64"
    have q: "q * 64 + r mod 64 = r" "r mod 64 < 64" "q div 64 * 64 + q mod 64 = q" "q mod 64 < 64" by (simp_all add: q_def)
    have "r div 4096 = q div 64" by (simp add: q_def div_mult2_eq [symmetric])
    then have "EncodeRune r = [char_of (0xE0 + q div 64), char_of (0x80 + q mod 64), char_of (0x80 + r mod 64)]"
      using 3 assms by (simp add: EncodeRune_def q_def)
    moreover have "q div 64 < 16" using q 3 by linarith
    moreover have "q div 64 = 0 \<longrightarrow> 0x20 \<le> q mod 64" using q 3 by (intro impI) linarith
    moreover have "q div 64 = 13 \<longrightarrow> q mod 64 < 0x20" using q 3 assms unfolding valid_rune_def by (intro impI) linarith
    moreover have "q div 64 * 4096 + q mod 64 * 64 + r mod 64 = r" using q by linarith
    ultimately show ?thesis using DecodeRune_3 [of "q div 64" "q mod 64" "r mod 64" t] q(2,4) by simp
  next
    case 4
    define p where "p = r div 4096"
    define q where "q = r div 64"
    have q: "q * 64 + r mod 64 = r" "r mod 64 < 64" "p * 64 + q mod 64 = q" "q mod 64 < 64" "p div 64 * 64 + p mod 64 = p" "p mod 64 < 64"
      by (simp_all add: q_def p_def div_mult2_eq [of r 64 64, simplified])
    have "r div 262144 = p div 64" by (simp add: p_def div_mult2_eq [symmetric])
    then have "EncodeRune r = [char_of (0xF0 + p div 64), char_of (0x80 + p mod 64), char_of (0x80 + q mod 64), char_of (0x80 + r mod 64)]"
      using 4 assms by (simp add: EncodeRune_def q_def p_def)
    moreover have "p div 64 \<le> 4" using q 4 by linarith
    moreover have "p div 64 = 0 \<longrightarrow> 0x10 \<le> p mod 64" using q 4 by (intro impI) linarith
    moreover have "p div 64 = 4 \<longrightarrow> p mod 64 < 0x10" using q 4 by (intro impI) linarith
    moreover have "p div 64 * 262144 + p mod 64 * 4096 + q mod 64 * 64 + r mod 64 = r" using q by linarith
    ultimately show ?thesis using DecodeRune_4 [of "p div 64" "p mod 64" "q mod 64" "r mod 64" t] q(2,4,6) by simp
  qed
qed

lemma runes_EncodeRune: "valid_rune r \<Longrightarrow> runes (EncodeRune r @ t) = r # runes t"
  using DecodeRune_EncodeRune [of r t] by (cases "EncodeRune r") (auto simp: runes.simps(2))

lemma runes_of_runes: "list_all valid_rune rs \<Longrightarrow> runes (of_runes rs) = rs"
  by (induction rs) (auto simp: of_runes_def runes_EncodeRune)

lemma MapRunes_valid: "(\<And>r x. f r = Some x \<Longrightarrow> valid_rune r \<Longrightarrow> valid_rune x) \<Longrightarrow> runes (MapRunes f s) = List.map_filter f (runes s)"
  using runes_valid [of s] unfolding MapRunes_def
  by (intro runes_of_runes) (auto simp: List.map_filter_def list_all_iff)

section \<open>Bytes below 128\<close>

lemma EncodeRune_byte: "c \<in> set (EncodeRune r) \<Longrightarrow> ord c < 0x80 \<Longrightarrow> EncodeRune r = [c] \<and> r = ord c"
proof -
  assume "c \<in> set (EncodeRune r)" "ord c < 0x80"
  moreover have "(240 + r div 262144) mod 256 = 240 + r div 262144" if "valid_rune r"
    using that by (simp add: valid_rune_def less_mult_imp_div_less)
  ultimately show ?thesis by (auto simp: EncodeRune_def Let_def split: if_splits)
qed

lemma EncodeRune_ord: "ord c < 0x80 \<Longrightarrow> EncodeRune (ord c) = [c]"
  by (simp add: EncodeRune_def valid_rune_def)

lemma EncodeRune_neq_Nil [simp]: "EncodeRune r \<noteq> []"
  by (simp add: EncodeRune_def Let_def)

lemma of_runes_simps [simp]: "of_runes [] = []" "of_runes (r # rs) = EncodeRune r @ of_runes rs"
  by (simp_all add: of_runes_def)

lemma of_runes_byte: "c \<in> set (of_runes rs) \<Longrightarrow> ord c < 0x80 \<Longrightarrow> ord c \<in> set rs"
  by (induction rs) (auto dest: EncodeRune_byte)

lemma DecodeRune_byte: "fst (DecodeRune (c # cs)) < 0x80 \<Longrightarrow> fst (DecodeRune (c # cs)) = ord c \<and> snd (DecodeRune (c # cs)) = 1"
  using DecodeRune_cases [of c cs] by auto

lemma runes_byte: "r \<in> set (runes s) \<Longrightarrow> r < 0x80 \<Longrightarrow> \<exists>c \<in> set s. r = ord c"
proof (induction s rule: runes.induct)
  case (2 c cs)
  then consider "r = fst (DecodeRune (c # cs))" | "r \<in> set (runes (drop (snd (DecodeRune (c # cs))) (c # cs)))"
    by (auto simp: runes.simps(2))
  then show ?case
  proof cases
    case 1
    with DecodeRune_byte [of c cs] "2.prems" show ?thesis by simp
  next
    case 2
    with "2.IH" "2.prems" show ?thesis by (blast dest: in_set_dropD)
  qed
qed simp

lemma Contains_skip: "c \<notin> set p \<Longrightarrow> Contains (p @ s) (c # cs) \<longleftrightarrow> Contains s (c # cs)"
  by (induction p) auto

lemma of_runes_pair:
  assumes "ord c < 0x80"
  shows "Contains (of_runes rs) [c, c] \<Longrightarrow> \<exists>u v. rs = u @ [ord c, ord c] @ v"
proof (induction rs)
  case (Cons r rs)
  have later: "\<exists>u v. r # rs = u @ [ord c, ord c] @ v" if "Contains (of_runes rs) [c, c]"
    using Cons.IH [OF that] by (metis append_Cons)
  show ?case
  proof (cases "r = ord c")
    case True
    then have "Contains (c # of_runes rs) [c, c]" using Cons.prems assms by (simp add: EncodeRune_ord)
    moreover have "\<exists>rs'. rs = ord c # rs'" if "HasPrefix (of_runes rs) [c]"
    proof (cases rs)
      case (Cons r' rs')
      with that have "c \<in> set (EncodeRune r')" by (cases "EncodeRune r'") (auto simp: HasPrefix_iff)
      with EncodeRune_byte assms Cons show ?thesis by blast
    qed (use that in simp)
    ultimately show ?thesis using later True by (metis Contains.simps(2) HasPrefix_Cons append_Cons append_Nil)
  next
    case False
    then have "c \<notin> set (EncodeRune r)" using EncodeRune_byte assms by blast
    then show ?thesis using Cons.prems later by (simp add: Contains_skip)
  qed
qed simp

lemma runes_pair:
  assumes "ord c < 0x80"
  shows "runes s = u @ [ord c, ord c] @ v \<Longrightarrow> Contains s [c, c]"
proof (induction s arbitrary: u rule: runes.induct)
  case (2 a s)
  let ?w = "snd (DecodeRune (a # s))"
  show ?case
  proof (cases u)
    case Nil
    then have "fst (DecodeRune (a # s)) = ord c" and r: "runes (drop ?w (a # s)) = ord c # v"
      using "2.prems" by (simp_all add: runes.simps(2))
    with DecodeRune_byte [of a s] assms have "a = c" "?w = 1" by auto
    with r have "runes s = ord c # v" by simp
    then obtain b t where "s = b # t" by (cases s) auto
    with \<open>runes s = ord c # v\<close> DecodeRune_byte [of b t] assms have "s = c # t" by (auto simp: runes.simps(2))
    with \<open>a = c\<close> show ?thesis by simp
  next
    case (Cons x u')
    then have "runes (drop ?w (a # s)) = u' @ [ord c, ord c] @ v" using "2.prems" by (simp add: runes.simps(2))
    then have "Contains (drop ?w (a # s)) [c, c]" by (rule "2.IH")
    then have "Contains (take ?w (a # s) @ drop ?w (a # s) @ []) [c, c]" by (rule Contains_append)
    then show ?thesis by simp
  qed
qed simp

end
