(* ===== verification/Validator.thy ===== *)
theory Validator
  imports SmtpSession Utf8
begin

text \<open>
  \<^verbatim>\<open>internal/validator/validator.go\<close>: the checks of domain names and local parts, and the bounds on paging. The two regular
  expressions are written out as what they match. The address parser of \<^verbatim>\<open>net/mail\<close> and the lower case of runes from 128 up are
  parameters of \<open>ValidateEmail\<close>. The functions that count runes and the two sanitizers work on the UTF-8 reading of \<open>Utf8\<close>.
  No other package of the program calls this one.
\<close>

datatype validation_error = ErrEmptyInput | ErrInputTooLong | ErrInvalidDomain | ErrInvalidLocalPart | ErrInvalidEmail

definition alnum :: "char \<Rightarrow> bool" where
  "alnum c \<longleftrightarrow> is_lower c \<or> is_digit c"

text \<open>\<^verbatim>\<open>[a-z0-9]([a-z0-9-]{0,61}[a-z0-9])?\<close> and its repetition after dots; the pattern is anchored at both ends.\<close>

definition domain_label :: "string \<Rightarrow> bool" where
  "domain_label s \<longleftrightarrow> s \<noteq> [] \<and> length s \<le> 63 \<and> alnum (hd s) \<and> alnum (last s) \<and> list_all (\<lambda>c. alnum c \<or> c = CHR ''-'') s"

definition domainRegex :: "string \<Rightarrow> bool" where
  "domainRegex s \<longleftrightarrow> list_all domain_label (Split CHR ''.'' s)"

text \<open>\<^verbatim>\<open>[a-z0-9][a-z0-9._-]{0,63}\<close>, anchored.\<close>

definition localPartRegex :: "string \<Rightarrow> bool" where
  "localPartRegex s \<longleftrightarrow> s \<noteq> [] \<and> length s \<le> 64 \<and> alnum (hd s) \<and> list_all (\<lambda>c. alnum c \<or> c \<in> set ''._-'') s"

definition ValidateDomain :: "string \<Rightarrow> validation_error option" where
  "ValidateDomain domain =
     (let domain = TrimSpace (ToLower domain) in
      if domain = [] then Some ErrEmptyInput
      else if length domain > 253 then Some ErrInputTooLong
      else if \<not> domainRegex domain then Some ErrInvalidDomain
      else None)"

definition ValidateLocalPart :: "string \<Rightarrow> validation_error option" where
  "ValidateLocalPart localPart =
     (let localPart = TrimSpace (ToLower localPart) in
      if localPart = [] then Some ErrEmptyInput
      else if length localPart > 64 then Some ErrInputTooLong
      else if \<not> localPartRegex localPart then Some ErrInvalidLocalPart
      else None)"

abbreviation DefaultLimit :: int where "DefaultLimit \<equiv> 20"
abbreviation MaxLimit :: int where "MaxLimit \<equiv> 100"

definition ValidatePagination :: "int \<Rightarrow> int \<Rightarrow> int \<times> int" where
  "ValidatePagination limit offset =
     (let limit = (if limit \<le> 0 then DefaultLimit else limit);
          limit = (if limit > MaxLimit then MaxLimit else limit);
          offset = (if offset < 0 then 0 else offset) in
      (limit, offset))"

text \<open>\<^verbatim>\<open>strings.ToLower\<close> of a string that may hold runes from 128 up, whose lower case is \<open>lower\<close>.\<close>

definition ToLowerRunes :: "(rune \<Rightarrow> rune) \<Rightarrow> string \<Rightarrow> string" where
  "ToLowerRunes lower s =
     (if list_all (\<lambda>c. ord c < 0x80) s then ToLower s
      else MapRunes (\<lambda>r. Some (if r < 0x80 then (if 65 \<le> r \<and> r \<le> 90 then r + 32 else r) else lower r)) s)"

definition ValidateEmail :: "(rune \<Rightarrow> rune) \<Rightarrow> (string \<Rightarrow> 'e + 'a) \<Rightarrow> string \<Rightarrow> validation_error option" where
  "ValidateEmail lower ParseAddress email =
     (let email = TrimSpaceRunes (ToLowerRunes lower email) in
      if email = [] then Some ErrEmptyInput
      else if RuneCountInString email > 254 then Some ErrInputTooLong
      else case ParseAddress email of Inl _ \<Rightarrow> Some ErrInvalidEmail | Inr _ \<Rightarrow> None)"

definition strip_control :: "rune \<Rightarrow> rune option" where
  "strip_control r = (if r < 32 \<or> r = 127 then None else Some r)"

definition SanitizeFilename :: "string \<Rightarrow> string" where
  "SanitizeFilename filename =
     (let filename = ReplaceAll filename ''/'' ''_'';
          filename = ReplaceAll filename [CHR 0x5C] ''_'';
          filename = ReplaceAll filename ''..'' ''_'';
          filename = ReplaceAll filename [CHR 0x00] [];
          filename = MapRunes strip_control filename;
          filename = TrimSpaceRunes filename;
          filename = (if RuneCountInString filename > 255 then of_runes (take 255 (runes filename)) else filename) in
      if filename = [] then ''unnamed'' else filename)"

definition SanitizeString :: "string \<Rightarrow> int \<Rightarrow> string" where
  "SanitizeString input maxLength =
     (let input = MapRunes strip_control input;
          input = TrimSpaceRunes input in
      if maxLength > 0 \<and> int (RuneCountInString input) > maxLength then of_runes (take (nat maxLength) (runes input)) else input)"

section \<open>What the sanitizers guarantee\<close>

text \<open>Both end in the same three stages: drop control runes, trim, cut. On runes they are list functions.\<close>

definition clean_runes :: "nat \<Rightarrow> string \<Rightarrow> rune list" where
  "clean_runes n s = take n (TrimRunes (filter (\<lambda>r. \<not> (r < 32 \<or> r = 127)) (runes s)))"

lemma map_filter_strip: "List.map_filter strip_control rs = filter (\<lambda>r. \<not> (r < 32 \<or> r = 127)) rs"
  by (induction rs) (auto simp: strip_control_def)

lemma set_TrimRunes: "set (TrimRunes rs) \<subseteq> set rs"
  unfolding TrimRunes_def by (auto dest!: set_dropWhileD)

lemma TrimRunes_infix: "\<exists>u v. rs = u @ TrimRunes rs @ v"
  unfolding TrimRunes_def by (metis append_assoc rev_append rev_rev_ident takeWhile_dropWhile_id)

lemma clean_runes_valid: "list_all valid_rune (clean_runes n s)"
  using runes_valid [of s] set_TrimRunes unfolding clean_runes_def list_all_iff by (fastforce dest: in_set_takeD)

lemma clean_stages:
  "runes (TrimSpaceRunes (MapRunes strip_control s)) = TrimRunes (filter (\<lambda>r. \<not> (r < 32 \<or> r = 127)) (runes s))"
  "TrimSpaceRunes (MapRunes strip_control s) = of_runes (TrimRunes (filter (\<lambda>r. \<not> (r < 32 \<or> r = 127)) (runes s)))"
proof -
  have m: "runes (MapRunes strip_control s) = filter (\<lambda>r. \<not> (r < 32 \<or> r = 127)) (runes s)"
    by (subst MapRunes_valid) (auto simp: map_filter_strip strip_control_def split: if_splits)
  show t: "TrimSpaceRunes (MapRunes strip_control s) = of_runes (TrimRunes (filter (\<lambda>r. \<not> (r < 32 \<or> r = 127)) (runes s)))"
    by (simp add: TrimSpaceRunes_def m)
  show "runes (TrimSpaceRunes (MapRunes strip_control s)) = TrimRunes (filter (\<lambda>r. \<not> (r < 32 \<or> r = 127)) (runes s))"
    unfolding t by (rule runes_of_runes) (use runes_valid [of s] set_TrimRunes in \<open>fastforce simp: list_all_iff\<close>)
qed

lemma clean_cut:
  "(if n < RuneCountInString (TrimSpaceRunes (MapRunes strip_control s))
    then of_runes (take n (runes (TrimSpaceRunes (MapRunes strip_control s))))
    else TrimSpaceRunes (MapRunes strip_control s)) = of_runes (clean_runes n s)"
  unfolding RuneCountInString_def clean_stages(1) clean_runes_def by (simp add: clean_stages(2))

lemma clean_runes_rune: "r \<in> set (clean_runes n s) \<Longrightarrow> r \<in> set (runes s) \<and> 32 \<le> r \<and> r \<noteq> 127"
  using set_TrimRunes unfolding clean_runes_def by (fastforce dest: in_set_takeD)

lemma clean_runes_byte:
  assumes "c \<in> set (of_runes (clean_runes n s))"
  shows "32 \<le> ord c \<and> ord c \<noteq> 127 \<and> (ord c < 0x80 \<longrightarrow> c \<in> set s)"
proof (cases "ord c < 0x80")
  case True
  from clean_runes_rune [OF of_runes_byte [OF assms True]] runes_byte [of "ord c" s] True show ?thesis by auto
qed simp

lemma clean_runes_pair:
  assumes "list_all (\<lambda>r. \<not> (r < 32 \<or> r = 127)) (runes s)" "ord c < 0x80" "Contains (of_runes (clean_runes n s)) [c, c]"
  shows "Contains s [c, c]"
proof -
  obtain u v where "clean_runes n s = u @ [ord c, ord c] @ v" using of_runes_pair assms(2,3) by blast
  moreover have "filter (\<lambda>r. \<not> (r < 32 \<or> r = 127)) (runes s) = runes s" using assms(1) by (auto simp: list_all_iff intro!: filter_True)
  ultimately obtain v' where "TrimRunes (runes s) = u @ [ord c, ord c] @ v'"
    unfolding clean_runes_def by (metis append_assoc append_take_drop_id)
  with TrimRunes_infix [of "runes s"] obtain u' w where "runes s = u' @ [ord c, ord c] @ w" by (metis append_assoc)
  with assms(2) show ?thesis by (rule runes_pair)
qed

definition neutral :: "string \<Rightarrow> string" where
  "neutral f = ReplaceAll (ReplaceAll (ReplaceAll (ReplaceAll f ''/'' ''_'') [CHR 0x5C] ''_'') ''..'' ''_'') [CHR 0x00] []"

lemma SanitizeFilename_clean:
  "SanitizeFilename f = (let s = of_runes (clean_runes 255 (neutral f)) in if s = [] then ''unnamed'' else s)"
  unfolding SanitizeFilename_def Let_def clean_cut neutral_def by (rule refl)

lemma SanitizeString_clean:
  assumes "0 < maxLength"
  shows "SanitizeString input maxLength = of_runes (clean_runes (nat maxLength) input)"
proof -
  have "int k > maxLength \<longleftrightarrow> nat maxLength < k" for k using assms by linarith
  then show ?thesis using clean_cut [of "nat maxLength" input] assms by (simp add: SanitizeString_def Let_def)
qed

definition printable :: "char \<Rightarrow> bool" where
  "printable c \<longleftrightarrow> 32 \<le> ord c \<and> ord c \<noteq> 127"

lemma ReplaceAll_pair: "c \<noteq> d \<Longrightarrow> \<not> Contains (ReplaceAll s [c, c] [d]) [c, c]"
proof (induction s "[c, c]" "[d]" rule: ReplaceAll.induct)
  case (2 a s)
  show ?case
  proof (cases "HasPrefix (a # s) [c, c]")
    case True
    with 2 show ?thesis by simp
  next
    case False
    have "\<not> (a = c \<and> HasPrefix (ReplaceAll s [c, c] [d]) [c])"
      using False 2(3) by (cases s) (auto split: if_splits)
    with False 2 show ?thesis by auto
  qed
qed simp

lemma neutral_bytes: "c \<in> set (neutral f) \<Longrightarrow> (c \<in> set f \<or> c = CHR ''_'') \<and> c \<noteq> CHR ''/'' \<and> c \<noteq> CHR 0x5C \<and> c \<noteq> CHR 0x00"
  unfolding neutral_def ReplaceAll_char_Nil
  by (auto simp: ReplaceAll_char_char dest!: subsetD [OF set_ReplaceAll])

lemma neutral_printable:
  assumes "list_all printable f"
  shows "list_all (\<lambda>r. \<not> (r < 32 \<or> r = 127)) (runes (neutral f))" "\<not> Contains (neutral f) ''..''"
proof -
  have p: "printable c" if "c \<in> set (neutral f)" for c
    using neutral_bytes [OF that] assms by (auto simp: list_all_iff printable_def)
  then show "list_all (\<lambda>r. \<not> (r < 32 \<or> r = 127)) (runes (neutral f))"
    unfolding list_all_iff
  proof (intro ballI notI)
    fix r assume r: "r \<in> set (runes (neutral f))" "r < 32 \<or> r = 127"
    then obtain c where "c \<in> set (neutral f)" "r = ord c" using runes_byte [of r "neutral f"] by auto
    with p [of c] r(2) show False by (simp add: printable_def)
  qed
  define h where "h = ReplaceAll (ReplaceAll (ReplaceAll f ''/'' ''_'') [CHR 0x5C] ''_'') ''..'' ''_''"
  have "\<not> Contains h ''..''" unfolding h_def by (rule ReplaceAll_pair) simp
  moreover have "CHR 0x00 \<notin> set f" using assms by (auto simp: list_all_iff printable_def dest!: bspec)
  then have "CHR 0x00 \<notin> set h"
    unfolding h_def by (auto simp: ReplaceAll_char_char dest!: subsetD [OF set_ReplaceAll])
  then have "neutral f = h" unfolding neutral_def h_def [symmetric] ReplaceAll_char_Nil by (auto intro!: filter_True)
  ultimately show "\<not> Contains (neutral f) ''..''" by simp
qed

lemma SanitizeFilename_no_dots:
  assumes "list_all printable f"
  shows "\<not> Contains (SanitizeFilename f) ''..''"
proof -
  have "\<not> Contains (of_runes (clean_runes 255 (neutral f))) ''..''"
    using clean_runes_pair [OF neutral_printable(1) [OF assms], of "CHR ''.''"] neutral_printable(2) [OF assms] by auto
  then show ?thesis by (simp add: SanitizeFilename_clean Let_def)
qed

lemma clean_count: "RuneCountInString (of_runes (clean_runes n s)) \<le> n"
  unfolding RuneCountInString_def runes_of_runes [OF clean_runes_valid] by (simp add: clean_runes_def)

definition harmless :: "char \<Rightarrow> bool" where
  "harmless c \<longleftrightarrow> printable c \<and> c \<noteq> CHR ''/'' \<and> c \<noteq> CHR 0x5C"

lemma clean_neutral_harmless: "list_all harmless (of_runes (clean_runes n (neutral f)))"
proof -
  have "harmless c" if "c \<in> set (of_runes (clean_runes n (neutral f)))" for c
  proof (cases "ord c < 0x80")
    case True
    with clean_runes_byte [OF that] neutral_bytes [of c f] show ?thesis by (simp add: harmless_def printable_def)
  qed (auto simp: harmless_def printable_def)
  then show ?thesis by (simp add: list_all_iff)
qed



text \<open>
  Control characters are removed after the dots are replaced, so a control character between two dots brings \<^verbatim>\<open>..\<close> back.
\<close>

theorem SanitizeFilename_lets_dots_through: "SanitizeFilename [CHR ''.'', CHR 0x01, CHR ''.''] = ''..''"
  by (simp add: SanitizeFilename_clean neutral_def clean_runes_def runes_ascii TrimRunes_def
      unicode_IsSpace_def EncodeRune_def valid_rune_def HasPrefix_def char_of_def bit_0)

lemma ValidatePagination_bounds:
  "ValidatePagination l p = (l', p') \<Longrightarrow> 1 \<le> l' \<and> l' \<le> 100 \<and> 0 \<le> p' \<and> ValidatePagination l' p' = (l', p')"
  by (auto simp: ValidatePagination_def Let_def split: if_splits)

lemma alnum_plain: "alnum c \<Longrightarrow> c \<noteq> CHR ''@'' \<and> c \<noteq> CHR ''<'' \<and> c \<noteq> CHR ''>'' \<and> \<not> is_space c"
  by (auto simp: alnum_def is_lower_def is_digit_def is_space_def)

text \<open>A name made of the characters the two patterns allow.\<close>

definition plain_name :: "string \<Rightarrow> bool" where
  "plain_name s \<longleftrightarrow> s \<noteq> [] \<and> (\<forall>c \<in> set s. alnum c \<or> c \<in> set ''._-'')"

lemma localPartRegex_plain: "localPartRegex s \<Longrightarrow> plain_name s"
  by (auto simp: localPartRegex_def plain_name_def list_all_iff)

lemma domainRegex_plain:
  assumes "domainRegex s" "s \<noteq> []"
  shows "plain_name s"
proof -
  have "c = CHR ''.'' \<or> (\<exists>w \<in> set (Split CHR ''.'' s). c \<in> set w)" if "c \<in> set s" for c
    using that Join_Split [of "CHR ''.''" s] Join_chars [of c "Split CHR ''.'' s" "''.''"] by auto
  with assms show ?thesis by (fastforce simp: plain_name_def domainRegex_def domain_label_def list_all_iff)
qed

lemma plain_name_facts:
  assumes "plain_name s"
  shows "CHR ''@'' \<notin> set s" "CHR ''<'' \<notin> set s" "CHR ''>'' \<notin> set s" "\<And>c. c \<in> set s \<Longrightarrow> \<not> is_space c" "ToLower s = s" "s \<noteq> []"
proof -
  have c: "c \<noteq> CHR ''@'' \<and> c \<noteq> CHR ''<'' \<and> c \<noteq> CHR ''>'' \<and> \<not> is_space c \<and> lower_char c = c" if "c \<in> set s" for c
  proof -
    have "alnum c \<or> c = CHR ''.'' \<or> c = CHR ''_'' \<or> c = CHR ''-''" using assms that by (auto simp: plain_name_def)
    then show ?thesis
      by (elim disjE) (auto simp: alnum_def is_lower_def is_digit_def is_space_def lower_char_def is_upper_def)
  qed
  then show "CHR ''@'' \<notin> set s" "CHR ''<'' \<notin> set s" "CHR ''>'' \<notin> set s" "\<And>c. c \<in> set s \<Longrightarrow> \<not> is_space c" by auto
  show "ToLower s = s" using c by (simp add: ToLower_def map_idI)
  show "s \<noteq> []" using assms by (simp add: plain_name_def)
qed

lemma parse_plain:
  assumes l: "plain_name l" and d: "plain_name d"
  shows "parseEmailAddress (l @ ''@'' @ d) = Inr (l, d)"
proof -
  note L = plain_name_facts [OF l] and D = plain_name_facts [OF d]
  have "hd (l @ ''@'' @ d) \<noteq> CHR ''<''" using L(2,6) by (cases l) auto
  then have p: "TrimPrefix (l @ ''@'' @ d) ''<'' = l @ ''@'' @ d" using L(6) by (cases l) (auto simp: TrimPrefix_def HasPrefix_def)
  have s: "TrimSuffix (l @ ''@'' @ d) ''>'' = l @ ''@'' @ d"
    using D(3,6) by (cases d rule: rev_cases) (auto simp: TrimSuffix_def HasSuffix_def)
  have t: "TrimSpace (l @ ''@'' @ d) = l @ ''@'' @ d" using L(4) D(4) by (intro TrimSpace_no_space) (auto simp: is_space_def)
  have "Split CHR ''@'' (l @ ''@'' @ d) = [l, d]" using L(1) D(1) by (simp add: Split_append_sep Split_no_sep)
  then show ?thesis unfolding parseEmailAddress_def Let_def p s t using L(5,6) D(5,6) by simp
qed

text \<open>
  C32. Names that pass validation are names mail can be sent to: after the trimming and lower-casing the validators apply, the
  address made of a valid local part and a valid domain is parsed by the SMTP session into exactly these two parts, which are
  already in the lower-case form under which mailboxes are looked up; validating them again accepts them.
\<close>

theorem validated_address_is_deliverable:
  assumes "ValidateLocalPart localPart = None" and "ValidateDomain domain = None"
    and "l = TrimSpace (ToLower localPart)" and "d = TrimSpace (ToLower domain)"
  shows "parseEmailAddress (l @ ''@'' @ d) = Inr (l, d) \<and> ToLower l = l \<and> ToLower d = d \<and>
         ValidateLocalPart l = None \<and> ValidateDomain d = None"
proof -
  have l: "localPartRegex l" "length l \<le> 64" "l \<noteq> []" and d: "domainRegex d" "length d \<le> 253" "d \<noteq> []"
    using assms by (auto simp: ValidateLocalPart_def ValidateDomain_def Let_def split: if_splits)
  note P = localPartRegex_plain [OF l(1)] domainRegex_plain [OF d(1,3)]
  have "TrimSpace l = l" "TrimSpace d = d" by (simp_all add: assms(3,4))
  then show ?thesis using parse_plain [OF P] P [THEN plain_name_facts(5)] l d
    by (simp add: ValidateLocalPart_def ValidateDomain_def)
qed

theorem validated_address_is_deliverable_witness:
  "ValidateLocalPart '' Info.Desk'' = None \<and> ValidateDomain ''Mail.Example.org '' = None \<and>
   parseEmailAddress (''info.desk'' @ ''@'' @ ''mail.example.org'') = Inr (''info.desk'', ''mail.example.org'')"
proof -
  have v: "ValidateLocalPart '' Info.Desk'' = None" "ValidateDomain ''Mail.Example.org '' = None"
    "''info.desk'' = TrimSpace (ToLower '' Info.Desk'')" "''mail.example.org'' = TrimSpace (ToLower ''Mail.Example.org '')"
    by code_simp+
  from validated_address_is_deliverable [OF v] v(1,2) show ?thesis by blast
qed

end
