(* ===== verification/Startup.thy ===== *)
theory Startup
  imports Config Database SmtpServer AcmeClient CertRenewal
begin

text \<open>
  \<^verbatim>\<open>cmd/server/main.go\<close>: how the process starts and how it stops. Starting is a function from what the process finds (environment, database, disk,
  a source of keys) to the running server or to the step at which it gives up; the parts it can do without are options. The lines for the
  process log are left out, and so are the listeners themselves (\<^verbatim>\<open>echo\<close>, \<^verbatim>\<open>go-smtp\<close>): stopping is the sequence of calls \<^verbatim>\<open>main\<close> makes.
\<close>

section \<open>Starting\<close>

record ('s, 'c, 'h) platform =
  pf_env :: environment
  pf_ParseFloat :: "string \<Rightarrow> rat option"
  pf_ParseDuration :: "string \<Rightarrow> duration option"
  pf_open :: "string \<Rightarrow> goerror + 'h gorm_DB"
  pf_migrate :: "table list \<Rightarrow> 'h \<Rightarrow> goerror + 'h"
  pf_gorm :: gorm
  pf_x509 :: "bytes \<Rightarrow> (time \<times> time) option"
  pf_x509pair :: "bytes \<Rightarrow> bytes \<Rightarrow> goerror + 'c"
  pf_acme :: "'s acme_api"
  pf_remote :: 's

datatype startup_failure = LoadFailed goerror | ConnectFailed goerror | MigrateFailed goerror | StorageFailed goerror

record ('s, 'c, 'h) running =
  ru_cfg :: Config
  ru_logLevel :: int
  ru_db :: "'h gorm_DB"
  ru_fileStorage :: FileStorage
  ru_certStorage :: "CertStorage option"
  ru_certStore :: "'c certificateStore option"
  ru_acmeClient :: "'s acmeClient option"
  ru_certManager :: bool
  ru_renewal :: "CertRenewalConfig option"
  ru_renewalState :: renewal_state
  ru_router :: RouterConfig
  ru_smtp :: "('c certificateStore, 'c) SecureSMTPServer"

text \<open>The numbers of \<^verbatim>\<open>slog\<close>.\<close>

definition main_logLevel :: "Config \<Rightarrow> int" where
  "main_logLevel cfg =
     (if C_LogLevel cfg = ''debug'' then -4 else if C_LogLevel cfg = ''warn'' then 4 else if C_LogLevel cfg = ''error'' then 8 else 0)"

text \<open>
  The certificate store: none without a certificate storage. Whether loading the certificates of the database works only decides what
  the store holds.
\<close>

definition main_certStore ::
  "('s, 'c, 'h) platform \<Rightarrow> (goerror + CertStorage) \<Rightarrow> db \<Rightarrow> osenv \<Rightarrow> 'c certificateStore option" where
  "main_certStore P storage d w =
     (case storage of
        Inl err \<Rightarrow> None
      | Inr S \<Rightarrow>
         (case NewCertificateStore (Some S) of
            Inl err \<Rightarrow> None
          | Inr certStore \<Rightarrow> Some (snd (ReloadAll (pf_x509pair P) S (Some (NewCertificateRepository (pf_gorm P))) d w certStore))))"

definition main_acmeConfig :: "Config \<Rightarrow> ACMEClientConfig" where
  "main_acmeConfig cfg = \<lparr>AF_DirectoryURL = C_ACMEDirectoryURL cfg, AF_Email = C_ACMEEmail cfg, AF_Staging = C_ACMEStaging cfg\<rparr>"

definition main_renewalConfig :: "(string \<Rightarrow> duration option) \<Rightarrow> Config \<Rightarrow> CertRenewalConfig" where
  "main_renewalConfig ParseDuration cfg =
     (let checkInterval = (case ParseDuration (C_CertRenewalCheckInterval cfg) of Some d \<Rightarrow> d | None \<Rightarrow> 24 * hour) in
      \<lparr>rn_CheckInterval = checkInterval, rn_RenewalDays = C_CertRenewalDays cfg\<rparr>)"

definition start_server :: "('s, 'c, 'h) platform \<Rightarrow> db \<Rightarrow> osenv \<Rightarrow> (startup_failure + ('s, 'c, 'h) running) \<times> osenv" where
  "start_server P d w =
     (case Load (pf_ParseFloat P) (pf_env P) of
        Inl err \<Rightarrow> (Inl (LoadFailed err), w)
      | Inr cfg \<Rightarrow>
     (case Connect (pf_open P) (pf_env P) (C_DatabaseURL cfg) of
        Inl err \<Rightarrow> (Inl (ConnectFailed err), w)
      | Inr db0 \<Rightarrow>
     (case Migrate (pf_migrate P) db0 of
        Inl err \<Rightarrow> (Inl (MigrateFailed err), w)
      | Inr db \<Rightarrow>
     (case NewLocalStorage (C_AttachmentStoragePath cfg) w of
        (Inl err, w1) \<Rightarrow> (Inl (StorageFailed err), w1)
      | (Inr fileStorage, w1) \<Rightarrow>
     (case NewCertStorage (pf_x509 P) (C_CertStoragePath cfg) w1 of
        (storage, w2) \<Rightarrow>
          let certStore = main_certStore P storage d w2;
              acmeClient = (case NewACMEClient (pf_acme P) (main_acmeConfig cfg) (pf_remote P) of Inl err \<Rightarrow> None | Inr c \<Rightarrow> Some c);
              certManager = (acmeClient \<noteq> None \<and> is_ok storage) in
          (Inr \<lparr>ru_cfg = cfg,
                ru_logLevel = main_logLevel cfg,
                ru_db = db,
                ru_fileStorage = fileStorage,
                ru_certStorage = (case storage of Inl err \<Rightarrow> None | Inr S \<Rightarrow> Some S),
                ru_certStore = certStore,
                ru_acmeClient = acmeClient,
                ru_certManager = certManager,
                ru_renewal = (if certManager then Some (NewCertRenewalService (main_renewalConfig (pf_ParseDuration P) cfg)) else None),
                ru_renewalState = (if certManager then renewal_Start renewal_init else renewal_init),
                ru_router = main_router_config (pf_env P) cfg,
                ru_smtp = main_smtp_server (pf_ParseDuration P) (pf_x509pair P) (pf_env P) (C_SMTPPort cfg) (certStore \<noteq> None) w1 w2\<rparr>,
           w2))))))"

section \<open>Stopping\<close>

text \<open>
  What the two listener goroutines and the signal handler report, in the order in which it reaches \<^verbatim>\<open>main\<close>: a listener that returns, with or
  without an error, or a signal. \<^verbatim>\<open>main\<close> waits until one of them is a reason to stop.
\<close>

datatype process_event = HttpReturns "goerror option" | SmtpReturns "goerror option" | Signalled string

datatype stop_reason = ServerError goerror | ShutdownSignal string

definition http_ErrServerClosed :: goerror where
  "http_ErrServerClosed = Opaque ''http: Server closed''"

fun main_wait :: "process_event list \<Rightarrow> stop_reason option" where
  "main_wait [] = None"
| "main_wait (HttpReturns err # es) =
     (case err of
        Some e \<Rightarrow> if e \<noteq> http_ErrServerClosed then Some (ServerError (Wrapf ''HTTP server error'' e)) else main_wait es
      | None \<Rightarrow> main_wait es)"
| "main_wait (SmtpReturns err # es) =
     (case err of Some e \<Rightarrow> Some (ServerError (Wrapf ''SMTP server error'' e)) | None \<Rightarrow> main_wait es)"
| "main_wait (Signalled sig # es) = Some (ShutdownSignal sig)"

text \<open>
  The calls after the first server error or signal, with the time they start. \<open>stop\<close> is how long the renewal service takes to stop, \<open>http\<close> how
  long the open requests would still take, \<open>close\<close> the result of closing the SMTP listeners. The deadline of ten seconds is set before the
  first of these calls.
\<close>

datatype shutdown_call = StopRenewal time | ShutdownHTTP time time | CloseSMTP time | CloseDB time

definition http_wait :: "duration \<Rightarrow> duration \<Rightarrow> duration" where
  "http_wait left http = max 0 (min left http)"

definition shutdown_calls :: "('s, 'c, 'h) running \<Rightarrow> time \<Rightarrow> duration \<Rightarrow> duration \<Rightarrow> shutdown_call list" where
  "shutdown_calls R now stop http =
     (let deadline = now + 10 * second;
          t1 = (if ru_renewal R \<noteq> None then now + stop else now);
          t2 = t1 + http_wait (deadline - t1) http in
      (if ru_renewal R \<noteq> None then [StopRenewal now] else []) @
      [ShutdownHTTP t1 deadline, CloseSMTP t2] @
      (if is_ok (gd_DB (ru_db R)) then [CloseDB t2] else []))"

section \<open>Properties\<close>

lemma NewACMEClient_directory:
  "NewACMEClient api config r = Inr c \<Longrightarrow> AF_DirectoryURL config \<noteq> [] \<Longrightarrow> cl_directoryURL c = AF_DirectoryURL config"
  by (auto simp: NewACMEClient_def NewACMEClientWithKey_def split: sum.splits prod.splits)

text \<open>What a start that succeeded has done, step by step.\<close>

lemma start_server_Inr:
  assumes "start_server P d w = (Inr R, w')"
  obtains cfg db0 db files w1 storage where
    "Load (pf_ParseFloat P) (pf_env P) = Inr cfg" "Connect (pf_open P) (pf_env P) (C_DatabaseURL cfg) = Inr db0"
    "Migrate (pf_migrate P) db0 = Inr db" "NewLocalStorage (C_AttachmentStoragePath cfg) w = (Inr files, w1)"
    "NewCertStorage (pf_x509 P) (C_CertStoragePath cfg) w1 = (storage, w')"
    "ru_cfg R = cfg" "ru_db R = db" "ru_certStorage R = (case storage of Inl err \<Rightarrow> None | Inr S \<Rightarrow> Some S)"
    "ru_certStore R = main_certStore P storage d w'"
    "ru_acmeClient R = (case NewACMEClient (pf_acme P) (main_acmeConfig cfg) (pf_remote P) of Inl err \<Rightarrow> None | Inr c \<Rightarrow> Some c)"
    "ru_certManager R \<longleftrightarrow> ru_acmeClient R \<noteq> None \<and> is_ok storage"
    "ru_renewal R = (if ru_certManager R then Some (NewCertRenewalService (main_renewalConfig (pf_ParseDuration P) cfg)) else None)"
    "ru_renewalState R = (if ru_certManager R then renewal_Start renewal_init else renewal_init)"
    "ru_smtp R = main_smtp_server (pf_ParseDuration P) (pf_x509pair P) (pf_env P) (C_SMTPPort cfg) (ru_certStore R \<noteq> None) w1 w'"
  using assms unfolding start_server_def by (auto simp: Let_def split: sum.splits prod.splits)

lemma main_renewalConfig_positive:
  "0 < rn_CheckInterval (NewCertRenewalService c) \<and> 0 < rn_RenewalDays (NewCertRenewalService c)"
  by (simp add: NewCertRenewalService_def Let_def)

lemma start_server_ok_iff:
  "is_ok (fst (start_server P d w)) \<longleftrightarrow>
     (\<exists>cfg db0. Load (pf_ParseFloat P) (pf_env P) = Inr cfg \<and> Connect (pf_open P) (pf_env P) (C_DatabaseURL cfg) = Inr db0 \<and>
        is_ok (Migrate (pf_migrate P) db0) \<and> is_ok (fst (NewLocalStorage (C_AttachmentStoragePath cfg) w)))"
  by (auto simp: start_server_def Let_def is_ok_iff split: sum.split prod.split)

lemma started_parts:
  assumes "start_server P d w = (Inr R, w')"
  shows "(ru_certStore R \<noteq> None \<longleftrightarrow> ru_certStorage R \<noteq> None) \<and>
    (ru_certManager R \<longleftrightarrow> ru_acmeClient R \<noteq> None \<and> ru_certStorage R \<noteq> None) \<and>
    (ru_renewal R \<noteq> None \<longleftrightarrow> ru_certManager R) \<and> (IsRunning (ru_renewalState R) \<longleftrightarrow> ru_certManager R) \<and>
    pred_option (\<lambda>c. 0 < rn_CheckInterval c \<and> 0 < rn_RenewalDays c) (ru_renewal R) \<and>
    (\<exists>p. gd_DB (ru_db R) = Inr p \<and> sq_maxOpen p = 100 \<and> maxIdleConns p \<le> 100) \<and>
    pred_option (\<lambda>c. cl_directoryURL c =
        env_or (pf_env P) ''ACME_DIRECTORY_URL'' ''https://acme-staging-v02.api.letsencrypt.org/directory'') (ru_acmeClient R)"
proof -
  obtain cfg db0 db files w1 storage where
    s: "Load (pf_ParseFloat P) (pf_env P) = Inr cfg" "Connect (pf_open P) (pf_env P) (C_DatabaseURL cfg) = Inr db0"
    "Migrate (pf_migrate P) db0 = Inr db" and
    r: "ru_db R = db" "ru_certStorage R = (case storage of Inl err \<Rightarrow> None | Inr S \<Rightarrow> Some S)"
    "ru_certStore R = main_certStore P storage d w'"
    "ru_acmeClient R = (case NewACMEClient (pf_acme P) (main_acmeConfig cfg) (pf_remote P) of Inl err \<Rightarrow> None | Inr c \<Rightarrow> Some c)"
    "ru_certManager R \<longleftrightarrow> ru_acmeClient R \<noteq> None \<and> is_ok storage"
    "ru_renewal R = (if ru_certManager R then Some (NewCertRenewalService (main_renewalConfig (pf_ParseDuration P) cfg)) else None)"
    "ru_renewalState R = (if ru_certManager R then renewal_Start renewal_init else renewal_init)"
    using assms by (elim start_server_Inr) blast
  have pool: "\<exists>p. gd_DB db = Inr p \<and> sq_maxOpen p = 100 \<and> maxIdleConns p \<le> 100"
    using pool_is_limited [of "pf_open P" "pf_env P" "C_DatabaseURL cfg" db0 100] s(2,3) by (auto simp: Migrate_def split: sum.splits)
  have dir: "cl_directoryURL c = env_or (pf_env P) ''ACME_DIRECTORY_URL'' ''https://acme-staging-v02.api.letsencrypt.org/directory''"
    if "NewACMEClient (pf_acme P) (main_acmeConfig cfg) (pf_remote P) = Inr c" for c
  proof -
    have "C_ACMEDirectoryURL cfg = env_or (pf_env P) ''ACME_DIRECTORY_URL'' ''https://acme-staging-v02.api.letsencrypt.org/directory''"
      using s(1) by (auto simp: Load_def split: sum.splits if_splits)
    moreover from this have "C_ACMEDirectoryURL cfg \<noteq> []" by (simp add: env_or_def)
    ultimately show ?thesis using NewACMEClient_directory [OF that] by (simp add: main_acmeConfig_def)
  qed
  show ?thesis unfolding r(1)
    using pool dir main_renewalConfig_positive
    by (auto simp: r main_certStore_def NewCertificateStore_def is_ok_def IsRunning_def renewal_Start_def renewal_init_def split: sum.splits)
qed

text \<open>
  C28. What the server needs in order to start, and what it does without. It starts exactly when the configuration loads, the database is
  connected and migrated, and the attachment directory exists or can be made; certificates are not among these conditions. Once it runs,
  certificates are selected by name exactly when there is a certificate storage; the certificate manager and the renewal job exist exactly when
  there is an ACME client too, and the job runs with a positive interval and a positive number of days; the database pool is bounded.
  The ACME directory is that of \<^verbatim>\<open>ACME_DIRECTORY_URL\<close>, or else the staging one, whatever \<^verbatim>\<open>ACME_STAGING\<close> says.
\<close>

theorem startup_spec:
  "(is_ok (fst (start_server P d w)) \<longleftrightarrow>
      (\<exists>cfg db0. Load (pf_ParseFloat P) (pf_env P) = Inr cfg \<and> Connect (pf_open P) (pf_env P) (C_DatabaseURL cfg) = Inr db0 \<and>
         is_ok (Migrate (pf_migrate P) db0) \<and> is_ok (fst (NewLocalStorage (C_AttachmentStoragePath cfg) w)))) \<and>
   (case fst (start_server P d w) of
      Inl _ \<Rightarrow> True
    | Inr R \<Rightarrow>
        (ru_certStore R \<noteq> None \<longleftrightarrow> ru_certStorage R \<noteq> None) \<and>
        (ru_certManager R \<longleftrightarrow> ru_acmeClient R \<noteq> None \<and> ru_certStorage R \<noteq> None) \<and>
        (ru_renewal R \<noteq> None \<longleftrightarrow> ru_certManager R) \<and> (IsRunning (ru_renewalState R) \<longleftrightarrow> ru_certManager R) \<and>
        pred_option (\<lambda>c. 0 < rn_CheckInterval c \<and> 0 < rn_RenewalDays c) (ru_renewal R) \<and>
        (\<exists>p. gd_DB (ru_db R) = Inr p \<and> sq_maxOpen p = 100 \<and> maxIdleConns p \<le> 100) \<and>
        pred_option (\<lambda>c. cl_directoryURL c =
          env_or (pf_env P) ''ACME_DIRECTORY_URL'' ''https://acme-staging-v02.api.letsencrypt.org/directory'') (ru_acmeClient R))"
proof (rule conjI)
  show "case fst (start_server P d w) of
      Inl _ \<Rightarrow> True
    | Inr R \<Rightarrow>
        (ru_certStore R \<noteq> None \<longleftrightarrow> ru_certStorage R \<noteq> None) \<and>
        (ru_certManager R \<longleftrightarrow> ru_acmeClient R \<noteq> None \<and> ru_certStorage R \<noteq> None) \<and>
        (ru_renewal R \<noteq> None \<longleftrightarrow> ru_certManager R) \<and> (IsRunning (ru_renewalState R) \<longleftrightarrow> ru_certManager R) \<and>
        pred_option (\<lambda>c. 0 < rn_CheckInterval c \<and> 0 < rn_RenewalDays c) (ru_renewal R) \<and>
        (\<exists>p. gd_DB (ru_db R) = Inr p \<and> sq_maxOpen p = 100 \<and> maxIdleConns p \<le> 100) \<and>
        pred_option (\<lambda>c. cl_directoryURL c =
          env_or (pf_env P) ''ACME_DIRECTORY_URL'' ''https://acme-staging-v02.api.letsencrypt.org/directory'') (ru_acmeClient R)"
  proof (cases "start_server P d w")
    case (Pair r w')
    show ?thesis
    proof (cases r)
      case (Inr R)
      with Pair have "start_server P d w = (Inr R, w')" by simp
      from started_parts [OF this] show ?thesis by (simp add: Pair Inr)
    qed (simp add: Pair)
  qed
qed (rule start_server_ok_iff)

section \<open>Certificates after a restart\<close>

lemma os_MkdirAll_Inr: "os_MkdirAll p w = (Inr u, w') \<Longrightarrow> CHR 0x00 \<notin> set p"
  by (auto simp: os_MkdirAll_def os_check_def split: if_splits option.splits)

lemma NewCertStorage_ok:
  assumes "NewCertStorage x509 b w = (Inr S, w')"
  shows "S = certStorage x509 b \<and> os_same w w' \<and> os_files w' = os_files w \<and> b \<noteq> [] \<and> CHR 0x00 \<notin> set b"
proof (cases "os_MkdirAll b w")
  case (Pair r v)
  with assms show ?thesis using os_MkdirAll_same [OF Pair] os_MkdirAll_Inr [of b w _ v]
    by (auto simp: NewCertStorage_def split: if_splits sum.splits)
qed

lemma NewLocalStorage_ok: "NewLocalStorage b w = (Inr S, w') \<Longrightarrow> os_same w w' \<and> os_files w' = os_files w"
  using os_MkdirAll_same [of b w] by (auto simp: NewLocalStorage_def split: sum.splits prod.splits)

text \<open>A file that could be read can be read on any disk that has it.\<close>

lemma ReadFile_kept:
  assumes "os_ReadFile p w = Inr b" "os_same w w'" "os_files w' (fkey w p) = os_files w (fkey w p)"
  shows "os_ReadFile p w' = Inr b"
proof -
  have "fkey w' p = fkey w p" using assms(2) by (simp add: os_same_def fkey_def abs_path_def)
  with assms show ?thesis
    by (auto simp: os_ReadFile_def os_Open_def os_check_def os_same_def split: option.splits if_splits os_file.splits)
qed

lemma Stat_kept:
  assumes "is_ok (os_Stat p w)" "os_ReadFile p w = Inr b" "os_same w w'" "os_files w' (fkey w p) = os_files w (fkey w p)"
  shows "is_ok (os_Stat p w')"
proof -
  have "fkey w' p = fkey w p" using assms(3) by (simp add: os_same_def fkey_def abs_path_def)
  with assms show ?thesis
    by (auto simp: os_ReadFile_def os_Open_def os_Stat_def os_check_def os_same_def is_ok_def split: option.splits if_splits os_file.splits sum.splits)
qed

definition same_pair :: "string \<Rightarrow> string \<Rightarrow> osenv \<Rightarrow> osenv \<Rightarrow> bool" where
  "same_pair basePath n w w' \<longleftrightarrow> os_same w w' \<and>
     os_files w' (fkey w (GetCertificatePath basePath n)) = os_files w (fkey w (GetCertificatePath basePath n)) \<and>
     os_files w' (fkey w (GetKeyPath basePath n)) = os_files w (fkey w (GetKeyPath basePath n))"

lemma store_Load_kept:
  assumes "store_LoadCertificate x509pair (certStorage x509 b) n w = Inr c" "same_pair b n w w'"
  shows "store_LoadCertificate x509pair (certStorage x509 b) n w' = Inr c"
proof -
  obtain cb kb where r: "os_ReadFile (GetCertificatePath b n) w = Inr cb" "os_ReadFile (GetKeyPath b n) w = Inr kb"
    and x: "x509pair cb kb = Inr c" "n \<noteq> []" and e: "is_ok (os_Stat (GetCertificatePath b n) w)" "is_ok (os_Stat (GetKeyPath b n) w)"
    using assms(1) by (auto simp: store_LoadCertificate_def tls_LoadX509KeyPair_def certStorage_def CertificateExists_def Let_def
        split: if_splits sum.splits)
  have r': "os_ReadFile (GetCertificatePath b n) w' = Inr cb" "os_ReadFile (GetKeyPath b n) w' = Inr kb"
    using ReadFile_kept [OF r(1)] ReadFile_kept [OF r(2)] assms(2) by (simp_all add: same_pair_def)
  have "is_ok (os_Stat (GetCertificatePath b n) w')" "is_ok (os_Stat (GetKeyPath b n) w')"
    using Stat_kept [OF e(1) r(1)] Stat_kept [OF e(2) r(2)] assms(2) by (simp_all add: same_pair_def)
  with r' x show ?thesis
    by (simp add: store_LoadCertificate_def tls_LoadX509KeyPair_def certStorage_def CertificateExists_def)
qed

text \<open>
  C13. Certificates survive a restart. A certificate was saved for a domain and the database has a row for it. When the server is started again on a disk that still
  has the two files, with whatever else changed, and the rows can be read, the SMTP server presents that certificate to clients that ask for the
  domain or its \<^verbatim>\<open>mail.\<close> host, unless the environment names a fixed certificate or another row claims one of the names.
\<close>

theorem certificates_survive_restart:
  assumes G: "gorm_db (pf_gorm P)"
    and saved: "cs_SaveCertificate (certStorage (pf_x509 P) basePath) n (Some bundle) now w0 = (Inr sc, w1)"
      "basePath \<noteq> []" "CHR 0x00 \<notin> set basePath" "CHR 0x00 \<notin> set n" "no_read_faults w0"
      "pf_x509pair P (B_Certificate bundle) (B_PrivateKey bundle) = Inr c"
    and disk: "same_pair basePath n w1 w"
    and start: "start_server P d w = (Inr R, w')" "C_CertStoragePath (ru_cfg R) = basePath" "ru_certStorage R \<noteq> None"
    and rows: "cr_List (NewCertificateRepository (pf_gorm P)) d = Inr rs" "x \<in> set (t_certs d)" "C_DomainName x = n"
    and alone: "\<And>y. y \<in> set (t_certs d) \<Longrightarrow> ''mail.'' @ C_DomainName y \<noteq> n \<and> C_DomainName y \<noteq> ''mail.'' @ n"
    and unfixed: "\<And>v. load_pair (pf_x509pair P) (pf_env P ''SMTP_TLS_CERT'') (pf_env P ''SMTP_TLS_KEY'') v = None"
  shows "\<exists>st. ru_certStore R = Some st \<and> handshake (ru_smtp R) st n = Inr c \<and> handshake (ru_smtp R) st (''mail.'' @ n) = Inr c"
proof -
  obtain cfg files v storage where
    s: "NewLocalStorage (C_AttachmentStoragePath cfg) w = (Inr files, v)" "NewCertStorage (pf_x509 P) (C_CertStoragePath cfg) v = (storage, w')"
    and r: "ru_cfg R = cfg" "ru_certStorage R = (case storage of Inl err \<Rightarrow> None | Inr S \<Rightarrow> Some S)" "ru_certStore R = main_certStore P storage d w'"
      "ru_smtp R = main_smtp_server (pf_ParseDuration P) (pf_x509pair P) (pf_env P) (C_SMTPPort cfg) (ru_certStore R \<noteq> None) v w'"
    using start(1) by (elim start_server_Inr) blast
  obtain S where S: "storage = Inr S" using start(3) r(2) by (cases storage) auto
  note c = NewCertStorage_ok [OF s(2) [unfolded S]] and l = NewLocalStorage_ok [OF s(1)]
  have Sb: "S = certStorage (pf_x509 P) basePath" using c start(2) r(1) by simp
  have "same_pair basePath n w1 w'" using disk c l by (simp add: same_pair_def os_same_def)
  then have load: "store_LoadCertificate (pf_x509pair P) S n w' = Inr c"
    unfolding Sb using cert_files.saved_loads [where x509pair = "pf_x509pair P", OF certStorage_laws [OF saved(2,3)] saved(1,4,5,6)] by (rule store_Load_kept [rotated])
  have ne: "n \<noteq> []" using cert_files.saved_meta [OF certStorage_laws [OF saved(2,3)] saved(1)] by simp
  let ?s0 = "\<lparr>st_certificates = [], st_defaultCert = None, st_reloadCallbacks = [], st_notified = []\<rparr> :: 'b certificateStore"
  obtain st where reload: "ReloadAll (pf_x509pair P) S (Some (NewCertificateRepository (pf_gorm P))) d w' ?s0 = (Inr (), st)"
    using rows(1) by (simp add: ReloadAll_def)
  have st: "ru_certStore R = Some st" using r(3) reload by (simp add: S main_certStore_def NewCertificateStore_def)
  have m: "map_of (st_certificates st) n = Some c" "map_of (st_certificates st) (''mail.'' @ n) = Some c"
    using ReloadAll_replaces [OF G reload] rows(2,3) load alone by blast+
  then have "GetCertificateFunc st n = Inr c" "GetCertificateFunc st (''mail.'' @ n) = Inr c" using ne by (simp_all add: select_own)
  with st show ?thesis unfolding r(4) by (simp add: handshake_main unfixed)
qed

definition demo_platform :: "(nat, bytes, unit) platform" where
  "demo_platform =
     \<lparr>pf_env = (\<lambda>_. [])(''DATABASE_URL'' := ''postgres://db'', ''CERT_STORAGE_PATH'' := ''/c'', ''ATTACHMENT_STORAGE_PATH'' := ''/a'',
        ''ACME_STAGING'' := ''false''),
      pf_ParseFloat = (\<lambda>_. None), pf_ParseDuration = (\<lambda>_. None),
      pf_open = (\<lambda>_. Inr \<lparr>gd_handle = (), gd_DB = Inr \<lparr>sq_maxIdleCount = 0, sq_maxOpen = 0, sq_maxLifetime = 0, sq_maxIdleTime = 0, sq_closed = False\<rparr>\<rparr>),
      pf_migrate = (\<lambda>_. Inr), pf_gorm = mem_gorm 0, pf_x509 = (\<lambda>_. None), pf_x509pair = demo_pair, pf_acme = demo_api, pf_remote = 0\<rparr>"

theorem certificates_survive_restart_witness:
  "\<exists>sc w1 R w' st. cs_SaveCertificate (certStorage (\<lambda>c. None) ''/c'') ''a.b'' (Some demo_bundle) 5 demo_certos = (Inr sc, w1) \<and>
     start_server demo_platform (empty_db\<lparr>t_certs := [demo_cert_row]\<rparr>) w1 = (Inr R, w') \<and>
     ru_certStore R = Some st \<and> handshake (ru_smtp R) st ''mail.a.b'' = Inr ''CK''"
proof -
  let ?P = demo_platform and ?d = "empty_db\<lparr>t_certs := [demo_cert_row]\<rparr>"
  obtain sc w1 where s: "cs_SaveCertificate (certStorage (\<lambda>c. None) ''/c'') ''a.b'' (Some demo_bundle) 5 demo_certos = (Inr sc, w1)"
    using demo_saved by blast
  have w1: "w1 = snd (SaveCertificate (\<lambda>c. None) ''/c'' ''a.b'' (Some demo_bundle) 5 demo_certos)"
    using s by (simp add: certStorage_def)
  have "case fst (start_server ?P ?d w1) of Inl _ \<Rightarrow> False
      | Inr R \<Rightarrow> C_CertStoragePath (ru_cfg R) = ''/c'' \<and> \<not> Option.is_none (ru_certStorage R)" unfolding w1 by code_simp
  then obtain R w' where R: "start_server ?P ?d w1 = (Inr R, w')" "C_CertStoragePath (ru_cfg R) = ''/c''" "ru_certStorage R \<noteq> None"
    by (cases "start_server ?P ?d w1") (auto simp: Option.is_none_def split: sum.splits)
  have f: "no_read_faults demo_certos" by (simp add: no_read_faults_def demo_certos_def)
  have p: "pf_x509pair ?P (B_Certificate demo_bundle) (B_PrivateKey demo_bundle) = Inr ''CK''"
    by (simp add: demo_pair_def demo_bundle_def demo_platform_def)
  have e: "''/c'' \<noteq> []" "CHR 0x00 \<notin> set ''/c''" "CHR 0x00 \<notin> set ''a.b''" by simp_all
  have G: "gorm_db (pf_gorm ?P)" by (simp add: demo_platform_def mem.gorm_db_axioms)
  have s': "cs_SaveCertificate (certStorage (pf_x509 ?P) ''/c'') ''a.b'' (Some demo_bundle) 5 demo_certos = (Inr sc, w1)"
    using s by (simp add: demo_platform_def)
  have d: "same_pair ''/c'' ''a.b'' w1 w1" by (simp add: same_pair_def os_same_def)
  have "is_ok (cr_List (NewCertificateRepository (pf_gorm ?P)) ?d)" by code_simp
  then obtain rs where l: "cr_List (NewCertificateRepository (pf_gorm ?P)) ?d = Inr rs" by (auto simp: is_ok_iff)
  have x: "demo_cert_row \<in> set (t_certs ?d)" "C_DomainName demo_cert_row = ''a.b''" by (simp_all add: demo_cert_row_def)
  have a: "''mail.'' @ C_DomainName y \<noteq> ''a.b'' \<and> C_DomainName y \<noteq> ''mail.'' @ ''a.b''" if "y \<in> set (t_certs ?d)" for y
    using that by (simp add: demo_cert_row_def)
  have u: "load_pair (pf_x509pair ?P) (pf_env ?P ''SMTP_TLS_CERT'') (pf_env ?P ''SMTP_TLS_KEY'') v = None" for v
    by (simp add: load_pair_def demo_platform_def)
  have "\<exists>st. ru_certStore R = Some st \<and> handshake (ru_smtp R) st ''a.b'' = Inr ''CK'' \<and> handshake (ru_smtp R) st (''mail.'' @ ''a.b'') = Inr ''CK''"
    by (rule certificates_survive_restart [OF G s' e f p d R l x a u])
  with s R(1) show ?thesis by auto
qed

section \<open>How it stops\<close>

text \<open>A signal always ends the process; a failing listener does too, and takes the other one down with it.\<close>

lemma main_wait_ends:
  "Signalled sig \<in> set es \<Longrightarrow> main_wait es \<noteq> None"
  "SmtpReturns (Some e) \<in> set es \<Longrightarrow> main_wait es \<noteq> None"
  "HttpReturns (Some e) \<in> set es \<Longrightarrow> e \<noteq> http_ErrServerClosed \<Longrightarrow> main_wait es \<noteq> None"
  by (induction es rule: main_wait.induct) (auto split: option.split)

text \<open>
  Whatever fails on the way, the renewal job is stopped first and the database closed last. The ten seconds for open requests start before the
  renewal job is stopped, and stopping waits for the pass that is running: when that takes ten seconds, the deadline of the HTTP server
  has passed before its shutdown begins, and it waits for no request.
\<close>

theorem shutdown_order:
  assumes "gd_DB (ru_db R) = Inr p" "0 \<le> stop" "0 \<le> http"
  shows "\<exists>pre t1 t2. shutdown_calls R now stop http = pre @ [ShutdownHTTP t1 (now + 10 * second), CloseSMTP t2, CloseDB t2] \<and>
      pre = (if ru_renewal R = None then [] else [StopRenewal now]) \<and> now \<le> t1 \<and> t1 \<le> t2 \<and>
      (ru_renewal R = None \<longrightarrow> t1 = now) \<and> (ru_renewal R \<noteq> None \<and> 10 * second \<le> stop \<longrightarrow> now + 10 * second \<le> t1 \<and> t2 = t1)"
  using assms by (auto simp: shutdown_calls_def http_wait_def Let_def)

end
