(* ===== verification/SecurityLog.thy ===== *)
theory SecurityLog
  imports Prelude
begin

text \<open>
  \<^verbatim>\<open>internal/logger/security.go\<close>: the events of the security log. The handler of \<^verbatim>\<open>slog\<close> is the list of the records it was given, with the lowest
  level it keeps; a time stamp is a text.
\<close>

datatype slog_level = DebugLevel | InfoLevel | WarnLevel | ErrorLevel

record slog_record =
  SR_Level :: slog_level
  SR_Message :: string
  SR_Attrs :: "(string \<times> string) list"

record slog_handler =
  SH_Level :: slog_level
  SH_Records :: "slog_record list"

type_synonym SecurityLogger = slog_handler

fun level_number :: "slog_level \<Rightarrow> int" where
  "level_number DebugLevel = -4"
| "level_number InfoLevel = 0"
| "level_number WarnLevel = 4"
| "level_number ErrorLevel = 8"

definition slog_log :: "slog_level \<Rightarrow> string \<Rightarrow> (string \<times> string) list \<Rightarrow> slog_handler \<Rightarrow> slog_handler" where
  "slog_log level msg attrs h =
     (if level_number level < level_number (SH_Level h) then h
      else h\<lparr>SH_Records := SH_Records h @ [\<lparr>SR_Level = level, SR_Message = msg, SR_Attrs = attrs\<rparr>]\<rparr>)"

section \<open>security.go\<close>

definition NewSecurityLogger :: SecurityLogger where
  "NewSecurityLogger = \<lparr>SH_Level = InfoLevel, SH_Records = []\<rparr>"

definition NewSecurityLoggerWithHandler :: "slog_handler \<Rightarrow> SecurityLogger" where
  "NewSecurityLoggerWithHandler handler = handler"

definition AuthFailure :: "string \<Rightarrow> string \<Rightarrow> string \<Rightarrow> string \<Rightarrow> SecurityLogger \<Rightarrow> SecurityLogger" where
  "AuthFailure ip path reason now = slog_log WarnLevel ''authentication_failure''
     [(''event_type'', ''auth_failure''), (''ip'', ip), (''path'', path), (''reason'', reason), (''timestamp'', now)]"

definition RateLimitExceeded :: "string \<Rightarrow> string \<Rightarrow> string \<Rightarrow> SecurityLogger \<Rightarrow> SecurityLogger" where
  "RateLimitExceeded ip path now = slog_log WarnLevel ''rate_limit_exceeded''
     [(''event_type'', ''rate_limit''), (''ip'', ip), (''path'', path), (''timestamp'', now)]"

definition SuspiciousActivity :: "string \<Rightarrow> string \<Rightarrow> string \<Rightarrow> string \<Rightarrow> SecurityLogger \<Rightarrow> SecurityLogger" where
  "SuspiciousActivity ip path activity now = slog_log WarnLevel ''suspicious_activity''
     [(''event_type'', ''suspicious''), (''ip'', ip), (''path'', path), (''activity'', activity), (''timestamp'', now)]"

definition PathTraversalAttempt :: "string \<Rightarrow> string \<Rightarrow> string \<Rightarrow> string \<Rightarrow> SecurityLogger \<Rightarrow> SecurityLogger" where
  "PathTraversalAttempt ip path attemptedPath now = slog_log WarnLevel ''path_traversal_attempt''
     [(''event_type'', ''path_traversal''), (''ip'', ip), (''path'', path), (''attempted_path'', attemptedPath), (''timestamp'', now)]"

definition InvalidOrigin :: "string \<Rightarrow> string \<Rightarrow> string \<Rightarrow> SecurityLogger \<Rightarrow> SecurityLogger" where
  "InvalidOrigin ip origin now = slog_log WarnLevel ''invalid_origin''
     [(''event_type'', ''invalid_origin''), (''ip'', ip), (''origin'', origin), (''timestamp'', now)]"

definition BlockedFileUpload :: "string \<Rightarrow> string \<Rightarrow> string \<Rightarrow> string \<Rightarrow> SecurityLogger \<Rightarrow> SecurityLogger" where
  "BlockedFileUpload ip filename reason now = slog_log WarnLevel ''blocked_file_upload''
     [(''event_type'', ''blocked_upload''), (''ip'', ip), (''filename'', filename), (''reason'', reason), (''timestamp'', now)]"

definition isSensitiveKey :: "string \<Rightarrow> bool" where
  "isSensitiveKey key \<longleftrightarrow> key \<in> set [''password'', ''api_key'', ''apikey'', ''token'', ''secret'', ''authorization'', ''auth'',
     ''credential'', ''credentials'', ''session'', ''cookie'']"

text \<open>The details are a Go map; the list is the order in which the loop meets them.\<close>

definition SecurityEvent :: "string \<Rightarrow> string \<Rightarrow> (string \<times> string) list \<Rightarrow> string \<Rightarrow> SecurityLogger \<Rightarrow> SecurityLogger" where
  "SecurityEvent eventType ip details now = slog_log WarnLevel ''security_event''
     ([(''event_type'', eventType), (''ip'', ip), (''timestamp'', now)] @ filter (\<lambda>(k, v). \<not> isSensitiveKey k) details)"

definition sl_Info :: "string \<Rightarrow> (string \<times> string) list \<Rightarrow> SecurityLogger \<Rightarrow> SecurityLogger" where
  "sl_Info msg args = slog_log InfoLevel msg args"

definition sl_Error :: "string \<Rightarrow> (string \<times> string) list \<Rightarrow> SecurityLogger \<Rightarrow> SecurityLogger" where
  "sl_Error msg args = slog_log ErrorLevel msg args"

section \<open>Properties\<close>

datatype security_call =
    CallAuthFailure string string string string | CallRateLimit string string string | CallSuspicious string string string string
  | CallTraversal string string string string | CallOrigin string string string | CallUpload string string string string
  | CallEvent string string "(string \<times> string) list" string

fun security_step :: "security_call \<Rightarrow> SecurityLogger \<Rightarrow> SecurityLogger" where
  "security_step (CallAuthFailure ip path reason now) = AuthFailure ip path reason now"
| "security_step (CallRateLimit ip path now) = RateLimitExceeded ip path now"
| "security_step (CallSuspicious ip path activity now) = SuspiciousActivity ip path activity now"
| "security_step (CallTraversal ip path attempted now) = PathTraversalAttempt ip path attempted now"
| "security_step (CallOrigin ip origin now) = InvalidOrigin ip origin now"
| "security_step (CallUpload ip filename reason now) = BlockedFileUpload ip filename reason now"
| "security_step (CallEvent t ip details now) = SecurityEvent t ip details now"

definition clean_record :: "slog_record \<Rightarrow> bool" where
  "clean_record r \<longleftrightarrow> SR_Level r = WarnLevel \<and> take 2 (map fst (SR_Attrs r)) = [''event_type'', ''ip''] \<and>
     list_all (\<lambda>(k, v). \<not> isSensitiveKey k) (SR_Attrs r)"

lemma security_step_record:
  assumes "SH_Level l = InfoLevel"
  shows "\<exists>r. security_step c l = l\<lparr>SH_Records := SH_Records l @ [r]\<rparr> \<and> clean_record r"
  using assms
  by (cases c) (auto simp: AuthFailure_def RateLimitExceeded_def SuspiciousActivity_def PathTraversalAttempt_def InvalidOrigin_def
      BlockedFileUpload_def SecurityEvent_def slog_log_def clean_record_def isSensitiveKey_def list_all_iff)

text \<open>
  The security log of the process keeps one warning per event, in order, each with its type and address first and with no attribute under one of the
  sensitive names, whatever details an event is given.
\<close>

theorem security_log_clean:
  "\<exists>rs. fold security_step cs NewSecurityLogger = \<lparr>SH_Level = InfoLevel, SH_Records = rs\<rparr> \<and> length rs = length cs \<and> list_all clean_record rs"
proof (induction cs rule: rev_induct)
  case (snoc c cs)
  then obtain rs where r: "fold security_step cs NewSecurityLogger = \<lparr>SH_Level = InfoLevel, SH_Records = rs\<rparr>" "length rs = length cs"
    "list_all clean_record rs" by blast
  then show ?case using security_step_record [of "\<lparr>SH_Level = InfoLevel, SH_Records = rs\<rparr>" c] by auto
qed (simp add: NewSecurityLogger_def)

end
