(* ===== verification/WsClient.thy ===== *)
theory WsClient
  imports WsHub SecurityLog
begin

text \<open>
  \<^verbatim>\<open>internal/websocket/client.go\<close>: the two pumps of a client with their limits and timers, as functions of what happens on the connection.
  The connection (\<^verbatim>\<open>gorilla/websocket\<close>) is a list of timed events for the reader, and for the writer a list of events and, for each write,
  whether it works. \<open>WsHub\<close> runs the same pumps step by step together with the hub; here the read pump is shown to be a run of those steps.
\<close>

abbreviation writeWait :: duration where "writeWait \<equiv> 10 * second"
abbreviation pongWait :: duration where "pongWait \<equiv> 60 * second"
abbreviation pingPeriod :: duration where "pingPeriod \<equiv> pongWait * 9 div 10"
abbreviation maxMessageSize :: nat where "maxMessageSize \<equiv> 512"

section \<open>The read pump\<close>

text \<open>
  What arrives, with its time; after the last event nothing arrives any more, so that the read ends at its deadline. \<^verbatim>\<open>ReadMessage\<close> fails
  after the deadline, on a closed connection, and on a message over the limit. Only a pong moves the deadline.
\<close>

datatype incoming = Message bytes | Pong | ReadError

fun read_loop :: "time \<Rightarrow> (time \<times> incoming) list \<Rightarrow> bytes list" where
  "read_loop deadline [] = []"
| "read_loop deadline ((t, e) # es) =
     (if t > deadline then []
      else case e of
        ReadError \<Rightarrow> []
      | Pong \<Rightarrow> read_loop (t + pongWait) es
      | Message message \<Rightarrow> if length message > maxMessageSize then [] else message # read_loop deadline es)"

text \<open>The messages handed to \<open>handleMessage\<close>, in order; then the client leaves the hub, whatever ended the loop.\<close>

definition ReadPump :: "json \<Rightarrow> client \<Rightarrow> time \<Rightarrow> (time \<times> incoming) list \<Rightarrow> ws \<Rightarrow> ws" where
  "ReadPump J c start es s =
     (let s = fold (\<lambda>message s. client_act J c (handleMessage J message) s) (read_loop (start + pongWait) es) s in
      set_pc c Gone (do_unregister c s))"

section \<open>The write pump\<close>

datatype outgoing = FromHub bytes | HubClosed | PingTick

datatype ws_frame = TextFrame bytes | CloseFrame | PingFrame

fun WritePump :: "bool list \<Rightarrow> outgoing list \<Rightarrow> ws_frame list" where
  "WritePump works [] = []"
| "WritePump works (HubClosed # es) = [CloseFrame]"
| "WritePump [] (e # es) = []"
| "WritePump (ok # works) (FromHub message # es) = (if \<not> ok then [] else TextFrame message # WritePump works es)"
| "WritePump (ok # works) (PingTick # es) = (if \<not> ok then [] else PingFrame # WritePump works es)"

section \<open>The endpoint\<close>

text \<open>
  \<^verbatim>\<open>NewSecureUpgrader\<close> and \<^verbatim>\<open>DefaultUpgrader\<close> of \<^verbatim>\<open>origin.go\<close>, and the \<^verbatim>\<open>/ws\<close> handler of \<^verbatim>\<open>cmd/server/main.go\<close>. The upgrade itself is done by the
  library: \<open>Upgrade\<close> returns its error, if any, for the value of the \<^verbatim>\<open>Origin\<close> header. Registering is the rendezvous with the idle hub loop.
\<close>

record upgrader =
  up_CheckOrigin :: "string \<Rightarrow> bool"
  up_ReadBufferSize :: nat
  up_WriteBufferSize :: nat

definition NewSecureUpgrader :: "string \<Rightarrow> upgrader" where
  "NewSecureUpgrader env = \<lparr>up_CheckOrigin = ws_CheckOrigin env, up_ReadBufferSize = 1024, up_WriteBufferSize = 1024\<rparr>"

definition DefaultUpgrader :: upgrader where
  "DefaultUpgrader = \<lparr>up_CheckOrigin = (\<lambda>_. True), up_ReadBufferSize = 1024, up_WriteBufferSize = 1024\<rparr>"

definition ws_endpoint ::
  "(upgrader \<Rightarrow> string \<Rightarrow> 'e option) \<Rightarrow> string \<Rightarrow> string \<Rightarrow> string \<Rightarrow> string \<Rightarrow> client \<Rightarrow> ws \<times> SecurityLogger \<Rightarrow> 'e option \<times> ws \<times> SecurityLogger" where
  "ws_endpoint Upgrade env ip origin now c = (\<lambda>(s, log).
     case Upgrade (NewSecureUpgrader env) origin of
       Some err \<Rightarrow> (Some err, s, SuspiciousActivity ip ''/ws'' ''websocket_upgrade_failed'' now log)
     | None \<Rightarrow> (None, set_pc c Reading (s\<lparr>s_hub := hub_register c (s_hub s)\<rparr>), log))"

section \<open>Properties\<close>

text \<open>
  A browser page of an origin that is not allowed gets no connection, and its attempt is in the security log; a client that is let in comes in by a
  run of the hub's transition system. The library refuses what \<^verbatim>\<open>CheckOrigin\<close> refuses.
\<close>

theorem foreign_origin_refused:
  assumes "\<And>u h. \<not> up_CheckOrigin u h \<Longrightarrow> Upgrade u h \<noteq> None"
    and "origin \<noteq> []" "origin \<notin> set (ws_allowedOrigins env)" "SH_Level log = InfoLevel"
  shows "\<exists>err log'. ws_endpoint Upgrade env ip origin now c (s, log) = (Some err, s, log') \<and>
     map SR_Message (SH_Records log') = map SR_Message (SH_Records log) @ [''suspicious_activity'']"
proof -
  have "\<not> up_CheckOrigin (NewSecureUpgrader env) origin"
    using assms(2,3) by (auto simp: NewSecureUpgrader_def ws_CheckOrigin_def list_ex_iff)
  from assms(1) [OF this] assms(4) show ?thesis by (auto simp: ws_endpoint_def SuspiciousActivity_def slog_log_def)
qed

lemma accepted_client_runs:
  assumes "Upgrade (NewSecureUpgrader env) origin = None" "s_pc s c = Absent" "s_loop s = Idle"
  shows "\<exists>s'. ws_endpoint Upgrade env ip origin now c (s, log) = (None, s', log) \<and> (ws_step J)\<^sup>*\<^sup>* s s' \<and> s_pc s' c = Reading \<and>
     c \<in> set (clients (s_hub s'))"
proof -
  let ?h = "set_pc c Handshake s"
  have "ws_step J s ?h" using assms(2) by (rule ws_step.connect)
  moreover have "ws_step J ?h (set_pc c Reading (?h\<lparr>s_hub := hub_register c (s_hub ?h)\<rparr>))"
    using assms(3) by (intro ws_step.register) (simp_all add: set_pc_def)
  moreover have "set_pc c Reading (?h\<lparr>s_hub := hub_register c (s_hub ?h)\<rparr>) = set_pc c Reading (s\<lparr>s_hub := hub_register c (s_hub s)\<rparr>)"
    by (simp add: set_pc_def)
  ultimately have "(ws_step J)\<^sup>*\<^sup>* s (set_pc c Reading (s\<lparr>s_hub := hub_register c (s_hub s)\<rparr>))" by (metis rtranclp.simps)
  with assms(1) show ?thesis by (simp add: ws_endpoint_def set_pc_def hub_register_def)
qed

text \<open>Pings are sent often enough: the answer to one has six seconds to come before the read deadline.\<close>

lemma ping_before_deadline: "pingPeriod = 54 * second" "pingPeriod < pongWait"
  by simp_all

text \<open>The messages a client sends.\<close>

definition messages :: "(time \<times> incoming) list \<Rightarrow> bytes list" where
  "messages es = List.map_filter (\<lambda>(t, e). case e of Message m \<Rightarrow> Some m | _ \<Rightarrow> None) es"

text \<open>A client answers the \<open>k\<close>-th ping within the six seconds, as far as the events go.\<close>

definition answers_pings :: "time \<Rightarrow> (time \<times> incoming) list \<Rightarrow> bool" where
  "answers_pings start es \<longleftrightarrow> (\<forall>(t, e) \<in> set es. \<forall>k \<ge> 1. start + k * pingPeriod + (pongWait - pingPeriod) < t \<longrightarrow>
     (\<exists>p. (p, Pong) \<in> set es \<and> start + k * pingPeriod \<le> p \<and> p \<le> start + k * pingPeriod + (pongWait - pingPeriod)))"

definition well_behaved :: "time \<Rightarrow> (time \<times> incoming) list \<Rightarrow> bool" where
  "well_behaved start es \<longleftrightarrow> sorted (map fst es) \<and>
     list_all (\<lambda>(t, e). start \<le> t \<and> (case e of Message m \<Rightarrow> length m \<le> maxMessageSize | Pong \<Rightarrow> True | ReadError \<Rightarrow> False)) es"

lemma deadline_not_reached:
  assumes a: "answers_pings start (pre @ (t, e) # es)" and s: "sorted (map fst (pre @ (t, e) # es))"
    and d: "start + pongWait \<le> deadline" "\<And>p. (p, Pong) \<in> set pre \<Longrightarrow> p + pongWait \<le> deadline"
  shows "t \<le> deadline"
proof (rule ccontr)
  assume "\<not> t \<le> deadline"
  with d(1) have late: "start + 60 * second < t" by simp
  define k where "k = (t - start - 6 * second - 1) div (54 * second)"
  have k: "1 \<le> k" "k * (54 * second) \<le> t - start - 6 * second - 1" "t - start - 6 * second - 1 < k * (54 * second) + 54 * second"
  proof -
    have "k * (54 * second) + (t - start - 6 * second - 1) mod (54 * second) = t - start - 6 * second - 1"
      unfolding k_def by (rule div_mult_mod_eq)
    moreover have "0 \<le> (t - start - 6 * second - 1) mod (54 * second)" "(t - start - 6 * second - 1) mod (54 * second) < 54 * second"
      by simp_all
    ultimately show "1 \<le> k" "k * (54 * second) \<le> t - start - 6 * second - 1" "t - start - 6 * second - 1 < k * (54 * second) + 54 * second"
      using late by linarith+
  qed
  have "start + k * pingPeriod + (pongWait - pingPeriod) < t" using k(2) by simp
  moreover have "\<forall>k \<ge> 1. start + k * pingPeriod + (pongWait - pingPeriod) < t \<longrightarrow>
     (\<exists>p. (p, Pong) \<in> set (pre @ (t, e) # es) \<and> start + k * pingPeriod \<le> p \<and> p \<le> start + k * pingPeriod + (pongWait - pingPeriod))"
    using bspec [OF a [unfolded answers_pings_def], of "(t, e)"] by simp
  ultimately obtain p where p: "(p, Pong) \<in> set (pre @ (t, e) # es)" "start + k * pingPeriod \<le> p"
    "p \<le> start + k * pingPeriod + (pongWait - pingPeriod)"
    using k(1) by blast
  have "p < t" using p(3) k(2) by simp
  then have "(p, Pong) \<in> set pre" using p(1) s by (auto simp: sorted_append)
  from d(2) [OF this] p(2) k(3) \<open>\<not> t \<le> deadline\<close> show False by simp
qed

lemma read_loop_all:
  assumes "answers_pings start (pre @ es)" "well_behaved start (pre @ es)"
    and "start + pongWait \<le> deadline" "\<And>p. (p, Pong) \<in> set pre \<Longrightarrow> p + pongWait \<le> deadline"
  shows "read_loop deadline es = messages es"
  using assms
proof (induction es arbitrary: pre deadline)
  case (Cons x es)
  obtain t e where x: "x = (t, e)" by (cases x)
  have s: "sorted (map fst (pre @ (t, e) # es))" using Cons.prems(2) by (simp add: well_behaved_def x)
  have t: "t \<le> deadline"
    using deadline_not_reached [OF _ s Cons.prems(3,4)] Cons.prems(1) by (simp add: x)
  have snoc: "pre @ x # es = (pre @ [x]) @ es" by simp
  show ?case
  proof (cases e)
    case (Message m)
    have "read_loop deadline es = messages es"
      using Cons.prems Message x by (intro Cons.IH [of "pre @ [x]"]) auto
    with Message t Cons.prems(2) show ?thesis by (simp add: x messages_def well_behaved_def)
  next
    case Pong
    have "p \<le> t" if "(p, Pong) \<in> set pre" for p using that s by (force simp: sorted_append)
    moreover have "start \<le> t" using Cons.prems(2) by (simp add: x well_behaved_def)
    ultimately have "read_loop (t + pongWait) es = messages es"
      using Cons.prems(1,2) Pong x by (intro Cons.IH [of "pre @ [x]"]) auto
    with Pong t show ?thesis by (simp add: x messages_def)
  next
    case ReadError
    with Cons.prems(2) show ?thesis by (simp add: x well_behaved_def)
  qed
qed (simp add: messages_def)

text \<open>The read pump is a run of the transition system while the hub is idle: one \<open>frame\<close> step per message, then \<open>read_error\<close> and \<open>unregister\<close>.\<close>

lemma act_keeps: "s_pc (client_act J c a s) = s_pc s" "s_loop (client_act J c a s) = s_loop s"
  by (simp_all add: client_act_def set_chan_def split: client_action.split option.split)

lemma frames_run:
  "s_pc s c = Reading \<Longrightarrow> s_loop s = Idle \<Longrightarrow>
   (ws_step J)\<^sup>*\<^sup>* s (fold (\<lambda>m s. client_act J c (handleMessage J m) s) ms s) \<and>
   s_pc (fold (\<lambda>m s. client_act J c (handleMessage J m) s) ms s) = s_pc s \<and>
   s_loop (fold (\<lambda>m s. client_act J c (handleMessage J m) s) ms s) = Idle"
proof (induction ms arbitrary: s)
  case (Cons m ms)
  have "ws_step J s (client_act J c (handleMessage J m) s)"
    by (rule ws_step.frame [where data = m]) (use Cons.prems in auto)
  with Cons.IH [of "client_act J c (handleMessage J m) s"] Cons.prems show ?case
    by (auto simp: act_keeps intro: converse_rtranclp_into_rtranclp)
qed simp

text \<open>
  C16. A responsive client is never cut off. If the messages of a client stay within the size limit and it answers every ping within six seconds, then whatever
  else it sends and however long it stays, its read pump hands every one of its messages to the message handler, in order; and the pump is a run of the
  transition system of the hub that ends with the client unregistered.
\<close>

theorem responsive_client_is_served:
  assumes "answers_pings start es" and "well_behaved start es" and "s_pc s c = Reading" "s_loop s = Idle"
  shows "read_loop (start + pongWait) es = messages es \<and> (ws_step J)\<^sup>*\<^sup>* s (ReadPump J c start es s) \<and>
     s_pc (ReadPump J c start es s) c = Gone"
proof -
  let ?t = "fold (\<lambda>m s. client_act J c (handleMessage J m) s) (read_loop (start + pongWait) es) s"
  note f = frames_run [OF assms(3,4), of J "read_loop (start + pongWait) es"]
  have r: "ws_step J ?t (set_pc c Leaving ?t)" using f assms(3) by (intro ws_step.read_error) simp
  have u: "ws_step J (set_pc c Leaving ?t) (set_pc c Gone (do_unregister c (set_pc c Leaving ?t)))"
    using f by (intro ws_step.unregister) (simp_all add: set_pc_def)
  have e: "set_pc c Gone (do_unregister c (set_pc c Leaving ?t)) = ReadPump J c start es s"
    by (simp add: ReadPump_def Let_def set_pc_def do_unregister_def set_chan_def split: option.split)
  have "(ws_step J)\<^sup>*\<^sup>* s (ReadPump J c start es s)" using f r u unfolding e by (meson rtranclp.rtrancl_into_rtrancl)
  moreover have "read_loop (start + pongWait) es = messages es"
    using read_loop_all [of start "[]" es "start + pongWait"] assms(1,2) by simp
  ultimately show ?thesis by (simp add: ReadPump_def Let_def set_pc_def)
qed

definition demo_stream :: "(time \<times> incoming) list" where
  "demo_stream = [(10 * second, Message ''a''), (55 * second, Pong), (65 * second, Message ''b'')]"

theorem responsive_client_is_served_witness:
  "answers_pings 0 demo_stream \<and> well_behaved 0 demo_stream \<and> read_loop (0 + pongWait) demo_stream = [''a'', ''b''] \<and>
   s_pc (ReadPump demo_json 1 0 demo_stream (set_pc 1 Reading ws_init)) 1 = Gone"
proof -
  have a: "answers_pings 0 demo_stream" unfolding answers_pings_def demo_stream_def by auto presburger
  have w: "well_behaved 0 demo_stream" by (simp add: well_behaved_def demo_stream_def)
  have s: "s_pc (set_pc 1 Reading ws_init) 1 = Reading" "s_loop (set_pc 1 Reading ws_init) = Idle" by (simp_all add: set_pc_def ws_init_def)
  have "messages demo_stream = [''a'', ''b'']" by (simp add: messages_def demo_stream_def)
  with responsive_client_is_served [OF a w s, of demo_json] a w show ?thesis by simp
qed

text \<open>
  What the write pump sends is what it took from the channel, in the order it took it, until a write fails; a closed channel ends it with one
  close frame, after which nothing is sent.
\<close>

lemma WritePump_prefix:
  "\<exists>n. List.map_filter (\<lambda>f. case f of TextFrame m \<Rightarrow> Some m | _ \<Rightarrow> None) (WritePump works es) =
     take n (List.map_filter (\<lambda>e. case e of FromHub m \<Rightarrow> Some m | _ \<Rightarrow> None) es)"
proof (induction works es rule: WritePump.induct)
  case (4 ok works message es)
  then obtain n where "List.map_filter (\<lambda>f. case f of TextFrame m \<Rightarrow> Some m | _ \<Rightarrow> None) (WritePump works es) =
     take n (List.map_filter (\<lambda>e. case e of FromHub m \<Rightarrow> Some m | _ \<Rightarrow> None) es)" if ok by auto
  then show ?case by (cases ok) (auto intro: exI [of _ "Suc n"] exI [of _ 0])
qed (auto intro: exI [of _ 0])

lemma WritePump_closes:
  "\<not> list_ex (\<lambda>f. f = CloseFrame) (butlast (WritePump works es)) \<and>
   (list_all (\<lambda>e. e \<noteq> HubClosed) es \<and> length es \<le> length works \<and> list_all id works \<longrightarrow>
     WritePump works (es @ [HubClosed]) = map (\<lambda>e. case e of FromHub m \<Rightarrow> TextFrame m | _ \<Rightarrow> PingFrame) es @ [CloseFrame])"
  by (induction works es rule: WritePump.induct) auto

end
