(* ===== verification/HttpServer.thy ===== *)
theory HttpServer
  imports Lifecycle MailState Middleware
begin

text \<open>
  The API as a client meets it: \<^verbatim>\<open>internal/api/middleware/middleware.go\<close> and the chain that \<^verbatim>\<open>NewRouter\<close>
  (\<^verbatim>\<open>internal/api/router.go\<close>) puts before every handler, outermost first: recovery from panics, response headers, rate limiter,
  request log, and on the \<^verbatim>\<open>/api\<close> group the key check. The handlers are those of the domain and mail API; a request is a value of their
  request types together with the HTTP data the middleware looks at. Which headers CORS adds is up to the framework.
\<close>

section \<open>Handlers\<close>

datatype api_request = DomainRequest domain_request | MailRequest mail_request

datatype api_answer = DomainAnswer "domain_data response" | MailAnswer "api_data response" | FileAnswer file_download | Panic

fun domain_route :: "domain_request \<Rightarrow> string \<times> string" where
  "domain_route (PostDomain rnd body) = (''POST'', ''/api/domains'')"
| "domain_route (GetDomains q) = (''GET'', ''/api/domains'')"
| "domain_route (GetDomain i) = (''GET'', ''/api/domains/:id'')"
| "domain_route (PutDomain i body) = (''PUT'', ''/api/domains/:id'')"
| "domain_route (DeleteDomain i) = (''DELETE'', ''/api/domains/:id'')"
| "domain_route (GetDnsGuide i) = (''GET'', ''/api/domains/:id/dns-guide'')"
| "domain_route (GetDnsExport i q) = (''GET'', ''/api/domains/:id/dns-export'')"
| "domain_route (PostVerifyDns rnd ctx net i) = (''POST'', ''/api/domains/:id/verify-dns'')"
| "domain_route (PostGenerateCert i) = (''POST'', ''/api/domains/:id/generate-cert'')"
| "domain_route (GetDomainStatus i) = (''GET'', ''/api/domains/:id/status'')"
| "domain_route (PostRetry i resetTo) = (''POST'', ''/api/domains/:id/retry'')"
| "domain_route (PostRequestAcmeChallenge i) = (''POST'', ''/api/domains/:id/request-acme-challenge'')"
| "domain_route (PostVerifyAcmeDns i) = (''POST'', ''/api/domains/:id/verify-acme-dns'')"
| "domain_route (PostSubmitAcmeChallenge i) = (''POST'', ''/api/domains/:id/submit-acme-challenge'')"
| "domain_route (GetAcmeStatus i) = (''GET'', ''/api/domains/:id/acme-status'')"

fun mail_route :: "mail_request \<Rightarrow> string \<times> string" where
  "mail_route (PostMailbox body) = (''POST'', ''/api/mailboxes'')"
| "mail_route (PostRandomMailbox r1 r2 body) = (''POST'', ''/api/mailboxes/random'')"
| "mail_route (GetMailboxes i l q) = (''GET'', ''/api/mailboxes'')"
| "mail_route (GetMailbox i now) = (''GET'', ''/api/mailboxes/:id'')"
| "mail_route (DeleteMailbox i) = (''DELETE'', ''/api/mailboxes/:id'')"
| "mail_route (GetMessages i l q) = (''GET'', ''/api/mailboxes/:mailbox_id/messages'')"
| "mail_route (GetMessage i) = (''GET'', ''/api/messages/:id'')"
| "mail_route (PatchMessageRead i) = (''PATCH'', ''/api/messages/:id/read'')"
| "mail_route (DeleteMessage i) = (''DELETE'', ''/api/messages/:id'')"
| "mail_route (GetAttachments i) = (''GET'', ''/api/messages/:message_id/attachments'')"
| "mail_route (GetAttachment i) = (''GET'', ''/api/attachments/:id'')"
| "mail_route (GetAttachmentFile i w) = (''GET'', ''/api/attachments/:id/download'')"

fun api_route :: "api_request \<Rightarrow> string \<times> string" where
  "api_route (DomainRequest r) = domain_route r"
| "api_route (MailRequest r) = mail_route r"

text \<open>The services the router hands to the handlers.\<close>

record ('a, 'c) services =
  sv_gorm :: gorm
  sv_files :: FileStorage
  sv_domains :: "('a, 'c) DomainHandler"

fun api_handler :: "('a, 'c) services \<Rightarrow> api_request \<Rightarrow> (api_answer, ('a, 'c) CertManager.world) http_handler" where
  "api_handler S (DomainRequest r) w =
     (case serve_domain (sv_domains S) r w of
        (Responds a, w') \<Rightarrow> (Reply (DomainAnswer a), w')
      | (NilDereference, w') \<Rightarrow> (Reply Panic, w'))"
| "api_handler S (MailRequest r) w =
     (case serve_mail (sv_gorm S) (sv_files S) r (CertManager.w_db w) of
        (Inl a, d') \<Rightarrow> (Reply (MailAnswer a), w\<lparr>CertManager.w_db := d'\<rparr>)
      | (Inr f, d') \<Rightarrow> (Reply (FileAnswer f), w\<lparr>CertManager.w_db := d'\<rparr>))"

section \<open>middleware.go\<close>

fun answer_status :: "api_answer \<Rightarrow> nat" where
  "answer_status (DomainAnswer a) = resp_status a"
| "answer_status (MailAnswer a) = resp_status a"
| "answer_status (FileAnswer f) = 200"
| "answer_status Panic = 500"

record request_log =
  rl_method :: string
  rl_path :: string
  rl_status :: nat
  rl_remote_ip :: string

text \<open>
  \<^verbatim>\<open>RequestLogger\<close> reads the status of the response after the handler has returned. A handler that answers has set it; an error it
  returns is turned into a response by the framework only after the whole chain has returned, and until then the status is the initial
  200. A panic passes by it. \<open>path\<close> is the path of the URL.
\<close>

definition RequestLogger ::
  "http_request \<Rightarrow> string \<Rightarrow> (api_answer, 'w) http_handler \<Rightarrow> (api_answer, 'w \<times> request_log list) http_handler" where
  "RequestLogger rq path next_handler = (\<lambda>(w, log).
     case next_handler w of (r, w') \<Rightarrow>
       if r = Reply Panic then (r, (w', log))
       else (r, (w', log @ [\<lparr>rl_method = rq_method rq, rl_path = path,
              rl_status = (case r of Reply a \<Rightarrow> answer_status a | HTTPError _ _ _ \<Rightarrow> 200), rl_remote_ip = rq_ip rq\<rparr>])))"

definition Recover :: "(api_answer, 'w) http_handler \<Rightarrow> (api_answer, 'w) http_handler" where
  "Recover next_handler w =
     (case next_handler w of (r, w') \<Rightarrow> if r = Reply Panic then (HTTPError 500 ''Internal Server Error'' [], w') else (r, w'))"

text \<open>The options of \<^verbatim>\<open>CORS()\<close>, which the router does not use, and of \<^verbatim>\<open>SecureCORS()\<close>, which it does.\<close>

record CORSConfig =
  AllowOrigins :: "string list"
  AllowMethods :: "string list"
  AllowHeaders :: "string list"
  AllowCredentials :: bool
  MaxAge :: int

definition CORS :: CORSConfig where
  "CORS = \<lparr>AllowOrigins = [''*''], AllowMethods = [''GET'', ''POST'', ''PUT'', ''PATCH'', ''DELETE'', ''OPTIONS''],
     AllowHeaders = [''Origin'', ''Content-Type'', ''Accept'', ''Authorization''], AllowCredentials = False, MaxAge = 0\<rparr>"

definition SecureCORS :: "(string \<Rightarrow> string) \<Rightarrow> CORSConfig" where
  "SecureCORS env = \<lparr>AllowOrigins = SecureCORS_origins env,
     AllowMethods = [''GET'', ''POST'', ''PUT'', ''PATCH'', ''DELETE'', ''OPTIONS''],
     AllowHeaders = [''Origin'', ''Content-Type'', ''Accept'', ''Authorization'', ''X-API-Key''], AllowCredentials = True, MaxAge = 300\<rparr>"

section \<open>The chain of the router\<close>

type_synonym ('w, 'l) http_state = "('w \<times> request_log list) \<times> 'l IPRateLimiter"

record exchange =
  ex_rq :: http_request
  ex_path :: string
  ex_time :: time
  ex_req :: api_request

definition serve_http ::
  "('a, 'c) services \<Rightarrow> string \<Rightarrow> (time \<Rightarrow> 'l \<Rightarrow> bool \<times> 'l) \<Rightarrow> exchange \<Rightarrow> (('a, 'c) CertManager.world, 'l) http_state
     \<Rightarrow> ((string \<times> string) list \<times> api_answer reply) \<times> (('a, 'c) CertManager.world, 'l) http_state" where
  "serve_http S apiKey Allow e s =
     (let rq = ex_rq e;
          handler = api_handler S (ex_req e);
          guarded = (if grouped rq then APIKeyAuth apiKey rq handler else handler) in
      case Recover (RateLimiter Allow rq (ex_time e) (RequestLogger rq (ex_path e) guarded)) s of
        (r, s') \<Rightarrow> ((SecureHeaders (rq_https rq), r), s'))"

text \<open>The route of the HTTP request is the one of the handler.\<close>

definition routed :: "exchange \<Rightarrow> bool" where
  "routed e \<longleftrightarrow> (rq_method (ex_rq e), rq_route (ex_rq e)) = api_route (ex_req e)"

fun serve_all ::
  "('a, 'c) services \<Rightarrow> string \<Rightarrow> (time \<Rightarrow> 'l \<Rightarrow> bool \<times> 'l) \<Rightarrow> exchange list \<Rightarrow> (('a, 'c) CertManager.world, 'l) http_state
     \<Rightarrow> api_answer reply list \<times> (('a, 'c) CertManager.world, 'l) http_state" where
  "serve_all S apiKey Allow [] s = ([], s)"
| "serve_all S apiKey Allow (e # es) s =
     (case serve_http S apiKey Allow e s of ((h, r), s1) \<Rightarrow>
      case serve_all S apiKey Allow es s1 of (rs, s2) \<Rightarrow> (r # rs, s2))"

section \<open>Properties\<close>

lemma domain_route_grouped: "(fst (domain_route r), snd (domain_route r), True) \<in> set routes"
  by (cases r) (simp_all add: routes_def)

lemma mail_route_grouped: "(fst (mail_route r), snd (mail_route r), True) \<in> set routes"
  by (cases r) (simp_all add: routes_def)

lemma routed_grouped: "routed e \<Longrightarrow> grouped (ex_rq e)"
  using domain_route_grouped mail_route_grouped
  by (cases "ex_req e") (auto simp: routed_def grouped_def prod_eq_iff)

lemma serve_http_guarded:
  assumes "routed e" "apiKey \<noteq> []" "bearer_token (ex_rq e) \<noteq> apiKey"
  shows "\<exists>status msg code h log' i'. serve_http S apiKey Allow e ((w, log), i) = ((h, HTTPError status msg code), ((w, log'), i')) \<and>
     h = SecureHeaders (rq_https (ex_rq e)) \<and>
     (status = 401 \<and> log' = log @ [\<lparr>rl_method = rq_method (ex_rq e), rl_path = ex_path e, rl_status = 200, rl_remote_ip = rq_ip (ex_rq e)\<rparr>] \<or>
      status = 429 \<and> log' = log)"
proof -
  note g = routed_grouped [OF assms(1)]
  have a: "APIKeyAuth apiKey (ex_rq e) h v =
      (HTTPError 401 (if bearer_token (ex_rq e) = [] then ''missing API key'' else ''invalid API key'') ''UNAUTHORIZED'', v)"
    for h and v :: "('b, 'c) CertManager.world" using assms(2,3) by (simp add: APIKeyAuth_grouped [OF g])
  show ?thesis
    by (cases "rate_Allow Allow (rq_ip (ex_rq e)) (ex_time e) i")
      (simp add: serve_http_def Let_def g Recover_def RateLimiter_def RequestLogger_def a)
qed

text \<open>
  C8. Without the key the API cannot be used to change anything. With a key configured, let any number of requests arrive, to any of the domain and mail
  endpoints, none of them with the key: every one is answered 401 or 429, and the database, the disk, the certificates in memory and the state of
  the ACME client are afterwards what they were. One request with the key that the rate limiter lets through does run its handler, and the
  answer is the handler's, or 500 when it panics; every answer has the security headers.
\<close>

theorem no_change_without_key:
  assumes "apiKey \<noteq> []" and "\<And>e. e \<in> set es \<Longrightarrow> routed e \<and> bearer_token (ex_rq e) \<noteq> apiKey"
    and "routed good" "bearer_token (ex_rq good) = apiKey"
    and "rate_Allow Allow (rq_ip (ex_rq good)) (ex_time good) j = (True, j')"
  shows "(\<exists>rs log' i'. serve_all S apiKey Allow es ((w, log), i) = (rs, ((w, log'), i')) \<and> length rs = length es \<and>
       list_all (\<lambda>r. \<exists>status msg code. r = HTTPError status msg code \<and> (status = 401 \<or> status = 429)) rs) \<and>
     (\<exists>log'. serve_http S apiKey Allow good ((w, log), j) =
        ((SecureHeaders (rq_https (ex_rq good)),
          case fst (api_handler S (ex_req good) w) of Reply Panic \<Rightarrow> HTTPError 500 ''Internal Server Error'' [] | r \<Rightarrow> r),
         ((snd (api_handler S (ex_req good) w), log'), j')))"
proof (rule conjI)
  show "\<exists>rs log' i'. serve_all S apiKey Allow es ((w, log), i) = (rs, ((w, log'), i')) \<and> length rs = length es \<and>
       list_all (\<lambda>r. \<exists>status msg code. r = HTTPError status msg code \<and> (status = 401 \<or> status = 429)) rs"
    using assms(2)
  proof (induction es arbitrary: log i)
    case (Cons e es)
    from Cons.prems [of e] serve_http_guarded [OF _ assms(1), of e S Allow w log i]
    obtain status msg code h log1 i1 where
      s: "serve_http S apiKey Allow e ((w, log), i) = ((h, HTTPError status msg code), ((w, log1), i1))" "status = 401 \<or> status = 429"
      by auto
    from Cons.IH [of log1 i1] Cons.prems obtain rs log' i' where
      "serve_all S apiKey Allow es ((w, log1), i1) = (rs, ((w, log'), i'))" "length rs = length es"
      "list_all (\<lambda>r. \<exists>status msg code. r = HTTPError status msg code \<and> (status = 401 \<or> status = 429)) rs"
      by auto
    with s show ?case by auto
  qed simp
next
  note g = routed_grouped [OF assms(3)]
  have a: "APIKeyAuth apiKey (ex_rq good) h v = h v" for h :: "(api_answer, ('b, 'c) CertManager.world) http_handler" and v
    using APIKeyAuth_grouped [OF g assms(1)] assms(4) by simp
  obtain r w' where h: "api_handler S (ex_req good) w = (r, w')" by fastforce
  show "\<exists>log'. serve_http S apiKey Allow good ((w, log), j) =
        ((SecureHeaders (rq_https (ex_rq good)),
          case fst (api_handler S (ex_req good) w) of Reply Panic \<Rightarrow> HTTPError 500 ''Internal Server Error'' [] | r \<Rightarrow> r),
         ((snd (api_handler S (ex_req good) w), log'), j'))"
    by (simp add: serve_http_def Let_def g Recover_def RateLimiter_def RequestLogger_def a h assms(5) split: reply.split api_answer.split)
qed

definition demo_services :: "(nat, bytes) services" where
  "demo_services = \<lparr>sv_gorm = mem_gorm 0, sv_files = localStorage ''/a'',
     sv_domains = app_handler (mem_gorm 0) ''/c'' demo_out 0 ''h'' ''1.2.3.4'' True\<rparr>"

definition demo_exchange :: "string \<Rightarrow> exchange" where
  "demo_exchange key = \<lparr>ex_rq = \<lparr>rq_method = ''DELETE'', rq_route = ''/api/mailboxes/:id'', rq_XAPIKey = key, rq_Authorization = [], rq_ip = ''10.0.0.1'',
     rq_https = True\<rparr>, ex_path = ''/api/mailboxes/1'', ex_time = 0, ex_req = MailRequest (DeleteMailbox ''1'')\<rparr>"

theorem no_change_without_key_witness:
  "\<exists>rs log' i'. serve_all demo_services ''k'' (\<lambda>_ n. (0 < n, n - 1)) [demo_exchange ''x'', demo_exchange []]
     ((CertManager.demo_world StatusActive, []), NewIPRateLimiter (1::nat)) = (rs, ((CertManager.demo_world StatusActive, log'), i')) \<and> length rs = 2"
proof -
  have r: "routed (demo_exchange key)" for key by (simp add: routed_def demo_exchange_def)
  have t: "bearer_token (ex_rq (demo_exchange ''x'')) = ''x''" "bearer_token (ex_rq (demo_exchange [])) = []"
    "bearer_token (ex_rq (demo_exchange ''k'')) = ''k''" by (simp_all add: demo_exchange_def bearer_token_def)
  have bad: "routed e \<and> bearer_token (ex_rq e) \<noteq> ''k''" if "e \<in> set [demo_exchange ''x'', demo_exchange []]" for e
    using that r t by auto
  have a: "rate_Allow (\<lambda>_ n. (0 < n, n - 1)) (rq_ip (ex_rq (demo_exchange ''k''))) (ex_time (demo_exchange ''k'')) (NewIPRateLimiter (1::nat)) =
      (True, \<lparr>limiters = [''10.0.0.1'' \<mapsto> 0], newLimiter = 1\<rparr>)"
    by (simp add: rate_Allow_def GetLimiter_def NewIPRateLimiter_def demo_exchange_def)
  have k: "''k'' \<noteq> []" by simp
  note n = no_change_without_key [where es = "[demo_exchange ''x'', demo_exchange []]" and S = demo_services and log = "[]"
    and w = "CertManager.demo_world StatusActive" and i = "NewIPRateLimiter (1::nat)", OF k bad r t(3) a]
  have "length [demo_exchange ''x'', demo_exchange []] = 2" by simp
  with conjunct1 [OF n] show ?thesis by metis
qed

text \<open>Credentials are never combined with the wildcard in production, whatever is configured.\<close>

lemma SecureCORS_production: "env ''APP_ENV'' = ''production'' \<Longrightarrow> AllowOrigins (SecureCORS env) \<noteq> [] \<and> ''*'' \<notin> set (AllowOrigins (SecureCORS env))"
  by (auto simp: SecureCORS_def SecureCORS_origins_def Let_def)

text \<open>
  The request log does not show refusals by the key check: the entry of such a request says 200.
\<close>

theorem refused_request_logged_as_ok:
  assumes "routed e" "apiKey \<noteq> []" "bearer_token (ex_rq e) \<noteq> apiKey" "rate_Allow Allow (rq_ip (ex_rq e)) (ex_time e) i = (True, i')"
  shows "\<exists>h msg code. serve_http S apiKey Allow e ((w, log), i) = ((h, HTTPError 401 msg code),
     ((w, log @ [\<lparr>rl_method = rq_method (ex_rq e), rl_path = ex_path e, rl_status = 200, rl_remote_ip = rq_ip (ex_rq e)\<rparr>]), i'))"
  using assms(2-4) routed_grouped [OF assms(1)]
  by (simp add: serve_http_def Let_def Recover_def RateLimiter_def RequestLogger_def APIKeyAuth_grouped)

end
