(* ===== verification/LogPages.thy ===== *)
theory LogPages
  imports Diagnostics Utf8
begin

text \<open>
  The two HTML pages of \<^verbatim>\<open>internal/api/handlers/acme_log_handler.go\<close>, character by character: the fixed text of the templates is quoted line by line (characters
  outside ASCII as their UTF-8 bytes) and the texts of the log are put in with the escaping functions of \<^verbatim>\<open>html/template\<close>. The formats of times, JSON
  encoding and the Unicode table of printable runes are parameters.
\<close>

section \<open>Escaping\<close>

abbreviation backslash :: char where "backslash \<equiv> CHR 0x5C"
abbreviation dquote :: char where "dquote \<equiv> CHR 0x22"
abbreviation newline :: string where "newline \<equiv> [CHR 0x0A]"

definition hex_digit :: "nat \<Rightarrow> char" where
  "hex_digit n = (if n < 10 then char_of (48 + n) else char_of (55 + n))"

fun hex_digits :: "nat \<Rightarrow> string" where
  "hex_digits n = (if n < 16 then [hex_digit n] else hex_digits (n div 16) @ [hex_digit (n mod 16)])"

declare hex_digits.simps [simp del]

text \<open>The verb \<^verbatim>\<open>%04X\<close>.\<close>

definition hex4 :: "nat \<Rightarrow> string" where
  "hex4 n = (let h = hex_digits n in replicate (4 - length h) CHR ''0'' @ h)"

text \<open>\<^verbatim>\<open>template.JSEscapeString\<close>.\<close>

function JSEscapeString :: "(rune \<Rightarrow> bool) \<Rightarrow> string \<Rightarrow> string" where
  "JSEscapeString IsPrint [] = []"
| "JSEscapeString IsPrint (c # cs) =
     (if c = backslash \<or> c = CHR 0x27 \<or> c = dquote then [backslash, c] @ JSEscapeString IsPrint cs
      else if c \<in> set ''<>&='' \<or> ord c < 32
      then [backslash] @ ''u00'' @ [hex_digit (ord c div 16), hex_digit (ord c mod 16)] @ JSEscapeString IsPrint cs
      else if ord c < 0x80 then c # JSEscapeString IsPrint cs
      else
        (if IsPrint (fst (DecodeRune (c # cs))) then take (snd (DecodeRune (c # cs))) (c # cs)
         else [backslash] @ ''u'' @ hex4 (fst (DecodeRune (c # cs)))) @
        JSEscapeString IsPrint (drop (snd (DecodeRune (c # cs))) (c # cs)))"
  by pat_completeness auto
termination
  by (relation "measure (\<lambda>(p, s). length s)") (auto simp: DecodeRune_width)

declare JSEscapeString.simps(2) [simp del]

section \<open>The list of logs\<close>

definition text_lines :: "string list \<Rightarrow> string" where
  "text_lines ls = Join ls newline"

text \<open>Division of Go, towards zero.\<close>

definition go_div :: "int \<Rightarrow> int \<Rightarrow> int" where
  "go_div a b = sgn a * sgn b * (\<bar>a\<bar> div \<bar>b\<bar>)"

definition list_page_styles :: string where
  "list_page_styles = text_lines
     [''<!DOCTYPE html>'',
      ''<html lang=\"en\">'',
      ''<head>'',
      ''    <meta charset=\"UTF-8\">'',
      ''    <meta name=\"viewport\" content=\"width=device-width, initial-scale=1.0\">'',
      ''    <title>ACME Certificate Logs</title>'',
      ''    <style>'',
      ''        * { box-sizing: border-box; }'',
      ''        body { '',
      ''            font-family: -apple-system, BlinkMacSystemFont, 'Segoe UI', Roboto, sans-serif;'',
      ''            max-width: 1200px; '',
      ''            margin: 0 auto; '',
      ''            padding: 20px;'',
      ''            background: #f5f5f5;'',
      ''        }'',
      ''        h1 { color: #333; border-bottom: 2px solid #007bff; padding-bottom: 10px; }'',
      ''        .log-list { list-style: none; padding: 0; }'',
      ''        .log-item { '',
      ''            background: white; '',
      ''            margin: 10px 0; '',
      ''            padding: 15px 20px; '',
      ''            border-radius: 8px;'',
      ''            box-shadow: 0 2px 4px rgba(0,0,0,0.1);'',
      ''            display: flex;'',
      ''            justify-content: space-between;'',
      ''            align-items: center;'',
      ''        }'',
      ''        .log-item:hover { box-shadow: 0 4px 8px rgba(0,0,0,0.15); }'',
      ''        .domain { font-weight: bold; font-size: 1.1em; color: #333; }'',
      ''        .status { '',
      ''            padding: 4px 12px; '',
      ''            border-radius: 20px; '',
      ''            font-size: 0.85em;'',
      ''            font-weight: 500;'',
      ''        }'',
      ''        .status-success { background: #d4edda; color: #155724; }'',
      ''        .status-failed { background: #f8d7da; color: #721c24; }'',
      ''        .status-in_progress { background: #fff3cd; color: #856404; }'',
      ''        .meta { color: #666; font-size: 0.9em; }'',
      ''        .error-summary { color: #dc3545; font-size: 0.85em; margin-top: 5px; }'',
      ''        .progress-bar {'',
      ''            width: 100px;'',
      ''            height: 6px;'',
      ''            background: #e9ecef;'',
      ''            border-radius: 3px;'',
      ''            overflow: hidden;'']"

definition list_page_head :: string where
  "list_page_head = text_lines
     [''            margin-top: 5px;'',
      ''        }'',
      ''        .progress-fill {'',
      ''            height: 100%;'',
      ''            background: #007bff;'',
      ''            transition: width 0.3s ease;'',
      ''        }'',
      ''        a { color: #007bff; text-decoration: none; }'',
      ''        a:hover { text-decoration: underline; }'',
      ''        .empty { text-align: center; padding: 40px; color: #666; }'',
      ''        .btn {'',
      ''            border: none;'',
      ''            padding: 8px 16px;'',
      ''            border-radius: 4px;'',
      ''            cursor: pointer;'',
      ''            font-size: 0.9em;'',
      ''            margin-right: 8px;'',
      ''        }'',
      ''        .btn-primary { background: #007bff; color: white; }'',
      ''        .btn-primary:hover { background: #0056b3; }'',
      ''        .header-actions {'',
      ''            display: flex;'',
      ''            align-items: center;'',
      ''            gap: 10px;'',
      ''            margin-bottom: 20px;'',
      ''        }'',
      ''        .auto-refresh-label { font-size: 0.9em; color: #666; }'',
      ''    </style>'',
      ''</head>'',
      ''<body>'',
      ''    <h1>'' @ [CHR 0xF0, CHR 0x9F, CHR 0x94, CHR 0x90] @ '' ACME Certificate Logs</h1>'',
      ''    <div class=\"header-actions\">'',
      ''        <button class=\"btn btn-primary\" onclick=\"location.reload()\">'' @ [CHR 0xF0, CHR 0x9F, CHR 0x94, CHR 0x84] @ '' Refresh</button>'',
      ''        <label class=\"auto-refresh-label\">'',
      ''            <input type=\"checkbox\" id=\"autoRefresh\" onchange=\"toggleAutoRefresh()\"> Auto-refresh (10s)'',
      ''        </label>'',
      ''    </div>'',
      []]"

definition list_page_item :: "(time \<Rightarrow> string) \<Rightarrow> DomainSetupLogSummary \<Rightarrow> string" where
  "list_page_item rfc3339 log =
     (let statusClass = ''status-'' @ S_Status log;
          progressPercent = (if S_TotalSteps log > 0 then go_div (S_CurrentStep log * 100) (S_TotalSteps log) else 0);
          errorSummary = (if length (S_ErrorSummary log) > 100 then take 100 (S_ErrorSummary log) @ ''...'' else S_ErrorSummary log) in
      text_lines
       [''<li class=\"log-item\">'',
      ''                <div>'',
      ''                    <a href=\"/acme/logs/'' @ HTMLEscapeString (S_Domain log) @ ''\" class=\"domain\">'' @ HTMLEscapeString (S_Domain log) @ ''</a>'',
      ''                    <div class=\"meta\">'',
      ''                        Started: '' @ rfc3339 (S_StartedAt log) @ '' | '',
      ''                        Updated: '' @ rfc3339 (S_UpdatedAt log) @ '' |'',
      ''                        Entries: '' @ intToString (int (S_EntryCount log)),
      ''                    </div>''] @
      (if S_Status log = ''in_progress'' \<and> S_TotalSteps log > 0
       then ''<div class=\"progress-bar\"><div class=\"progress-fill\" style=\"width: '' @ intToString progressPercent @ ''%\"></div></div>''
       else []) @
      (if S_Status log = ''failed'' \<and> S_ErrorSummary log \<noteq> []
       then ''<div class=\"error-summary\">'' @ [CHR 0xE2, CHR 0x9D, CHR 0x8C] @ '' '' @ HTMLEscapeString errorSummary @ ''</div>''
       else []) @
      text_lines
       [''</div>'',
      ''                <span class=\"status '' @ statusClass @ ''\">'' @ HTMLEscapeString (S_Status log) @ ''</span>'',
      ''            </li>''])"

definition list_page_script :: string where
  "list_page_script = text_lines
     [[],
      ''    <script>'',
      ''        let autoRefreshInterval = null;'',
      ''        '',
      ''        function toggleAutoRefresh() {'',
      ''            const checkbox = document.getElementById('autoRefresh');'',
      ''            if (checkbox.checked) {'',
      ''                autoRefreshInterval = setInterval(() => location.reload(), 10000);'',
      ''            } else {'',
      ''                if (autoRefreshInterval) {'',
      ''                    clearInterval(autoRefreshInterval);'',
      ''                    autoRefreshInterval = null;'',
      ''                }'',
      ''            }'',
      ''        }'',
      ''    </script>'',
      ''</body></html>'']"

definition generateLogsListHTML :: "(time \<Rightarrow> string) \<Rightarrow> DomainSetupLogSummary list \<Rightarrow> string" where
  "generateLogsListHTML rfc3339 logs =
     list_page_styles @ newline @ list_page_head @
     (if length logs = 0 then ''<div class=\"empty\">No ACME logs found. Certificate generation logs will appear here.</div>''
      else ''<ul class=\"log-list\">'' @ concat (map (list_page_item rfc3339) logs) @ ''</ul>'') @
     list_page_script"

section \<open>The log of one domain\<close>

fun level_name :: "log_level \<Rightarrow> string" where
  "level_name LevelInfo = ''INFO''"
| "level_name LevelWarning = ''WARNING''"
| "level_name LevelError = ''ERROR''"
| "level_name LevelDebug = ''DEBUG''"

definition page_title :: "DomainSetupLog \<Rightarrow> string" where
  "page_title log = text_lines
     [''<!DOCTYPE html>'',
      ''<html lang=\"en\">'',
      ''<head>'',
      ''    <meta charset=\"UTF-8\">'',
      ''    <meta name=\"viewport\" content=\"width=device-width, initial-scale=1.0\">'',
      ''    <title>ACME Log: '' @ HTMLEscapeString (L_Domain log) @ ''</title>'']"

definition page_styles :: string where
  "page_styles = text_lines
     [''    <style>'',
      ''        * { box-sizing: border-box; }'',
      ''        body { '',
      ''            font-family: -apple-system, BlinkMacSystemFont, 'Segoe UI', Roboto, sans-serif;'',
      ''            max-width: 1200px; '',
      ''            margin: 0 auto; '',
      ''            padding: 20px;'',
      ''            background: #f5f5f5;'',
      ''        }'',
      ''        h1 { color: #333; }'',
      ''        .back-link { margin-bottom: 20px; display: inline-block; }'',
      ''        .header { '',
      ''            background: white; '',
      ''            padding: 20px; '',
      ''            border-radius: 8px;'',
      ''            margin-bottom: 20px;'',
      ''            box-shadow: 0 2px 4px rgba(0,0,0,0.1);'',
      ''        }'',
      ''        .status { '',
      ''            padding: 4px 12px; '',
      ''            border-radius: 20px; '',
      ''            font-size: 0.85em;'',
      ''            font-weight: 500;'',
      ''            display: inline-block;'',
      ''        }'',
      ''        .status-success { background: #d4edda; color: #155724; }'',
      ''        .status-failed { background: #f8d7da; color: #721c24; }'',
      ''        .status-in_progress { background: #fff3cd; color: #856404; }'',
      ''        .meta { color: #666; font-size: 0.9em; margin-top: 10px; }'',
      ''        .entries { list-style: none; padding: 0; }'',
      ''        .entry { '',
      ''            background: white; '',
      ''            margin: 8px 0; '',
      ''            padding: 12px 16px; '',
      ''            border-radius: 6px;'',
      ''            box-shadow: 0 1px 3px rgba(0,0,0,0.1);'',
      ''            border-left: 4px solid #ccc;'',
      ''        }'',
      ''        .entry-INFO { border-left-color: #17a2b8; }'',
      ''        .entry-WARNING { border-left-color: #ffc107; }'',
      ''        .entry-ERROR { border-left-color: #dc3545; }'',
      ''        .entry-DEBUG { border-left-color: #6c757d; }'',
      ''        .entry-header { '',
      ''            display: flex; '',
      ''            justify-content: space-between; '',
      ''            align-items: center;'',
      ''            margin-bottom: 8px;'',
      ''        }'',
      ''        .level { '',
      ''            font-weight: bold; '',
      ''            font-size: 0.8em;'',
      ''            padding: 2px 8px;'',
      ''            border-radius: 4px;'',
      ''        }'',
      ''        .level-INFO { background: #d1ecf1; color: #0c5460; }'',
      ''        .level-WARNING { background: #fff3cd; color: #856404; }'',
      ''        .level-ERROR { background: #f8d7da; color: #721c24; }'',
      ''        .level-DEBUG { background: #e2e3e5; color: #383d41; }'',
      ''        .timestamp { color: #666; font-size: 0.85em; }'',
      ''        .step { color: #007bff; font-weight: 500; }'',
      ''        .message { margin: 8px 0; }'',
      ''        .details { '',
      ''            background: #f8f9fa; '',
      ''            padding: 10px; '',
      ''            border-radius: 4px;'',
      ''            font-family: monospace;'',
      ''            font-size: 0.9em;'',
      ''            white-space: pre-wrap;'',
      ''            word-break: break-all;'']"

definition page_widget_styles :: string where
  "page_widget_styles = text_lines
     [''            margin-top: 8px;'',
      ''        }'',
      ''        a { color: #007bff; text-decoration: none; }'',
      ''        a:hover { text-decoration: underline; }'',
      ''        .btn {'',
      ''            border: none;'',
      ''            padding: 8px 16px;'',
      ''            border-radius: 4px;'',
      ''            cursor: pointer;'',
      ''            font-size: 0.9em;'',
      ''            margin-right: 8px;'',
      ''        }'',
      ''        .btn-primary { background: #007bff; color: white; }'',
      ''        .btn-primary:hover { background: #0056b3; }'',
      ''        .btn-success { background: #28a745; color: white; }'',
      ''        .btn-success:hover { background: #218838; }'',
      ''        .btn-secondary { background: #6c757d; color: white; }'',
      ''        .btn-secondary:hover { background: #5a6268; }'',
      ''        .filter-bar {'',
      ''            margin: 15px 0;'',
      ''            padding: 10px;'',
      ''            background: white;'',
      ''            border-radius: 6px;'',
      ''            display: flex;'',
      ''            align-items: center;'',
      ''            flex-wrap: wrap;'',
      ''            gap: 10px;'',
      ''        }'',
      ''        .filter-bar label { margin-right: 15px; cursor: pointer; }'',
      ''        .action-bar {'',
      ''            display: flex;'',
      ''            align-items: center;'',
      ''            gap: 8px;'',
      ''            margin-bottom: 15px;'',
      ''        }'',
      ''        .toast {'',
      ''            position: fixed;'',
      ''            bottom: 20px;'',
      ''            right: 20px;'',
      ''            background: #28a745;'',
      ''            color: white;'',
      ''            padding: 12px 24px;'',
      ''            border-radius: 6px;'',
      ''            box-shadow: 0 4px 12px rgba(0,0,0,0.2);'',
      ''            display: none;'',
      ''            z-index: 1000;'',
      ''            animation: slideIn 0.3s ease;'',
      ''        }'',
      ''        @keyframes slideIn {'',
      ''            from { transform: translateX(100%); opacity: 0; }'',
      ''            to { transform: translateX(0); opacity: 1; }'',
      ''        }'',
      ''        .json-modal {'',
      ''            display: none;'',
      ''            position: fixed;'',
      ''            top: 0;'',
      ''            left: 0;'',
      ''            width: 100%;'',
      ''            height: 100%;'',
      ''            background: rgba(0,0,0,0.5);'',
      ''            z-index: 999;'',
      ''            justify-content: center;'',
      ''            align-items: center;'',
      ''        }'',
      ''        .json-modal-content {'',
      ''            background: white;'',
      ''            padding: 20px;'',
      ''            border-radius: 8px;'',
      ''            max-width: 90%;'',
      ''            max-height: 80%;'',
      ''            overflow: auto;'',
      ''            position: relative;'',
      ''        }'',
      ''        .json-modal-close {'',
      ''            position: absolute;'',
      ''            top: 10px;'',
      ''            right: 15px;'',
      ''            font-size: 24px;'',
      ''            cursor: pointer;'',
      ''            color: #666;'',
      ''        }'',
      ''        .json-modal-close:hover { color: #333; }'',
      ''        .json-content {'',
      ''            background: #1e1e1e;'',
      ''            color: #d4d4d4;'',
      ''            padding: 15px;'',
      ''            border-radius: 6px;'',
      ''            font-family: 'Consolas', 'Monaco', monospace;'',
      ''            font-size: 12px;'',
      ''            white-space: pre-wrap;'',
      ''            word-break: break-all;'',
      ''            max-height: 60vh;'',
      ''            overflow: auto;'',
      ''        }'',
      ''        .json-modal-actions {'',
      ''            margin-top: 15px;'',
      ''            display: flex;'',
      ''            gap: 10px;'']"

definition page_actions :: string where
  "page_actions = text_lines
     [''        }'',
      ''    </style>'',
      ''</head>'',
      ''<body>'',
      ''    <a href=\"/acme/logs\" class=\"back-link\">'' @ [CHR 0xE2, CHR 0x86, CHR 0x90] @ '' Back to all logs</a>'',
      ''    '',
      ''    <div class=\"action-bar\" style=\"float:right\">'',
      ''        <button class=\"btn btn-success\" onclick=\"copyJSON()\">'' @ [CHR 0xF0, CHR 0x9F, CHR 0x93, CHR 0x8B] @ '' Copy JSON</button>'',
      ''        <button class=\"btn btn-secondary\" onclick=\"showJSONModal()\">'' @ [CHR 0xF0, CHR 0x9F, CHR 0x91, CHR 0x81, CHR 0xEF, CHR 0xB8, CHR 0x8F] @ '' View JSON</button>'',
      ''        <button class=\"btn btn-primary\" onclick=\"location.reload()\">'' @ [CHR 0xF0, CHR 0x9F, CHR 0x94, CHR 0x84] @ '' Refresh</button>'',
      ''    </div>'',
      ''    '',
      ''    <div style=\"clear:both\"></div>'',
      ''    '',
      ''    <div class=\"header\">'']"

definition page_header :: "(time \<Rightarrow> string) \<Rightarrow> DomainSetupLog \<Rightarrow> string" where
  "page_header rfc3339 log =
     (let statusClass = ''status-'' @ L_Status log in
      text_lines
       [''        <h1>'' @ [CHR 0xF0, CHR 0x9F, CHR 0x94, CHR 0x90] @ '' '' @ HTMLEscapeString (L_Domain log) @ ''</h1>'',
      ''        <span class=\"status '' @ statusClass @ ''\">'' @ HTMLEscapeString (L_Status log) @ ''</span>'',
      ''        <div class=\"meta\">'',
      ''            <strong>Started:</strong> '' @ rfc3339 (L_StartedAt log) @ ''<br>'',
      ''            <strong>Last Updated:</strong> '' @ rfc3339 (L_UpdatedAt log) @ ''<br>'',
      ''            <strong>Total Entries:</strong> '' @ HTMLEscapeString (intToString (int (length (L_Entries log)))),
      ''        </div>'',
      ''    </div>''])"

definition page_widgets :: string where
  "page_widgets = text_lines
     [[],
      ''    <div class=\"filter-bar\">'',
      ''        <strong>Filter:</strong>'',
      ''        <label><input type=\"checkbox\" checked onchange=\"toggleLevel('INFO')\"> INFO</label>'',
      ''        <label><input type=\"checkbox\" checked onchange=\"toggleLevel('WARNING')\"> WARNING</label>'',
      ''        <label><input type=\"checkbox\" checked onchange=\"toggleLevel('ERROR')\"> ERROR</label>'',
      ''        <label><input type=\"checkbox\" checked onchange=\"toggleLevel('DEBUG')\"> DEBUG</label>'',
      ''    </div>'',
      [],
      ''    <!-- Toast notification -->'',
      ''    <div id=\"toast\" class=\"toast\">'' @ [CHR 0xE2, CHR 0x9C, CHR 0x85] @ '' JSON copied to clipboard!</div>'',
      [],
      ''    <!-- JSON Modal -->'',
      ''    <div id=\"jsonModal\" class=\"json-modal\" onclick=\"hideJSONModal(event)\">'',
      ''        <div class=\"json-modal-content\" onclick=\"event.stopPropagation()\">'',
      ''            <span class=\"json-modal-close\" onclick=\"hideJSONModal()\">&times;</span>'',
      ''            <h3>'' @ [CHR 0xF0, CHR 0x9F, CHR 0x93, CHR 0x84] @ '' Full JSON Log</h3>'',
      ''            <div class=\"json-content\" id=\"jsonContent\"></div>'',
      ''            <div class=\"json-modal-actions\">'',
      ''                <button class=\"btn btn-success\" onclick=\"copyJSON()\">'' @ [CHR 0xF0, CHR 0x9F, CHR 0x93, CHR 0x8B] @ '' Copy to Clipboard</button>'',
      ''                <button class=\"btn btn-secondary\" onclick=\"downloadJSON()\">'' @ [CHR 0xF0, CHR 0x9F, CHR 0x92, CHR 0xBE] @ '' Download JSON</button>'',
      ''            </div>'',
      ''        </div>'',
      ''    </div>'',
      [],
      ''    <ul class=\"entries\">'']"

definition page_entry :: "(time \<Rightarrow> string) \<Rightarrow> (json \<Rightarrow> bytes option) \<Rightarrow> DomainSetupLogEntry \<Rightarrow> string" where
  "page_entry clock_time marshal_indent entry =
     (let levelClass = ''level-'' @ level_name (E_Level entry);
          entryClass = ''entry-'' @ level_name (E_Level entry) in
      text_lines
       [[],
      ''        <li class=\"entry '' @ entryClass @ ''\" data-level=\"'' @ level_name (E_Level entry) @ ''\">'',
      ''            <div class=\"entry-header\">'',
      ''                <span class=\"level '' @ levelClass @ ''\">'' @ level_name (E_Level entry) @ ''</span>'',
      ''                <span class=\"timestamp\">'' @ clock_time (E_Timestamp entry) @ ''</span>'',
      ''            </div>'',
      ''            <div class=\"step\">'' @ HTMLEscapeString (E_Step entry) @ ''</div>'',
      ''            <div class=\"message\">'' @ HTMLEscapeString (E_Message entry) @ ''</div>''] @
      (case E_Details entry of
         None \<Rightarrow> []
       | Some details \<Rightarrow>
          (let detailsJSON = (case marshal_indent details of None \<Rightarrow> [] | Some b \<Rightarrow> b) in
           ''<div class=\"details\">'' @ HTMLEscapeString detailsJSON @ ''</div>'')) @
      ''</li>'')"

definition page_data :: "(rune \<Rightarrow> bool) \<Rightarrow> (DomainSetupLog \<Rightarrow> bytes option) \<Rightarrow> DomainSetupLog \<Rightarrow> string" where
  "page_data IsPrint marshal_log log =
     (let logJSON = (case marshal_log log of None \<Rightarrow> [] | Some b \<Rightarrow> b);
          escapedJSON = JSEscapeString IsPrint logJSON in
      text_lines
       [[],
      ''    </ul>'',
      [],
      ''    <script>'',
      ''        const logData = '' @ escapedJSON @ '';'',
      ''        const domain = \"'' @ JSEscapeString IsPrint (L_Domain log) @ ''\";''])"

definition page_script :: string where
  "page_script = text_lines
     [[],
      ''        function toggleLevel(level) {'',
      ''            document.querySelectorAll('.entry[data-level=\"' + level + '\"]').forEach(el => {'',
      ''                el.style.display = el.style.display === 'none' ? 'block' : 'none';'',
      ''            });'',
      ''        }'',
      [],
      ''        function copyJSON() {'',
      ''            const jsonStr = JSON.stringify(logData, null, 2);'',
      ''            navigator.clipboard.writeText(jsonStr).then(() => {'',
      ''                showToast('' @ [CHR 0x27, CHR 0xE2, CHR 0x9C, CHR 0x85] @ '' JSON copied to clipboard!');'',
      ''            }).catch(err => {'',
      ''                // Fallback for older browsers'',
      ''                const textarea = document.createElement('textarea');'',
      ''                textarea.value = jsonStr;'',
      ''                document.body.appendChild(textarea);'',
      ''                textarea.select();'',
      ''                document.execCommand('copy');'',
      ''                document.body.removeChild(textarea);'',
      ''                showToast('' @ [CHR 0x27, CHR 0xE2, CHR 0x9C, CHR 0x85] @ '' JSON copied to clipboard!');'',
      ''            });'',
      ''        }'',
      [],
      ''        function showToast(message) {'',
      ''            const toast = document.getElementById('toast');'',
      ''            toast.textContent = message;'',
      ''            toast.style.display = 'block';'',
      ''            setTimeout(() => {'',
      ''                toast.style.display = 'none';'',
      ''            }, 3000);'',
      ''        }'',
      [],
      ''        function showJSONModal() {'',
      ''            const modal = document.getElementById('jsonModal');'',
      ''            const content = document.getElementById('jsonContent');'',
      ''            content.textContent = JSON.stringify(logData, null, 2);'',
      ''            modal.style.display = 'flex';'',
      ''        }'',
      [],
      ''        function hideJSONModal(event) {'',
      ''            if (!event || event.target.id === 'jsonModal') {'',
      ''                document.getElementById('jsonModal').style.display = 'none';'',
      ''            }'',
      ''        }'',
      [],
      ''        function downloadJSON() {'',
      ''            const jsonStr = JSON.stringify(logData, null, 2);'',
      ''            const blob = new Blob([jsonStr], { type: 'application/json' });'',
      ''            const url = URL.createObjectURL(blob);'',
      ''            const a = document.createElement('a');'',
      ''            a.href = url;'',
      ''            a.download = domain + '-log.json';'',
      ''            document.body.appendChild(a);'',
      ''            a.click();'',
      ''            document.body.removeChild(a);'',
      ''            URL.revokeObjectURL(url);'',
      ''            showToast('' @ [CHR 0x27, CHR 0xE2, CHR 0x9C, CHR 0x85] @ '' JSON downloaded!');'',
      ''        }'',
      [],
      ''        // Keyboard shortcuts'',
      ''        document.addEventListener('keydown', (e) => {'',
      ''            if (e.ctrlKey && e.key === 'c' && !window.getSelection().toString()) {'',
      ''                copyJSON();'',
      ''            }'',
      ''            if (e.key === 'Escape') {'',
      ''                hideJSONModal();'',
      ''            }'',
      ''        });'',
      ''    </script>'',
      ''</body>'',
      ''</html>'']"

text \<open>The page is the visible part and the script that holds the data.\<close>

record formats =
  f_rfc3339 :: "time \<Rightarrow> string"
  f_clock :: "time \<Rightarrow> string"
  f_json :: "json \<Rightarrow> bytes option"
  f_log :: "DomainSetupLog \<Rightarrow> bytes option"
  f_IsPrint :: "rune \<Rightarrow> bool"

definition page_body :: "formats \<Rightarrow> DomainSetupLog \<Rightarrow> string" where
  "page_body F log =
     page_title log @ newline @ page_styles @ newline @ page_widget_styles @ newline @ page_actions @ newline @
     page_header (f_rfc3339 F) log @ newline @ page_widgets @
     concat (map (page_entry (f_clock F) (f_json F)) (L_Entries log))"

definition generateDomainLogHTML :: "formats \<Rightarrow> DomainSetupLog \<Rightarrow> string" where
  "generateDomainLogHTML F log = page_body F log @ page_data (f_IsPrint F) (f_log F) log @ newline @ page_script"

section \<open>What a log can put into a page\<close>

text \<open>The characters that delimit tags and attribute values, and of these the ones that delimit tags.\<close>

definition markup :: "string \<Rightarrow> string" where
  "markup s = filter (\<lambda>c. c = CHR ''<'' \<or> c = CHR ''>'' \<or> c = dquote \<or> c = CHR 0x27) s"

definition angles :: "string \<Rightarrow> string" where
  "angles s = filter (\<lambda>c. c = CHR ''<'' \<or> c = CHR ''>'') s"

lemma markup_append: "markup (a @ b) = markup a @ markup b" "angles (a @ b) = angles a @ angles b"
  by (simp_all add: markup_def angles_def)

lemma markup_concat: "markup (concat xs) = concat (map markup xs)"
  by (induction xs) (simp_all add: markup_append, simp add: markup_def)

lemma markup_lines: "markup (text_lines ls) = concat (map markup ls)" "angles (text_lines ls) = concat (map angles ls)"
  unfolding text_lines_def by (induction ls "newline" rule: Join.induct) (simp_all add: markup_def angles_def)

lemma markup_escaped: "markup (HTMLEscapeString s) = []"
  using HTMLEscapeString_chars [of s] by (auto simp: markup_def filter_empty_conv)

lemmas page_simps = markup_append markup_lines markup_escaped markup_concat list.map concat.simps append_Nil append_Nil2 Let_def

text \<open>Two logs that differ at most in their texts: domain, error summary, steps, messages, details.\<close>

definition same_summary :: "DomainSetupLogSummary \<Rightarrow> DomainSetupLogSummary \<Rightarrow> bool" where
  "same_summary a b \<longleftrightarrow> S_Status a = S_Status b \<and> S_StartedAt a = S_StartedAt b \<and> S_UpdatedAt a = S_UpdatedAt b \<and>
     S_EntryCount a = S_EntryCount b \<and> S_TotalSteps a = S_TotalSteps b \<and> S_CurrentStep a = S_CurrentStep b \<and>
     (S_ErrorSummary a = [] \<longleftrightarrow> S_ErrorSummary b = [])"

definition same_entry :: "DomainSetupLogEntry \<Rightarrow> DomainSetupLogEntry \<Rightarrow> bool" where
  "same_entry a b \<longleftrightarrow> E_Level a = E_Level b \<and> E_Timestamp a = E_Timestamp b \<and> (E_Details a = None \<longleftrightarrow> E_Details b = None)"

definition same_log :: "DomainSetupLog \<Rightarrow> DomainSetupLog \<Rightarrow> bool" where
  "same_log a b \<longleftrightarrow> L_Status a = L_Status b \<and> L_StartedAt a = L_StartedAt b \<and> L_UpdatedAt a = L_UpdatedAt b \<and>
     list_all2 same_entry (L_Entries a) (L_Entries b)"

lemma list_page_item_markup:
  assumes "same_summary a b"
  shows "markup (list_page_item f a) = markup (list_page_item f b)"
proof -
  have e: "S_Status a = S_Status b" "S_StartedAt a = S_StartedAt b" "S_UpdatedAt a = S_UpdatedAt b"
    "S_EntryCount a = S_EntryCount b" "S_TotalSteps a = S_TotalSteps b" "S_CurrentStep a = S_CurrentStep b"
    "(S_ErrorSummary a = []) = (S_ErrorSummary b = [])" using assms by (simp_all add: same_summary_def)
  have i: "markup (if p then x else y) = (if p then markup x else markup y)" for p x y by simp
  show ?thesis unfolding list_page_item_def by (simp only: page_simps e i)
qed

lemma entries_markup:
  assumes "list_all2 same_entry xs ys"
  shows "concat (map (\<lambda>x. markup (page_entry f m x)) xs) = concat (map (\<lambda>x. markup (page_entry f m x)) ys)"
  using assms
proof (induction rule: list_all2_induct)
  case (Cons x xs y ys)
  have e: "E_Level x = E_Level y" "E_Timestamp x = E_Timestamp y" and d: "(E_Details x = None) = (E_Details y = None)"
    using Cons.hyps by (simp_all add: same_entry_def)
  have "markup (page_entry f m x) = markup (page_entry f m y)"
    using d by (cases "E_Details x"; cases "E_Details y") (simp_all only: page_entry_def page_simps e option.case option.distinct simp_thms)
  with Cons.IH show ?case by simp
qed simp

lemma page_body_markup:
  assumes "same_log a b"
  shows "markup (page_body F a) = markup (page_body F b)"
proof -
  have e: "L_Status a = L_Status b" "L_StartedAt a = L_StartedAt b" "L_UpdatedAt a = L_UpdatedAt b"
    and es: "list_all2 same_entry (L_Entries a) (L_Entries b)" using assms by (simp_all add: same_log_def)
  have l: "length (L_Entries a) = length (L_Entries b)" using es by (rule list_all2_lengthD)
  show ?thesis unfolding page_body_def page_title_def page_header_def
    by (simp only: page_simps e l map_map o_def entries_markup [OF es, of "f_clock F" "f_json F"])
qed

text \<open>The rest of a text after the end of the JavaScript string literal it starts inside of; a line end inside the literal is an error.\<close>

fun js_string_rest :: "string \<Rightarrow> string option" where
  "js_string_rest [] = None"
| "js_string_rest (c # cs) =
     (if c = dquote then Some cs
      else if c = CHR 0x0A \<or> c = CHR 0x0D then None
      else if c = backslash then (case cs of [] \<Rightarrow> None | _ # ds \<Rightarrow> js_string_rest ds)
      else js_string_rest cs)"

definition inert :: "char \<Rightarrow> bool" where
  "inert c \<longleftrightarrow> c \<noteq> dquote \<and> c \<noteq> CHR 0x0A \<and> c \<noteq> CHR 0x0D \<and> c \<noteq> backslash \<and> c \<noteq> CHR ''<'' \<and> c \<noteq> CHR ''>''"

lemma js_string_inert: "list_all inert p \<Longrightarrow> js_string_rest (p @ t) = js_string_rest t" "list_all inert p \<Longrightarrow> angles p = []"
  by (induction p) (auto simp: inert_def angles_def)

lemma inert_byte: "0x80 \<le> ord c \<Longrightarrow> inert c"
  by (auto simp: inert_def)

lemma inert_char: "32 \<le> ord c \<Longrightarrow> c \<noteq> dquote \<Longrightarrow> c \<noteq> backslash \<Longrightarrow> c \<noteq> CHR ''<'' \<Longrightarrow> c \<noteq> CHR ''>'' \<Longrightarrow> inert c"
  by (cases "c = CHR 0x0A \<or> c = CHR 0x0D") (auto simp: inert_def)

lemma inert_hex: "n < 16 \<Longrightarrow> inert (hex_digit n)"
proof -
  assume "n < 16"
  then have "ord (hex_digit n) \<in> {48..57} \<union> {65..70}" by (auto simp: hex_digit_def)
  then show ?thesis by (auto simp: inert_def)
qed

lemma inert_hex4: "list_all inert (hex4 n)"
proof -
  have "list_all inert (hex_digits n)"
    by (induction n rule: hex_digits.induct) (subst hex_digits.simps, simp add: inert_hex)
  moreover have "inert CHR ''0''" by (simp add: inert_def)
  ultimately show ?thesis by (auto simp: hex4_def Let_def list_all_iff)
qed

lemma DecodeRune_bytes:
  assumes "0x80 \<le> ord c"
  shows "list_all inert (take (snd (DecodeRune (c # cs))) (c # cs))"
proof -
  have "list_all (\<lambda>x. 0x80 \<le> ord x) (take (snd (DecodeRune (c # cs))) (c # cs))"
  proof (cases "second_range (ord c)")
    case (Pair lo hi)
    then have lo: "0x80 \<le> lo" by (auto simp: second_range_def split: if_splits)
    have u: "0x80 \<le> ord x" if "in_range lo hi x" for x using that lo by (simp add: in_range_def)
    have v: "0x80 \<le> ord x" if "is_cont x" for x using that by (simp add: in_range_def)
    show ?thesis using assms u v unfolding DecodeRune.simps Let_def Pair prod.case
      by (simp split: list.split)
  qed
  then show ?thesis by (rule list.pred_mono_strong) (rule inert_byte)
qed

text \<open>Every piece of an escaped text is passed over inside a literal and has no angle bracket.\<close>

lemma JSEscapeString_inside:
  "js_string_rest (JSEscapeString p s @ t) = js_string_rest t \<and> angles (JSEscapeString p s) = []"
proof (induction p s rule: JSEscapeString.induct)
  case (2 p c cs)
  let ?n = "snd (DecodeRune (c # cs))"
  consider "c = backslash \<or> c = CHR 0x27 \<or> c = dquote"
    | "\<not> (c = backslash \<or> c = CHR 0x27 \<or> c = dquote)" "c \<in> set ''<>&='' \<or> ord c < 32"
    | "\<not> (c = backslash \<or> c = CHR 0x27 \<or> c = dquote)" "\<not> (c \<in> set ''<>&='' \<or> ord c < 32)" "ord c < 0x80"
    | "\<not> (c = backslash \<or> c = CHR 0x27 \<or> c = dquote)" "\<not> (c \<in> set ''<>&='' \<or> ord c < 32)" "\<not> ord c < 0x80" by blast
  then show ?case
  proof cases
    case 1
    with "2.IH"(1) show ?thesis by (auto simp: JSEscapeString.simps(2) angles_def)
  next
    case 2
    have "inert (hex_digit (ord c div 16))" "inert (hex_digit (ord c mod 16))"
      by (rule inert_hex, simp add: less_mult_imp_div_less)+
    with "2.IH"(2) [OF 2] 2 show ?thesis
      by (simp add: JSEscapeString.simps(2) angles_def inert_def)
  next
    case 3
    have "inert c" using 3(1,2) by (intro inert_char) simp_all
    moreover have "JSEscapeString p (c # cs) = c # JSEscapeString p cs" using 3 by (simp only: JSEscapeString.simps(2) if_False if_True)
    ultimately show ?thesis using "2.IH"(3) [OF 3] by (simp add: angles_def inert_def)
  next
    case 4
    have b: "list_all inert (take ?n (c # cs))" using 4(3) by (intro DecodeRune_bytes) simp
    note i = js_string_inert [OF b] js_string_inert [OF inert_hex4 [of "fst (DecodeRune (c # cs))"]]
    have e: "JSEscapeString p (c # cs) = (if p (fst (DecodeRune (c # cs))) then take ?n (c # cs)
         else [backslash] @ ''u'' @ hex4 (fst (DecodeRune (c # cs)))) @ JSEscapeString p (drop ?n (c # cs))"
      using 4 by (simp only: JSEscapeString.simps(2) if_False)
    show ?thesis unfolding e using i "2.IH"(4) [OF 4]
      by (auto simp: markup_append) (simp_all add: angles_def)
  qed
qed (simp add: angles_def)

lemma page_data_angles: "angles (page_data p m a) = angles (page_data p m b)"
  unfolding page_data_def by (simp only: page_simps JSEscapeString_inside)

lemma list_page_markup:
  assumes "list_all2 same_summary xs ys"
  shows "markup (generateLogsListHTML f xs) = markup (generateLogsListHTML f ys)"
proof -
  have l: "length xs = length ys" using assms by (rule list_all2_lengthD)
  have "map (markup \<circ> list_page_item f) xs = map (markup \<circ> list_page_item f) ys"
    using assms by (induction rule: list_all2_induct) (simp_all add: list_page_item_markup)
  then have m: "markup (concat (map (list_page_item f) xs)) = markup (concat (map (list_page_item f) ys))" by (simp only: markup_concat map_map)
  have i: "markup (if p then x else y) = (if p then markup x else markup y)" for p x y by simp
  show ?thesis unfolding generateLogsListHTML_def by (simp only: markup_append l i m)
qed

text \<open>The script up to the domain.\<close>

lemma page_data_text:
  "page_data p m log = newline @ ''    </ul>'' @ newline @ newline @ ''    <script>'' @ newline @ ''        '' @
     ''const logData = '' @ JSEscapeString p (case m log of None \<Rightarrow> [] | Some b \<Rightarrow> b) @ '';'' @ newline @ ''        '' @
     ''const domain = '' @ [dquote] @ JSEscapeString p (L_Domain log) @ [dquote] @ '';''"
  by (simp add: page_data_def text_lines_def Let_def)

lemma angles_markup: "angles (markup s) = angles s"
  unfolding angles_def markup_def by (induction s) auto


definition demo_page_log :: "string \<Rightarrow> DomainSetupLog" where
  "demo_page_log text = \<lparr>L_Domain = text, L_StartedAt = 0, L_UpdatedAt = 0, L_Status = ''failed'',
     L_Entries = [entry_of 0 LevelError text ''dns_verify'' text (Some (JString text))], L_ErrorSummary = text, L_TotalSteps = 0,
     L_CurrentStep = 0, L_Metadata = []\<rparr>"


text \<open>
  The data of the log reach the script escaped for a string literal but outside of one. JSON encoding with indentation starts an object with a brace and a
  line end, so that the script starts with \<^verbatim>\<open>const logData = {\<close> and an escape sequence, which is not JavaScript.
\<close>

theorem page_script_malformed:
  assumes "f_log F log = Some (CHR ''{'' # CHR 0x0A # t)"
  shows "\<exists>pre post. generateDomainLogHTML F log = pre @ ''const logData = {'' @ [backslash] @ ''u000A'' @ post"
proof -
  have "JSEscapeString (f_IsPrint F) (CHR ''{'' # CHR 0x0A # t) = ''{'' @ [backslash] @ ''u000A'' @ JSEscapeString (f_IsPrint F) t"
    by (simp add: JSEscapeString.simps(2) hex_digit_def char_of_def bit_0)
  then have "page_data (f_IsPrint F) (f_log F) log = (newline @ ''    </ul>'' @ newline @ newline @ ''    <script>'' @ newline @ ''        '') @
      ''const logData = {'' @ [backslash] @ ''u000A'' @ JSEscapeString (f_IsPrint F) t @ '';'' @ newline @ ''        '' @
     ''const domain = '' @ [dquote] @ JSEscapeString (f_IsPrint F) (L_Domain log) @ [dquote] @ '';''"
    unfolding page_data_text by (simp add: assms)
  then obtain A B where d: "page_data (f_IsPrint F) (f_log F) log = A @ ''const logData = {'' @ [backslash] @ ''u000A'' @ B" by blast
  show ?thesis unfolding generateDomainLogHTML_def d
    by (rule exI [of _ "page_body F log @ A"], rule exI [of _ "B @ newline @ page_script"]) (simp only: append_assoc)
qed

end
