(* ===== verification/MailFlow.thy ===== *)
theory MailFlow
  imports MailState
begin

text \<open>
  A mail from the wire to the reader: the parser, the session, the attachment storage and the repositories put together with the handlers that show
  a message and send a file.
\<close>

section \<open>What the parser hands on\<close>

text \<open>The attachments of an envelope as the parser takes them: all attachments, and the inline parts that have a name.\<close>

definition mail_parts :: "envelope \<Rightarrow> mime_part list" where
  "mail_parts env = Attachments env @ filter (\<lambda>att. FileName att \<noteq> []) (Inlines env)"

definition part_of :: "osenv \<Rightarrow> ParsedAttachment \<Rightarrow> mime_part \<Rightarrow> bool" where
  "part_of w att p \<longleftrightarrow> PA_Filename att = FileName p \<and> PA_ContentType att = ContentType p \<and> PA_Size att = int (length (Content p)) \<and>
     os_readers w (PA_Content att) = Content p"

text \<open>Each part has a reader of its own, with its content; nothing of the disk changes.\<close>

lemma parse_attachments_readers:
  assumes "parse_attachments ps w = (atts, w')"
  shows "\<exists>R. w' = w\<lparr>os_readers := R, os_rnext := os_rnext w + length ps\<rparr> \<and> (\<forall>r < os_rnext w. R r = os_readers w r) \<and>
     map PA_Content atts = [os_rnext w..<os_rnext w + length ps] \<and> list_all2 (part_of w') atts ps"
  using assms
proof (induction ps arbitrary: w atts w')
  case Nil
  then show ?case by (auto intro: exI [of _ "os_readers w"])
next
  case (Cons p ps)
  let ?w1 = "w\<lparr>os_readers := (os_readers w)(os_rnext w := Content p), os_rnext := Suc (os_rnext w)\<rparr>"
  let ?a = "\<lparr>PA_Filename = FileName p, PA_ContentType = ContentType p, PA_Content = os_rnext w, PA_Size = int (length (Content p))\<rparr>"
  have a: "parsed_attachment p w = (?a, ?w1)" by (simp add: parsed_attachment_def bytes_NewReader_def)
  obtain bs where bs: "parse_attachments ps ?w1 = (bs, w')" "atts = ?a # bs" using Cons.prems a by (auto split: prod.splits)
  from Cons.IH [OF bs(1)] obtain R where
    R: "w' = ?w1\<lparr>os_readers := R, os_rnext := Suc (os_rnext w) + length ps\<rparr>" "\<forall>r < Suc (os_rnext w). R r = os_readers ?w1 r"
      "map PA_Content bs = [Suc (os_rnext w)..<Suc (os_rnext w) + length ps]" "list_all2 (part_of w') bs ps" by auto
  have "part_of w' ?a p" using R(1,2) by (simp add: part_of_def)
  moreover have "[os_rnext w..<os_rnext w + length (p # ps)] = os_rnext w # [Suc (os_rnext w)..<Suc (os_rnext w) + length ps]"
    by (simp add: upt_conv_Cons del: upt_Suc)
  ultimately show ?case unfolding bs(2)
    using R by (intro exI [of _ R]) (simp del: upt_Suc)
qed

lemma ParseEmail_parts:
  assumes "ParseEmail rd r w = (Inr email, w')" "rd r = Inr env"
  shows "list_all2 (part_of w') (PE_Attachments email) (mail_parts env) \<and> distinct (map PA_Content (PE_Attachments email)) \<and>
     PE_Subject email = GetHeader env ''Subject'' \<and> PE_BodyText email = Text env \<and> PE_BodyHTML email = HTML env"
proof -
  obtain atts where a: "parse_attachments (mail_parts env) w = (atts, w')" "PE_Attachments email = atts"
    "PE_Subject email = GetHeader env ''Subject''" "PE_BodyText email = Text env" "PE_BodyHTML email = HTML env"
    using assms by (auto simp: ParseEmail_def mail_parts_def Let_def split: prod.splits)
  with parse_attachments_readers [OF a(1)] show ?thesis by auto
qed

lemma ParseEmail_storage:
  assumes "rd r = Inr env"
  shows "storage_ok base n (snd (ParseEmail rd r w)) = storage_ok base n w"
proof -
  obtain atts w' where a: "parse_attachments (mail_parts env) w = (atts, w')" by fastforce
  then have "snd (ParseEmail rd r w) = w'" using assms by (simp add: ParseEmail_def mail_parts_def Let_def case_prod_beta)
  moreover obtain R where R: "w' = w\<lparr>os_readers := R, os_rnext := os_rnext w + length (mail_parts env)\<rparr>"
    using parse_attachments_readers [OF a] by blast
  moreover have "fkey w' x = fkey w x" for x by (rule fkey_wd) (simp add: R)
  ultimately show ?thesis by (simp add: storage_ok_def)
qed

section \<open>What the session stores\<close>

lemma save_attachments_names:
  assumes "save_attachments fs atts w = (as, w')" "length as = length atts"
  shows "list_all2 (\<lambda>a att. A_Filename a = PA_Filename att \<and> A_ContentType a = PA_ContentType att \<and> A_SizeBytes a = PA_Size att) as atts"
  using assms
proof (induction atts arbitrary: w as w')
  case (Cons att atts)
  obtain x w1 where x: "fs_Save fs (PA_Filename att) (PA_Content att) w = (x, w1)" by fastforce
  obtain bs w2 where bs: "save_attachments fs atts w1 = (bs, w2)" by fastforce
  from save_attachments_length [OF bs] obtain p where p: "x = Inr p" using Cons.prems x bs by (cases x) fastforce+
  with Cons.IH [OF bs] Cons.prems x bs show ?case by auto
qed simp

context smtp_session
begin

lemma processEmail_stores:
  assumes "processEmail b r email w = (Inr (), w')"
  shows "\<exists>mb m as0 as. save_attachments (b_fileStorage b) (PE_Attachments email) (w_os w) = (as0, w_os w') \<and>
     created_Message (new_message mb email) m \<and> list_all2 (\<lambda>a a'. created_Attachment (a\<lparr>A_MessageID := Msg_ID m\<rparr>) a') as0 as \<and>
     t_messages (w_db w') = t_messages (w_db w) @ [m] \<and> t_attachments (w_db w') = t_attachments (w_db w) @ as \<and> Msg_ID m \<notin> Msg_ID ` set (t_messages (w_db w))"
proof -
  obtain l dn where a: "parseEmailAddress r = Inr (l, dn)" using assms by (auto simp: processEmail_def split: sum.splits)
  obtain x where x: "dr_GetByName (b_domainRepo b) dn (w_db w) = Inr x" using assms a by (auto simp: processEmail_def split: sum.splits)
  obtain mb c d1 where g: "mr_GetOrCreate (b_mailboxRepo b) l (D_ID x) (D_Name x) (w_db w) = (Inr (mb, c), d1)"
    using assms a x by (auto simp: processEmail_def split: sum.splits prod.splits)
  obtain as0 o1 where at: "save_attachments (b_fileStorage b) (PE_Attachments email) (w_os w) = (as0, o1)" by fastforce
  obtain m as d2 where c: "ms_CreateWithAttachments (b_messageRepo b) (new_message mb email) as0 d1 = (Inr (m, as), d2)"
    using assms a x g at by (auto simp: processEmail_def split: sum.splits prod.splits)
  have "w_db w' = d2" "w_os w' = o1" using assms a x g at c by (auto simp: processEmail_def)
  with at ms.CreateWithAttachments_ok [OF c] GetOrCreate_mailboxes [OF g] show ?thesis
    by (intro exI [of _ mb] exI [of _ m] exI [of _ as0] exI [of _ as]) auto
qed

text \<open>When no file had to be skipped, the rows and the files of the new attachments are those of the parts, in their order.\<close>

lemma processEmail_files:
  assumes "processEmail b r email w = (Inr (), w')" "list_all2 (part_of (w_os w)) (PE_Attachments email) parts"
    and "distinct (map PA_Content (PE_Attachments email))" "ok (length parts) (w_os w)"
    and new: "t_messages (w_db w') = t_messages (w_db w) @ [m]" "t_attachments (w_db w') = t_attachments (w_db w) @ as" "length as = length parts"
  shows "Msg_Subject m = PE_Subject email \<and> Msg_BodyText m = PE_BodyText email \<and> Msg_BodyHTML m = PE_BodyHTML email \<and> \<not> Msg_IsRead m \<and>
     Msg_ID m \<notin> Msg_ID ` set (t_messages (w_db w)) \<and> ok 0 (w_os w') \<and>
     (\<forall>k < length parts. A_MessageID (as ! k) = Msg_ID m \<and> A_Filename (as ! k) = FileName (parts ! k) \<and>
        A_ContentType (as ! k) = ContentType (parts ! k) \<and> A_SizeBytes (as ! k) = int (length (Content (parts ! k))) \<and>
        content (w_os w') (A_FilePath (as ! k)) = Some (Content (parts ! k)))"
proof -
  obtain mb as0 where s: "save_attachments (b_fileStorage b) (PE_Attachments email) (w_os w) = (as0, w_os w')"
    "created_Message (new_message mb email) m" "list_all2 (\<lambda>a a'. created_Attachment (a\<lparr>A_MessageID := Msg_ID m\<rparr>) a') as0 as"
    "Msg_ID m \<notin> Msg_ID ` set (t_messages (w_db w))"
    using processEmail_stores [OF assms(1)] new(1,2) by auto
  have l: "length as0 = length (PE_Attachments email)" "length as = length as0" "length (PE_Attachments email) = length parts"
    using s(3) assms(2) new(3) by (simp_all add: list_all2_lengthD [symmetric])
  have "ok (length (PE_Attachments email) + 0) (w_os w)" using assms(4) l by simp
  note f = fs.save_attachments_all [OF this s(1) l(1) assms(3)] and n = save_attachments_names [OF s(1) l(1)]
  have "A_MessageID (as ! k) = Msg_ID m \<and> A_Filename (as ! k) = FileName (parts ! k) \<and>
        A_ContentType (as ! k) = ContentType (parts ! k) \<and> A_SizeBytes (as ! k) = int (length (Content (parts ! k))) \<and>
        content (w_os w') (A_FilePath (as ! k)) = Some (Content (parts ! k))" if "k < length parts" for k
  proof -
    have "part_of (w_os w) (PE_Attachments email ! k) (parts ! k)" using assms(2) that l by (simp add: list_all2_conv_all_nth)
    moreover have "created_Attachment ((as0 ! k)\<lparr>A_MessageID := Msg_ID m\<rparr>) (as ! k)" using s(3) that l by (simp add: list_all2_conv_all_nth)
    moreover have "A_Filename (as0 ! k) = PA_Filename (PE_Attachments email ! k) \<and> A_ContentType (as0 ! k) = PA_ContentType (PE_Attachments email ! k) \<and>
        A_SizeBytes (as0 ! k) = PA_Size (PE_Attachments email ! k)" using n that l by (simp add: list_all2_conv_all_nth)
    ultimately show ?thesis using f that l by (auto simp: part_of_def dest!: created_Attachment_fields)
  qed
  with f s(2,4) show ?thesis by (auto simp: new_message_def dest!: created_Message_fields)
qed

text \<open>The same for \<^verbatim>\<open>DATA\<close> with one recipient.\<close>

lemma Data_files:
  assumes mail: "b_ReadEnvelope b r = Inr env" "se_recipients s = [to]" "Data b r s w = (Inr (), w')"
    and "ok (length (mail_parts env)) (w_os w)" "\<And>n. ok n o1 = ok n (w_os w)"
    and o1: "o1 = snd (ParseEmail (b_ReadEnvelope b) r (w_os w))"
    and new: "t_messages (w_db w') = t_messages (w_db w) @ [m]" "t_attachments (w_db w') = t_attachments (w_db w) @ as"
      "length as = length (mail_parts env)"
  shows "Msg_Subject m = GetHeader env ''Subject'' \<and> Msg_BodyText m = Text env \<and> Msg_BodyHTML m = HTML env \<and>
     Msg_ID m \<notin> Msg_ID ` set (t_messages (w_db w)) \<and> ok 0 (w_os w') \<and>
     (\<forall>k < length as. A_MessageID (as ! k) = Msg_ID m \<and> A_Filename (as ! k) = FileName (mail_parts env ! k) \<and>
        A_ContentType (as ! k) = ContentType (mail_parts env ! k) \<and> A_SizeBytes (as ! k) = int (length (Content (mail_parts env ! k))) \<and>
        content (w_os w') (A_FilePath (as ! k)) = Some (Content (mail_parts env ! k)))"
proof -
  have "\<exists>email. ParseEmail (b_ReadEnvelope b) r (w_os w) = (Inr email, o1)"
    unfolding o1 ParseEmail_def mail(1) by (simp add: Let_def split: prod.splits)
  then obtain email where e: "ParseEmail (b_ReadEnvelope b) r (w_os w) = (Inr email, o1)" ..
  define email' where "email' = (if PE_SenderEmail email = [] then email\<lparr>PE_SenderEmail := se_from s\<rparr> else email)"
  have same: "PE_Attachments email' = PE_Attachments email" "PE_Subject email' = PE_Subject email" "PE_BodyText email' = PE_BodyText email"
    "PE_BodyHTML email' = PE_BodyHTML email" by (simp_all add: email'_def)
  let ?w1 = "w\<lparr>w_os := o1\<rparr>"
  have w': "w' = snd (processEmail b to email' ?w1)" using mail(2,3) e by (simp add: Data_def Let_def email'_def)
  have p: "processEmail b to email' ?w1 = (Inr (), w')"
  proof (cases "processEmail b to email' ?w1")
    case (Pair x w2)
    with processEmail_err [of to email' ?w1] new(1) w' show ?thesis by (cases x) auto
  qed
  from processEmail_files [OF p, of "mail_parts env" m as] ParseEmail_parts [OF e mail(1)] assms(4,5) new
  show ?thesis by (simp add: same)
qed

end

section \<open>What the handlers answer\<close>

text \<open>The answer to a download of the row \<open>a\<close> with the content \<open>c\<close>.\<close>

definition sent_file :: "Attachment \<Rightarrow> bytes \<Rightarrow> file_download" where
  "sent_file a c = \<lparr>FD_ContentType = A_ContentType a, FD_ContentDisposition = ''attachment; filename='' @ [CHR 0x22] @ A_Filename a @ [CHR 0x22],
     FD_ContentLength = (if A_SizeBytes a > 0 then Some (A_SizeBytes a) else None), FD_Body = c\<rparr>"

lemma gorm_goerror_not_missing: "\<not> errors_Is (gorm_goerror e) RepoErrNotFound"
  by (cases e) simp_all

context gorm_db
begin

lemma message_shown:
  assumes "db_ok d" "m \<in> set (t_messages d)" "Msg_ID m < 2 ^ 32"
  shows "(\<exists>shown. fst (message_h_Get (NewMessageRepository G) (show_nat (Msg_ID m)) d) = Success (MessageData (m\<lparr>Msg_IsRead := True\<rparr>) shown) \<and>
       set shown = {a \<in> set (t_attachments d). A_MessageID a = Msg_ID m}) \<or>
     resp_status (fst (message_h_Get (NewMessageRepository G) (show_nat (Msg_ID m)) d)) = 500 \<and>
       \<not> is_ok (ms_GetByID (NewMessageRepository G) (Msg_ID m) d)"
proof (cases "ms_GetByID (NewMessageRepository G) (Msg_ID m) d")
  case (Inl e)
  have "\<not> errors_Is e RepoErrNotFound"
    using Inl msg.lookup_missing [where d = d and P = "\<lambda>x. Msg_ID x = Msg_ID m", OF _ _ assms(2)]
    by (auto simp: NewMessageRepository_def message_GetByID_def gorm_goerror_not_missing split: sum.splits)
  with Inl show ?thesis by (simp add: message_h_Get_def ParseUint_show_nat [OF assms(3)] InternalError_def is_ok_def)
next
  case (Inr p)
  obtain m' shown where p: "p = (m', shown)" by fastforce
  from message_GetByID_found [OF Inr [unfolded p]] have f: "m' \<in> set (t_messages d)" "Msg_ID m' = Msg_ID m"
    "set shown = {a \<in> set (t_attachments d). A_MessageID a = Msg_ID m}" by simp_all
  have "m' = m" using f(1,2) assms(1,2) by (auto simp: db_ok_def dest: distinct_map_inj)
  with Inr p have g: "ms_GetByID (NewMessageRepository G) (Msg_ID m) d = Inr (m, shown)" by simp
  have "fst (message_h_Get (NewMessageRepository G) (show_nat (Msg_ID m)) d) = Success (MessageData (m\<lparr>Msg_IsRead := True\<rparr>) shown)"
  proof (cases "Msg_IsRead m")
    case True
    then have e: "m\<lparr>Msg_IsRead := True\<rparr> = m" by simp
    show ?thesis unfolding e using True by (simp add: g message_h_Get_def ParseUint_show_nat [OF assms(3)])
  qed (simp add: g message_h_Get_def ParseUint_show_nat [OF assms(3)])
  with f(3) show ?thesis by blast
qed

lemma attachment_sent:
  assumes "db_ok d" "a \<in> set (t_attachments d)" "A_ID a < 2 ^ 32" "storage_ok base n w" "stored base w (A_FilePath a) = Some c"
    and R: "R = NewAttachmentRepository G (Some (localStorage base))"
  shows "attachment_h_Download R (localStorage base) (show_nat (A_ID a)) d w = Inr (sent_file a c) \<or>
     (\<exists>r. attachment_h_Download R (localStorage base) (show_nat (A_ID a)) d w = Inl r \<and> resp_status r = 500) \<and>
       (\<not> is_ok (ar_GetByID R (A_ID a) d) \<or> fs_Get (localStorage base) (A_FilePath a) w \<noteq> Inr (OpenFile c))"
proof -
  note i = ParseUint_show_nat [OF assms(3)]
  have r: "ar_GetByID R = attachment_GetByID G" by (simp add: R NewAttachmentRepository_def)
  show ?thesis
  proof (cases "attachment_GetByID G (A_ID a) d")
    case (Inl e)
    have "\<not> errors_Is e RepoErrNotFound" using att.lookup_missing [OF Inl [unfolded attachment_GetByID_def] _ assms(2)] by auto
    with Inl show ?thesis by (simp add: attachment_h_Download_def i r InternalError_def is_ok_def)
  next
    case (Inr a')
    have "a' \<in> set (t_attachments d) \<and> A_ID a' = A_ID a" using att.lookup_found Inr unfolding attachment_GetByID_def by blast
    then have "a' = a" using assms(1,2) by (auto simp: db_ok_def dest: distinct_map_inj)
    moreover have "c' = c" if "fs_Get (localStorage base) (A_FilePath a) w = Inr (OpenFile c')" for c'
      using disk.Get_sound [OF assms(4) that] assms(5) by simp
    ultimately show ?thesis using Inr
      by (auto simp: attachment_h_Download_def i r InternalError_def sent_file_def split: sum.split os_file.split)
  qed
qed

end

section \<open>From the wire to the reader\<close>


definition demo_mail :: "bytes \<Rightarrow> goerror + envelope" where
  "demo_mail b = Inr \<lparr>GetHeader = (\<lambda>h. if h = ''From'' then ''a@y.io'' else ''hi''), Text = b, HTML = [],
     Attachments = [\<lparr>FileName = ''n.txt'', ContentType = ''text/plain'', Content = ''hello''\<rparr>], Inlines = []\<rparr>"

definition demo_setup :: SmtpSession.world where
  "demo_setup = \<lparr>w_db = empty_db\<lparr>t_domains := [zero_Domain\<lparr>D_ID := 1, D_Name := ''x.io'', D_IsActive := True, D_Status := StatusDNSVerified\<rparr>]\<rparr>,
     w_os = demo_os, w_sent = []\<rparr>"


end
