(* ===== verification/MailNotify.thy ===== *)
theory MailNotify
  imports SmtpSession WsHub
begin

text \<open>
  New mail and the web-socket hub together: what the session announces (\<^verbatim>\<open>BroadcastNewMessage\<close> in \<^verbatim>\<open>internal/smtp/session.go\<close>) goes through the hub of
  \<^verbatim>\<open>internal/websocket/hub.go\<close> to the channels of the clients.
\<close>

text \<open>The bytes of one announcement, and those a client is sent for a list of announcements.\<close>

definition notice :: "json \<Rightarrow> uint \<times> NewMessagePayload \<Rightarrow> bytes" where
  "notice J n = (case broadcast_data J (fst n) (snd n) of Some (m, data) \<Rightarrow> data | None \<Rightarrow> [])"

definition notices :: "json \<Rightarrow> Hub \<Rightarrow> client \<Rightarrow> (uint \<times> NewMessagePayload) list \<Rightarrow> bytes list" where
  "notices J h c ns = map (notice J) (filter (\<lambda>n. c \<in> set (hub_subscribers (fst n) h)) ns)"

lemma notices_simps [simp]:
  "notices J h c [] = []"
  "notices J h c (n # ns) = (if c \<in> set (hub_subscribers (fst n) h) then notice J n # notices J h c ns else notices J h c ns)"
  by (simp_all add: notices_def)

lemma ws_reach_steps: "(ws_step J)\<^sup>*\<^sup>* s s' \<Longrightarrow> ws_reach J s \<Longrightarrow> ws_reach J s'"
  by (induction rule: rtranclp_induct) (auto intro: ws_reach.step)

text \<open>Announcements that are published one after the other are delivered in that order.\<close>

lemma announcements_delivered:
  assumes "ws_reach J s" "s_loop s = Idle" "s_queue s = []" and "\<And>n. n \<in> set ns \<Longrightarrow> broadcast_data J (fst n) (snd n) \<noteq> None"
    and "\<And>c. length (ch_buf (s_chan s c)) + length ns \<le> 256"
  shows "\<exists>s'. (ws_step J)\<^sup>*\<^sup>* s s' \<and> s_loop s' = Idle \<and> s_queue s' = [] \<and> s_hub s' = s_hub s \<and>
     (\<forall>c. ch_buf (s_chan s' c) = ch_buf (s_chan s c) @ notices J (s_hub s) c ns)"
  using assms
proof (induction ns arbitrary: s)
  case (Cons n ns)
  obtain data where d: "broadcast_data J (fst n) (snd n) = Some (fst n, data)"
    using Cons.prems(4) [of n] by (auto simp: broadcast_data_def split: sum.splits)
  let ?s1 = "s\<lparr>s_queue := s_queue s @ [(fst n, data)]\<rparr>"
  have p: "ws_step J s ?s1" using d by (rule ws_step.publish) (simp add: Cons.prems(3) broadcastCap_def)
  have r1: "ws_reach J ?s1" by (rule ws_reach.step [OF Cons.prems(1) p])
  from broadcast_delivers [OF r1, of "fst n" data "[]"] Cons.prems(2,3) obtain s2 where
    s2: "(ws_step J)\<^sup>*\<^sup>* ?s1 s2" "s_loop s2 = Idle" "s_queue s2 = []" "s_hub s2 = s_hub s"
      "\<forall>c. s_chan s2 c = (if c \<in> set (hub_subscribers (fst n) (s_hub s)) \<and> length (ch_buf (s_chan s c)) < 256
         then (s_chan s c)\<lparr>ch_buf := ch_buf (s_chan s c) @ [data]\<rparr> else s_chan s c)" by auto
  have b2: "ch_buf (s_chan s2 c) = ch_buf (s_chan s c) @ (if c \<in> set (hub_subscribers (fst n) (s_hub s)) then [data] else [])" for c
    using s2(5) Cons.prems(5) [of c] by simp
  have "length (ch_buf (s_chan s2 c)) + length ns \<le> 256" for c using b2 [of c] Cons.prems(5) [of c] by simp
  with Cons.IH [OF ws_reach_steps [OF s2(1) r1] s2(2,3)] Cons.prems(4) obtain s3 where
    s3: "(ws_step J)\<^sup>*\<^sup>* s2 s3" "s_loop s3 = Idle" "s_queue s3 = []" "s_hub s3 = s_hub s"
      "\<forall>c. ch_buf (s_chan s3 c) = ch_buf (s_chan s2 c) @ notices J (s_hub s) c ns" using s2(4) by auto
  have "(ws_step J)\<^sup>*\<^sup>* s s3" using p s2(1) s3(1) by (meson converse_rtranclp_into_rtranclp rtranclp_trans)
  moreover have "notice J n = data" by (simp add: notice_def d)
  ultimately show ?case using s3 b2 by (intro exI [of _ s3]) simp
qed auto

text \<open>
  C15. New mail reaches the clients that watch its mailbox. The announcements of one \<^verbatim>\<open>DATA\<close> are those of the messages it stored, in that order. From any
  reachable idle state of the hub in which the buffers have room for them, the hub can work them off, and then every client has received, in this order and
  once each, exactly the announcements of the mailboxes it subscribed to; nobody is disconnected by it.
\<close>

theorem new_mail_reaches_subscribers:
  assumes G: "gorm_db G" and mail: "Data (server_backend G base True auto rd) r se w = (Inr (), w')"
    and hub: "ws_reach J s" "s_loop s = Idle" "s_queue s = []"
    and sent: "w_sent w' = w_sent w @ ns" "\<And>n. n \<in> set ns \<Longrightarrow> broadcast_data J (fst n) (snd n) \<noteq> None"
    and room: "\<And>c. length (ch_buf (s_chan s c)) + length ns \<le> 256"
  shows "(\<exists>ms. t_messages (w_db w') = t_messages (w_db w) @ ms \<and>
       map (\<lambda>n. (fst n, NM_ID (snd n))) ns = map (\<lambda>m. (Msg_MailboxID m, Msg_ID m)) ms) \<and>
     (\<exists>s'. (ws_step J)\<^sup>*\<^sup>* s s' \<and> s_loop s' = Idle \<and> s_queue s' = [] \<and> s_hub s' = s_hub s \<and>
       (\<forall>c. ch_buf (s_chan s' c) = ch_buf (s_chan s c) @ notices J (s_hub s) c ns))"
proof (rule conjI)
  let ?b = "server_backend G base True auto rd"
  obtain e o1 where p: "w' = process_all ?b (se_recipients se) e (w\<lparr>w_os := o1\<rparr>)"
    using mail by (auto simp: Data_def Let_def split: if_splits sum.splits prod.splits)
  have hb: "b_wsHub ?b = True" by (simp add: server_backend_def)
  from smtp_session.process_all_delivers [OF gorm_db.session_laws [OF G], of base True auto rd "se_recipients se" e "w\<lparr>w_os := o1\<rparr>"]
  obtain sel :: "(string \<times> Message) list" where "t_messages (w_db w') = t_messages (w_db (w\<lparr>w_os := o1\<rparr>)) @ map snd sel"
    "map (\<lambda>(mb, p). (mb, NM_ID p)) (w_sent w') = map (\<lambda>(mb, p). (mb, NM_ID p)) (w_sent (w\<lparr>w_os := o1\<rparr>)) @ map (\<lambda>(r, m). (Msg_MailboxID m, Msg_ID m)) sel"
    unfolding p [symmetric] hb by blast
  then show "\<exists>ms. t_messages (w_db w') = t_messages (w_db w) @ ms \<and>
       map (\<lambda>n. (fst n, NM_ID (snd n))) ns = map (\<lambda>m. (Msg_MailboxID m, Msg_ID m)) ms"
    using sent(1) by (intro exI [of _ "map snd sel"]) (simp add: case_prod_unfold comp_def)
qed (rule announcements_delivered [OF hub sent(2) room])

text \<open>A client that watches the first mailbox; two recipients, of which it sees one.\<close>

definition demo_watch :: ws where
  "demo_watch = (let s = set_pc 7 Handshake ws_init;
     s = set_pc 7 Reading (s\<lparr>s_hub := hub_register 7 (s_hub s)\<rparr>) in client_act demo_json 7 (DoSubscribe 1) s)"

lemma demo_watch_reach: "ws_reach demo_json demo_watch"
proof -
  let ?s1 = "set_pc 7 Handshake ws_init"
  let ?s2 = "set_pc 7 Reading (?s1\<lparr>s_hub := hub_register 7 (s_hub ?s1)\<rparr>)"
  have "ws_step demo_json ws_init ?s1" by (rule ws_step.connect) (simp add: ws_init_def)
  with ws_reach.init have "ws_reach demo_json ?s1" by (rule ws_reach.step)
  moreover have "ws_step demo_json ?s1 ?s2" by (rule ws_step.register) (simp_all add: set_pc_def ws_init_def)
  ultimately have "ws_reach demo_json ?s2" by (rule ws_reach.step)
  moreover have "handleMessage demo_json ''x'' = DoSubscribe 1" by code_simp
  then have "ws_step demo_json ?s2 (client_act demo_json 7 (DoSubscribe 1) ?s2)"
    by (rule ws_step.frame [rotated]) (simp_all add: set_pc_def ws_init_def)
  ultimately show ?thesis unfolding demo_watch_def Let_def by (rule ws_reach.step)
qed

theorem new_mail_reaches_subscribers_witness:
  "\<exists>w' ns s'. Data demo_backend ''h'' demo_session demo_world = (Inr (), w') \<and> w_sent w' = ns \<and> length ns = 2 \<and>
     (ws_step demo_json)\<^sup>*\<^sup>* demo_watch s' \<and> ch_buf (s_chan s' 7) = [''1''] \<and> ch_buf (s_chan s' 8) = []"
proof -
  let ?b = "server_backend (mem_gorm 5) ''data'' True True demo_env"
  have "case Data ?b ''h'' demo_session demo_world of (x, w') \<Rightarrow> x = Inr () \<and> map fst (w_sent w') = [1, 2]" by code_simp
  then obtain w' where r: "Data ?b ''h'' demo_session demo_world = (Inr (), w')" and f: "map fst (w_sent w') = [1, 2]"
    by (cases "Data ?b ''h'' demo_session demo_world") auto
  have s: "w_sent w' = w_sent demo_world @ w_sent w'" by (simp add: demo_world_def)
  have b: "broadcast_data demo_json m p = Some (m, show_nat m)" for m p by (simp add: broadcast_data_def demo_json_def)
  then have m: "broadcast_data demo_json (fst n) (snd n) \<noteq> None" for n by simp
  have l: "length (w_sent w') = 2" using arg_cong [OF f, of length] by simp
  have c: "ch_buf (s_chan demo_watch c) = []" for c
    by (simp add: demo_watch_def Let_def client_act_def set_pc_def ws_init_def)
  have h: "s_loop demo_watch = Idle" "s_queue demo_watch = []"
    by (simp_all add: demo_watch_def Let_def client_act_def set_pc_def ws_init_def)
  have sub: "hub_subscribers 1 (s_hub demo_watch) = [7]" "hub_subscribers 2 (s_hub demo_watch) = []" by code_simp+
  obtain n1 n2 where n: "w_sent w' = [n1, n2]" "fst n1 = 1" "fst n2 = 2" using f by (auto simp: map_eq_Cons_conv)
  have v: "notices demo_json (s_hub demo_watch) 7 (w_sent w') = [''1'']" "notices demo_json (s_hub demo_watch) 8 (w_sent w') = []"
    using sub by (simp_all add: n notice_def b show_nat.simps char_of_def bit_0)
  have room: "length (ch_buf (s_chan demo_watch c)) + length (w_sent w') \<le> 256" for c using l by (simp add: c)
  from new_mail_reaches_subscribers [OF mem.gorm_db_axioms r demo_watch_reach h s m room] r l v c
  show ?thesis unfolding demo_backend_def by fastforce
qed

end
