(* ===== verification/Spec2Isabelle.thy ===== *)
theory Spec2Isabelle
  imports Lifecycle MailState WsHub Config SmtpServer AcmeClient Diagnostics Validator Startup WsClient HttpServer LogPages MailFlow MailNotify
begin

text \<open>
  \<^bold>\<open>Infinimail backend: a verification development.\<close>

  The program (\<^verbatim>\<open>src/\<close>, in Go) is a mail server with an HTTP API. Mail for the domains of its users comes in over SMTP
  and is stored per mailbox; the API manages domains, mailboxes, messages and attachments; web-socket clients are told of
  new mail; and each domain goes through a setup in which its DNS records are checked and a TLS certificate is obtained from an
  ACME server, stored, served by name, and renewed.

  \<^bold>\<open>Theories and sources\<close>, in the order of their imports; source paths are below \<^verbatim>\<open>src/internal\<close> unless they start with
  \<^verbatim>\<open>cmd\<close>.

  \<^item> \<open>Prelude\<close>, \<open>GoStrings\<close>, \<open>Utf8\<close>: shared names and collections; the string and number functions of the Go library. Strings are
    lists of bytes; lower-casing and blanks are those of ASCII, except where the source counts runes: \<open>Utf8\<close> decodes and encodes them.
  \<^item> \<open>AppErrors\<close>: \<^verbatim>\<open>errors/errors.go\<close>, \<^verbatim>\<open>repository/errors.go\<close>, \<^verbatim>\<open>api/response/response.go\<close>. Errors are values of one
    datatype with \<^verbatim>\<open>errors.Is\<close> as a function; answers of the API are status and body.
  \<^item> \<open>Models\<close>, \<open>Gorm\<close>, \<open>Repository\<close>: \<^verbatim>\<open>models/\<close>, the database, \<^verbatim>\<open>repository/\<close>. The database is a record of tables.
    The operations of the library \<^verbatim>\<open>gorm\<close> on it are a parameter with the laws of the locale \<open>gorm_db\<close> (keys, uniqueness,
    references, transactions); \<open>mem_gorm\<close> is an executable instance, with faults. The repositories prove the locales
    \<open>domain_repo\<close>, \<open>mailbox_repo\<close>, \<open>message_repo\<close> and \<open>cert_repo\<close> that their clients use. \<open>GetOrCreate\<close> is also a step relation
    of interleaved calls.
  \<^item> \<open>OsFiles\<close>, \<open>FileStore\<close>: the file system with paths, faults and partial writes; \<^verbatim>\<open>storage/file_storage.go\<close>.
  \<^item> \<open>SmtpParser\<close>, \<open>SmtpSession\<close>, \<open>SmtpServer\<close>: \<^verbatim>\<open>smtp/parser.go\<close>, \<^verbatim>\<open>smtp/session.go\<close>, \<^verbatim>\<open>smtp/backend.go\<close>. MIME decoding
    (\<^verbatim>\<open>enmime\<close>) is a parameter; readers are consumed when they are read.
  \<^item> \<open>WsHub\<close>, \<open>WsClient\<close>: \<^verbatim>\<open>websocket/\<close>. One transition system of the hub loop, the pumps of the clients and the senders; channels
    with capacity and a closed state. \<open>WsClient\<close> has the two pumps with their deadlines and pings as functions of timed events, and the
    \<^verbatim>\<open>/ws\<close> endpoint; a run of the read pump is a run of the transition system.
  \<^item> \<open>DomainMgr\<close>, \<open>DnsVerify\<close>, \<open>DnsExport\<close>: \<^verbatim>\<open>services/domain_manager.go\<close>, \<^verbatim>\<open>dns_verifier.go\<close>, \<^verbatim>\<open>dns_exporter.go\<close>. The
    resolver is a parameter that may answer differently at each attempt.
  \<^item> \<open>CertFiles\<close>, \<open>CertStore\<close>, \<open>CertManager\<close>, \<open>CertRenewal\<close>, \<open>AcmeClient\<close>: \<^verbatim>\<open>services/cert_storage.go\<close>,
    \<^verbatim>\<open>cert_store.go\<close>, \<^verbatim>\<open>certificate_manager.go\<close>, \<^verbatim>\<open>cert_renewal.go\<close>, \<^verbatim>\<open>acme_client.go\<close>. The manager runs in a world of
    database, disk, store, clock, log and ACME client; the client is any implementation of its interface there, and
    \<open>acme_client\<close> is the one of the program, over the protocol library as a parameter.
  \<^item> \<open>AcmeLogger\<close>, \<open>Diagnostics\<close>, \<open>LogPages\<close>, \<open>SecurityLog\<close>: \<^verbatim>\<open>services/acme_logger.go\<close>, \<^verbatim>\<open>api/handlers/acme_log_handler.go\<close> with the text of its
    two HTML pages, \<^verbatim>\<open>health_handler.go\<close>, \<^verbatim>\<open>logger/security.go\<close>.
  \<^item> \<open>MailHandlers\<close>, \<open>DomainHandlers\<close>: \<^verbatim>\<open>api/handlers/\<close>. One definition per endpoint, from the decoded request and the state to
    answer and state.
  \<^item> \<open>Middleware\<close>, \<open>HttpServer\<close>: \<^verbatim>\<open>api/middleware/\<close>, \<^verbatim>\<open>api/router.go\<close>. \<open>serve_http\<close> is the whole chain before a handler, in its order.
  \<^item> \<open>Database\<close>, \<open>Config\<close>, \<open>Startup\<close>, \<open>Validator\<close>: \<^verbatim>\<open>database/database.go\<close>, \<^verbatim>\<open>config/config.go\<close>, \<^verbatim>\<open>cmd/server/main.go\<close>, \<^verbatim>\<open>validator/validator.go\<close>.
    \<open>start_server\<close> goes from the environment, the disk and the database to the running server or to the step that failed; \<open>main_wait\<close> and
    \<open>shutdown_calls\<close> are the end of the process.
  \<^item> \<open>ServerState\<close>, \<open>Lifecycle\<close>, \<open>MailState\<close>, \<open>MailFlow\<close>, \<open>MailNotify\<close> and this theory: properties that span components.

  \<^bold>\<open>What is shown.\<close>

  \<^item> The server as a whole (here): \<open>server_step\<close> has one rule for API requests on domains, one for API requests on mail, one for a
    received message, one for a pass of the renewal job; from an empty database every reachable database satisfies \<open>server_ok\<close>
    (unique keys, no dangling reference, a certificate for every domain that is issued or active).
  \<^item> The setup of a domain (\<open>Lifecycle\<close>): the relation \<open>lifecycle\<close> is the abstract specification of the setup, a Hoare-style rule set
    (\<open>hoare\<close>, the collection \<open>vcg\<close>) carries the handlers through it, and every request refines it; only a submission certifies.
  \<^item> Mail (\<open>SmtpSession\<close>, \<open>MailHandlers\<close>, \<open>FileStore\<close>, \<open>SmtpParser\<close>, \<open>MailFlow\<close>, \<open>MailNotify\<close>): who may receive, what is stored for whom, that attachments come back as stored
    and never leave their directory, what the parser extracts, that a delivered mail is shown and its parts are sent as they came in,
    and that it is announced to the clients that watch its mailbox.
  \<^item> Certificates: what a challenge, a verification, a submission and an issued bundle mean, that what was issued is what clients are
    shown (\<open>CertStore\<close>, \<open>SmtpServer\<close>), also after a restart (\<open>Startup\<close>), what a renewal pass touches, that its loops can be stopped.
  \<^item> Access (\<open>Middleware\<close>, \<open>HttpServer\<close>, \<open>Config\<close>, \<open>Diagnostics\<close>, \<open>LogPages\<close>): that nothing changes without the key, that clients do not share a rate budget, what a
    validated production configuration guarantees, that the log endpoints stay in their directory and logged texts cannot add markup to their pages.
  \<^item> The process (\<open>Startup\<close>, \<open>WsClient\<close>, \<open>Validator\<close>): what is needed to start and what is optional, that a responsive web-socket client is not cut off, what the
    sanitizers guarantee.
  \<^item> Deviations that modelling showed are stated as theorems too, each next to the operation it is about: mail acknowledged
    and lost, attachments emptied for a second recipient, an endpoint that cannot succeed, a start without validation,
    mailboxes no mail can reach, challenges lost by a restart, an active domain taken back, refused requests logged as successful, a page
    whose script cannot run.

  \<^bold>\<open>Loops and bounds.\<close> All loops are total functions: the recursion is on a list, on the attempts left (the retry loop of
  the verifier, the sixty polls of the ACME client), or has a termination proof. Loops that run until told to stop (hub, pumps, renewal)
  are step relations, with the theorem that they can always finish. Identifiers are natural numbers and are
  parsed with their 32-bit limit; \<^verbatim>\<open>Atoi\<close> has its 64-bit limit; times are integers (nanoseconds), so their overflow is not covered.

  \<^bold>\<open>Not modelled.\<close> The libraries behind the parameters named above; the HTTP framework (decoding of requests, the CORS protocol), the framing of the
  web-socket connection and the listeners, whose results are events of the model; printing to the process log; interface declarations and constructors
  that only copy their arguments. All packages of the program have a model.
  API requests run one after the other here; interleaving is modelled where the code shares memory or races on purpose: the hub, the
  renewal service, \<open>GetOrCreate\<close>, and the three lookups of a TLS handshake.
\<close>

section \<open>The whole server\<close>

text \<open>
  What \<^verbatim>\<open>cmd/server/main.go\<close> fixes when it starts, and the events that change the database afterwards:
  a request to the API, a message received over SMTP, a pass of the renewal job. Each event runs alone.
\<close>

record ('a, 'c) deployment =
  dep_gorm :: gorm
  dep_certPath :: string
  dep_outside :: "('a, 'c) outside"
  dep_renewalDays :: int
  dep_smtpHostname :: string
  dep_serverIP :: string
  dep_acme :: bool
  dep_attachments :: string
  dep_hub :: bool
  dep_autoProvision :: bool
  dep_ReadEnvelope :: "bytes \<Rightarrow> goerror + envelope"

definition dep_handler :: "('a, 'c) deployment \<Rightarrow> ('a, 'c) DomainHandler" where
  "dep_handler D = app_handler (dep_gorm D) (dep_certPath D) (dep_outside D) (dep_renewalDays D) (dep_smtpHostname D)
     (dep_serverIP D) (dep_acme D)"

definition dep_manager :: "('a, 'c) deployment \<Rightarrow> ('a, 'c) certificateManagerService" where
  "dep_manager D = app_manager (dep_gorm D) (dep_certPath D) (dep_outside D) (dep_renewalDays D)"

definition dep_backend :: "('a, 'c) deployment \<Rightarrow> Backend" where
  "dep_backend D = server_backend (dep_gorm D) (dep_attachments D) (dep_hub D) (dep_autoProvision D) (dep_ReadEnvelope D)"

definition dep_ok :: "('a, 'c) deployment \<Rightarrow> bool" where
  "dep_ok D \<longleftrightarrow> gorm_db (dep_gorm D) \<and> dep_certPath D \<noteq> [] \<and> CHR 0x00 \<notin> set (dep_certPath D)"

inductive server_step :: "('a, 'c) deployment \<Rightarrow> db \<Rightarrow> db \<Rightarrow> bool" for D where
  domain_api: "serve_domain (dep_handler D) req w = (out, w') \<Longrightarrow>
    server_step D (CertManager.w_db w) (CertManager.w_db w')"
| mail_api: "serve_mail (dep_gorm D) (localStorage (dep_attachments D)) req d = (out, d') \<Longrightarrow> server_step D d d'"
| smtp: "Data (dep_backend D) r s w = (x, w') \<Longrightarrow> server_step D (SmtpSession.w_db w) (SmtpSession.w_db w')"
| renewal: "server_step D (CertManager.w_db w) (CertManager.w_db (checkAndRenewCertificates (dep_manager D) config w))"

lemma renew_each_ok:
  assumes "cert_manager M"
  shows "server_ok (CertManager.w_db w) \<Longrightarrow> server_ok (CertManager.w_db (renew_each M cs w))"
proof (induction cs arbitrary: w)
  case (Cons c cs)
  have "server_ok (CertManager.w_db (renewCertificate M c w))"
    unfolding renewCertificate_def
    by (rule hoareD [OF cert_manager.hoare_Renew [OF assms] Cons.prems prod.collapse [symmetric]])
  with Cons show ?case by simp
qed simp

lemma renewal_pass_ok:
  assumes "cert_manager M" "server_ok (CertManager.w_db w)"
  shows "server_ok (CertManager.w_db (checkAndRenewCertificates M config w))"
proof -
  obtain r w1 where g: "mgr_GetExpiringCertificates M (rn_RenewalDays config) w = (r, w1)" by fastforce
  then have "CertManager.w_db w1 = CertManager.w_db w"
    by (auto simp: mgr_GetExpiringCertificates_def Let_def time_Now_def attempt_def read_db_def split: sum.splits)
  with g renew_each_ok [OF assms(1)] assms(2) show ?thesis
    by (auto simp: checkAndRenewCertificates_def split: sum.splits)
qed

lemma server_step_ok:
  assumes "server_step D d d'" "dep_ok D" "server_ok d"
  shows "server_ok d'"
  using assms
proof (induction rule: server_step.induct)
  case (domain_api req w out w')
  have "fresh (CertManager.w_db w) (CertManager.w_db w)" using domain_api by (simp add: fresh_def)
  from hoareD [OF domain_api.serve_refines_action [OF app_handler_laws] this domain_api(1) [unfolded dep_handler_def]] domain_api
  show ?case by (simp add: refines_def dep_ok_def)
next
  case (mail_api req d out d')
  then show ?case using gorm_db.serve_mail_ok [of "dep_gorm D" d "localStorage (dep_attachments D)" req] by (simp add: dep_ok_def)
next
  case (smtp r s w x w')
  then show ?case using smtp_session.Data_server_ok [OF gorm_db.session_laws] unfolding dep_backend_def dep_ok_def by blast
next
  case (renewal w config)
  then show ?case using renewal_pass_ok [OF app_manager_laws] unfolding dep_manager_def dep_ok_def by blast
qed

text \<open>
  C1. However the server is used, its database stays sound: from an empty database, after any sequence of
  API requests, received mails and renewal passes, the keys are unique, every certificate and mailbox belongs to
  an existing domain, every message to an existing mailbox, every attachment to an existing message, and every
  domain that is \<^verbatim>\<open>certificate_issued\<close> or \<^verbatim>\<open>active\<close> has a certificate.
\<close>

theorem server_database_sound:
  assumes D: "dep_ok D" and r: "(server_step D)\<^sup>*\<^sup>* empty_db d"
  shows "db_ok d \<and> (\<forall>c \<in> set (t_certs d). \<exists>x \<in> set (t_domains d). D_ID x = C_DomainID c)
    \<and> (\<forall>m \<in> set (t_mailboxes d). \<exists>x \<in> set (t_domains d). D_ID x = M_DomainID m)
    \<and> (\<forall>m \<in> set (t_messages d). \<exists>b \<in> set (t_mailboxes d). M_ID b = Msg_MailboxID m)
    \<and> (\<forall>a \<in> set (t_attachments d). \<exists>m \<in> set (t_messages d). Msg_ID m = A_MessageID a)
    \<and> (\<forall>x \<in> set (t_domains d). D_Status x \<in> {StatusCertificateIssued, StatusActive} \<longrightarrow> (\<exists>c \<in> set (t_certs d). C_DomainID c = D_ID x))"
proof -
  from r have ok: "server_ok d"
  proof (induction rule: rtranclp_induct)
    case base
    show ?case by (simp add: empty_db_def server_ok_empty)
  next
    case (step d d')
    with server_step_ok D show ?case by blast
  qed
  have im: "\<exists>y \<in> B. g y = f x" if "f ` A \<subseteq> g ` B" "x \<in> A" for f g and x :: 'x and A and B :: "'y set" using that by force
  from ok have "refs_ok d" "certified d" "db_ok d" by (auto simp: server_ok_def)
  then show ?thesis by (auto simp: refs_ok_def certified_def has_certificate_status_def image_iff intro: im)
qed

definition demo_deployment :: "(nat, bytes) deployment" where
  "demo_deployment = \<lparr>dep_gorm = mem_gorm 0, dep_certPath = ''/c'', dep_outside = demo_out, dep_renewalDays = 0, dep_smtpHostname = ''h'',
     dep_serverIP = ''1.2.3.4'', dep_acme = True, dep_attachments = ''/a'', dep_hub = True, dep_autoProvision = True,
     dep_ReadEnvelope = (\<lambda>b. Inl (Opaque []))\<rparr>"

theorem server_database_sound_witness:
  "\<exists>d. (server_step demo_deployment)\<^sup>*\<^sup>* empty_db d \<and> length (t_domains d) = 1 \<and> db_ok d"
proof -
  let ?w = "(CertManager.demo_world StatusActive)\<lparr>CertManager.w_db := empty_db\<rparr>"
  let ?req = "PostDomain (Inr (replicate 16 CHR ''a'')) (Some \<lparr>CD_Name = ''x.io'', CD_IsActive = None\<rparr>)"
  obtain out w' where s: "serve_domain (dep_handler demo_deployment) ?req ?w = (out, w')" by fastforce
  have "case CreateDomain (NewDomainRepository (mem_gorm 0)) (Inr (replicate 16 CHR ''a'')) ''x.io'' empty_db of
      (r, d) \<Rightarrow> is_ok r \<and> length (t_domains d) = 1" by code_simp
  then have n: "length (t_domains (CertManager.w_db (snd (serve_domain (dep_handler demo_deployment) ?req ?w)))) = 1"
    by (auto simp: dep_handler_def demo_deployment_def domain_h_Create_def responds_def attempt_def on_db_def answer_def Let_def is_ok_def
        split: prod.splits sum.splits)
  have "server_step demo_deployment empty_db (CertManager.w_db w')" using server_step.domain_api [OF s] by simp
  then have r: "(server_step demo_deployment)\<^sup>*\<^sup>* empty_db (CertManager.w_db w')" by blast
  have "dep_ok demo_deployment" using mem.gorm_db_axioms [of 0] by (simp add: dep_ok_def demo_deployment_def)
  from server_database_sound [OF this r] have "db_ok (CertManager.w_db w')" by (rule conjunct1)
  with r n s show ?thesis by auto
qed

end
